(* ===== verification/Sso_Prelude.thy ===== *)
theory Sso_Prelude
  imports Main "HOL-Library.Word" "HOL-Library.Sublist" "HOL-Library.Monad_Syntax"
begin

text \<open>
  The prelude of the development: the collections of simplification rules the components
  share, the C string functions of the standard library that the sources call (a
  \<^verbatim>\<open>char*\<close> is the list of its characters before the terminating NUL), list
  splitting as the reference notion behind the separators the sources parse, and generic
  facts on lists and options.
\<close>

named_theorems cstr_simps \<open>rules on C strings and buffers\<close>
named_theorems sso_defs \<open>definitions unfolded when an operation is followed branch by branch\<close>

unbundle bit_operations_syntax

section \<open>C strings\<close>

abbreviation NUL :: char where
  "NUL \<equiv> CHR 0x00"

text \<open>What \<open>strlen\<close>, \<open>strcmp\<close>, \<open>strncpy\<close> and their kin see of a buffer: the characters before
  the first NUL.\<close>

definition cstr :: "char list \<Rightarrow> string" where
  "cstr s = takeWhile (\<lambda>c. c \<noteq> NUL) s"

definition nul_free :: "string \<Rightarrow> bool" where
  "nul_free s \<longleftrightarrow> NUL \<notin> set s"

lemma cstr_nul_free [cstr_simps]: "nul_free s \<Longrightarrow> cstr s = s"
  by (auto simp: cstr_def nul_free_def takeWhile_eq_all_conv)

lemma nul_free_cstr [simp]: "nul_free (cstr s)"
  by (auto simp: cstr_def nul_free_def dest: set_takeWhileD)

lemma cstr_idem [simp]: "cstr (cstr s) = cstr s"
  by (simp add: cstr_nul_free)

lemma cstr_Nil [simp]: "cstr [] = []"
  by (simp add: cstr_def)

lemma nul_free_Nil [simp]: "nul_free []"
  by (simp add: nul_free_def)

lemma nul_free_Cons [simp]: "nul_free (c # s) \<longleftrightarrow> c \<noteq> NUL \<and> nul_free s"
  by (auto simp: nul_free_def)

lemma nul_free_take [simp]: "nul_free s \<Longrightarrow> nul_free (take n s)"
  by (auto simp: nul_free_def dest: in_set_takeD)

lemma nul_free_append [simp]: "nul_free (s @ t) \<longleftrightarrow> nul_free s \<and> nul_free t"
  by (auto simp: nul_free_def)

lemma cstr_append_NUL [cstr_simps]: "nul_free s \<Longrightarrow> cstr (s @ NUL # t) = s"
  by (induction s) (auto simp: cstr_def)

lemma cstr_append_replicate_NUL [cstr_simps]: "nul_free s \<Longrightarrow> cstr (s @ replicate n NUL) = s"
  by (cases n) (auto simp: cstr_append_NUL cstr_nul_free)

lemma cstr_replicate_NUL [simp]: "cstr (replicate n NUL @ t) = (if n = 0 then cstr t else [])"
  by (cases n) (auto simp: cstr_def)

text \<open>\<open>strstr\<close>: the suffix of the haystack that starts with the first occurrence.\<close>

fun strstr :: "string \<Rightarrow> string \<Rightarrow> string option" where
  "strstr [] n = (if n = [] then Some [] else None)"
| "strstr (c # h) n = (if prefix n (c # h) then Some (c # h) else strstr h n)"

lemma strstr_Some_suffix:
  "strstr h n = Some s \<Longrightarrow> \<exists>p. h = p @ s \<and> prefix n s"
  by (induction h n rule: strstr.induct) (auto split: if_splits intro: exI [of _ "_ # _"])

lemma strstr_None_iff: "strstr h n = None \<longleftrightarrow> (\<forall>p s. h = p @ s \<longrightarrow> \<not> prefix n s)"
proof (induction h n rule: strstr.induct)
  case (2 c h n)
  show ?case
  proof
    assume "strstr (c # h) n = None"
    then have no: "\<not> prefix n (c # h)" and "strstr h n = None"
      by (auto split: if_splits)
    with 2 have "\<forall>p s. h = p @ s \<longrightarrow> \<not> prefix n s" by auto
    with no show "\<forall>p s. c # h = p @ s \<longrightarrow> \<not> prefix n s"
      by (auto simp: Cons_eq_append_conv)
  next
    assume a: "\<forall>p s. c # h = p @ s \<longrightarrow> \<not> prefix n s"
    then have "\<not> prefix n (c # h)" by blast
    moreover from a have "\<forall>p s. h = p @ s \<longrightarrow> \<not> prefix n s"
      by (metis append_Cons)
    ultimately show "strstr (c # h) n = None" using 2 by auto
  qed
qed auto

lemma strstr_contains: "strstr h n \<noteq> None \<longleftrightarrow> sublist n h"
  by (auto simp: strstr_None_iff sublist_def prefix_def)

lemma strstr_first:
  "strstr h n = Some s \<Longrightarrow> n \<noteq> [] \<Longrightarrow> \<exists>p t. h = p @ n @ t \<and> s = n @ t \<and> \<not> sublist n p"
proof (induction h n rule: strstr.induct)
  case (2 c h n)
  show ?case
  proof (cases "prefix n (c # h)")
    case True
    with 2 show ?thesis by (auto simp: prefix_def)
  next
    case False
    with 2 obtain p t where pt: "h = p @ n @ t" "s = n @ t" "\<not> sublist n p" by auto
    have "\<not> prefix n (c # p)" using False pt(1) prefix_prefix [of n "c # p" "n @ t"] by auto
    with pt have "\<not> sublist n (c # p)" by (simp add: sublist_Cons_right)
    with pt show ?thesis by (intro exI [of _ "c # p"] exI [of _ t]) simp
  qed
qed auto

text \<open>\<open>tolower\<close> in the C locale and \<open>strcasecmp\<close>'s verdict of equality.\<close>

definition tolower :: "char \<Rightarrow> char" where
  "tolower c = (if 65 \<le> (of_char c :: nat) \<and> (of_char c :: nat) \<le> 90
                then char_of ((of_char c :: nat) + 32) else c)"

definition strcaseeq :: "string \<Rightarrow> string \<Rightarrow> bool" where
  "strcaseeq a b \<longleftrightarrow> map tolower a = map tolower b"

section \<open>Splitting at a separator\<close>

text \<open>The pieces between separators; \<open>n\<close> separators give \<open>n + 1\<close> pieces.\<close>

fun split_on :: "char \<Rightarrow> string \<Rightarrow> string list" where
  "split_on d [] = [[]]"
| "split_on d (c # s) =
     (if c = d then [] # split_on d s
      else (case split_on d s of [] \<Rightarrow> [[c]] | p # ps \<Rightarrow> (c # p) # ps))"

lemma split_on_not_Nil [simp]: "split_on d s \<noteq> []"
  by (induction s) (auto split: list.splits)

lemma split_on_Cons_neq:
  "c \<noteq> d \<Longrightarrow> split_on d (c # s) = (c # hd (split_on d s)) # tl (split_on d s)"
  by (auto split: list.splits)

lemma split_on_append_sep:
  "d \<notin> set p \<Longrightarrow> split_on d (p @ d # s) = p # split_on d s"
  by (induction p) (auto split: list.splits)

lemma split_on_no_sep: "d \<notin> set p \<Longrightarrow> split_on d p = [p]"
  by (induction p) auto

lemma split_on_append:
  "split_on d (x @ y) =
   butlast (split_on d x) @ (last (split_on d x) @ hd (split_on d y)) # tl (split_on d y)"
proof (induction x)
  case (Cons c x)
  obtain a as where "split_on d x = a # as" by (metis split_on_not_Nil list.exhaust)
  with Cons show ?case by (cases as) auto
qed (cases "split_on d y", auto)

lemma split_on_sublist: "f \<in> set (split_on d s) \<Longrightarrow> sublist f s"
proof (induction s arbitrary: f)
  case (Cons c s)
  obtain a as where s: "split_on d s = a # as" by (metis split_on_not_Nil list.exhaust)
  have "prefix a s" using s
  proof (induction s arbitrary: a as)
    case (Cons x xs)
    then show ?case by (auto split: if_splits list.splits)
  qed simp
  with Cons s show ?case
    by (auto split: if_splits simp: sublist_Cons_right intro: sublist_Cons_right)
qed simp

lemma split_on_last_Nil: "last (split_on d s) = [] \<longleftrightarrow> s = [] \<or> last s = d"
proof (induction s)
  case (Cons c s)
  obtain a as where "split_on d s = a # as" by (metis split_on_not_Nil list.exhaust)
  with Cons show ?case by (cases as; cases s) (auto split: if_splits list.splits)
qed simp

lemma split_on_hd_Nil: "hd (split_on d s) = [] \<longleftrightarrow> s = [] \<or> hd s = d"
  by (cases s) (auto split: list.splits)

lemma split_on_single: "tl (split_on d s) = [] \<longleftrightarrow> d \<notin> set s"
proof (induction s)
  case (Cons c s)
  obtain a as where "split_on d s = a # as" by (metis split_on_not_Nil list.exhaust)
  with Cons show ?case by auto
qed simp

section \<open>Lists and options\<close>

lemma append_sandwich: "l = x @ l @ y \<longleftrightarrow> x = [] \<and> y = []"
proof
  assume "l = x @ l @ y"
  then have "length l = length (x @ l @ y)" by (rule arg_cong)
  then show "x = [] \<and> y = []" by simp
qed simp

lemma find_first_index:
  "List.find P xs = Some x \<Longrightarrow> \<exists>i < length xs. xs ! i = x \<and> P x \<and> (\<forall>j < i. \<not> P (xs ! j))"
  by (auto simp: find_Some_iff)

lemma distinct_map_filter_key:
  "distinct (map f xs) \<Longrightarrow> distinct (map f (filter P xs))"
  by (induction xs) auto

lemma list_all_filter [simp]: "list_all P xs \<Longrightarrow> list_all P (filter Q xs)"
  by (auto simp: list_all_iff)

end
