(* ===== verification/Sso_Core.thy ===== *)
theory Sso_Core
  imports Sso_Prelude
begin

text \<open>
  The types of \<^verbatim>\<open>include/sso.h\<close> and the utilities of \<^verbatim>\<open>src/sso.c\<close>: error codes, status
  enumerations, the entities (user, role, group, policy), and the evaluation context.
  The context's \<^verbatim>\<open>params\<close> is a C union: it is modelled as the bytes it consists of, with the
  field offsets of the LP64 little-endian ABI, because every strategy reads its own view of
  the same bytes. A C result that is undefined behaviour (a wild pointer dereferenced or
  freed) or that never arrives is \<open>None\<close>.
\<close>

section \<open>Error codes and enumerations\<close>

datatype sso_error =
    SSO_OK | SSO_ERR_GENERAL | SSO_ERR_NOT_FOUND | SSO_ERR_ALREADY_EXISTS
  | SSO_ERR_INVALID_PARAM | SSO_ERR_NO_PERMISSION | SSO_ERR_AUTH_FAILED
  | SSO_ERR_TOKEN_EXPIRED | SSO_ERR_TOKEN_INVALID | SSO_ERR_STORAGE
  | SSO_ERR_STRATEGY_CONFLICT | SSO_ERR_STRATEGY_NOT_FOUND | SSO_ERR_RULE_INVALID
  | SSO_ERR_OUT_OF_MEMORY | SSO_ERR_NOT_IMPLEMENTED | SSO_ERR_RATE_LIMIT
  | SSO_ERR_SOCKET | SSO_ERR_BIND | SSO_ERR_LISTEN | SSO_ERR_INIT | SSO_ERR_CURL
  | SSO_ERR_OAUTH_INVALID_CLIENT | SSO_ERR_OAUTH_INVALID_GRANT | SSO_ERR_OAUTH_INVALID_SCOPE
  | SSO_ERR_OAUTH_UNSUPPORTED_GRANT_TYPE | SSO_ERR_PASSWORD_EXPIRED

fun sso_strerror :: "sso_error \<Rightarrow> string" where
  "sso_strerror SSO_OK = ''Success''"
| "sso_strerror SSO_ERR_GENERAL = ''General error''"
| "sso_strerror SSO_ERR_NOT_FOUND = ''Resource not found''"
| "sso_strerror SSO_ERR_ALREADY_EXISTS = ''Resource already exists''"
| "sso_strerror SSO_ERR_INVALID_PARAM = ''Invalid parameter''"
| "sso_strerror SSO_ERR_NO_PERMISSION = ''Permission denied''"
| "sso_strerror SSO_ERR_AUTH_FAILED = ''Authentication failed''"
| "sso_strerror SSO_ERR_TOKEN_EXPIRED = ''Token expired''"
| "sso_strerror SSO_ERR_TOKEN_INVALID = ''Token invalid''"
| "sso_strerror SSO_ERR_STORAGE = ''Storage error''"
| "sso_strerror SSO_ERR_STRATEGY_CONFLICT = ''Strategy already registered''"
| "sso_strerror SSO_ERR_STRATEGY_NOT_FOUND = ''Strategy not found''"
| "sso_strerror SSO_ERR_RULE_INVALID = ''Invalid policy rule''"
| "sso_strerror SSO_ERR_OUT_OF_MEMORY = ''Out of memory''"
| "sso_strerror SSO_ERR_NOT_IMPLEMENTED = ''Not implemented''"
| "sso_strerror SSO_ERR_RATE_LIMIT = ''Rate limit exceeded''"
| "sso_strerror SSO_ERR_SOCKET = ''Socket creation failed''"
| "sso_strerror SSO_ERR_BIND = ''Socket bind failed''"
| "sso_strerror SSO_ERR_LISTEN = ''Socket listen failed''"
| "sso_strerror SSO_ERR_INIT = ''Initialisation failed''"
| "sso_strerror SSO_ERR_CURL = ''CURL operation failed''"
| "sso_strerror SSO_ERR_PASSWORD_EXPIRED = ''Password expired''"
| "sso_strerror _ = ''Unknown error''"

type_synonym sso_id = "64 word"
type_synonym timestamp = int
type_synonym ptr = "64 word"

abbreviation (input) SSO_ID_NONE :: sso_id where
  "SSO_ID_NONE \<equiv> 0"

text \<open>A C enum object can hold an \<^verbatim>\<open>int\<close> that is none of the enumerators; such a value reaches the code from the
  database or from the body of a request, so it has a constructor of its own.\<close>

datatype user_status = USER_STATUS_INACTIVE | USER_STATUS_ACTIVE | USER_STATUS_LOCKED | USER_STATUS_UNKNOWN int
datatype role_status = ROLE_STATUS_INACTIVE | ROLE_STATUS_ACTIVE | ROLE_STATUS_UNKNOWN int
datatype group_status = GROUP_STATUS_INACTIVE | GROUP_STATUS_ACTIVE | GROUP_STATUS_UNKNOWN int
datatype policy_target_type = POLICY_TARGET_USER | POLICY_TARGET_ROLE | POLICY_TARGET_GROUP | POLICY_TARGET_UNKNOWN int
datatype policy_effect = POLICY_EFFECT_DENY | POLICY_EFFECT_ALLOW | POLICY_EFFECT_UNKNOWN int
datatype policy_status = POLICY_STATUS_DISABLED | POLICY_STATUS_ENABLED | POLICY_STATUS_UNKNOWN int

datatype perm_strategy_type =
    PERM_STRATEGY_FUNCTIONAL | PERM_STRATEGY_API | PERM_STRATEGY_DATA | PERM_STRATEGY_RBAC
  | PERM_STRATEGY_LOCATION | PERM_STRATEGY_ABAC | PERM_STRATEGY_LBAC
  | PERM_STRATEGY_UNKNOWN int

text \<open>The casts from \<^verbatim>\<open>int\<close>.\<close>

definition user_status_of :: "int \<Rightarrow> user_status" where
  "user_status_of i = (if i = 0 then USER_STATUS_INACTIVE else if i = 1 then USER_STATUS_ACTIVE
     else if i = 2 then USER_STATUS_LOCKED else USER_STATUS_UNKNOWN i)"

definition role_status_of :: "int \<Rightarrow> role_status" where
  "role_status_of i = (if i = 0 then ROLE_STATUS_INACTIVE else if i = 1 then ROLE_STATUS_ACTIVE else ROLE_STATUS_UNKNOWN i)"

definition group_status_of :: "int \<Rightarrow> group_status" where
  "group_status_of i = (if i = 0 then GROUP_STATUS_INACTIVE else if i = 1 then GROUP_STATUS_ACTIVE else GROUP_STATUS_UNKNOWN i)"

definition policy_target_of :: "int \<Rightarrow> policy_target_type" where
  "policy_target_of i = (if i = 0 then POLICY_TARGET_USER else if i = 1 then POLICY_TARGET_ROLE
     else if i = 2 then POLICY_TARGET_GROUP else POLICY_TARGET_UNKNOWN i)"

definition policy_effect_of :: "int \<Rightarrow> policy_effect" where
  "policy_effect_of i = (if i = 0 then POLICY_EFFECT_DENY else if i = 1 then POLICY_EFFECT_ALLOW else POLICY_EFFECT_UNKNOWN i)"

definition policy_status_of :: "int \<Rightarrow> policy_status" where
  "policy_status_of i = (if i = 0 then POLICY_STATUS_DISABLED else if i = 1 then POLICY_STATUS_ENABLED else POLICY_STATUS_UNKNOWN i)"

definition perm_strategy_of :: "int \<Rightarrow> perm_strategy_type" where
  "perm_strategy_of i =
     (if 1 \<le> i \<and> i \<le> 7
      then [PERM_STRATEGY_FUNCTIONAL, PERM_STRATEGY_API, PERM_STRATEGY_DATA, PERM_STRATEGY_RBAC, PERM_STRATEGY_LOCATION,
            PERM_STRATEGY_ABAC, PERM_STRATEGY_LBAC] ! nat (i - 1)
      else PERM_STRATEGY_UNKNOWN i)"

fun perm_strategy_name :: "perm_strategy_type \<Rightarrow> string" where
  "perm_strategy_name PERM_STRATEGY_FUNCTIONAL = ''functional''"
| "perm_strategy_name PERM_STRATEGY_API = ''api''"
| "perm_strategy_name PERM_STRATEGY_DATA = ''data''"
| "perm_strategy_name PERM_STRATEGY_RBAC = ''rbac''"
| "perm_strategy_name PERM_STRATEGY_LOCATION = ''location''"
| "perm_strategy_name PERM_STRATEGY_ABAC = ''abac''"
| "perm_strategy_name PERM_STRATEGY_LBAC = ''lbac''"
| "perm_strategy_name (PERM_STRATEGY_UNKNOWN _) = ''unknown''"

section \<open>Constants\<close>

abbreviation (input) "SSO_MAX_USERNAME \<equiv> 64 :: nat"
abbreviation (input) "SSO_MAX_PHONE \<equiv> 32 :: nat"
abbreviation (input) "SSO_MAX_EMAIL \<equiv> 128 :: nat"
abbreviation (input) "SSO_MAX_DISPLAY_NAME \<equiv> 128 :: nat"
abbreviation (input) "SSO_MAX_PASSWORD_HASH \<equiv> 256 :: nat"
abbreviation (input) "SSO_MAX_ROLE_NAME \<equiv> 64 :: nat"
abbreviation (input) "SSO_MAX_GROUP_NAME \<equiv> 64 :: nat"
abbreviation (input) "SSO_MAX_POLICY_NAME \<equiv> 64 :: nat"
abbreviation (input) "SSO_MAX_DESCRIPTION \<equiv> 512 :: nat"
abbreviation (input) "SSO_MAX_RULES_JSON \<equiv> 8192 :: nat"
abbreviation (input) "SSO_MAX_TOKEN_STR \<equiv> 8192 :: nat"
abbreviation (input) "SSO_MAX_ATTRIBUTES \<equiv> 2048 :: nat"

section \<open>Entities\<close>

record user =
  u_id :: sso_id
  username :: string
  phone :: string
  password_hash :: string
  email :: string
  display_name :: string
  u_status :: user_status
  u_created_at :: timestamp
  u_updated_at :: timestamp
  attributes :: string
  mfa_enabled :: int
  mfa_secret :: string
  password_set_at :: timestamp

record role =
  r_id :: sso_id
  r_name :: string
  r_description :: string
  parent_role_id :: sso_id
  r_status :: role_status
  r_created_at :: timestamp
  r_updated_at :: timestamp

record group =
  g_id :: sso_id
  g_name :: string
  g_description :: string
  parent_group_id :: sso_id
  g_status :: group_status
  g_created_at :: timestamp
  g_updated_at :: timestamp

record policy =
  p_id :: sso_id
  p_name :: string
  strategy_type :: perm_strategy_type
  p_effect :: policy_effect
  priority :: int
  rules :: string
  p_status :: policy_status
  p_created_at :: timestamp
  p_updated_at :: timestamp

section \<open>Bounded string copy\<close>

text \<open>\<^verbatim>\<open>strncpy(dst, src, n - 1)\<close> followed by a NUL at \<^verbatim>\<open>n - 1\<close>; a NULL source counts as
  the empty string and a zero size leaves the destination alone.\<close>

definition sso_strlcpy :: "string \<Rightarrow> string option \<Rightarrow> nat \<Rightarrow> string" where
  "sso_strlcpy dst src n =
     (if n > 0 then take (n - 1) (cstr (case src of None \<Rightarrow> [] | Some s \<Rightarrow> s)) else dst)"

abbreviation strlcpy :: "string \<Rightarrow> nat \<Rightarrow> string" where
  "strlcpy s n \<equiv> sso_strlcpy [] (Some s) n"

lemma strlcpy_length: "n > 0 \<Longrightarrow> length (sso_strlcpy d s n) < n"
  by (auto simp: sso_strlcpy_def)

lemma strlcpy_nul_free [simp]: "nul_free (strlcpy s n)"
  by (simp add: sso_strlcpy_def)

lemma strlcpy_id [cstr_simps]: "nul_free s \<Longrightarrow> length s < n \<Longrightarrow> strlcpy s n = s"
  by (simp add: sso_strlcpy_def cstr_nul_free)

lemma strlcpy_Nil [simp]: "strlcpy [] n = []"
  by (simp add: sso_strlcpy_def)

lemma strlcpy_idem [simp]: "strlcpy (strlcpy s n) n = strlcpy s n"
  by (auto simp: sso_strlcpy_def cstr_nul_free)

section \<open>The parameter union as bytes\<close>

abbreviation (input) "PARAMS_SIZE \<equiv> 4160 :: nat"

abbreviation (input) "OFF_FUNCTION_CODE \<equiv> 0 :: nat"
abbreviation (input) "OFF_HTTP_METHOD \<equiv> 0 :: nat"
abbreviation (input) "OFF_REQUEST_PATH \<equiv> 8 :: nat"
abbreviation (input) "OFF_RESOURCE_TYPE \<equiv> 0 :: nat"
abbreviation (input) "OFF_RECORD \<equiv> 64 :: nat"
abbreviation (input) "OFF_RECORD_LEN \<equiv> 72 :: nat"
abbreviation (input) "OFF_FIELD_FILTER \<equiv> 80 :: nat"
abbreviation (input) "OFF_FIELD_FILTER_COUNT \<equiv> 88 :: nat"
abbreviation (input) "OFF_ROLE_NAME \<equiv> 0 :: nat"
abbreviation (input) "OFF_SOURCE_IP \<equiv> 0 :: nat"
abbreviation (input) "OFF_GEO_COUNTRY \<equiv> 64 :: nat"
abbreviation (input) "OFF_SUBJECT_ATTRS \<equiv> 0 :: nat"
abbreviation (input) "OFF_RESOURCE_ATTRS \<equiv> 2048 :: nat"
abbreviation (input) "OFF_ACTION \<equiv> 4096 :: nat"
abbreviation (input) "OFF_USER_LABELS \<equiv> 0 :: nat"
abbreviation (input) "OFF_RESOURCE_LABEL \<equiv> 256 :: nat"

definition put_bytes :: "nat \<Rightarrow> char list \<Rightarrow> char list \<Rightarrow> char list" where
  "put_bytes off bs buf = take off buf @ bs @ drop (off + length bs) buf"

text \<open>\<open>sso_strlcpy\<close> into a field of \<open>size\<close> bytes writes all of them: \<open>strncpy\<close> pads with NUL.\<close>

definition strlcpy_bytes :: "string \<Rightarrow> nat \<Rightarrow> char list" where
  "strlcpy_bytes s n = strlcpy s n @ replicate (n - length (strlcpy s n)) NUL"

definition put_str :: "nat \<Rightarrow> nat \<Rightarrow> string \<Rightarrow> char list \<Rightarrow> char list" where
  "put_str off n s buf = put_bytes off (strlcpy_bytes s n) buf"

text \<open>Reading a \<^verbatim>\<open>char[]\<close> field as a C string runs on to the first NUL, past the field's end if
  need be.\<close>

definition str_at :: "nat \<Rightarrow> char list \<Rightarrow> string" where
  "str_at off buf = cstr (drop off buf)"

fun le_nat :: "char list \<Rightarrow> nat" where
  "le_nat [] = 0"
| "le_nat (c # cs) = of_char c + 256 * le_nat cs"

definition word_at :: "nat \<Rightarrow> char list \<Rightarrow> 64 word" where
  "word_at off buf = word_of_nat (le_nat (take 8 (drop off buf)))"

fun nat_bytes :: "nat \<Rightarrow> nat \<Rightarrow> char list" where
  "nat_bytes 0 n = []"
| "nat_bytes (Suc k) n = char_of (n mod 256) # nat_bytes k (n div 256)"

definition word_bytes :: "64 word \<Rightarrow> char list" where
  "word_bytes w = nat_bytes 8 (unat w)"

definition put_word :: "nat \<Rightarrow> 64 word \<Rightarrow> char list \<Rightarrow> char list" where
  "put_word off w buf = put_bytes off (word_bytes w) buf"

lemma length_nat_bytes [simp]: "length (nat_bytes k n) = k"
  by (induction k arbitrary: n) auto

lemma length_word_bytes [simp]: "length (word_bytes w) = 8"
  by (simp add: word_bytes_def)

lemma le_nat_bytes: "n < 256 ^ k \<Longrightarrow> le_nat (nat_bytes k n) = n"
proof (induction k arbitrary: n)
  case (Suc k)
  then have "n div 256 < 256 ^ k" by (simp add: less_mult_imp_div_less)
  with Suc.IH show ?case by simp
qed simp

lemma le_nat_replicate_NUL [simp]: "le_nat (replicate k NUL) = 0"
  by (induction k) auto

lemma length_strlcpy_bytes [simp]: "n > 0 \<Longrightarrow> length (strlcpy_bytes s n) = n"
  using strlcpy_length [of n "[]" "Some s"] by (simp add: strlcpy_bytes_def)

lemma length_put_bytes [simp]:
  "off + length bs \<le> length buf \<Longrightarrow> length (put_bytes off bs buf) = length buf"
  by (simp add: put_bytes_def)

lemma cstr_strlcpy_bytes: "n > 0 \<Longrightarrow> cstr (strlcpy_bytes s n @ rest) = strlcpy s n"
proof -
  assume "n > 0"
  then have "length (strlcpy s n) < n" by (rule strlcpy_length)
  then obtain k where k: "n - length (strlcpy s n) = Suc k" by (cases "n - length (strlcpy s n)") auto
  show ?thesis
    unfolding strlcpy_bytes_def k replicate_Suc
    using cstr_append_NUL [of "strlcpy s n" "replicate k NUL @ rest"]
    by (simp add: cstr_nul_free)
qed

lemma drop_put_bytes_same:
  "off \<le> length buf \<Longrightarrow> drop off (put_bytes off bs buf) = bs @ drop (off + length bs) buf"
  by (simp add: put_bytes_def)

lemma drop_put_bytes_above:
  assumes "off + length bs \<le> off'" "off \<le> length buf"
  shows "drop off' (put_bytes off bs buf) = drop off' buf"
  using assms by (simp add: put_bytes_def min_def)

lemma take_put_bytes_below:
  assumes "k \<le> off" "off \<le> length buf"
  shows "take k (put_bytes off bs buf) = take k buf"
  using assms by (simp add: put_bytes_def min_def)

lemma str_at_put_str [cstr_simps]:
  "n > 0 \<Longrightarrow> off \<le> length buf \<Longrightarrow> str_at off (put_str off n s buf) = strlcpy s n"
  by (simp add: str_at_def put_str_def drop_put_bytes_same cstr_strlcpy_bytes)

lemma str_at_put_bytes_above [cstr_simps]:
  "off + length bs \<le> off' \<Longrightarrow> off \<le> length buf \<Longrightarrow>
   str_at off' (put_bytes off bs buf) = str_at off' buf"
  by (simp add: str_at_def drop_put_bytes_above)

lemma cstr_take_stable:
  "length (cstr xs) < k \<Longrightarrow> take k xs = take k ys \<Longrightarrow> k \<le> length xs \<Longrightarrow> cstr ys = cstr xs"
proof (induction k arbitrary: xs ys)
  case (Suc k)
  then obtain x xs' where xs: "xs = x # xs'" by (cases xs) auto
  with Suc.prems obtain ys' where ys: "ys = x # ys'" by (cases ys) auto
  show ?case using Suc.IH [of xs' ys'] Suc.prems by (auto simp: xs ys cstr_def)
qed simp

lemma str_at_put_bytes_below [cstr_simps]:
  assumes "off' + length (str_at off' buf) < off" "off \<le> length buf"
  shows "str_at off' (put_bytes off bs buf) = str_at off' buf"
proof -
  have "take (off - off') (drop off' (put_bytes off bs buf)) = take (off - off') (drop off' buf)"
    using assms by (simp add: take_drop take_put_bytes_below)
  with assms show ?thesis
    unfolding str_at_def by (intro cstr_take_stable [where k = "off - off'"]) auto
qed

lemma word_bytes_inverse: "word_of_nat (le_nat (word_bytes w)) = w"
proof -
  have "unat w < 256 ^ 8" using unsigned_less [of w, where 'a = nat] by simp
  then show ?thesis by (simp add: word_bytes_def le_nat_bytes)
qed

lemma word_at_put_word [cstr_simps]:
  "off \<le> length buf \<Longrightarrow> word_at off (put_word off w buf) = w"
  by (simp add: word_at_def put_word_def drop_put_bytes_same word_bytes_inverse)

lemma word_at_put_bytes_above [cstr_simps]:
  "off + length bs \<le> off' \<Longrightarrow> off \<le> length buf \<Longrightarrow>
   word_at off' (put_bytes off bs buf) = word_at off' buf"
  by (simp add: word_at_def drop_put_bytes_above)

lemma word_at_put_bytes_below [cstr_simps]:
  assumes "off' + 8 \<le> off" "off \<le> length buf"
  shows "word_at off' (put_bytes off bs buf) = word_at off' buf"
proof -
  have "take 8 (drop off' (put_bytes off bs buf)) = take 8 (drop off' buf)"
    using assms by (simp add: take_drop take_put_bytes_below)
  then show ?thesis by (simp add: word_at_def)
qed

section \<open>The heap the evaluation context points into\<close>

text \<open>Only what the code allocates while it evaluates: NUL-terminated strings (\<^verbatim>\<open>strdup\<close>) and the
  field-filter array, which owns the strings it holds. \<open>h_next\<close> is the allocator's next
  address; a fresh block never has address 0.\<close>

record heap =
  h_str :: "ptr \<Rightarrow> string option"
  h_arr :: "ptr \<Rightarrow> string list option"
  h_next :: ptr

definition heap_empty :: heap where
  "heap_empty = \<lparr>h_str = (\<lambda>_. None), h_arr = (\<lambda>_. None), h_next = 4096\<rparr>"

definition heap_strdup :: "string \<Rightarrow> heap \<Rightarrow> ptr \<times> heap" where
  "heap_strdup s h = (h_next h, h\<lparr>h_str := (h_str h)(h_next h := Some (cstr s)), h_next := h_next h + 16\<rparr>)"

definition heap_array :: "string list \<Rightarrow> heap \<Rightarrow> ptr \<times> heap" where
  "heap_array ss h = (h_next h, h\<lparr>h_arr := (h_arr h)(h_next h := Some ss), h_next := h_next h + 16\<rparr>)"

definition heap_free_str :: "ptr \<Rightarrow> heap \<Rightarrow> heap option" where
  "heap_free_str p h =
     (if p = 0 then Some h
      else case h_str h p of None \<Rightarrow> None | Some _ \<Rightarrow> Some (h\<lparr>h_str := (h_str h)(p := None)\<rparr>))"

definition heap_free_arr :: "ptr \<Rightarrow> nat \<Rightarrow> heap \<Rightarrow> heap option" where
  "heap_free_arr p n h =
     (if p = 0 then Some h
      else case h_arr h p of
             None \<Rightarrow> None
           | Some ss \<Rightarrow> if n \<le> length ss then Some (h\<lparr>h_arr := (h_arr h)(p := None)\<rparr>) else None)"

section \<open>The evaluation context\<close>

record eval_context =
  ec_user :: user
  ec_user_id :: sso_id
  ec_role_ids :: "sso_id list"
  ec_group_ids :: "sso_id list"
  params :: "char list"
  environment :: string

definition eval_context_init :: "bool \<Rightarrow> user option \<Rightarrow> sso_error \<times> eval_context option" where
  "eval_context_init ctx_present usr =
     (case (ctx_present, usr) of
        (True, Some u) \<Rightarrow>
          (SSO_OK, Some \<lparr>ec_user = u, ec_user_id = u_id u, ec_role_ids = [], ec_group_ids = [],
                         params = replicate PARAMS_SIZE NUL, environment = []\<rparr>)
      | _ \<Rightarrow> (SSO_ERR_INVALID_PARAM, None))"

definition eval_context_destroy :: "eval_context \<Rightarrow> heap \<Rightarrow> (eval_context \<times> heap) option" where
  "eval_context_destroy ctx h = do {
     h1 \<leftarrow> heap_free_str (word_at OFF_RECORD (params ctx)) h;
     let ctx1 = ctx\<lparr>params := put_word OFF_RECORD 0 (params ctx)\<rparr>;
     if word_at OFF_FIELD_FILTER (params ctx1) \<noteq> 0
     then do {
       h2 \<leftarrow> heap_free_arr (word_at OFF_FIELD_FILTER (params ctx1))
              (unat (word_at OFF_FIELD_FILTER_COUNT (params ctx1))) h1;
       Some (ctx1\<lparr>params := put_word OFF_FIELD_FILTER 0 (params ctx1)\<rparr>, h2)
     }
     else Some (ctx1, h1)
   }"

text \<open>A user and a context with given parameter bytes, for concrete instances of the theorems.\<close>

definition sample_user :: user where
  "sample_user = \<lparr>u_id = 1, username = ''alice'', phone = [], password_hash = [], email = [],
     display_name = [], u_status = USER_STATUS_ACTIVE, u_created_at = 0, u_updated_at = 0,
     attributes = [], mfa_enabled = 0, mfa_secret = [], password_set_at = 0\<rparr>"

definition sample_ctx :: "char list \<Rightarrow> eval_context" where
  "sample_ctx bytes = \<lparr>ec_user = sample_user, ec_user_id = 1, ec_role_ids = [], ec_group_ids = [],
     params = bytes, environment = []\<rparr>"

text \<open>A role with a given parent and a policy, for concrete instances of the theorems.\<close>

definition sample_role :: "sso_id \<Rightarrow> sso_id \<Rightarrow> role" where
  "sample_role i par = \<lparr>r_id = i, r_name = ''r'', r_description = [], parent_role_id = par,
     r_status = ROLE_STATUS_ACTIVE, r_created_at = 0, r_updated_at = 0\<rparr>"

definition sample_policy :: policy where
  "sample_policy = \<lparr>p_id = 1, p_name = ''p'', strategy_type = PERM_STRATEGY_FUNCTIONAL,
     p_effect = POLICY_EFFECT_ALLOW, priority = 0, rules = ''r'', p_status = POLICY_STATUS_ENABLED,
     p_created_at = 0, p_updated_at = 0\<rparr>"

lemma params_sample_ctx [simp]: "params (sample_ctx bytes) = bytes"
  by (simp add: sample_ctx_def)

lemma word_at_zeros [simp]: "word_at off (replicate n NUL) = 0"
  by (simp add: word_at_def)

lemma str_at_zeros [simp]: "str_at off (replicate n NUL) = []"
  by (cases "n - off") (simp_all add: str_at_def cstr_def)

text \<open>Buffers that hold one string and zeros behind it.\<close>

definition str_buf :: "string \<Rightarrow> char list" where
  "str_buf s = s @ replicate (PARAMS_SIZE - length s) NUL"

lemma length_str_buf [simp]: "length s \<le> PARAMS_SIZE \<Longrightarrow> length (str_buf s) = PARAMS_SIZE"
  by (simp add: str_buf_def)

lemma str_at_str_buf: "nul_free s \<Longrightarrow> str_at 0 (str_buf s) = s"
  by (simp add: str_at_def str_buf_def cstr_append_replicate_NUL)

lemma word_at_str_buf: "length s \<le> off \<Longrightarrow> word_at off (str_buf s) = 0"
  by (simp add: word_at_def str_buf_def)

text \<open>A context whose record and filter fields are both zero is destroyed without touching the
  heap, whatever strategy filled the union.\<close>

lemma eval_context_destroy_zero:
  assumes "length (params ctx) = PARAMS_SIZE"
    and "word_at OFF_RECORD (params ctx) = 0" "word_at OFF_FIELD_FILTER (params ctx) = 0"
  shows "\<exists>c. eval_context_destroy ctx h = Some (c, h)"
  using assms
  by (simp add: eval_context_destroy_def heap_free_str_def put_word_def word_at_put_bytes_above)

text \<open>A context whose record field is not a block of the heap makes \<^verbatim>\<open>free\<close> undefined.\<close>

lemma eval_context_destroy_wild:
  assumes "word_at OFF_RECORD (params ctx) \<noteq> 0" "h_str h (word_at OFF_RECORD (params ctx)) = None"
  shows "eval_context_destroy ctx h = None"
  using assms by (simp add: eval_context_destroy_def heap_free_str_def)

end
