(* ===== verification/Storage.thy ===== *)
theory Storage
  imports Sso_Core
begin

text \<open>
  The storage interface of \<^verbatim>\<open>include/storage.h\<close>: the table of function pointers a backend
  fills in, over the backend's own state \<open>'s\<close> (what \<^verbatim>\<open>self->handle\<close> points to). A pointer that
  a backend leaves NULL is \<open>None\<close>. A function that reads the clock takes the time. Bulk reads
  return the ids they would write to the caller's array. The role-closure query is the only
  one with a loop that need not end; its result is an option.
\<close>

section \<open>Records that only the storage layer has\<close>

record refresh_token =
  token_hash :: string
  rt_user_id :: sso_id
  rt_client_id :: string
  rt_expires_at :: timestamp
  rt_issued_at :: timestamp
  rt_revoked :: int

record oauth_auth_code =
  oc_code :: string
  oc_client_id :: string
  oc_user_id :: sso_id
  redirect_uri :: string
  scope :: string
  nonce :: string
  code_challenge :: string
  code_challenge_method :: string
  oc_expires_at :: timestamp
  used :: int

record oauth_client =
  cl_id :: sso_id
  client_id :: string
  client_secret_hash :: string
  redirect_uris :: string
  app_name :: string
  app_description :: string
  app_logo_url :: string
  allowed_scopes :: string
  allowed_grant_types :: string
  token_ttl_ms :: int
  cl_status :: int
  cl_created_at :: timestamp
  cl_updated_at :: timestamp

text \<open>An entry of the audit log as the backends store it; a NULL pointer is \<open>None\<close>.\<close>

record audit_log_entry =
  ae_action :: string
  ae_timestamp_ms :: "64 word"
  ae_user_id :: sso_id
  ae_username :: "string option"
  ae_ip_address :: "string option"
  ae_operation :: "string option"
  ae_resource :: "string option"
  ae_resource_id :: sso_id
  ae_status :: "string option"
  ae_details :: "string option"
  ae_duration_ms :: "64 word"
  ae_cache_hit :: bool
  ae_trace :: "string option"

section \<open>The function table\<close>

type_synonym ('s, 'e) create_fn = "'s \<Rightarrow> 'e \<Rightarrow> sso_error \<times> 'e \<times> 's"
type_synonym ('s, 'k, 'e) get_fn = "'s \<Rightarrow> 'k \<Rightarrow> sso_error \<times> 'e option"
type_synonym ('s, 'e) update_fn = "'s \<Rightarrow> 'e \<Rightarrow> sso_error \<times> 's"
type_synonym 's delete_fn = "'s \<Rightarrow> sso_id \<Rightarrow> sso_error \<times> 's"
type_synonym 's pair_fn = "'s \<Rightarrow> sso_id \<Rightarrow> sso_id \<Rightarrow> sso_error \<times> 's"
type_synonym 's ids_fn = "'s \<Rightarrow> sso_id \<Rightarrow> nat \<Rightarrow> sso_error \<times> sso_id list"
type_synonym 's list_fn =
  "'s \<Rightarrow> string option \<Rightarrow> int \<Rightarrow> int \<Rightarrow> int \<Rightarrow> sso_error \<times> sso_id list \<times> nat"

record 's storage_backend =
  sb_name :: string
  sb_open :: "('s \<Rightarrow> string \<Rightarrow> sso_error \<times> 's) option"
  sb_user_create :: "('s, user) create_fn option"
  sb_user_get_by_id :: "('s, sso_id, user) get_fn option"
  sb_user_get_by_name :: "('s, string, user) get_fn option"
  sb_user_get_by_phone :: "('s, string, user) get_fn option"
  sb_user_update :: "('s, user) update_fn option"
  sb_user_delete :: "'s delete_fn option"
  sb_user_list :: "'s list_fn option"
  sb_save_sms_code :: "('s \<Rightarrow> string \<Rightarrow> string \<Rightarrow> timestamp \<Rightarrow> sso_error \<times> 's) option"
  sb_get_sms_code :: "(timestamp \<Rightarrow> 's \<Rightarrow> string \<Rightarrow> sso_error \<times> string option) option"
  sb_delete_sms_code :: "('s \<Rightarrow> string \<Rightarrow> sso_error \<times> 's) option"
  sb_role_create :: "('s, role) create_fn option"
  sb_role_get_by_id :: "('s, sso_id, role) get_fn option"
  sb_role_get_by_name :: "('s, string, role) get_fn option"
  sb_role_update :: "('s, role) update_fn option"
  sb_role_delete :: "'s delete_fn option"
  sb_role_list :: "'s list_fn option"
  sb_group_create :: "('s, group) create_fn option"
  sb_group_get_by_id :: "('s, sso_id, group) get_fn option"
  sb_group_get_by_name :: "('s, string, group) get_fn option"
  sb_group_update :: "('s, group) update_fn option"
  sb_group_delete :: "'s delete_fn option"
  sb_group_list :: "'s list_fn option"
  sb_policy_create :: "('s, policy) create_fn option"
  sb_policy_get_by_id :: "('s, sso_id, policy) get_fn option"
  sb_policy_get_by_name :: "('s, string, policy) get_fn option"
  sb_policy_update :: "('s, policy) update_fn option"
  sb_policy_delete :: "'s delete_fn option"
  sb_policy_list :: "'s list_fn option"
  sb_assign_role_to_user :: "'s pair_fn option"
  sb_unassign_role_from_user :: "'s pair_fn option"
  sb_get_user_roles :: "'s ids_fn option"
  sb_get_role_users :: "'s ids_fn option"
  sb_assign_role_to_group :: "'s pair_fn option"
  sb_unassign_role_from_group :: "'s pair_fn option"
  sb_add_user_to_group :: "'s pair_fn option"
  sb_remove_user_from_group :: "'s pair_fn option"
  sb_get_user_groups :: "'s ids_fn option"
  sb_get_group_users :: "'s ids_fn option"
  sb_assign_policy :: "('s \<Rightarrow> sso_id \<Rightarrow> policy_target_type \<Rightarrow> sso_id \<Rightarrow> sso_error \<times> 's) option"
  sb_unassign_policy :: "('s \<Rightarrow> sso_id \<Rightarrow> policy_target_type \<Rightarrow> sso_id \<Rightarrow> sso_error \<times> 's) option"
  sb_get_policy_targets :: "('s \<Rightarrow> sso_id \<Rightarrow> policy_target_type \<Rightarrow> nat \<Rightarrow> sso_error \<times> sso_id list) option"
  sb_get_target_policies :: "('s \<Rightarrow> policy_target_type \<Rightarrow> sso_id \<Rightarrow> nat \<Rightarrow> sso_error \<times> sso_id list) option"
  sb_role_get_parent :: "('s, sso_id, sso_id) get_fn option"
  sb_group_get_parent :: "('s, sso_id, sso_id) get_fn option"
  sb_get_user_roles_with_ancestors :: "('s \<Rightarrow> sso_id \<Rightarrow> nat \<Rightarrow> (sso_error \<times> sso_id list) option) option"
  sb_oauth_code_create :: "('s, oauth_auth_code) update_fn option"
  sb_oauth_code_get :: "('s, string, oauth_auth_code) get_fn option"
  sb_oauth_code_mark_used :: "('s \<Rightarrow> string \<Rightarrow> sso_error \<times> 's) option"
  sb_oauth_code_cleanup :: "(timestamp \<Rightarrow> 's \<Rightarrow> sso_error \<times> 's) option"
  sb_oauth_client_create :: "(timestamp \<Rightarrow> ('s, oauth_client) create_fn) option"
  sb_oauth_client_get :: "('s, string, oauth_client) get_fn option"
  sb_oauth_client_update :: "('s, oauth_client) update_fn option"
  sb_oauth_client_delete :: "('s \<Rightarrow> string \<Rightarrow> sso_error \<times> 's) option"
  sb_oauth_client_list :: "('s \<Rightarrow> int \<Rightarrow> int \<Rightarrow> nat \<Rightarrow> sso_error \<times> oauth_client list) option"
  sb_refresh_token_create :: "('s, refresh_token) update_fn option"
  sb_refresh_token_get :: "('s, string, refresh_token) get_fn option"
  sb_refresh_token_revoke :: "('s \<Rightarrow> string \<Rightarrow> sso_error \<times> 's) option"
  sb_refresh_token_revoke_family :: "('s \<Rightarrow> sso_id \<Rightarrow> string \<Rightarrow> sso_error \<times> 's) option"
  sb_jti_revoke :: "('s \<Rightarrow> string \<Rightarrow> timestamp \<Rightarrow> sso_error \<times> 's) option"
  sb_jti_is_revoked :: "(timestamp \<Rightarrow> 's \<Rightarrow> string \<Rightarrow> bool) option"
  sb_audit_log_write :: "('s, audit_log_entry) update_fn option"
  sb_audit_log_list :: "('s \<Rightarrow> sso_id \<Rightarrow> int \<Rightarrow> int \<Rightarrow> sso_error \<times> string option) option"
  sb_exec_sql_file :: "('s \<Rightarrow> string \<Rightarrow> sso_error \<times> 's) option"

section \<open>What a table of entities promises\<close>

text \<open>
  The contract the managers rely on for users, roles, groups and policies alike. \<open>view\<close> is the
  abstract state: a partial map from ids to entities. \<open>inv\<close> is the backend's invariant and
  \<open>room\<close> says that its id counter has not run out.
\<close>

locale entity_store =
  fixes create :: "('s, 'e) create_fn"
    and get :: "('s, sso_id, 'e) get_fn"
    and update :: "('s, 'e) update_fn"
    and del :: "'s delete_fn"
    and eid :: "'e \<Rightarrow> sso_id"
    and inv :: "'s \<Rightarrow> bool"
    and room :: "'s \<Rightarrow> bool"
    and view :: "'s \<Rightarrow> sso_id \<Rightarrow> 'e option"
  assumes get_view: "get s i = (case view s i of None \<Rightarrow> (SSO_ERR_NOT_FOUND, None) | Some e \<Rightarrow> (SSO_OK, Some e))"
    and view_id: "view s i = Some e \<Longrightarrow> eid e = i"
    and create_view: "create s e = (SSO_OK, e', s') \<Longrightarrow> inv s \<Longrightarrow> room s \<Longrightarrow>
          view s (eid e') = None \<and> view s' = (view s)(eid e' \<mapsto> e') \<and> inv s'"
    and create_fail: "create s e = (err, e', s') \<Longrightarrow> err \<noteq> SSO_OK \<Longrightarrow> s' = s"
    and update_view: "inv s \<Longrightarrow>
          (case view s (eid e) of
             None \<Rightarrow> update s e = (SSO_ERR_NOT_FOUND, s)
           | Some _ \<Rightarrow> \<exists>s'. update s e = (SSO_OK, s') \<and> view s' = (view s)(eid e \<mapsto> e) \<and> inv s')"
    and del_view: "inv s \<Longrightarrow>
          (case view s i of
             None \<Rightarrow> del s i = (SSO_ERR_NOT_FOUND, s)
           | Some _ \<Rightarrow> \<exists>s'. del s i = (SSO_OK, s') \<and> view s' = (view s)(i := None) \<and> inv s')"
begin

lemma get_after_create:
  assumes "create s e = (SSO_OK, e', s')" "inv s" "room s"
  shows "get s' (eid e') = (SSO_OK, Some e')" and "i \<noteq> eid e' \<Longrightarrow> get s' i = get s i"
  using create_view [OF assms] by (simp_all add: get_view)

lemma update_then_get:
  assumes "inv s" "update s e = (SSO_OK, s')"
  shows "get s' (eid e) = (SSO_OK, Some e)" and "i \<noteq> eid e \<Longrightarrow> get s' i = get s i" and "inv s'"
  using update_view [OF assms(1), of e] assms(2) by (auto simp: get_view split: option.splits)

lemma delete_then_get:
  assumes "inv s" "del s i = (SSO_OK, s')"
  shows "get s' i = (SSO_ERR_NOT_FOUND, None)" and "j \<noteq> i \<Longrightarrow> get s' j = get s j" and "inv s'"
  using del_view [OF assms(1), of i] assms(2) by (auto simp: get_view split: option.splits)

lemma delete_twice:
  assumes "inv s" "del s i = (SSO_OK, s')"
  shows "del s' i = (SSO_ERR_NOT_FOUND, s')"
  using delete_then_get [OF assms] del_view [of s' i] by (auto simp: get_view split: option.splits)

lemma create_then_delete:
  assumes "create s e = (SSO_OK, e', s')" "inv s" "room s"
  shows "\<exists>s''. del s' (eid e') = (SSO_OK, s'') \<and> view s'' = view s"
  using create_view [OF assms] del_view [of s' "eid e'"] by (auto simp: fun_upd_idem_iff)

end

end
