(* ===== verification/Json_Value.thy ===== *)
theory Json_Value
  imports Complex_Main Sso_Core
begin

text \<open>
  JSON values as the strategies see them through the yyjson accessors of
  \<^verbatim>\<open>include/yyjson.h\<close>. The strategies take the parser (\<^verbatim>\<open>yyjson_read\<close>) as an
  argument, since they rely only on its returning a value or NULL; \<open>Json_Reader\<close> models it. A
  \<^verbatim>\<open>yyjson_val*\<close> is a \<^verbatim>\<open>json option\<close>, with \<open>None\<close> for NULL. JSON strings may contain NUL
  characters; C sees them up to the first one, which is what \<open>cstr\<close> gives.
\<close>

section \<open>Doubles\<close>

text \<open>A double is a finite value (a rational), an infinity or not a number. Only comparison
  and the parsing and printing of doubles occur in the sources; comparison is the IEEE one.\<close>

datatype dbl = Fin rat | PInf | NInf | NaN

fun dbl_lt :: "dbl \<Rightarrow> dbl \<Rightarrow> bool" where
  "dbl_lt (Fin a) (Fin b) = (a < b)"
| "dbl_lt (Fin _) PInf = True"
| "dbl_lt NInf (Fin _) = True"
| "dbl_lt NInf PInf = True"
| "dbl_lt _ _ = False"

fun dbl_eq :: "dbl \<Rightarrow> dbl \<Rightarrow> bool" where
  "dbl_eq (Fin a) (Fin b) = (a = b)"
| "dbl_eq PInf PInf = True"
| "dbl_eq NInf NInf = True"
| "dbl_eq _ _ = False"

definition dbl_le :: "dbl \<Rightarrow> dbl \<Rightarrow> bool" where
  "dbl_le a b = (dbl_lt a b \<or> dbl_eq a b)"

lemma dbl_NaN [simp]: "\<not> dbl_lt NaN x" "\<not> dbl_lt x NaN" "\<not> dbl_eq NaN x" "\<not> dbl_eq x NaN"
  by (cases x; simp)+

lemma dbl_trichotomy: "a \<noteq> NaN \<Longrightarrow> b \<noteq> NaN \<Longrightarrow> dbl_lt a b \<or> dbl_eq a b \<or> dbl_lt b a"
  by (cases a; cases b) auto

lemma dbl_lt_not_le: "a \<noteq> NaN \<Longrightarrow> b \<noteq> NaN \<Longrightarrow> dbl_le a b \<longleftrightarrow> \<not> dbl_lt b a"
  by (cases a; cases b) (auto simp: dbl_le_def)

section \<open>Values and accessors\<close>

datatype json =
    JNull
  | JBool bool
  | JNum dbl
  | JStr string
  | JArr "json list"
  | JObj "(string \<times> json) list"

fun yyjson_is_num :: "json option \<Rightarrow> bool" where
  "yyjson_is_num (Some (JNum _)) = True"
| "yyjson_is_num _ = False"

fun yyjson_is_str :: "json option \<Rightarrow> bool" where
  "yyjson_is_str (Some (JStr _)) = True"
| "yyjson_is_str _ = False"

fun yyjson_is_arr :: "json option \<Rightarrow> bool" where
  "yyjson_is_arr (Some (JArr _)) = True"
| "yyjson_is_arr _ = False"

fun yyjson_is_obj :: "json option \<Rightarrow> bool" where
  "yyjson_is_obj (Some (JObj _)) = True"
| "yyjson_is_obj _ = False"

fun yyjson_get_num :: "json option \<Rightarrow> dbl" where
  "yyjson_get_num (Some (JNum d)) = d"
| "yyjson_get_num _ = Fin 0"

fun yyjson_get_str :: "json option \<Rightarrow> string option" where
  "yyjson_get_str (Some (JStr s)) = Some (cstr s)"
| "yyjson_get_str _ = None"

text \<open>The elements an array iterator visits, in order.\<close>

fun yyjson_arr_elems :: "json option \<Rightarrow> json list" where
  "yyjson_arr_elems (Some (JArr js)) = js"
| "yyjson_arr_elems _ = []"

definition yyjson_arr_size :: "json option \<Rightarrow> nat" where
  "yyjson_arr_size v = length (yyjson_arr_elems v)"

text \<open>The value of the first key that equals the given one, byte for byte.\<close>

fun yyjson_obj_get :: "json option \<Rightarrow> string \<Rightarrow> json option" where
  "yyjson_obj_get (Some (JObj kvs)) key = map_of kvs key"
| "yyjson_obj_get _ _ = None"

lemma yyjson_get_str_eq_Some:
  "yyjson_get_str v = Some s \<longleftrightarrow> (\<exists>t. v = Some (JStr t) \<and> s = cstr t)"
  by (cases v rule: yyjson_get_str.cases) auto

lemma yyjson_get_str_is_str: "yyjson_is_str v \<longleftrightarrow> (\<exists>s. yyjson_get_str v = Some s)"
  by (cases v rule: yyjson_get_str.cases) auto

lemma yyjson_get_str_nul_free: "yyjson_get_str v = Some s \<Longrightarrow> nul_free s"
  by (auto simp: yyjson_get_str_eq_Some)

text \<open>The parser and the number conversions of the C library, which the definitions that use
  them take as an argument: \<^verbatim>\<open>yyjson_read\<close> (root value, or NULL), \<^verbatim>\<open>strtod\<close> (value and
  number of characters consumed) and the \<^verbatim>\<open>%g\<close> conversion of \<^verbatim>\<open>snprintf\<close>.\<close>

record libs =
  yyjson_read :: "string \<Rightarrow> json option"
  strtod_fn :: "string \<Rightarrow> dbl \<times> nat"
  fmt_g :: "dbl \<Rightarrow> string"

text \<open>A parser that knows the given texts only, for concrete instances of the theorems.\<close>

definition sample_libs :: "(string \<times> json) list \<Rightarrow> libs" where
  "sample_libs texts = \<lparr>yyjson_read = map_of texts, strtod_fn = (\<lambda>_. (Fin 0, 0)), fmt_g = (\<lambda>_. [])\<rparr>"

lemma sample_libs_simps [simp]:
  "yyjson_read (sample_libs texts) = map_of texts"
  "strtod_fn (sample_libs texts) = (\<lambda>_. (Fin 0, 0))"
  "fmt_g (sample_libs texts) = (\<lambda>_. [])"
  by (simp_all add: sample_libs_def)

end
