(* ===== verification/Strategy_Base.thy ===== *)
theory Strategy_Base
  imports Json_Value
begin

text \<open>
  What the strategies of \<^verbatim>\<open>strategies/\<close> have in common. Each one compiles a policy's JSON into
  an array of items and evaluates a request by walking the array: the first item that matches
  decides, and when none does the verdict is \<^verbatim>\<open>SSO_ERR_NOT_FOUND\<close> with the out-parameter
  \<^verbatim>\<open>*result\<close> left alone. A strategy's evaluation function is modelled with that
  out-parameter passed in and returned. Pointers to results are returned components; the
  NULL checks of the inputs are kept.
\<close>

text \<open>The contract between a strategy's walk over its items and the code that reads its
  verdict: \<open>hit\<close> says whether an item matches the request and \<open>verdict\<close> what it decides.\<close>

locale item_walk =
  fixes walk :: "'i list \<Rightarrow> 'r \<Rightarrow> bool \<Rightarrow> sso_error \<times> bool"
    and hit :: "'r \<Rightarrow> 'i \<Rightarrow> bool"
    and verdict :: "'r \<Rightarrow> 'i \<Rightarrow> bool"
  assumes walk_Nil: "walk [] r b = (SSO_ERR_NOT_FOUND, b)"
    and walk_Cons: "walk (i # is) r b = (if hit r i then (SSO_OK, verdict r i) else walk is r b)"
begin

lemma walk_find:
  "walk is r b = (case find (hit r) is of
                    None \<Rightarrow> (SSO_ERR_NOT_FOUND, b) | Some i \<Rightarrow> (SSO_OK, verdict r i))"
  by (induction "is") (auto simp: walk_Nil walk_Cons)

lemma walk_ok_iff: "fst (walk is r b) = SSO_OK \<longleftrightarrow> (\<exists>i \<in> set is. hit r i)"
  by (induction "is") (auto simp: walk_Nil walk_Cons)

lemma walk_errors: "fst (walk is r b) \<in> {SSO_OK, SSO_ERR_NOT_FOUND}"
  by (induction "is") (auto simp: walk_Nil walk_Cons)

lemma walk_miss_keeps: "fst (walk is r b) \<noteq> SSO_OK \<Longrightarrow> walk is r b = (SSO_ERR_NOT_FOUND, b)"
  by (induction "is") (auto simp: walk_Nil walk_Cons split: if_splits)

lemma walk_hit_indep: "fst (walk is r b) = SSO_OK \<Longrightarrow> walk is r b = walk is r b'"
  by (induction "is") (auto simp: walk_Nil walk_Cons split: if_splits)

lemma walk_append:
  "walk (is @ js) r b = (if \<exists>i \<in> set is. hit r i then walk is r b else walk js r b)"
  by (induction "is") (auto simp: walk_Nil walk_Cons)

lemma walk_decides_iff:
  "walk is r b = (SSO_OK, v) \<longleftrightarrow>
   (\<exists>k < length is. hit r (is ! k) \<and> verdict r (is ! k) = v \<and> (\<forall>j < k. \<not> hit r (is ! j)))"
proof (cases "find (hit r) is")
  case None
  then have "\<forall>i \<in> set is. \<not> hit r i" by (simp add: find_None_iff)
  with None show ?thesis by (auto simp: walk_find)
next
  case (Some i)
  then obtain k where k: "k < length is" "hit r (is ! k)" "i = is ! k" "\<forall>j < k. \<not> hit r (is ! j)"
    by (auto simp: find_Some_iff)
  then have "walk is r b = (SSO_OK, verdict r (is ! k))" using Some by (simp add: walk_find)
  moreover have "k' = k" if "hit r (is ! k')" "\<forall>j < k'. \<not> hit r (is ! j)" for k'
    using k that by (metis linorder_neqE_nat)
  ultimately have w: "walk is r b = (SSO_OK, verdict r (is ! k))"
    and u: "\<And>k'. hit r (is ! k') \<Longrightarrow> \<forall>j < k'. \<not> hit r (is ! j) \<Longrightarrow> k' = k" by blast+
  show ?thesis
  proof
    assume "walk is r b = (SSO_OK, v)"
    with w k show "\<exists>k < length is. hit r (is ! k) \<and> verdict r (is ! k) = v \<and> (\<forall>j < k. \<not> hit r (is ! j))"
      by (intro exI [of _ k]) simp
  next
    assume "\<exists>k < length is. hit r (is ! k) \<and> verdict r (is ! k) = v \<and> (\<forall>j < k. \<not> hit r (is ! j))"
    then obtain k' where k': "hit r (is ! k')" "verdict r (is ! k') = v" "\<forall>j < k'. \<not> hit r (is ! j)"
      by blast
    from u [OF k'(1,3)] k'(2) w show "walk is r b = (SSO_OK, v)" by simp
  qed
qed

end

text \<open>\<^verbatim>\<open>validate_rules\<close> of every strategy but RBAC: the rules must be JSON.\<close>

definition validate_json :: "libs \<Rightarrow> string option \<Rightarrow> sso_error" where
  "validate_json L rules_json =
     (case rules_json of
        None \<Rightarrow> SSO_ERR_INVALID_PARAM
      | Some s \<Rightarrow> (case yyjson_read L (cstr s) of None \<Rightarrow> SSO_ERR_RULE_INVALID | Some _ \<Rightarrow> SSO_OK))"

end
