(* ===== verification/Strategy_Func.thy ===== *)
theory Strategy_Func
  imports Strategy_Base
begin

text \<open>
  The functional strategy, \<^verbatim>\<open>strategies/func_perm.c\<close>: rules that allow or deny function codes
  by a pattern in which a star stands for any run of characters.
\<close>

section \<open>Wildcards\<close>

text \<open>\<^verbatim>\<open>wildcard_match\<close> is a loop over the pattern; at a star it skips the stars and tries the
  rest of the pattern at every non-empty suffix of the string, which is the inner loop
  \<open>wildcard_scan\<close>. Both take NUL-terminated strings as the characters before the NUL.\<close>

function wildcard_match :: "string \<Rightarrow> string \<Rightarrow> bool"
  and wildcard_scan :: "string \<Rightarrow> string \<Rightarrow> bool" where
  "wildcard_match [] str = (str = [])"
| "wildcard_match (c # pat) str =
     (if c = CHR ''*''
      then (let rest = dropWhile (\<lambda>d. d = CHR ''*'') pat
            in if rest = [] then True else wildcard_scan rest str)
      else (case str of [] \<Rightarrow> False | d # str' \<Rightarrow> if c \<noteq> d then False else wildcard_match pat str'))"
| "wildcard_scan pat [] = False"
| "wildcard_scan pat (d # str) = (if wildcard_match pat (d # str) then True else wildcard_scan pat str)"
  by pat_completeness auto
termination
proof (relation "measures [\<lambda>x. case x of Inl (p, s) \<Rightarrow> length p | Inr (p, s) \<Rightarrow> length p,
                           \<lambda>x. case x of Inl (p, s) \<Rightarrow> 2 * length s | Inr (p, s) \<Rightarrow> 2 * length s + 1]",
       goal_cases)
  case (2 c pat str rest)
  have "length rest \<le> length pat" using 2(2) by (simp add: length_dropWhile_le)
  then show ?case by simp
qed auto

section \<open>Rules\<close>

record func_rule_item =
  fi_code :: string
  fi_is_allow :: bool

type_synonym func_compiled_rule = "func_rule_item list"

definition func_compile_item :: "json \<Rightarrow> func_rule_item" where
  "func_compile_item item =
     (let code_v = yyjson_obj_get (Some item) ''code'';
          effect_v = yyjson_obj_get (Some item) ''effect''
      in \<lparr>fi_code = (if yyjson_is_str code_v then sso_strlcpy [] (yyjson_get_str code_v) 127 else []),
          fi_is_allow = (if yyjson_is_str effect_v then yyjson_get_str effect_v = Some ''allow'' else True)\<rparr>)"

definition func_compile :: "libs \<Rightarrow> string option \<Rightarrow> sso_error \<times> func_compiled_rule option" where
  "func_compile L rules_json =
     (case rules_json of
        None \<Rightarrow> (SSO_ERR_INVALID_PARAM, None)
      | Some s \<Rightarrow>
          (case yyjson_read L (cstr s) of
             None \<Rightarrow> (SSO_ERR_RULE_INVALID, None)
           | Some doc_root \<Rightarrow>
               (let funcs = yyjson_obj_get (Some doc_root) ''functions''
                in if \<not> yyjson_is_arr funcs then (SSO_ERR_RULE_INVALID, None)
                   else (SSO_OK, Some (map func_compile_item (yyjson_arr_elems funcs))))))"

fun func_walk :: "func_rule_item list \<Rightarrow> string \<Rightarrow> bool \<Rightarrow> sso_error \<times> bool" where
  "func_walk [] function_code result = (SSO_ERR_NOT_FOUND, result)"
| "func_walk (i # is) function_code result =
     (if wildcard_match (fi_code i) function_code then (SSO_OK, fi_is_allow i)
      else func_walk is function_code result)"

definition func_evaluate ::
  "eval_context option \<Rightarrow> policy option \<Rightarrow> func_compiled_rule option \<Rightarrow> bool \<Rightarrow> sso_error \<times> bool" where
  "func_evaluate ctx policy compiled_rule result =
     (case (ctx, compiled_rule) of
        (Some c, Some compiled) \<Rightarrow>
          (let function_code = str_at OFF_FUNCTION_CODE (params c)
           in if function_code = [] then (SSO_ERR_NOT_FOUND, result)
              else func_walk compiled function_code result)
      | _ \<Rightarrow> (SSO_ERR_INVALID_PARAM, result))"

definition func_validate :: "libs \<Rightarrow> string option \<Rightarrow> sso_error" where
  "func_validate L rules_json = validate_json L rules_json"

section \<open>Wildcards against their specification\<close>

text \<open>The meaning of a pattern: a star stands for any string, every other character for
  itself.\<close>

inductive glob :: "string \<Rightarrow> string \<Rightarrow> bool" where
  glob_Nil: "glob [] []"
| glob_char: "c \<noteq> CHR ''*'' \<Longrightarrow> glob p s \<Longrightarrow> glob (c # p) (c # s)"
| glob_star: "glob p s \<Longrightarrow> glob (CHR ''*'' # p) (u @ s)"

inductive_simps glob_Nil_iff [simp]: "glob [] s"

lemma glob_star_iff: "glob (CHR ''*'' # p) s \<longleftrightarrow> (\<exists>u v. s = u @ v \<and> glob p v)"
  by (subst glob.simps) auto

lemma glob_char_iff:
  "c \<noteq> CHR ''*'' \<Longrightarrow> glob (c # p) s \<longleftrightarrow> (\<exists>s'. s = c # s' \<and> glob p s')"
  by (subst glob.simps) auto

lemma glob_stars: "glob (CHR ''*'' # p) s \<longleftrightarrow> glob (CHR ''*'' # dropWhile (\<lambda>d. d = CHR ''*'') p) s"
proof (induction p arbitrary: s)
  case (Cons c p)
  show ?case
  proof (cases "c = CHR ''*''")
    case True
    have "glob (CHR ''*'' # CHR ''*'' # p) s \<longleftrightarrow> (\<exists>u v. s = u @ v \<and> glob (CHR ''*'' # p) v)"
      by (rule glob_star_iff)
    also have "\<dots> \<longleftrightarrow> glob (CHR ''*'' # p) s"
      unfolding glob_star_iff by (metis append_assoc append_Nil)
    finally show ?thesis using Cons.IH True by simp
  qed simp
qed simp

lemma glob_suffix_Cons:
  "(\<exists>u v. d # str = u @ v \<and> glob p v) \<longleftrightarrow> glob p (d # str) \<or> (\<exists>u v. str = u @ v \<and> glob p v)"
  (is "?l \<longleftrightarrow> ?r")
proof
  assume ?l
  then obtain u v where "d # str = u @ v" "glob p v" by blast
  then show ?r by (cases u) auto
next
  assume ?r
  then show ?l by (metis append_Nil append_Cons)
qed


lemma wildcard_match_glob:
  "wildcard_match p s \<longleftrightarrow> glob p s"
  "p \<noteq> [] \<Longrightarrow> hd p \<noteq> CHR ''*'' \<Longrightarrow> wildcard_scan p s \<longleftrightarrow> (\<exists>u v. s = u @ v \<and> glob p v)"
proof (induction p s and p s rule: wildcard_match_wildcard_scan.induct)
  case (2 c pat str)
  show ?case
  proof (cases "c = CHR ''*''")
    case True
    let ?r = "dropWhile (\<lambda>d. d = CHR ''*'') pat"
    have "wildcard_match (c # pat) str \<longleftrightarrow> glob (CHR ''*'' # ?r) str"
    proof (cases "?r = []")
      case True
      have "glob (CHR ''*'' # ?r) str" unfolding True by (simp add: glob_star_iff)
      with True \<open>c = _\<close> show ?thesis by simp
    next
      case False
      then have "hd ?r \<noteq> CHR ''*''" by (rule hd_dropWhile)
      with 2(1) [OF \<open>c = _\<close> refl False False] have "wildcard_scan ?r str \<longleftrightarrow> glob (CHR ''*'' # ?r) str"
        by (simp only: glob_star_iff not_False_eq_True)
      with \<open>c = _\<close> False show ?thesis by (simp del: dropWhile_eq_Nil_conv)
    qed
    then show ?thesis unfolding True glob_stars [of pat str] .
  next
    case False
    with 2(2) [OF False] show ?thesis by (cases str) (simp_all add: glob_char_iff)
  qed
next
  case (3 pat)
  then obtain c p where "pat = c # p" "c \<noteq> CHR ''*''" by (cases pat) auto
  then show ?case by (simp add: glob_char_iff)
next
  case (4 pat d str)
  then have "wildcard_scan pat (d # str) \<longleftrightarrow> glob pat (d # str) \<or> (\<exists>u v. str = u @ v \<and> glob pat v)"
    by simp
  then show ?case by (simp only: glob_suffix_Cons)
next
  case 1 show ?case by simp
qed

section \<open>Properties\<close>

interpretation fwalk: item_walk func_walk "\<lambda>r i. wildcard_match (fi_code i) r" "\<lambda>_. fi_is_allow"
  by unfold_locales auto

text \<open>C16: the recursive matcher \<open>wildcard_match\<close>, with its star skipping and its scan over suffixes,
  accepts exactly the strings the pattern denotes when a star stands for any run of characters.\<close>

theorem wildcard_match_correct: "wildcard_match pattern str \<longleftrightarrow> glob pattern str"
  by (rule wildcard_match_glob)

text \<open>Evaluating functional rules against a request with a non-empty function code decides
  exactly by the first item whose pattern denotes the code, and yields that item's effect; the
  error code is \<open>SSO_OK\<close> precisely when some item matches.\<close>

theorem func_evaluate_first_match:
  assumes "str_at OFF_FUNCTION_CODE (params c) = f" "f \<noteq> []"
  shows "func_evaluate (Some c) pol (Some is) b = (SSO_OK, v) \<longleftrightarrow>
         (\<exists>k < length is. glob (fi_code (is ! k)) f \<and> fi_is_allow (is ! k) = v \<and>
            (\<forall>j < k. \<not> glob (fi_code (is ! j)) f))"
  using assms by (simp add: func_evaluate_def fwalk.walk_decides_iff wildcard_match_glob)

theorem func_evaluate_first_match_witness:
  "func_evaluate (Some (sample_ctx (''user:create'' @ replicate 4149 NUL))) None
     (Some [\<lparr>fi_code = ''user:del*'', fi_is_allow = False\<rparr>, \<lparr>fi_code = ''user:*'', fi_is_allow = True\<rparr>]) False
   = (SSO_OK, True)"
  by (subst func_evaluate_first_match [where f = "''user:create''"])
     (auto simp: str_at_def cstr_def wildcard_match_glob [symmetric] less_Suc_eq intro: exI [of _ 1])

end
