(* ===== verification/Strategy_Api.thy ===== *)
theory Strategy_Api
  imports Strategy_Base
begin

text \<open>
  The API strategy, \<^verbatim>\<open>strategies/api_perm.c\<close>: rules on HTTP method and request path, with the
  path wildcards \<^verbatim>\<open>*\<close>, \<^verbatim>\<open>**\<close> and \<^verbatim>\<open>:param\<close>.
\<close>

section \<open>Path matching\<close>

text \<open>One iteration of the loop of \<^verbatim>\<open>path_match\<close> per call. The loop ends when either string does;
  the stars left in the pattern are then skipped and both must be at their end.\<close>

function path_match :: "string \<Rightarrow> string \<Rightarrow> bool" where
  "path_match pattern [] = (dropWhile (\<lambda>c. c = CHR ''*'') pattern = [])"
| "path_match [] (d # path) = False"
| "path_match (c # pattern) (d # path) =
     (if c = CHR ''*'' then
        (if pattern \<noteq> [] \<and> hd pattern = CHR ''*'' then True
         else path_match (if pattern \<noteq> [] \<and> hd pattern = CHR ''/'' then tl pattern else pattern)
                (dropWhile (\<lambda>x. x \<noteq> CHR ''/'') (d # path)))
      else if c = CHR '':'' then
        path_match (dropWhile (\<lambda>x. x \<noteq> CHR ''/'') (c # pattern))
          (dropWhile (\<lambda>x. x \<noteq> CHR ''/'') (d # path))
      else if c \<noteq> d then False
      else path_match pattern path)"
  by pat_completeness auto
termination
  by (relation "measure (\<lambda>(p, _). length p)") (auto simp: less_Suc_eq_le length_dropWhile_le)

section \<open>Rules\<close>

record api_rule_item =
  ai_method :: string
  ai_path :: string
  ai_is_allow :: bool

type_synonym api_compiled_rule = "api_rule_item list"

definition api_compile_item :: "json \<Rightarrow> api_rule_item" where
  "api_compile_item item =
     (let method_v = yyjson_obj_get (Some item) ''method'';
          path_v = yyjson_obj_get (Some item) ''path'';
          effect_v = yyjson_obj_get (Some item) ''effect''
      in \<lparr>ai_method = (if yyjson_is_str method_v then sso_strlcpy [] (yyjson_get_str method_v) 15 else []),
          ai_path = (if yyjson_is_str path_v then sso_strlcpy [] (yyjson_get_str path_v) 255 else []),
          ai_is_allow = (\<not> (yyjson_is_str effect_v \<and> yyjson_get_str effect_v = Some ''deny''))\<rparr>)"

definition api_compile :: "libs \<Rightarrow> string option \<Rightarrow> sso_error \<times> api_compiled_rule option" where
  "api_compile L rules_json =
     (case rules_json of
        None \<Rightarrow> (SSO_ERR_INVALID_PARAM, None)
      | Some s \<Rightarrow>
          (case yyjson_read L (cstr s) of
             None \<Rightarrow> (SSO_ERR_RULE_INVALID, None)
           | Some doc_root \<Rightarrow>
               (let endpoints = yyjson_obj_get (Some doc_root) ''endpoints''
                in if \<not> yyjson_is_arr endpoints then (SSO_ERR_RULE_INVALID, None)
                   else (SSO_OK, Some (map api_compile_item (yyjson_arr_elems endpoints))))))"

definition api_item_matches :: "string \<times> string \<Rightarrow> api_rule_item \<Rightarrow> bool" where
  "api_item_matches req i =
     ((ai_method i = ''*'' \<or> strcaseeq (ai_method i) (fst req)) \<and> path_match (ai_path i) (snd req))"

fun api_walk :: "api_rule_item list \<Rightarrow> string \<times> string \<Rightarrow> bool \<Rightarrow> sso_error \<times> bool" where
  "api_walk [] req result = (SSO_ERR_NOT_FOUND, result)"
| "api_walk (i # is) req result =
     (if api_item_matches req i then (SSO_OK, ai_is_allow i) else api_walk is req result)"

definition api_evaluate ::
  "eval_context option \<Rightarrow> policy option \<Rightarrow> api_compiled_rule option \<Rightarrow> bool \<Rightarrow> sso_error \<times> bool" where
  "api_evaluate ctx policy compiled_rule result =
     (case (ctx, policy, compiled_rule) of
        (Some c, Some _, Some compiled) \<Rightarrow>
          (let meth = str_at OFF_HTTP_METHOD (params c);
               pth = str_at OFF_REQUEST_PATH (params c)
           in if meth = [] \<or> pth = [] then (SSO_ERR_NOT_FOUND, result)
              else api_walk compiled (meth, pth) result)
      | _ \<Rightarrow> (SSO_ERR_INVALID_PARAM, result))"

definition api_validate :: "libs \<Rightarrow> string option \<Rightarrow> sso_error" where
  "api_validate L rules_json = validate_json L rules_json"

section \<open>What paths a pattern matches\<close>

text \<open>The intended reading of a pattern without stars: both strings are split at the slashes,
  there are as many segments on either side, and a segment \<^verbatim>\<open>:param\<close> of the pattern takes any
  segment of the path; at the end of the path it takes any non-empty one.\<close>

fun segs_match :: "string list \<Rightarrow> string list \<Rightarrow> bool" where
  "segs_match [] [] = True"
| "segs_match (p # ps) (s # ss) =
     ((if p \<noteq> [] \<and> hd p = CHR '':'' then ss \<noteq> [] \<or> s \<noteq> [] else p = s) \<and> segs_match ps ss)"
| "segs_match _ _ = False"

text \<open>A colon starts a parameter only at the beginning of a segment, and there are no stars.\<close>

definition plain_seg :: "string \<Rightarrow> bool" where
  "plain_seg p \<longleftrightarrow> CHR ''*'' \<notin> set p \<and> (CHR '':'' \<notin> set p \<or> hd p = CHR '':'')"

definition literal :: "string \<Rightarrow> bool" where
  "literal p \<longleftrightarrow> CHR ''*'' \<notin> set p \<and> CHR '':'' \<notin> set p"

abbreviation "segs \<equiv> split_on (CHR ''/'')"
abbreviation "not_slash \<equiv> (\<lambda>x. x \<noteq> CHR ''/'')"

lemma segs_unfold: "segs s = takeWhile not_slash s # tl (segs (dropWhile not_slash s))"
  by (induction s) (auto split: list.splits)

lemma segs_rest: "segs (dropWhile not_slash s) = [] # tl (segs (dropWhile not_slash s))"
  by (induction s) auto

lemma segs_Cons_lit:
  "c \<noteq> CHR ''/'' \<Longrightarrow> segs (c # s) = (c # hd (segs s)) # tl (segs s)"
  by (rule split_on_Cons_neq)

lemma segs_slash: "segs (CHR ''/'' # s) = [] # segs s"
  by simp

lemma segs_eq_empty: "segs s = [[]] \<longleftrightarrow> s = []"
  by (cases s) (auto split: list.splits)

lemma plain_segs_Cons:
  assumes "list_all plain_seg (segs (c # p))" "c \<noteq> CHR '':''"
  shows "list_all plain_seg (segs p)" and "segs p \<noteq> [] \<Longrightarrow> c \<noteq> CHR ''/'' \<Longrightarrow> CHR '':'' \<notin> set (hd (segs p))"
    and "c \<noteq> CHR ''*''"
  using assms by (cases "segs p"; auto simp: plain_seg_def split: if_splits)+

lemma segs_match_Cons_same:
  assumes "list_all plain_seg (segs (c # p))" "c \<noteq> CHR '':''"
  shows "segs_match (segs (c # p)) (segs (c # s)) = segs_match (segs p) (segs s)"
proof (cases "c = CHR ''/''")
  case False
  obtain a as b bs where "segs p = a # as" "segs s = b # bs"
    by (metis split_on_not_Nil list.exhaust)
  moreover with plain_segs_Cons(2) [OF assms] False have "CHR '':'' \<notin> set a" by simp
  then have "\<not> (a \<noteq> [] \<and> hd a = CHR '':'')" by (metis hd_in_set)
  ultimately show ?thesis using False assms(2) by (auto simp: segs_Cons_lit)
qed simp

lemma segs_match_Cons_diff:
  "c \<noteq> CHR '':'' \<Longrightarrow> c \<noteq> d \<Longrightarrow> \<not> segs_match (segs (c # p)) (segs (d # s))"
  by (cases "c = CHR ''/''"; cases "d = CHR ''/''") (auto simp: segs_Cons_lit segs_slash simp del: split_on.simps(2))

lemma path_match_segs:
  "list_all plain_seg (segs p) \<Longrightarrow> path_match p s = segs_match (segs p) (segs s)"
proof (induction p s rule: path_match.induct)
  case (1 p)
  show ?case
  proof (cases p)
    case (Cons c q)
    with 1 have "c \<noteq> CHR ''*''" by (auto simp: plain_seg_def split: if_splits list.splits)
    moreover have "\<not> segs_match (segs (c # q)) [[]]"
      by (cases "segs q") (auto split: list.splits)
    ultimately show ?thesis by (simp add: Cons del: split_on.simps(2))
  qed simp
next
  case (2 d s)
  have "segs (d # s) \<noteq> [[]]" by (simp add: segs_eq_empty del: split_on.simps)
  then show ?case by (cases "segs (d # s)" rule: list.exhaust; cases "tl (segs (d # s))")
    (auto simp del: split_on.simps(2))
next
  case (3 c p d s)
  show ?case
  proof (cases "c = CHR '':''")
    case True
    let ?P = "dropWhile not_slash (c # p)" and ?S = "dropWhile not_slash (d # s)"
    have "list_all plain_seg (segs ?P)"
      using 3(4) segs_unfold [of "c # p"] segs_rest [of "c # p"]
      by (metis list.pred_inject(2) plain_seg_def empty_iff list.set(1))
    with 3(2) True have "path_match (c # p) (d # s) = segs_match (segs ?P) (segs ?S)" by simp
    also have "\<dots> = segs_match (tl (segs ?P)) (tl (segs ?S))"
      by (subst segs_rest, subst segs_rest [of "d # s"]) simp
    also have "\<dots> = segs_match (segs (c # p)) (segs (d # s))"
      by (subst (3) segs_unfold, subst (3) segs_unfold) (use True in auto)
    finally show ?thesis .
  next
    case False
    note pc = plain_segs_Cons [OF 3(4) False]
    show ?thesis
    proof (cases "c = d")
      case True
      with 3(3) pc False segs_match_Cons_same [OF 3(4) False] show ?thesis by simp
    qed (use False pc segs_match_Cons_diff [of c d p s] in simp)
  qed
qed

lemma path_match_literal_prefix:
  "literal p \<Longrightarrow> path_match (p @ q) (p @ s) = path_match q s"
  by (induction p) (auto simp: literal_def)

lemma path_match_literal_mismatch:
  "literal p \<Longrightarrow> \<not> prefix p s \<Longrightarrow> \<not> path_match (p @ q) s"
proof (induction p arbitrary: s)
  case (Cons c p)
  then show ?case by (cases s) (auto simp: literal_def)
qed simp

interpretation awalk: item_walk api_walk api_item_matches "\<lambda>_. ai_is_allow"
  by unfold_locales auto

section \<open>Properties\<close>

text \<open>On patterns made of literal and \<^verbatim>\<open>:param\<close> segments, \<open>path_match\<close> agrees with matching
  segment by segment: same number of segments, literal segments equal, a parameter taking any
  one segment.\<close>

theorem path_match_params:
  "list_all plain_seg (segs pattern) \<Longrightarrow>
   path_match pattern pth \<longleftrightarrow> segs_match (segs pattern) (segs pth)"
  by (rule path_match_segs)

theorem path_match_params_witness:
  "path_match ''/u/:id/x'' ''/u/42/x'' \<longleftrightarrow> segs_match (segs ''/u/:id/x'') (segs ''/u/42/x'')"
  by (rule path_match_params) (simp add: plain_seg_def)

text \<open>A literal prefix followed by \<^verbatim>\<open>**\<close> matches exactly the paths that start with the
  prefix, to any depth.\<close>

theorem path_match_double_star:
  "literal p \<Longrightarrow> path_match (p @ ''**'') pth \<longleftrightarrow> prefix p pth"
  using path_match_literal_mismatch [of p pth "''**''"]
  by (auto simp: prefix_def path_match_literal_prefix) (case_tac zs; simp)

theorem path_match_double_star_witness:
  "path_match (''/api/users/'' @ ''**'') ''/api/users/7/roles'' \<longleftrightarrow> prefix ''/api/users/'' ''/api/users/7/roles''"
  by (rule path_match_double_star) (simp add: literal_def)

text \<open>A single star in the middle of a pattern never does what its documentation says. After
  the star the code steps over the pattern's slash but not over the path's, so a pattern
  \<open>a*/b\<close> rejects every path \<open>a seg/b\<close> that replaces the star by one segment.\<close>

theorem path_match_inner_star_broken:
  assumes "literal a" "CHR ''/'' \<notin> set seg" "seg \<noteq> []" "literal b" "b \<noteq> []" "hd b \<noteq> CHR ''/''"
  shows "\<not> path_match (a @ ''*/'' @ b) (a @ seg @ ''/'' @ b)"
proof -
  have *: "dropWhile not_slash (seg @ CHR ''/'' # b) = CHR ''/'' # b"
    using assms(2) by (induction seg) auto
  obtain c bs where "b = c # bs" "c \<noteq> CHR ''/''" "c \<noteq> CHR ''*''" "c \<noteq> CHR '':''"
    using assms(4-6) by (cases b) (auto simp: literal_def)
  moreover obtain d ds where "seg = d # ds" using assms(3) by (cases seg) auto
  ultimately show ?thesis
    using * by (simp add: path_match_literal_prefix [OF assms(1)] del: dropWhile.simps)
qed

theorem path_match_inner_star_broken_witness:
  "\<not> path_match (''/api/'' @ ''*/'' @ ''roles'') (''/api/'' @ ''users'' @ ''/'' @ ''roles'')"
  by (rule path_match_inner_star_broken) (simp_all add: literal_def)

end
