(* ===== verification/Strategy_Data.thy ===== *)
theory Strategy_Data
  imports Strategy_Base
begin

text \<open>
  The data strategy, \<^verbatim>\<open>strategies/data_perm.c\<close>: row conditions on a JSON record and a list of
  visible fields. It is the one strategy whose evaluation has effects: it replaces the
  field filter the context points to. The record and the filter are reached through pointers
  stored in the parameter union, so evaluation takes the heap and may be undefined.
\<close>

section \<open>Rules\<close>

record data_condition =
  dc_field :: string
  dc_op :: string
  dc_expected :: string

record data_compiled_rule =
  dr_resource_type :: string
  conditions :: "data_condition list"
  allowed_fields :: "string option list"
  dr_is_allow :: bool

text \<open>The text a JSON value is compared as: a bounded copy of a string or the \<^verbatim>\<open>%g\<close> rendering of a
  number.\<close>

definition value_text :: "libs \<Rightarrow> json option \<Rightarrow> string option" where
  "value_text L v =
     (if yyjson_is_str v then Some (sso_strlcpy [] (yyjson_get_str v) 255)
      else if yyjson_is_num v then Some (take 254 (fmt_g L (yyjson_get_num v)))
      else None)"

definition data_compile_cond :: "libs \<Rightarrow> json \<Rightarrow> data_condition" where
  "data_compile_cond L item =
     (let f = yyjson_obj_get (Some item) ''field'';
          op_v = yyjson_obj_get (Some item) ''op'';
          v = yyjson_obj_get (Some item) ''value''
      in \<lparr>dc_field = (if yyjson_is_str f then sso_strlcpy [] (yyjson_get_str f) 63 else []),
          dc_op = (if yyjson_is_str op_v then sso_strlcpy [] (yyjson_get_str op_v) 15 else []),
          dc_expected = (case value_text L v of None \<Rightarrow> [] | Some t \<Rightarrow> t)\<rparr>)"

definition data_compile :: "libs \<Rightarrow> string option \<Rightarrow> sso_error \<times> data_compiled_rule option" where
  "data_compile L rules_json =
     (case rules_json of
        None \<Rightarrow> (SSO_ERR_INVALID_PARAM, None)
      | Some s \<Rightarrow>
          (case yyjson_read L (cstr s) of
             None \<Rightarrow> (SSO_ERR_RULE_INVALID, None)
           | Some doc_root \<Rightarrow>
               (let res_type = yyjson_obj_get (Some doc_root) ''resource_type'';
                    conds = yyjson_obj_get (Some doc_root) ''conditions'';
                    fields = yyjson_obj_get (Some doc_root) ''allowed_fields'';
                    effect_v = yyjson_obj_get (Some doc_root) ''effect''
                in (SSO_OK, Some
                     \<lparr>dr_resource_type = (if yyjson_is_str res_type
                                          then sso_strlcpy [] (yyjson_get_str res_type) 63 else []),
                      conditions = map (data_compile_cond L) (yyjson_arr_elems conds),
                      allowed_fields = map (\<lambda>f. yyjson_get_str (Some f)) (yyjson_arr_elems fields),
                      dr_is_allow = (\<not> (yyjson_is_str effect_v \<and> yyjson_get_str effect_v = Some ''deny''))\<rparr>))))"

section \<open>Evaluation\<close>

definition apply_data_op :: "libs \<Rightarrow> string \<Rightarrow> string \<Rightarrow> string \<Rightarrow> bool" where
  "apply_data_op L op actual expected =
     (if op = ''eq'' then actual = expected
      else if op = ''neq'' then actual \<noteq> expected
      else let av = fst (strtod_fn L actual); ev = fst (strtod_fn L expected)
           in if op = ''gt'' then dbl_lt ev av
              else if op = ''lt'' then dbl_lt av ev
              else False)"

fun data_conditions_loop :: "libs \<Rightarrow> json option \<Rightarrow> data_condition list \<Rightarrow> sso_error" where
  "data_conditions_loop L record_root [] = SSO_OK"
| "data_conditions_loop L record_root (c # cs) =
     (let val = yyjson_obj_get record_root (dc_field c)
      in if val = None then SSO_ERR_NOT_FOUND
         else (case value_text L val of
                 None \<Rightarrow> SSO_ERR_NOT_FOUND
               | Some actual \<Rightarrow>
                   if \<not> apply_data_op L (dc_op c) actual (dc_expected c) then SSO_ERR_NOT_FOUND
                   else data_conditions_loop L record_root cs))"

text \<open>Step 3 of \<^verbatim>\<open>data_evaluate\<close>: the previous filter is freed and a copy of the rule's fields put
  in its place. Duplicating a NULL field, which a rule has wherever its \<^verbatim>\<open>allowed_fields\<close> holds
  something that is not a string, is undefined.\<close>

definition data_set_filter ::
  "data_compiled_rule \<Rightarrow> eval_context \<Rightarrow> heap \<Rightarrow> (eval_context \<times> heap) option" where
  "data_set_filter compiled ctx h =
     (if allowed_fields compiled = [] then Some (ctx, h)
      else do {
        h1 \<leftarrow> (if word_at OFF_FIELD_FILTER (params ctx) \<noteq> 0
               then heap_free_arr (word_at OFF_FIELD_FILTER (params ctx))
                      (unat (word_at OFF_FIELD_FILTER_COUNT (params ctx))) h
               else Some h);
        fs \<leftarrow> those (allowed_fields compiled);
        let (p, h2) = heap_array (map cstr fs) h1;
        Some (ctx\<lparr>params := put_word OFF_FIELD_FILTER_COUNT (word_of_nat (length fs))
                             (put_word OFF_FIELD_FILTER p (params ctx))\<rparr>, h2)
      })"

definition data_evaluate ::
  "libs \<Rightarrow> eval_context option \<Rightarrow> policy option \<Rightarrow> data_compiled_rule option \<Rightarrow> bool \<Rightarrow> heap \<Rightarrow>
     (sso_error \<times> bool \<times> eval_context option \<times> heap) option" where
  "data_evaluate L ctx policy compiled_rule result h =
     (case (ctx, compiled_rule) of
        (Some c, Some compiled) \<Rightarrow>
          if str_at OFF_RESOURCE_TYPE (params c) \<noteq> dr_resource_type compiled
          then Some (SSO_ERR_NOT_FOUND, result, ctx, h)
          else do {
            err \<leftarrow> (if word_at OFF_RECORD (params c) \<noteq> 0
                   then do {
                     text \<leftarrow> h_str h (word_at OFF_RECORD (params c));
                     case yyjson_read L text of
                       None \<Rightarrow> Some SSO_ERR_RULE_INVALID
                     | Some record_root \<Rightarrow>
                         Some (data_conditions_loop L (Some record_root) (conditions compiled))
                   }
                   else Some SSO_OK);
            if err \<noteq> SSO_OK then Some (err, result, ctx, h)
            else do {
              (c', h') \<leftarrow> data_set_filter compiled c h;
              Some (SSO_OK, dr_is_allow compiled, Some c', h')
            }
          }
      | _ \<Rightarrow> Some (SSO_ERR_INVALID_PARAM, result, ctx, h))"

definition data_validate :: "libs \<Rightarrow> string option \<Rightarrow> sso_error" where
  "data_validate L rules_json = validate_json L rules_json"

section \<open>Row conditions\<close>

text \<open>What one condition asks of a record.\<close>

definition cond_holds :: "libs \<Rightarrow> json option \<Rightarrow> data_condition \<Rightarrow> bool" where
  "cond_holds L record_root c =
     (case value_text L (yyjson_obj_get record_root (dc_field c)) of
        None \<Rightarrow> False
      | Some actual \<Rightarrow> apply_data_op L (dc_op c) actual (dc_expected c))"

lemma value_text_None [simp]: "value_text L None = None"
  by (simp add: value_text_def)

lemma data_conditions_loop_all:
  "data_conditions_loop L r cs = (if list_all (cond_holds L r) cs then SSO_OK else SSO_ERR_NOT_FOUND)"
  by (induction cs) (auto simp: Let_def cond_holds_def split: option.splits)

lemma those_map_Some [simp]: "those (map Some xs) = Some xs"
  by (induction xs) auto

lemma those_None_iff: "those xs = None \<longleftrightarrow> None \<in> set xs"
  by (induction xs) (auto split: option.splits)

text \<open>The context's filter pointer is either NULL or a filter of the heap that is at least as
  long as the context says.\<close>

definition filter_wf :: "eval_context \<Rightarrow> heap \<Rightarrow> bool" where
  "filter_wf c h \<longleftrightarrow> length (params c) = PARAMS_SIZE \<and> h_next h \<noteq> 0 \<and>
     (word_at OFF_FIELD_FILTER (params c) \<noteq> 0 \<longrightarrow>
       (\<exists>ss. h_arr h (word_at OFF_FIELD_FILTER (params c)) = Some ss \<and>
             unat (word_at OFF_FIELD_FILTER_COUNT (params c)) \<le> length ss))"

lemma free_filter_ok:
  assumes "filter_wf c h"
  shows "\<exists>h1. (if word_at OFF_FIELD_FILTER (params c) \<noteq> 0
               then heap_free_arr (word_at OFF_FIELD_FILTER (params c))
                      (unat (word_at OFF_FIELD_FILTER_COUNT (params c))) h
               else Some h) = Some h1 \<and> h_next h1 = h_next h \<and> h_str h1 = h_str h"
  using assms by (auto simp: filter_wf_def heap_free_arr_def)

lemma data_set_filter_spec:
  assumes "filter_wf c h" "allowed_fields r = map Some fs" "fs \<noteq> []" "length fs < 2 ^ 64"
  shows "\<exists>c' h'. data_set_filter r c h = Some (c', h') \<and>
     h_arr h' (word_at OFF_FIELD_FILTER (params c')) = Some (map cstr fs) \<and>
     unat (word_at OFF_FIELD_FILTER_COUNT (params c')) = length fs \<and>
     word_at OFF_RECORD (params c') = word_at OFF_RECORD (params c) \<and>
     h_str h' = h_str h"
proof -
  obtain h1 where h1: "(if word_at OFF_FIELD_FILTER (params c) \<noteq> 0
               then heap_free_arr (word_at OFF_FIELD_FILTER (params c))
                      (unat (word_at OFF_FIELD_FILTER_COUNT (params c))) h
               else Some h) = Some h1" "h_next h1 = h_next h" "h_str h1 = h_str h"
    using free_filter_ok [OF assms(1)] by blast
  have len: "length (params c) = PARAMS_SIZE" using assms(1) by (simp add: filter_wf_def)
  show ?thesis
    using assms(2-4) len unfolding data_set_filter_def h1(1)
    by (simp add: heap_array_def put_word_def word_at_put_word [unfolded put_word_def]
        word_at_put_bytes_below word_at_put_bytes_above h1(3) unsigned_of_nat take_bit_nat_eq_self)
qed

section \<open>Properties\<close>

text \<open>With a record that parses, the data strategy answers \<open>SSO_OK\<close> exactly when the resource
  type is the rule's and every condition holds of the record. Then the verdict is the rule's
  effect, and the context's field filter is a fresh array with exactly the rule's allowed
  fields. Otherwise it answers \<open>SSO_ERR_NOT_FOUND\<close> and changes neither result, context nor heap.\<close>

theorem data_evaluate_rows:
  assumes "filter_wf c h" "word_at OFF_RECORD (params c) = p" "p \<noteq> 0" "h_str h p = Some txt"
    and "yyjson_read L txt = Some rec" "allowed_fields r = map Some fs" "fs \<noteq> []" "length fs < 2 ^ 64"
    and "granted = (str_at OFF_RESOURCE_TYPE (params c) = dr_resource_type r \<and>
                    list_all (cond_holds L (Some rec)) (conditions r))"
  shows "\<exists>c' h'.
    data_evaluate L (Some c) pol (Some r) b h =
      Some (if granted then (SSO_OK, dr_is_allow r, Some c', h') else (SSO_ERR_NOT_FOUND, b, Some c, h)) \<and>
    h_arr h' (word_at OFF_FIELD_FILTER (params c')) = Some (map cstr fs) \<and>
    unat (word_at OFF_FIELD_FILTER_COUNT (params c')) = length fs"
proof -
  obtain c' h' where "data_set_filter r c h = Some (c', h')"
    "h_arr h' (word_at OFF_FIELD_FILTER (params c')) = Some (map cstr fs)"
    "unat (word_at OFF_FIELD_FILTER_COUNT (params c')) = length fs"
    using data_set_filter_spec [OF assms(1,6,7,8)] by blast
  then show ?thesis using assms
    by (intro exI [of _ c'] exI [of _ h']) (simp add: data_evaluate_def data_conditions_loop_all)
qed

theorem data_evaluate_rows_witness:
  "\<exists>c' h'.
    data_evaluate (sample_libs [(''doc'', JObj [(''dept'', JStr ''eng'')])])
      (Some (sample_ctx (put_word OFF_RECORD 16 (str_buf ''order'')))) None
      (Some \<lparr>dr_resource_type = ''order'', conditions = [\<lparr>dc_field = ''dept'', dc_op = ''eq'', dc_expected = ''eng''\<rparr>],
             allowed_fields = [Some ''name''], dr_is_allow = True\<rparr>) False
      (heap_empty\<lparr>h_str := [16 \<mapsto> ''doc'']\<rparr>) = Some (SSO_OK, True, Some c', h') \<and>
    h_arr h' (word_at OFF_FIELD_FILTER (params c')) = Some [''name''] \<and>
    unat (word_at OFF_FIELD_FILTER_COUNT (params c')) = 1"
proof -
  let ?L = "sample_libs [(''doc'', JObj [(''dept'', JStr ''eng'')])]"
  let ?c = "sample_ctx (put_word OFF_RECORD 16 (str_buf ''order''))"
  let ?h = "heap_empty\<lparr>h_str := [16 \<mapsto> ''doc'']\<rparr>"
  let ?r = "\<lparr>dr_resource_type = ''order'', conditions = [\<lparr>dc_field = ''dept'', dc_op = ''eq'', dc_expected = ''eng''\<rparr>],
             allowed_fields = [Some ''name''], dr_is_allow = True\<rparr>"
  have ty: "str_at OFF_RESOURCE_TYPE (params ?c) = ''order''"
    by (simp add: put_word_def str_at_put_bytes_below str_at_str_buf nul_free_def)
  have wf: "filter_wf ?c ?h"
    by (simp add: filter_wf_def put_word_def word_at_put_bytes_above word_at_str_buf heap_empty_def)
  have "list_all (cond_holds ?L (Some (JObj [(''dept'', JStr ''eng'')]))) (conditions ?r)"
    by (simp add: cond_holds_def value_text_def apply_data_op_def sso_strlcpy_def cstr_def)
  with data_evaluate_rows [OF wf, of 16 "''doc''" ?L "JObj [(''dept'', JStr ''eng'')]" ?r "[''name'']" True None False] ty
  show ?thesis by (simp add: word_at_put_word cstr_def)
qed



end
