(* ===== verification/Libc_Numbers.thy ===== *)
theory Libc_Numbers
  imports Sso_Core
begin

text \<open>
  The number conversions of the C library that the location strategy and the token code use:
  \<^verbatim>\<open>%u\<close> of \<^verbatim>\<open>sscanf\<close>, \<^verbatim>\<open>atoi\<close>, and decimal printing. As in glibc, both scans go through
  \<^verbatim>\<open>strtoul\<close> and \<^verbatim>\<open>strtol\<close> on 64 bits, which skip white space, take a sign and saturate, and
  the result is then truncated to 32 bits.
\<close>

definition is_space :: "char \<Rightarrow> bool" where
  "is_space c = (c \<in> set [CHR '' '', CHR 0x09, CHR 0x0A, CHR 0x0B, CHR 0x0C, CHR 0x0D])"

definition is_digit :: "char \<Rightarrow> bool" where
  "is_digit c = (48 \<le> (of_char c :: nat) \<and> (of_char c :: nat) \<le> 57)"

definition digit_val :: "char \<Rightarrow> nat" where
  "digit_val c = of_char c - 48"

definition digits_val :: "string \<Rightarrow> nat" where
  "digits_val ds = foldl (\<lambda>acc c. 10 * acc + digit_val c) 0 ds"

text \<open>White space, an optional sign, digits: the sign, the digits and what follows them.\<close>

definition scan_number :: "string \<Rightarrow> bool \<times> string \<times> string" where
  "scan_number s =
     (let s1 = dropWhile is_space s;
          neg = (s1 \<noteq> [] \<and> hd s1 = CHR ''-'');
          s2 = (if s1 \<noteq> [] \<and> (hd s1 = CHR ''-'' \<or> hd s1 = CHR ''+'') then tl s1 else s1)
      in (neg, takeWhile is_digit s2, dropWhile is_digit s2))"

definition sscanf_u :: "string \<Rightarrow> (32 word \<times> string) option" where
  "sscanf_u s =
     (case scan_number s of (neg, ds, rest) \<Rightarrow>
        if ds = [] then None
        else let n = digits_val ds;
                 ul = (if n \<ge> 2 ^ 64 then - 1 else if neg then - word_of_nat n else word_of_nat n) :: 64 word
             in Some (ucast ul, rest))"

definition atoi :: "string \<Rightarrow> 32 word" where
  "atoi s =
     (case scan_number s of (neg, ds, rest) \<Rightarrow>
        let v = (if neg then - int (digits_val ds) else int (digits_val ds))
        in word_of_int (max (- (2 ^ 63)) (min (2 ^ 63 - 1) v)))"

fun dec :: "nat \<Rightarrow> string" where
  "dec n = (if n < 10 then [char_of (48 + n)] else dec (n div 10) @ [char_of (48 + n mod 10)])"

declare dec.simps [simp del]

lemma digits_val_snoc: "digits_val (ds @ [c]) = 10 * digits_val ds + digit_val c"
  by (simp add: digits_val_def)

lemma digit_char:
  assumes "d < 10"
  shows "is_digit (char_of (48 + d))" "digit_val (char_of (48 + d)) = d"
  using assms by (simp_all add: is_digit_def digit_val_def of_char_of)

lemma dec_digits: "\<forall>c \<in> set (dec n). is_digit c" and dec_not_Nil [simp]: "dec n \<noteq> []"
  and digits_val_dec [simp]: "digits_val (dec n) = n"
proof (induction n rule: dec.induct)
  case (1 n)
  have d: "n mod 10 < 10" by simp
  { case 1 then show ?case using "1.IH"(1) digit_char [of n] digit_char [OF d] by (subst dec.simps) auto }
  { case 2 then show ?case by (subst dec.simps) auto }
  { case 3 then show ?case
      using "1.IH"(3) digit_char [of n] digit_char [OF d]
      by (subst dec.simps) (auto simp: digits_val_snoc, simp add: digits_val_def) }
qed

lemma digit_not_sign: "is_digit c \<Longrightarrow> \<not> is_space c \<and> c \<noteq> CHR ''-'' \<and> c \<noteq> CHR ''+'' \<and> c \<noteq> CHR ''.'' \<and> c \<noteq> CHR ''/'' \<and> c \<noteq> NUL"
  by (auto simp: is_digit_def is_space_def)

lemma length_dec: "0 < k \<Longrightarrow> n < 10 ^ k \<Longrightarrow> length (dec n) \<le> k"
proof (induction n arbitrary: k rule: dec.induct)
  case (1 n)
  show ?case
  proof (cases "n < 10")
    case False
    with 1(3) obtain m where k: "k = Suc m" "0 < m" by (cases k; cases "k - 1") auto
    then have "n div 10 < 10 ^ m" using 1(3) by (simp add: less_mult_imp_div_less)
    then show ?thesis using 1(1) [OF False k(2)] False k by (subst dec.simps) simp
  qed (use 1(2) in \<open>simp add: dec.simps\<close>)
qed

lemma takeWhile_dec:
  assumes "rest = [] \<or> \<not> is_digit (hd rest)"
  shows "takeWhile is_digit (dec n @ rest) = dec n" "dropWhile is_digit (dec n @ rest) = rest"
  using assms dec_digits [of n]
  by (auto simp: takeWhile_append2 dropWhile_append2) (cases rest; simp)+

lemma scan_number_dec:
  assumes "rest = [] \<or> \<not> is_digit (hd rest)"
  shows "scan_number (dec n @ rest) = (False, dec n, rest)"
proof -
  obtain c cs where c: "dec n = c # cs" by (cases "dec n") auto
  with dec_digits [of n] have "is_digit c" by simp
  with digit_not_sign [of c] c have "dropWhile is_space (dec n @ rest) = dec n @ rest"
    and "hd (dec n @ rest) \<noteq> CHR ''-''" "hd (dec n @ rest) \<noteq> CHR ''+''" by simp_all
  then show ?thesis by (simp add: scan_number_def Let_def takeWhile_dec [OF assms])
qed

lemma sscanf_u_dec:
  assumes "rest = [] \<or> \<not> is_digit (hd rest)" "n < 2 ^ 32"
  shows "sscanf_u (dec n @ rest) = Some (word_of_nat n, rest)"
proof -
  have "n < 2 ^ 64" using assms(2) by simp
  then show ?thesis
    by (simp add: sscanf_u_def scan_number_dec [OF assms(1)] Let_def)
       (simp add: word_eq_iff_unsigned unsigned_ucast_eq unsigned_of_nat take_bit_nat_eq_self assms(2))
qed

lemma atoi_dec:
  assumes "n < 2 ^ 63" shows "atoi (dec n) = word_of_nat n"
  using assms scan_number_dec [of "[]" n] by (simp add: atoi_def)

section \<open>Printing\<close>

text \<open>\<^verbatim>\<open>%02x\<close> and \<^verbatim>\<open>%llx\<close>.\<close>

definition hex_digit :: "nat \<Rightarrow> char" where
  "hex_digit n = (if n < 10 then char_of (48 + n) else char_of (87 + n))"

definition hex_byte :: "char \<Rightarrow> string" where
  "hex_byte c = [hex_digit (of_char c div 16), hex_digit (of_char c mod 16)]"

fun hex :: "nat \<Rightarrow> string" where
  "hex n = (if n < 16 then [hex_digit n] else hex (n div 16) @ [hex_digit (n mod 16)])"

declare hex.simps [simp del]

text \<open>\<^verbatim>\<open>snprintf\<close> into a buffer of \<open>n\<close> bytes.\<close>

definition snprintf :: "nat \<Rightarrow> string \<Rightarrow> string" where
  "snprintf n s = take (n - 1) s"

text \<open>\<^verbatim>\<open>strtoull(p, &p, 10)\<close>: the value, saturated, and the rest. Nothing to convert leaves the pointer.\<close>

definition strtoull :: "string \<Rightarrow> 64 word \<times> string" where
  "strtoull s =
     (case scan_number s of (neg, ds, rest) \<Rightarrow>
        if ds = [] then (0, s)
        else let n = digits_val ds
             in (if n \<ge> 2 ^ 64 then - 1 else if neg then - word_of_nat n else word_of_nat n, rest))"

lemma strtoull_dec:
  assumes "rest = [] \<or> \<not> is_digit (hd rest)"
  shows "strtoull (dec (unat w) @ rest) = (w, rest)"
  using unsigned_less [of w, where 'a = nat] by (simp add: strtoull_def scan_number_dec [OF assms] Let_def)

end
