(* ===== verification/Strategy_Loc.thy ===== *)
theory Strategy_Loc
  imports Strategy_Base Libc_Numbers
begin

text \<open>
  The location strategy, \<^verbatim>\<open>strategies/loc_perm.c\<close>: rules on the client's IPv4 address (a CIDR
  block or an exact string) or country. Addresses are 32-bit words, as in the code.
\<close>

section \<open>CIDR helpers\<close>

definition ip_to_uint :: "string \<Rightarrow> 32 word" where
  "ip_to_uint s =
     (case do {
        (a, s1) \<leftarrow> sscanf_u s;
        s1' \<leftarrow> (if s1 \<noteq> [] \<and> hd s1 = CHR ''.'' then Some (tl s1) else None);
        (b, s2) \<leftarrow> sscanf_u s1';
        s2' \<leftarrow> (if s2 \<noteq> [] \<and> hd s2 = CHR ''.'' then Some (tl s2) else None);
        (c, s3) \<leftarrow> sscanf_u s2';
        s3' \<leftarrow> (if s3 \<noteq> [] \<and> hd s3 = CHR ''.'' then Some (tl s3) else None);
        (d, _) \<leftarrow> sscanf_u s3';
        Some (push_bit 24 a OR push_bit 16 b OR push_bit 8 c OR d)
      } of None \<Rightarrow> 0 | Some w \<Rightarrow> w)"

definition parse_cidr :: "string \<Rightarrow> (32 word \<times> 32 word) option" where
  "parse_cidr str =
     (let buf = strlcpy str 255
      in if CHR ''/'' \<notin> set buf then None
         else Some (ip_to_uint (takeWhile (\<lambda>c. c \<noteq> CHR ''/'') buf),
                    atoi (tl (dropWhile (\<lambda>c. c \<noteq> CHR ''/'') buf))))"

definition ip_matches_cidr :: "string \<Rightarrow> string \<Rightarrow> 32 word \<Rightarrow> 32 word \<Rightarrow> bool" where
  "ip_matches_cidr ip_str cidr_str cidr_network cidr_prefix =
     (let ip = ip_to_uint ip_str
      in if ip = 0 then False
         else if cidr_prefix > 0
         then (let mask = (if cidr_prefix \<ge> 32 then - 1 else push_bit (32 - unat cidr_prefix) (- 1))
               in ip AND mask = cidr_network AND mask)
         else (case parse_cidr cidr_str of
                 None \<Rightarrow> ip_str = cidr_str
               | Some (net, pre) \<Rightarrow>
                   (let mask = (if pre \<ge> 32 then - 1
                                else if pre \<noteq> 0 then push_bit (32 - unat pre) (- 1) else 0)
                    in ip AND mask = net AND mask)))"

section \<open>Rules\<close>

datatype loc_rule_type = LOC_TYPE_IP_CIDR | LOC_TYPE_GEO | LOC_TYPE_EXACT

record loc_rule_item =
  lo_type :: loc_rule_type
  lo_value :: string
  cidr_network :: "32 word"
  cidr_prefix :: "32 word"
  lo_is_allow :: bool

type_synonym loc_compiled_rule = "loc_rule_item list"

definition loc_zero_item :: loc_rule_item where
  "loc_zero_item = \<lparr>lo_type = LOC_TYPE_IP_CIDR, lo_value = [], cidr_network = 0, cidr_prefix = 0,
                    lo_is_allow = False\<rparr>"

definition loc_compile_item :: "json \<Rightarrow> loc_rule_item" where
  "loc_compile_item item =
     (if yyjson_is_str (Some item)
      then loc_zero_item\<lparr>lo_value := sso_strlcpy [] (yyjson_get_str (Some item)) 255,
                         lo_type := LOC_TYPE_EXACT, lo_is_allow := True\<rparr>
      else if yyjson_is_obj (Some item)
      then (let type_v = yyjson_obj_get (Some item) ''type'';
                value_v = yyjson_obj_get (Some item) ''value'';
                effect_v = yyjson_obj_get (Some item) ''effect'';
                it1 = (if yyjson_is_str value_v
                       then loc_zero_item\<lparr>lo_value := sso_strlcpy [] (yyjson_get_str value_v) 255\<rparr>
                       else loc_zero_item);
                it2 = (if yyjson_is_str type_v \<and> yyjson_get_str type_v = Some ''geo''
                       then it1\<lparr>lo_type := LOC_TYPE_GEO\<rparr>
                       else (case parse_cidr (lo_value it1) of
                               None \<Rightarrow> it1\<lparr>lo_type := LOC_TYPE_EXACT\<rparr>
                             | Some (net, pre) \<Rightarrow>
                                 it1\<lparr>lo_type := LOC_TYPE_IP_CIDR, cidr_network := net, cidr_prefix := pre\<rparr>))
            in it2\<lparr>lo_is_allow := (\<not> (yyjson_is_str effect_v \<and> yyjson_get_str effect_v = Some ''deny''))\<rparr>)
      else loc_zero_item)"

definition loc_compile :: "libs \<Rightarrow> string option \<Rightarrow> sso_error \<times> loc_compiled_rule option" where
  "loc_compile L rules_json =
     (case rules_json of
        None \<Rightarrow> (SSO_ERR_INVALID_PARAM, None)
      | Some s \<Rightarrow>
          (case yyjson_read L (cstr s) of
             None \<Rightarrow> (SSO_ERR_RULE_INVALID, None)
           | Some doc_root \<Rightarrow>
               (let locations = yyjson_obj_get (Some doc_root) ''locations'';
                    location_list = (if yyjson_is_arr locations then locations
                                     else yyjson_obj_get (Some doc_root) ''allowed_ips'')
                in if \<not> yyjson_is_arr location_list then (SSO_ERR_RULE_INVALID, None)
                   else (SSO_OK, Some (map loc_compile_item (yyjson_arr_elems location_list))))))"

definition loc_item_matches :: "string \<times> string \<Rightarrow> loc_rule_item \<Rightarrow> bool" where
  "loc_item_matches req i =
     (case lo_type i of
        LOC_TYPE_IP_CIDR \<Rightarrow> ip_matches_cidr (fst req) (lo_value i) (cidr_network i) (cidr_prefix i)
      | LOC_TYPE_EXACT \<Rightarrow> fst req = lo_value i
      | LOC_TYPE_GEO \<Rightarrow> snd req \<noteq> [] \<and> snd req = lo_value i)"

fun loc_walk :: "loc_rule_item list \<Rightarrow> string \<times> string \<Rightarrow> bool \<Rightarrow> sso_error \<times> bool" where
  "loc_walk [] req result = (SSO_ERR_NOT_FOUND, result)"
| "loc_walk (i # is) req result =
     (if loc_item_matches req i then (SSO_OK, lo_is_allow i) else loc_walk is req result)"

definition loc_evaluate ::
  "eval_context option \<Rightarrow> policy option \<Rightarrow> loc_compiled_rule option \<Rightarrow> bool \<Rightarrow> sso_error \<times> bool" where
  "loc_evaluate ctx policy compiled_rule result =
     (case (ctx, compiled_rule) of
        (Some c, Some compiled) \<Rightarrow>
          (let ip = str_at OFF_SOURCE_IP (params c);
               country = str_at OFF_GEO_COUNTRY (params c)
           in if ip = [] then (SSO_ERR_NOT_FOUND, result)
              else loc_walk compiled (ip, country) result)
      | _ \<Rightarrow> (SSO_ERR_INVALID_PARAM, result))"

definition loc_validate :: "libs \<Rightarrow> string option \<Rightarrow> sso_error" where
  "loc_validate L rules_json = validate_json L rules_json"

section \<open>Masks and dotted quads\<close>

lemma unat_drop_bit: "unat (drop_bit k x) = unat x div 2 ^ k" for x :: "32 word"
  by (subst unat_drop_bit_eq) (simp add: drop_bit_eq_div)

lemma unat_less_32: "unat x < 2 ^ 32" for x :: "32 word"
  using unsigned_less [of x, where 'a = nat] by simp

lemma unat_small: "n < 2 ^ 32 \<Longrightarrow> unat (word_of_nat n :: 32 word) = n"
  by (simp add: unsigned_of_nat take_bit_nat_eq_self)

lemma mask_eq_div:
  fixes a b :: "32 word"
  assumes "k \<le> 32"
  shows "a AND push_bit k (- 1) = b AND push_bit k (- 1) \<longleftrightarrow> unat a div 2 ^ k = unat b div 2 ^ k"
proof -
  have and_mask: "x AND push_bit k (- 1) = push_bit k (drop_bit k x)" for x :: "32 word"
    by (rule bit_word_eqI) (auto simp: bit_simps)
  have "drop_bit k (push_bit k (drop_bit k x)) = drop_bit k x" for x :: "32 word"
    by (rule bit_word_eqI) (auto simp: bit_simps dest: bit_imp_le_length)
  then have "a AND push_bit k (- 1) = b AND push_bit k (- 1) \<longleftrightarrow> drop_bit k a = drop_bit k b"
    unfolding and_mask by metis
  also have "\<dots> \<longleftrightarrow> unat a div 2 ^ k = unat b div 2 ^ k"
    by (metis unat_drop_bit word_unat_eq_iff)
  finally show ?thesis .
qed

definition quad :: "nat \<Rightarrow> nat \<Rightarrow> nat \<Rightarrow> nat \<Rightarrow> string" where
  "quad a b c d = dec a @ CHR ''.'' # dec b @ CHR ''.'' # dec c @ CHR ''.'' # dec d"

lemma not_digit_seps [simp]: "\<not> is_digit (CHR ''.'')" "\<not> is_digit (CHR ''/'')"
  by (simp_all add: is_digit_def)

lemma or_low_eq_plus:
  fixes x y :: "32 word"
  assumes "unat y < 2 ^ k"
  shows "push_bit k x OR y = push_bit k x + y"
proof -
  have "\<not> bit y n" if "k \<le> n" for n
  proof -
    have "unat y < 2 ^ n" using assms that by (meson le_trans less_le_trans one_le_numeral power_increasing)
    then have "\<not> bit (unat y) n" by (simp add: bit_iff_odd)
    then show ?thesis by (simp add: bit_unsigned_iff)
  qed
  then show ?thesis by (intro disjunctive_add [symmetric]) (auto simp: bit_simps)
qed

lemma unat_quad_word:
  assumes "a < 256" "b < 256" "c < 256" "d < 256"
  shows "unat (push_bit 24 (word_of_nat a) OR push_bit 16 (word_of_nat b) OR push_bit 8 (word_of_nat c) OR
           (word_of_nat d :: 32 word)) = a * 2 ^ 24 + b * 2 ^ 16 + c * 2 ^ 8 + d"
proof -
  have pb: "push_bit k (word_of_nat x) = (word_of_nat (x * 2 ^ k) :: 32 word)" for k x
    by (simp add: push_bit_eq_mult)
  have step: "push_bit k (word_of_nat x) OR word_of_nat y = (word_of_nat (x * 2 ^ k + y) :: 32 word)"
    if "y < 2 ^ k" "y < 2 ^ 32" for k x y
    using or_low_eq_plus [of "word_of_nat y" k "word_of_nat x"] that by (simp add: unat_small pb)
  have "push_bit 8 (word_of_nat c) OR word_of_nat d = (word_of_nat (c * 2 ^ 8 + d) :: 32 word)"
    by (rule step) (use assms in simp_all)
  moreover have "push_bit 16 (word_of_nat b) OR word_of_nat (c * 2 ^ 8 + d) =
      (word_of_nat (b * 2 ^ 16 + (c * 2 ^ 8 + d)) :: 32 word)"
    by (rule step) (use assms in simp_all)
  moreover have "push_bit 24 (word_of_nat a) OR word_of_nat (b * 2 ^ 16 + (c * 2 ^ 8 + d)) =
      (word_of_nat (a * 2 ^ 24 + (b * 2 ^ 16 + (c * 2 ^ 8 + d))) :: 32 word)"
    by (rule step) (use assms in simp_all)
  moreover have "unat (word_of_nat (a * 2 ^ 24 + (b * 2 ^ 16 + (c * 2 ^ 8 + d))) :: 32 word) =
      a * 2 ^ 24 + (b * 2 ^ 16 + (c * 2 ^ 8 + d))"
    by (rule unat_small) (use assms in simp)
  ultimately show ?thesis by (simp only: add.assoc)
qed

lemma ip_to_uint_quad:
  assumes "a < 256" "b < 256" "c < 256" "d < 256"
  shows "ip_to_uint (quad a b c d) =
    push_bit 24 (word_of_nat a) OR push_bit 16 (word_of_nat b) OR push_bit 8 (word_of_nat c) OR word_of_nat d"
  using assms sscanf_u_dec [of "[]" d]
  by (simp add: ip_to_uint_def quad_def sscanf_u_dec)

lemma ip_matches_parsed:
  assumes "parse_cidr cidr = Some (net, pre)"
  shows "ip_matches_cidr ip cidr net pre \<longleftrightarrow>
     ip_to_uint ip \<noteq> 0 \<and>
     unat (ip_to_uint ip) div 2 ^ (32 - unat pre) = unat net div 2 ^ (32 - unat pre)"
proof -
  have b: "unat x div 4294967296 = 0" for x :: "32 word" using unat_less_32 [of x] by simp
  consider "pre = 0" | "pre \<ge> 32" | "pre \<noteq> 0" "\<not> pre \<ge> 32" by blast
  then show ?thesis
  proof cases
    case 1
    then show ?thesis using b by (simp add: ip_matches_cidr_def assms)
  next
    case 2
    then have "pre \<noteq> 0" "unat pre \<ge> 32" by (auto simp: word_le_nat_alt)
    with 2 show ?thesis by (simp add: ip_matches_cidr_def word_gt_0 Let_def word_unat_eq_iff)
  next
    case 3
    then show ?thesis using mask_eq_div [of "32 - unat pre" "ip_to_uint ip" net]
      by (auto simp: ip_matches_cidr_def word_gt_0 Let_def)
  qed
qed

definition quad_val :: "nat \<Rightarrow> nat \<Rightarrow> nat \<Rightarrow> nat \<Rightarrow> nat" where
  "quad_val a b c d = a * 2 ^ 24 + b * 2 ^ 16 + c * 2 ^ 8 + d"

lemma length_dec_le3: "n < 1000 \<Longrightarrow> length (dec n) \<le> 3"
  using dec.simps [of n] dec.simps [of "n div 10"] dec.simps [of "n div 10 div 10"]
  by (auto split: if_splits)

lemma dec_no_sep: "c \<in> set (dec n) \<Longrightarrow> c \<noteq> CHR ''/'' \<and> c \<noteq> NUL"
  using dec_digits [of n] digit_not_sign by blast

lemma quad_no_sep: "c \<in> set (quad a b c' d) \<Longrightarrow> c \<noteq> CHR ''/'' \<and> c \<noteq> NUL"
  using dec_no_sep by (auto simp: quad_def)

lemma parse_cidr_quad:
  assumes "a < 256" "b < 256" "c < 256" "d < 256" "p \<le> 32"
  shows "parse_cidr (quad a b c d @ ''/'' @ dec p) = Some (ip_to_uint (quad a b c d), word_of_nat p)"
proof -
  let ?s = "quad a b c d @ ''/'' @ dec p"
  have "length (quad a b c d) \<le> 15" "length (dec p) \<le> 3"
    using assms length_dec_le3 [of a] length_dec_le3 [of b] length_dec_le3 [of c] length_dec_le3 [of d]
      length_dec_le3 [of p] by (auto simp: quad_def)
  moreover have "nul_free ?s" using quad_no_sep dec_no_sep by (fastforce simp: nul_free_def)
  ultimately have buf: "strlcpy ?s 255 = ?s" by (intro strlcpy_id) auto
  have "\<forall>x \<in> set (quad a b c d). x \<noteq> CHR ''/''" using quad_no_sep by blast
  then have "takeWhile (\<lambda>c. c \<noteq> CHR ''/'') ?s = quad a b c d"
    and "dropWhile (\<lambda>c. c \<noteq> CHR ''/'') ?s = ''/'' @ dec p"
    by (simp_all add: takeWhile_append2 dropWhile_append2)
  with buf assms(5) show ?thesis by (simp add: parse_cidr_def atoi_dec)
qed

lemma loc_string_items_exact:
  "loc_item_matches (ip, country) (loc_compile_item (JStr s)) \<longleftrightarrow> ip = strlcpy s 255"
  by (simp add: loc_item_matches_def loc_compile_item_def sso_strlcpy_def)

interpretation lwalk: item_walk loc_walk loc_item_matches "\<lambda>_. lo_is_allow"
  by unfold_locales auto

section \<open>Properties\<close>

text \<open>C18: a CIDR rule \<open>n1.n2.n3.n4/p\<close> with octets below 256 and \<open>p\<close> at most 32 is parsed to its
  network and prefix, and then matches a (non-zero) address exactly when the two agree on the
  top \<open>p\<close> bits.\<close>

theorem cidr_match_correct:
  assumes "n1 < 256" "n2 < 256" "n3 < 256" "n4 < 256" "p \<le> 32"
    and "a < 256" "b < 256" "c < 256" "d < 256" "quad_val a b c d \<noteq> 0"
  shows "\<exists>net pre. parse_cidr (quad n1 n2 n3 n4 @ ''/'' @ dec p) = Some (net, pre) \<and>
    (ip_matches_cidr (quad a b c d) (quad n1 n2 n3 n4 @ ''/'' @ dec p) net pre \<longleftrightarrow>
     quad_val a b c d div 2 ^ (32 - p) = quad_val n1 n2 n3 n4 div 2 ^ (32 - p))"
proof -
  have ip: "unat (ip_to_uint (quad a b c d)) = quad_val a b c d"
    using ip_to_uint_quad unat_quad_word assms by (simp add: quad_val_def)
  have net: "unat (ip_to_uint (quad n1 n2 n3 n4)) = quad_val n1 n2 n3 n4"
    using ip_to_uint_quad unat_quad_word assms by (simp add: quad_val_def)
  have "ip_to_uint (quad a b c d) \<noteq> 0" using ip assms(10) by auto
  moreover have "unat (word_of_nat p :: 32 word) = p" using assms(5) by (simp add: unat_small)
  moreover note pc = parse_cidr_quad [OF assms(1-5)]
  ultimately show ?thesis using ip_matches_parsed [OF pc, of "quad a b c d"]
    by (simp add: pc ip net)
qed

theorem cidr_match_correct_witness:
  "\<exists>net pre. parse_cidr (quad 10 0 0 0 @ ''/'' @ dec 8) = Some (net, pre) \<and>
     ip_matches_cidr (quad 10 1 2 3) (quad 10 0 0 0 @ ''/'' @ dec 8) net pre"
  using cidr_match_correct [of 10 0 0 0 8 10 1 2 3] by (simp add: quad_val_def)

end
