(* ===== verification/Strategy_Abac.thy ===== *)
theory Strategy_Abac
  imports Strategy_Base
begin

text \<open>
  The attribute strategy, \<^verbatim>\<open>strategies/abac_perm.c\<close>: conditions on subject, resource and
  environment attributes, combined by \<^verbatim>\<open>and\<close> or \<^verbatim>\<open>or\<close>.
\<close>

section \<open>Operators\<close>

definition parse_number :: "libs \<Rightarrow> string \<Rightarrow> dbl" where
  "parse_number L s = (if s = [] then Fin 0 else fst (strtod_fn L s))"

text \<open>\<^verbatim>\<open>strtok\<close> over the separator \<^verbatim>\<open>,\<close> yields the non-empty fields.\<close>

definition strtok_fields :: "string \<Rightarrow> string list" where
  "strtok_fields s = filter (\<lambda>f. f \<noteq> []) (split_on (CHR '','') s)"

definition trim_spaces :: "string \<Rightarrow> string" where
  "trim_spaces item =
     rev (dropWhile (\<lambda>c. c = CHR '' '') (rev (dropWhile (\<lambda>c. c = CHR '' '') item)))"

fun in_loop :: "string \<Rightarrow> string list \<Rightarrow> bool" where
  "in_loop actual [] = False"
| "in_loop actual (item # items) = (if actual = trim_spaces item then True else in_loop actual items)"

definition apply_operator :: "libs \<Rightarrow> string \<Rightarrow> string \<Rightarrow> string \<Rightarrow> bool" where
  "apply_operator L op actual expected =
     (if op = ''eq'' then actual = expected
      else if op = ''neq'' then actual \<noteq> expected
      else if op = ''contains'' then strstr actual expected \<noteq> None
      else if op = ''in'' then in_loop actual (strtok_fields (strlcpy expected 1024))
      else let av = parse_number L actual; ev = parse_number L expected
           in if op = ''gt'' then dbl_lt ev av
              else if op = ''gte'' then dbl_le ev av
              else if op = ''lt'' then dbl_lt av ev
              else if op = ''lte'' then dbl_le av ev
              else False)"

section \<open>Rules\<close>

datatype abac_source = ABAC_SRC_SUBJECT | ABAC_SRC_RESOURCE | ABAC_SRC_ENVIRONMENT

record abac_condition =
  attr_name :: string
  ac_source :: abac_source
  ac_op :: string
  expected_value :: string

record abac_compiled_rule =
  ac_conditions :: "abac_condition list"
  is_or_logic :: bool
  is_allow_effect :: bool

definition abac_compile_cond :: "libs \<Rightarrow> json \<Rightarrow> abac_condition" where
  "abac_compile_cond L item =
     (let src = yyjson_obj_get (Some item) ''source'';
          attr = yyjson_obj_get (Some item) ''attr'';
          op_v = yyjson_obj_get (Some item) ''op'';
          val = yyjson_obj_get (Some item) ''value''
      in \<lparr>attr_name = (if yyjson_is_str attr then sso_strlcpy [] (yyjson_get_str attr) 63 else []),
          ac_source = (if yyjson_is_str src
                       then (if yyjson_get_str src = Some ''resource'' then ABAC_SRC_RESOURCE
                             else if yyjson_get_str src = Some ''environment'' then ABAC_SRC_ENVIRONMENT
                             else ABAC_SRC_SUBJECT)
                       else ABAC_SRC_SUBJECT),
          ac_op = (if yyjson_is_str op_v then sso_strlcpy [] (yyjson_get_str op_v) 15 else ''eq''),
          expected_value = (if yyjson_is_str val then sso_strlcpy [] (yyjson_get_str val) 255
                            else if yyjson_is_num val then take 254 (fmt_g L (yyjson_get_num val))
                            else [])\<rparr>)"

definition abac_compile :: "libs \<Rightarrow> string option \<Rightarrow> sso_error \<times> abac_compiled_rule option" where
  "abac_compile L rules_json =
     (case rules_json of
        None \<Rightarrow> (SSO_ERR_INVALID_PARAM, None)
      | Some s \<Rightarrow>
          (case yyjson_read L (cstr s) of
             None \<Rightarrow> (SSO_ERR_RULE_INVALID, None)
           | Some doc_root \<Rightarrow>
               (let conds = yyjson_obj_get (Some doc_root) ''conditions'';
                    logic = yyjson_obj_get (Some doc_root) ''logic'';
                    effect_v = yyjson_obj_get (Some doc_root) ''effect''
                in if \<not> yyjson_is_arr conds then (SSO_ERR_RULE_INVALID, None)
                   else (SSO_OK, Some
                     \<lparr>ac_conditions = map (abac_compile_cond L) (yyjson_arr_elems conds),
                      is_or_logic = (yyjson_is_str logic \<and> yyjson_get_str logic = Some ''or''),
                      is_allow_effect = (\<not> (yyjson_is_str effect_v \<and> yyjson_get_str effect_v = Some ''deny''))\<rparr>))))"

section \<open>Evaluation\<close>

definition get_attr_from_yyjson :: "libs \<Rightarrow> json option \<Rightarrow> string \<Rightarrow> nat \<Rightarrow> string option" where
  "get_attr_from_yyjson L src_root name buf_size =
     (let item = yyjson_obj_get src_root name
      in if yyjson_is_str item then Some (sso_strlcpy [] (yyjson_get_str item) buf_size)
         else if yyjson_is_num item then Some (take (buf_size - 1) (fmt_g L (yyjson_get_num item)))
         else None)"

record abac_roots =
  subject_root :: "json option"
  resource_root :: "json option"
  env_root :: "json option"

definition abac_read_roots :: "libs \<Rightarrow> eval_context \<Rightarrow> abac_roots" where
  "abac_read_roots L c =
     (let subj = str_at OFF_SUBJECT_ATTRS (params c);
          res = str_at OFF_RESOURCE_ATTRS (params c);
          env = cstr (environment c)
      in \<lparr>subject_root = (if subj \<noteq> [] then yyjson_read L subj else None),
          resource_root = (if res \<noteq> [] then yyjson_read L res else None),
          env_root = (if env \<noteq> [] then yyjson_read L env else None)\<rparr>)"

definition abac_matched :: "libs \<Rightarrow> abac_roots \<Rightarrow> abac_condition \<Rightarrow> bool" where
  "abac_matched L roots cond =
     (let source_root = (case ac_source cond of
                           ABAC_SRC_RESOURCE \<Rightarrow> resource_root roots
                         | ABAC_SRC_ENVIRONMENT \<Rightarrow> env_root roots
                         | ABAC_SRC_SUBJECT \<Rightarrow> subject_root roots)
      in case get_attr_from_yyjson L source_root (attr_name cond) 512 of
           None \<Rightarrow> False
         | Some actual \<Rightarrow> apply_operator L (ac_op cond) actual (expected_value cond))"

text \<open>The loop over the conditions: \<open>any_matched\<close> and \<open>all_matched\<close> when it ends or breaks.\<close>

fun abac_loop :: "libs \<Rightarrow> abac_roots \<Rightarrow> bool \<Rightarrow> abac_condition list \<Rightarrow> bool \<times> bool" where
  "abac_loop L roots or_logic [] = (False, True)"
| "abac_loop L roots or_logic (cond # cs) =
     (let matched = abac_matched L roots cond
      in if or_logic
         then (if matched then (True, True) else abac_loop L roots or_logic cs)
         else (if \<not> matched then (False, False) else abac_loop L roots or_logic cs))"

definition abac_evaluate ::
  "libs \<Rightarrow> eval_context option \<Rightarrow> policy option \<Rightarrow> abac_compiled_rule option \<Rightarrow> bool \<Rightarrow> sso_error \<times> bool" where
  "abac_evaluate L ctx policy compiled_rule result =
     (case (ctx, policy, compiled_rule) of
        (Some c, Some _, Some compiled) \<Rightarrow>
          (let (any_matched, all_matched) =
                 abac_loop L (abac_read_roots L c) (is_or_logic compiled) (ac_conditions compiled);
               conditions_met = (if is_or_logic compiled then any_matched else all_matched)
           in if conditions_met then (SSO_OK, is_allow_effect compiled) else (SSO_ERR_NOT_FOUND, result))
      | _ \<Rightarrow> (SSO_ERR_INVALID_PARAM, result))"

definition abac_validate :: "libs \<Rightarrow> string option \<Rightarrow> sso_error" where
  "abac_validate L rules_json = validate_json L rules_json"

section \<open>Conditions and operators\<close>

lemma abac_loop_any: "fst (abac_loop L roots True cs) = list_ex (abac_matched L roots) cs"
  by (induction cs) (auto simp: Let_def)

lemma abac_loop_all: "snd (abac_loop L roots False cs) = list_all (abac_matched L roots) cs"
  by (induction cs) (auto simp: Let_def)

lemma in_loop_mem: "in_loop actual items \<longleftrightarrow> actual \<in> trim_spaces ` set items"
  by (induction items) auto

lemma dropWhile_space_id: "s = [] \<or> hd s \<noteq> CHR '' '' \<Longrightarrow> dropWhile (\<lambda>c. c = CHR '' '') s = s"
  by (cases s) auto

lemma trim_spaces_pad:
  assumes "s \<noteq> []" "hd s \<noteq> CHR '' ''" "last s \<noteq> CHR '' ''"
  shows "trim_spaces (replicate m (CHR '' '') @ s @ replicate n (CHR '' '')) = s"
proof -
  have skip: "dropWhile (\<lambda>c. c = CHR '' '') (replicate k (CHR '' '') @ t) = dropWhile (\<lambda>c. c = CHR '' '') t"
    for k t by (induction k) auto
  have "dropWhile (\<lambda>c. c = CHR '' '') (s @ replicate n (CHR '' '')) = s @ replicate n (CHR '' '')"
    using assms by (intro dropWhile_space_id) simp
  moreover have "dropWhile (\<lambda>c. c = CHR '' '') (rev s) = rev s"
    using assms by (intro dropWhile_space_id) (simp add: hd_rev)
  ultimately show ?thesis by (simp add: trim_spaces_def skip)
qed

section \<open>Properties\<close>

text \<open>Attribute rules hold exactly when all their conditions do, or with \<^verbatim>\<open>or\<close> logic when
  some condition does; then the verdict is the rule's effect, and otherwise
  \<open>SSO_ERR_NOT_FOUND\<close> with the result left alone. The early exits of the loop do not show.\<close>

theorem abac_evaluate_spec:
  "abac_evaluate L (Some c) (Some pol) (Some r) b =
     (if (if is_or_logic r then list_ex (abac_matched L (abac_read_roots L c)) (ac_conditions r)
          else list_all (abac_matched L (abac_read_roots L c)) (ac_conditions r))
      then (SSO_OK, is_allow_effect r) else (SSO_ERR_NOT_FOUND, b))"
  by (cases "is_or_logic r") (simp_all add: abac_evaluate_def case_prod_beta abac_loop_any abac_loop_all)

text \<open>The \<^verbatim>\<open>in\<close> operator on a comma-separated list, whose items may be padded with blanks on
  both sides, is membership: a value occurs in the list exactly when it is one of the items.\<close>

theorem in_operator_membership:
  assumes "flds = map (\<lambda>(m, s, n). replicate m (CHR '' '') @ s @ replicate n (CHR '' '')) items"
    and "\<forall>(m, s, n) \<in> set items. s \<noteq> [] \<and> hd s \<noteq> CHR '' '' \<and> last s \<noteq> CHR '' ''"
    and "split_on (CHR '','') expected = flds" "nul_free expected" "length expected < 1024"
  shows "apply_operator L ''in'' actual expected \<longleftrightarrow> actual \<in> (\<lambda>(m, s, n). s) ` set items"
proof -
  have "filter (\<lambda>f. f \<noteq> []) flds = flds"
    using assms(1,2) by (auto intro!: filter_True)
  then have "apply_operator L ''in'' actual expected \<longleftrightarrow> actual \<in> trim_spaces ` set flds"
    using assms(3-5) by (simp add: apply_operator_def in_loop_mem strtok_fields_def strlcpy_id)
  also have "trim_spaces ` set flds = (\<lambda>(m, s, n). s) ` set items"
    unfolding assms(1) set_map image_image
    using assms(2) trim_spaces_pad by (intro image_cong) auto
  finally show ?thesis .
qed

theorem in_operator_membership_witness:
  "apply_operator (sample_libs []) ''in'' ''eng'' '' ops , eng'' \<longleftrightarrow>
   ''eng'' \<in> (\<lambda>(m, s, n). s) ` set [(1 :: nat, ''ops'', 1 :: nat), (1, ''eng'', 0)]"
  by (rule in_operator_membership [OF refl]) (simp_all add: nul_free_def)

end
