(* ===== verification/Strategy_Lbac.thy ===== *)
theory Strategy_Lbac
  imports Strategy_Base
begin

text \<open>
  The label strategy, \<^verbatim>\<open>strategies/lbac_perm.c\<close>: a rule grants or denies a resource label, provided
  the user's comma-separated label list contains it.
\<close>

section \<open>Labels\<close>

text \<open>The loop of \<^verbatim>\<open>label_in_list\<close> from a position \<open>p\<close> of the list: \<open>prev\<close> is the character before
  \<open>p\<close>, or \<open>None\<close> when \<open>p\<close> is the start of the list. With an empty label \<^verbatim>\<open>p += len\<close> does not
  advance, so the loop may run forever, which is the result \<open>None\<close>.\<close>

partial_function (option) label_scan :: "string \<Rightarrow> char option \<Rightarrow> string \<Rightarrow> bool option" where
  "label_scan label prev p =
     (case strstr p label of
        None \<Rightarrow> Some False
      | Some q \<Rightarrow>
          (let k = length p - length q;
               before = (if k = 0 then prev else Some (p ! (k - 1)));
               after = drop (length label) q;
               start_ok = (before = None \<or> before = Some (CHR '',''));
               end_ok = (after = [] \<or> hd after = CHR '','')
           in if start_ok \<and> end_ok then Some True
              else label_scan label (if label = [] then before else Some (last label)) after))"

definition label_in_list :: "string \<Rightarrow> string \<Rightarrow> bool option" where
  "label_in_list label lst = label_scan label None lst"

section \<open>Rules\<close>

record lbac_rule_item =
  label_name :: string
  li_is_allow :: bool

type_synonym lbac_compiled_rule = "lbac_rule_item list"

definition lbac_compile_item :: "json \<Rightarrow> lbac_rule_item" where
  "lbac_compile_item item =
     (if yyjson_is_str (Some item)
      then \<lparr>label_name = sso_strlcpy [] (yyjson_get_str (Some item)) 63, li_is_allow = True\<rparr>
      else if yyjson_is_obj (Some item)
      then (let name_v = yyjson_obj_get (Some item) ''name'';
                effect_v = yyjson_obj_get (Some item) ''effect''
            in \<lparr>label_name = (if yyjson_is_str name_v then sso_strlcpy [] (yyjson_get_str name_v) 63 else []),
                li_is_allow = (\<not> (yyjson_is_str effect_v \<and> yyjson_get_str effect_v = Some ''deny''))\<rparr>)
      else \<lparr>label_name = [], li_is_allow = False\<rparr>)"

definition lbac_compile :: "libs \<Rightarrow> string option \<Rightarrow> sso_error \<times> lbac_compiled_rule option" where
  "lbac_compile L rules_json =
     (case rules_json of
        None \<Rightarrow> (SSO_ERR_INVALID_PARAM, None)
      | Some s \<Rightarrow>
          (case yyjson_read L (cstr s) of
             None \<Rightarrow> (SSO_ERR_RULE_INVALID, None)
           | Some doc_root \<Rightarrow>
               (let labels = yyjson_obj_get (Some doc_root) ''labels'';
                    levels = (if yyjson_is_arr labels then labels
                              else yyjson_obj_get (Some doc_root) ''clearance_levels'')
                in if \<not> yyjson_is_arr levels then (SSO_ERR_RULE_INVALID, None)
                   else (SSO_OK, Some (map lbac_compile_item (yyjson_arr_elems levels))))))"

fun lbac_walk ::
  "lbac_rule_item list \<Rightarrow> string \<Rightarrow> string \<Rightarrow> bool \<Rightarrow> (sso_error \<times> bool) option" where
  "lbac_walk [] user_labels resource_label result = Some (SSO_ERR_NOT_FOUND, result)"
| "lbac_walk (i # is) user_labels resource_label result =
     (if label_name i \<noteq> resource_label then lbac_walk is user_labels resource_label result
      else do {
        found \<leftarrow> label_in_list resource_label user_labels;
        if \<not> found then Some (SSO_ERR_NOT_FOUND, result) else Some (SSO_OK, li_is_allow i)
      })"

definition lbac_evaluate ::
  "eval_context option \<Rightarrow> policy option \<Rightarrow> lbac_compiled_rule option \<Rightarrow> bool \<Rightarrow> (sso_error \<times> bool) option" where
  "lbac_evaluate ctx policy compiled_rule result =
     (case (ctx, compiled_rule) of
        (Some c, Some compiled) \<Rightarrow>
          (let user_labels = str_at OFF_USER_LABELS (params c);
               resource_label = str_at OFF_RESOURCE_LABEL (params c)
           in if user_labels = [] \<or> resource_label = [] then Some (SSO_ERR_NOT_FOUND, result)
              else lbac_walk compiled user_labels resource_label result)
      | _ \<Rightarrow> Some (SSO_ERR_INVALID_PARAM, result))"

definition lbac_validate :: "libs \<Rightarrow> string option \<Rightarrow> sso_error" where
  "lbac_validate L rules_json = validate_json L rules_json"

section \<open>The label scan is membership\<close>

text \<open>A scan that starts in the middle of a field skips that field.\<close>

definition fields_from :: "char option \<Rightarrow> string \<Rightarrow> string list" where
  "fields_from prev p =
     (if prev = None \<or> prev = Some (CHR '','') then split_on (CHR '','') p
      else tl (split_on (CHR '','') p))"

lemma label_scan_None:
  "strstr p label = None \<Longrightarrow> label_scan label prev p = Some False"
  by (subst label_scan.simps) simp

lemma label_scan_Some:
  assumes "p = pre @ label @ after" "strstr p label = Some (label @ after)" "label \<noteq> []"
  shows "label_scan label prev p =
    (let before = (if pre = [] then prev else Some (last pre))
     in if (before = None \<or> before = Some (CHR '','')) \<and> (after = [] \<or> hd after = CHR '','')
        then Some True else label_scan label (Some (last label)) after)"
  using assms
  by (subst label_scan.simps) (auto simp: Let_def last_conv_nth nth_append)

lemma fields_from_step:
  assumes "CHR '','' \<notin> set label" "\<not> sublist label pre"
  shows "label \<in> set (fields_from prev (pre @ label @ after)) \<longleftrightarrow>
    ((pre = [] \<and> (prev = None \<or> prev = Some (CHR '','')) \<or> pre \<noteq> [] \<and> last pre = CHR '','') \<and>
      (after = [] \<or> hd after = CHR '',''))
    \<or> label \<in> set (tl (split_on (CHR '','') after))"
proof -
  let ?F = "split_on (CHR '','') pre" and ?G = "split_on (CHR '','') after"
  have app: "split_on (CHR '','') (pre @ label @ after) =
      butlast ?F @ (last ?F @ label @ hd ?G) # tl ?G"
    by (simp add: split_on_append split_on_no_sep [OF assms(1)])
  have nF: "label \<notin> set (butlast ?F)"
    using assms(2) split_on_sublist in_set_butlastD by metis
  have mid: "label = last ?F @ label @ hd ?G \<longleftrightarrow> last ?F = [] \<and> hd ?G = []"
    by (rule append_sandwich)
  show ?thesis
  proof (cases "tl ?F = []")
    case True
    then have F: "?F = [last ?F]" "CHR '','' \<notin> set pre"
      by (metis last.simps list.collapse split_on_not_Nil, simp add: split_on_single)
    then have "pre \<noteq> [] \<Longrightarrow> last pre \<noteq> CHR '',''" by (metis last_in_set)
    moreover have "butlast ?F = []" using F(1) by (metis butlast.simps(2))
    ultimately show ?thesis using mid
      by (auto simp: fields_from_def app split_on_last_Nil split_on_hd_Nil)
  next
    case False
    then have "butlast ?F \<noteq> []" by (cases ?F) (auto split: if_splits)
    moreover have "label \<notin> set (tl (butlast ?F))" using nF by (metis list.set_sel(2) calculation)
    moreover have "pre \<noteq> []" using False by auto
    ultimately show ?thesis using nF mid
      by (auto simp: fields_from_def app split_on_last_Nil split_on_hd_Nil)
  qed
qed

lemma label_scan_fields:
  assumes "label \<noteq> []" "CHR '','' \<notin> set label"
  shows "label_scan label prev p = Some (label \<in> set (fields_from prev p))"
proof (induction "length p" arbitrary: prev p rule: less_induct)
  case less
  show ?case
  proof (cases "strstr p label")
    case None
    then have "\<not> sublist label p" using strstr_contains by blast
    then have "label \<notin> set (split_on (CHR '','') p)" using split_on_sublist by blast
    then have "label \<notin> set (fields_from prev p)"
      by (auto simp: fields_from_def dest: list.set_sel(2) [rotated])
    with None show ?thesis by (simp add: label_scan_None)
  next
    case (Some q)
    from strstr_first [OF Some assms(1)] obtain pre after where
      p: "p = pre @ label @ after" "q = label @ after" "\<not> sublist label pre" by blast
    have "last label \<noteq> CHR '',''" using assms by (metis last_in_set)
    then have "label_scan label (Some (last label)) after = Some (label \<in> set (tl (split_on (CHR '','') after)))"
      using less [of after] p(1) assms(1) by (simp add: fields_from_def)
    with label_scan_Some [OF p(1) _ assms(1)] Some p(2) fields_from_step [OF assms(2) p(3)] show ?thesis
      by (auto simp: p(1) Let_def)
  qed
qed

text \<open>Whatever the label, the scan returns as long as the label is not empty.\<close>

lemma label_scan_total: "label \<noteq> [] \<Longrightarrow> \<exists>b. label_scan label prev p = Some b"
proof (induction "length p" arbitrary: prev p rule: less_induct)
  case less
  show ?case
  proof (cases "strstr p label")
    case (Some q)
    from strstr_first [OF Some less(2)] obtain pre after where
      p: "p = pre @ label @ after" "q = label @ after" by blast
    then have "\<exists>b. label_scan label (Some (last label)) after = Some b" using less by simp
    with label_scan_Some [OF p(1) _ less(2)] Some p(2) show ?thesis by (auto simp: Let_def)
  qed (auto simp: label_scan_None)
qed

lemma lbac_walk_find:
  assumes "resource_label \<noteq> []" "CHR '','' \<notin> set resource_label"
  shows "lbac_walk is user_labels resource_label b =
    Some (case find (\<lambda>i. label_name i = resource_label) is of
            None \<Rightarrow> (SSO_ERR_NOT_FOUND, b)
          | Some i \<Rightarrow> if resource_label \<in> set (split_on (CHR '','') user_labels)
                      then (SSO_OK, li_is_allow i) else (SSO_ERR_NOT_FOUND, b))"
  by (induction "is") (auto simp: label_in_list_def label_scan_fields [OF assms] fields_from_def)

lemma lbac_walk_total: "resource_label \<noteq> [] \<Longrightarrow> lbac_walk is user_labels resource_label b \<noteq> None"
proof (induction "is")
  case (Cons i "is")
  from label_scan_total [OF Cons(2), of None user_labels] Cons show ?case
    by (auto simp: label_in_list_def)
qed simp

section \<open>Properties\<close>



lemma lbac_evaluate_defined: "lbac_evaluate ctx pol rule b \<noteq> None"
  by (simp add: lbac_evaluate_def Let_def lbac_walk_total split: option.split del: not_None_eq)

text \<open>Label evaluation always returns. The scan of \<open>label_in_list\<close> would run forever on an empty
  label, but the guard of \<open>lbac_evaluate\<close> keeps such labels out.\<close>

theorem lbac_evaluate_total: "lbac_evaluate ctx pol rule b \<noteq> None"
  by (rule lbac_evaluate_defined)

end
