(* ===== verification/Perm_Cache.thy ===== *)
theory Perm_Cache
  imports Storage Strategy_Func Strategy_Api Strategy_Data Strategy_Loc Strategy_Abac Strategy_Lbac
begin

text \<open>
  The state of the permission engine of \<^verbatim>\<open>src/permission.c\<close>: the strategy registry, the cache of
  compiled rules (open addressing, 256 slots), the cache of resolved policies per user (L1, 128
  slots) and the cache of results (L2, 1024 slots), with their invalidation. A C array is a
  function of the index; every index the code uses is reduced modulo the array's size. The
  read-write lock is not modelled: the definitions are the sequential behaviour of each
  operation.
\<close>

section \<open>Compiled rules and strategies\<close>

text \<open>The role strategy's rules; its evaluation, which needs the managers, comes with them.\<close>

record rbac_rule_item =
  ri_role_name :: string
  ri_is_allow :: bool

type_synonym rbac_compiled_rule = "rbac_rule_item list"

text \<open>A compiled rule is a \<^verbatim>\<open>void*\<close> in the code; the constructor records what it points to.\<close>

datatype compiled_rule =
    CFunc func_compiled_rule
  | CApi api_compiled_rule
  | CData data_compiled_rule
  | CRbac rbac_compiled_rule
  | CLoc loc_compiled_rule
  | CAbac abac_compiled_rule
  | CLbac lbac_compiled_rule

text \<open>What the engine's context gives a strategy: the backend, its state, and whether there is a
  role manager. Evaluation returns the error, the out-parameter, the context and the heap, or
  nothing when it is undefined.\<close>

record 's store_view =
  sv_backend :: "'s storage_backend option"
  sv_store :: 's
  sv_role_mgr :: bool

type_synonym 's compile_fn = "libs \<Rightarrow> string option \<Rightarrow> sso_error \<times> compiled_rule option"
type_synonym 's evaluate_fn =
  "libs \<Rightarrow> 's store_view option \<Rightarrow> eval_context option \<Rightarrow> policy option \<Rightarrow> compiled_rule option \<Rightarrow> bool \<Rightarrow> heap \<Rightarrow>
     (sso_error \<times> bool \<times> eval_context option \<times> heap) option"

record 's permission_strategy =
  ps_type :: perm_strategy_type
  ps_name :: string
  ps_needs_context :: bool
  ps_compile :: "'s compile_fn option"
  ps_evaluate :: "'s evaluate_fn option"

section \<open>Engine state\<close>

abbreviation (input) "MAX_STRATEGIES \<equiv> 16 :: nat"
abbreviation (input) "MAX_POLICY_CACHE \<equiv> 256 :: nat"
abbreviation (input) "RESULT_CACHE_SIZE \<equiv> 1024 :: nat"
abbreviation (input) "POLICY_RES_CACHE_SIZE \<equiv> 128 :: nat"

record policy_cache_entry =
  ce_policy_id :: sso_id
  ce_compiled :: "compiled_rule option"
  ce_strategy_type :: perm_strategy_type

record policy_res_cache_entry =
  rc_user_id :: sso_id
  rc_policies :: "policy list"
  rc_timestamp :: "64 word"
  rc_valid :: bool

record result_cache_entry =
  re_user_id :: sso_id
  re_params_hash :: "32 word"
  re_allowed :: bool
  re_timestamp :: "64 word"
  re_valid :: bool

record engine_metrics =
  total_evals :: "64 word"
  cache_hits_l1 :: "64 word"
  cache_hits_l2 :: "64 word"
  allows :: "64 word"
  denys :: "64 word"
  total_duration_us :: "64 word"

record 's permission_engine =
  strategies :: "'s permission_strategy list"
  cache :: "nat \<Rightarrow> policy_cache_entry"
  cache_count :: nat
  res_cache :: "nat \<Rightarrow> policy_res_cache_entry"
  result_cache :: "nat \<Rightarrow> result_cache_entry"
  metrics :: engine_metrics

definition empty_engine :: "'s permission_engine" where
  "empty_engine =
     \<lparr>strategies = [],
      cache = (\<lambda>_. \<lparr>ce_policy_id = 0, ce_compiled = None, ce_strategy_type = PERM_STRATEGY_UNKNOWN 0\<rparr>),
      cache_count = 0,
      res_cache = (\<lambda>_. \<lparr>rc_user_id = 0, rc_policies = [], rc_timestamp = 0, rc_valid = False\<rparr>),
      result_cache = (\<lambda>_. \<lparr>re_user_id = 0, re_params_hash = 0, re_allowed = False, re_timestamp = 0, re_valid = False\<rparr>),
      metrics = \<lparr>total_evals = 0, cache_hits_l1 = 0, cache_hits_l2 = 0, allows = 0, denys = 0, total_duration_us = 0\<rparr>\<rparr>"

section \<open>Hashing\<close>

fun hash_loop :: "32 word \<Rightarrow> char list \<Rightarrow> 32 word" where
  "hash_loop h [] = h"
| "hash_loop h (c # cs) = hash_loop (push_bit 5 h + h + of_char c) cs"

definition hash_params :: "eval_context \<Rightarrow> 32 word" where
  "hash_params ctx = hash_loop 5381 (params ctx)"

section \<open>Strategy registry\<close>

definition perm_engine_get_strategy :: "'s permission_engine \<Rightarrow> perm_strategy_type \<Rightarrow> 's permission_strategy option" where
  "perm_engine_get_strategy E t = find (\<lambda>st. ps_type st = t) (strategies E)"

definition perm_engine_register_strategy ::
  "'s permission_engine option \<Rightarrow> 's permission_strategy option \<Rightarrow> sso_error \<times> 's permission_engine option" where
  "perm_engine_register_strategy eng strat =
     (case (eng, strat) of
        (Some E, Some st) \<Rightarrow>
          if list_ex (\<lambda>x. ps_type x = ps_type st) (strategies E) then (SSO_ERR_STRATEGY_CONFLICT, eng)
          else if length (strategies E) \<ge> MAX_STRATEGIES then (SSO_ERR_OUT_OF_MEMORY, eng)
          else (SSO_OK, Some (E\<lparr>strategies := strategies E @ [st]\<rparr>))
      | _ \<Rightarrow> (SSO_ERR_INVALID_PARAM, eng))"

fun remove_first_type :: "perm_strategy_type \<Rightarrow> 's permission_strategy list \<Rightarrow> 's permission_strategy list option" where
  "remove_first_type t [] = None"
| "remove_first_type t (st # sts) =
     (if ps_type st = t then Some sts else map_option ((#) st) (remove_first_type t sts))"

definition perm_engine_unregister_strategy ::
  "'s permission_engine option \<Rightarrow> perm_strategy_type \<Rightarrow> sso_error \<times> 's permission_engine option" where
  "perm_engine_unregister_strategy eng t =
     (case eng of
        None \<Rightarrow> (SSO_ERR_INVALID_PARAM, None)
      | Some E \<Rightarrow>
          (case remove_first_type t (strategies E) of
             None \<Rightarrow> (SSO_ERR_STRATEGY_NOT_FOUND, eng)
           | Some sts \<Rightarrow> (SSO_OK, Some (E\<lparr>strategies := sts\<rparr>))))"

section \<open>The compiled-rule cache\<close>

text \<open>The probe loops visit at most all 256 slots, starting at the id modulo 256; the first
  argument counts the slots left.\<close>

fun probe_get :: "nat \<Rightarrow> (nat \<Rightarrow> policy_cache_entry) \<Rightarrow> sso_id \<Rightarrow> nat \<Rightarrow> compiled_rule option" where
  "probe_get 0 c pid idx = None"
| "probe_get (Suc n) c pid idx =
     (if ce_policy_id (c idx) = pid then ce_compiled (c idx)
      else if ce_policy_id (c idx) = 0 then None
      else probe_get n c pid ((idx + 1) mod MAX_POLICY_CACHE))"

definition slot :: "sso_id \<Rightarrow> nat" where
  "slot pid = unat pid mod MAX_POLICY_CACHE"

definition perm_engine_get_cached_rule :: "'s permission_engine \<Rightarrow> sso_id \<Rightarrow> compiled_rule option" where
  "perm_engine_get_cached_rule E pid =
     (if cache_count E = 0 then None else probe_get MAX_POLICY_CACHE (cache E) pid (slot pid))"

fun probe_put :: "nat \<Rightarrow> (nat \<Rightarrow> policy_cache_entry) \<Rightarrow> sso_id \<Rightarrow> nat \<Rightarrow> nat option" where
  "probe_put 0 c pid idx = None"
| "probe_put (Suc n) c pid idx =
     (if ce_policy_id (c idx) = 0 \<or> ce_policy_id (c idx) = pid then Some idx
      else probe_put n c pid ((idx + 1) mod MAX_POLICY_CACHE))"

definition perm_engine_cache_rule ::
  "'s permission_engine \<Rightarrow> sso_id \<Rightarrow> perm_strategy_type \<Rightarrow> compiled_rule option \<Rightarrow> 's permission_engine" where
  "perm_engine_cache_rule E pid t compiled =
     (if cache_count E \<ge> MAX_POLICY_CACHE then E
      else case probe_put MAX_POLICY_CACHE (cache E) pid (slot pid) of
             None \<Rightarrow> E
           | Some idx \<Rightarrow>
               E\<lparr>cache := (cache E)(idx := \<lparr>ce_policy_id = pid, ce_compiled = compiled, ce_strategy_type = t\<rparr>),
                 cache_count := (if ce_policy_id (cache E idx) = 0 then cache_count E + 1 else cache_count E)\<rparr>)"

fun probe_del :: "nat \<Rightarrow> (nat \<Rightarrow> policy_cache_entry) \<Rightarrow> sso_id \<Rightarrow> nat \<Rightarrow> nat option" where
  "probe_del 0 c pid idx = None"
| "probe_del (Suc n) c pid idx =
     (if ce_policy_id (c idx) = pid then Some idx
      else if ce_policy_id (c idx) = 0 then None
      else probe_del n c pid ((idx + 1) mod MAX_POLICY_CACHE))"

section \<open>Invalidation\<close>

definition perm_engine_cache_invalidate_user :: "'s permission_engine \<Rightarrow> sso_id \<Rightarrow> 's permission_engine" where
  "perm_engine_cache_invalidate_user E uid =
     E\<lparr>result_cache := (\<lambda>i. if i < RESULT_CACHE_SIZE \<and> re_valid (result_cache E i) \<and> re_user_id (result_cache E i) = uid
                            then (result_cache E i)\<lparr>re_valid := False\<rparr> else result_cache E i),
       res_cache := (\<lambda>i. if i < POLICY_RES_CACHE_SIZE \<and> rc_valid (res_cache E i) \<and> rc_user_id (res_cache E i) = uid
                         then (res_cache E i)\<lparr>rc_valid := False\<rparr> else res_cache E i)\<rparr>"

definition clear_results :: "'s permission_engine \<Rightarrow> 's permission_engine" where
  "clear_results E =
     E\<lparr>result_cache := (\<lambda>i. if i < RESULT_CACHE_SIZE then (result_cache E i)\<lparr>re_valid := False\<rparr> else result_cache E i),
       res_cache := (\<lambda>i. if i < POLICY_RES_CACHE_SIZE then (res_cache E i)\<lparr>rc_valid := False\<rparr> else res_cache E i)\<rparr>"

definition perm_engine_cache_invalidate_policy :: "'s permission_engine \<Rightarrow> sso_id \<Rightarrow> 's permission_engine" where
  "perm_engine_cache_invalidate_policy E pid =
     clear_results
       (case probe_del MAX_POLICY_CACHE (cache E) pid (slot pid) of
          None \<Rightarrow> E
        | Some idx \<Rightarrow> E\<lparr>cache := (cache E)(idx := (cache E idx)\<lparr>ce_policy_id := 0\<rparr>),
                        cache_count := (cache_count E + (2 ^ 64 - 1)) mod 2 ^ 64\<rparr>)"

definition perm_engine_cache_invalidate_all :: "'s permission_engine \<Rightarrow> 's permission_engine" where
  "perm_engine_cache_invalidate_all E =
     clear_results (E\<lparr>cache := (\<lambda>i. if i < MAX_POLICY_CACHE then (cache E i)\<lparr>ce_policy_id := 0\<rparr> else cache E i),
                      cache_count := 0\<rparr>)"

section \<open>The registry\<close>

definition registry_wf :: "'s permission_engine \<Rightarrow> bool" where
  "registry_wf E \<longleftrightarrow> distinct (map ps_type (strategies E)) \<and> length (strategies E) \<le> MAX_STRATEGIES"

lemma registry_wf_empty: "registry_wf empty_engine"
  by (simp add: registry_wf_def empty_engine_def)

lemma register_keeps_wf:
  "registry_wf E \<Longrightarrow> perm_engine_register_strategy (Some E) st = (err, Some E') \<Longrightarrow> registry_wf E'"
  by (force simp: registry_wf_def perm_engine_register_strategy_def list_ex_iff split: option.splits if_splits)

lemma find_type_append:
  "find (\<lambda>x. ps_type x = t) (xs @ ys) =
     (case find (\<lambda>x. ps_type x = t) xs of None \<Rightarrow> find (\<lambda>x. ps_type x = t) ys | r \<Rightarrow> r)"
  by (induction xs) auto

lemma remove_first_type_map:
  "remove_first_type t sts = Some sts' \<Longrightarrow> map ps_type sts' = remove1 t (map ps_type sts)"
  by (induction sts arbitrary: sts') (auto split: if_splits)

lemma remove_first_type_find:
  "distinct (map ps_type sts) \<Longrightarrow> remove_first_type t sts = Some sts' \<Longrightarrow>
   find (\<lambda>x. ps_type x = u) sts' = (if u = t then None else find (\<lambda>x. ps_type x = u) sts)"
proof (induction sts arbitrary: sts')
  case (Cons st sts)
  show ?case
  proof (cases "ps_type st = t")
    case True
    with Cons.prems have "t \<notin> ps_type ` set sts" by auto
    then have "\<forall>x. x \<in> set sts \<longrightarrow> ps_type x \<noteq> t" by blast
    then have "find (\<lambda>x. ps_type x = t) sts = None" by (simp add: find_None_iff)
    with True Cons.prems(2) show ?thesis by simp
  next
    case False
    with Cons show ?thesis by (auto split: if_splits)
  qed
qed simp

section \<open>Direct-mapped use of the rule cache\<close>

text \<open>As long as the ids in use differ modulo 256, every entry sits in its own slot and the cache
  is a finite map. \<open>cache_wf S E\<close> says this for the id set \<open>S\<close>.\<close>

definition occupied :: "'s permission_engine \<Rightarrow> nat set" where
  "occupied E = {i. i < MAX_POLICY_CACHE \<and> ce_policy_id (cache E i) \<noteq> 0}"

definition cache_wf :: "sso_id set \<Rightarrow> 's permission_engine \<Rightarrow> bool" where
  "cache_wf S E \<longleftrightarrow> cache_count E = card (occupied E) \<and>
     (\<forall>i \<in> occupied E. ce_policy_id (cache E i) \<in> S \<and> slot (ce_policy_id (cache E i)) = i)"

definition direct_ids :: "sso_id set \<Rightarrow> bool" where
  "direct_ids S \<longleftrightarrow> 0 \<notin> S \<and> inj_on slot S"

definition rule_view :: "'s permission_engine \<Rightarrow> sso_id \<Rightarrow> compiled_rule option" where
  "rule_view E pid = (if ce_policy_id (cache E (slot pid)) = pid then ce_compiled (cache E (slot pid)) else None)"

lemma slot_less [simp]: "slot pid < MAX_POLICY_CACHE"
  by (simp add: slot_def)

lemma finite_occupied [simp]: "finite (occupied E)"
  by (simp add: occupied_def)

lemma card_occupied: "card (occupied E) \<le> MAX_POLICY_CACHE"
  using card_mono [of "{..<MAX_POLICY_CACHE}" "occupied E"] by (auto simp: occupied_def)

lemma slot_inj: "direct_ids S \<Longrightarrow> p \<in> S \<Longrightarrow> q \<in> S \<Longrightarrow> slot p = slot q \<longleftrightarrow> p = q"
  by (auto simp: direct_ids_def inj_on_def)

lemma slot_content:
  assumes "cache_wf S E" "direct_ids S" "pid \<in> S"
  shows "ce_policy_id (cache E (slot pid)) = 0 \<or> ce_policy_id (cache E (slot pid)) = pid"
proof (cases "slot pid \<in> occupied E")
  case True
  with assms have "ce_policy_id (cache E (slot pid)) \<in> S" "slot (ce_policy_id (cache E (slot pid))) = slot pid"
    by (auto simp: cache_wf_def)
  with assms(2,3) show ?thesis using slot_inj by metis
next
  case False
  then show ?thesis by (simp add: occupied_def)
qed

lemma probe_numeral:
  "probe_get (numeral k) c pid idx =
     (if ce_policy_id (c idx) = pid then ce_compiled (c idx)
      else if ce_policy_id (c idx) = 0 then None
      else probe_get (pred_numeral k) c pid ((idx + 1) mod MAX_POLICY_CACHE))"
  "probe_put (numeral k) c pid idx =
     (if ce_policy_id (c idx) = 0 \<or> ce_policy_id (c idx) = pid then Some idx
      else probe_put (pred_numeral k) c pid ((idx + 1) mod MAX_POLICY_CACHE))"
  "probe_del (numeral k) c pid idx =
     (if ce_policy_id (c idx) = pid then Some idx
      else if ce_policy_id (c idx) = 0 then None
      else probe_del (pred_numeral k) c pid ((idx + 1) mod MAX_POLICY_CACHE))"
  by (simp_all add: numeral_eq_Suc)

lemma probe_get_step:
  "ce_policy_id (c idx) = pid \<or> ce_policy_id (c idx) = 0 \<Longrightarrow>
   probe_get MAX_POLICY_CACHE c pid idx = (if ce_policy_id (c idx) = pid then ce_compiled (c idx) else None)"
  by (subst probe_numeral) auto

lemma probe_put_step:
  "ce_policy_id (c idx) = pid \<or> ce_policy_id (c idx) = 0 \<Longrightarrow> probe_put MAX_POLICY_CACHE c pid idx = Some idx"
  by (subst probe_numeral) auto

lemma probe_del_step:
  "ce_policy_id (c idx) = pid \<or> ce_policy_id (c idx) = 0 \<Longrightarrow>
   probe_del MAX_POLICY_CACHE c pid idx = (if ce_policy_id (c idx) = pid then Some idx else None)"
  by (subst probe_numeral) auto

lemma get_cached_rule_view:
  assumes "cache_wf S E" "direct_ids S" "pid \<in> S"
  shows "perm_engine_get_cached_rule E pid = rule_view E pid"
proof -
  note sc = slot_content [OF assms]
  show ?thesis
  proof (cases "cache_count E = 0")
    case True
    then have "occupied E = {}" using assms(1) by (simp add: cache_wf_def)
    then have "ce_policy_id (cache E (slot pid)) = 0" by (auto simp: occupied_def)
    moreover have "pid \<noteq> 0" using assms(2,3) by (auto simp: direct_ids_def)
    ultimately show ?thesis using True by (simp add: perm_engine_get_cached_rule_def rule_view_def)
  next
    case False
    then show ?thesis using sc by (auto simp: perm_engine_get_cached_rule_def rule_view_def probe_get_step)
  qed
qed

lemma dec_mod: "0 < n \<Longrightarrow> n < 2 ^ 64 \<Longrightarrow> (n + (2 ^ 64 - 1)) mod 2 ^ 64 = n - 1" for n :: nat
  by (cases n) simp_all

lemma cache_rule_direct:
  assumes "cache_wf S E" "direct_ids S" "pid \<in> S" "cache_count E < MAX_POLICY_CACHE"
  shows "cache_wf S (perm_engine_cache_rule E pid t r)"
    and "q \<in> S \<Longrightarrow> rule_view (perm_engine_cache_rule E pid t r) q = (if q = pid then r else rule_view E q)"
proof -
  let ?i = "slot pid" and ?E = "perm_engine_cache_rule E pid t r"
  have nz: "pid \<noteq> 0" using assms(2,3) by (auto simp: direct_ids_def)
  have E': "?E = E\<lparr>cache := (cache E)(?i := \<lparr>ce_policy_id = pid, ce_compiled = r, ce_strategy_type = t\<rparr>),
      cache_count := (if ce_policy_id (cache E ?i) = 0 then cache_count E + 1 else cache_count E)\<rparr>"
    using assms(4) slot_content [OF assms(1-3)] by (auto simp: perm_engine_cache_rule_def probe_put_step)
  have occ: "occupied ?E = insert ?i (occupied E)" using nz by (auto simp: E' occupied_def)
  have "?i \<in> occupied E \<longleftrightarrow> ce_policy_id (cache E ?i) \<noteq> 0" by (simp add: occupied_def)
  then have "cache_count ?E = card (occupied ?E)"
    using assms(1) by (simp add: E' occ [unfolded E'] cache_wf_def card_insert_if)
  moreover have "ce_policy_id (cache ?E i) \<in> S \<and> slot (ce_policy_id (cache ?E i)) = i" if "i \<in> occupied ?E" for i
    using that assms(1,3) by (cases "i = ?i") (simp_all add: occ, simp_all add: E' cache_wf_def)
  ultimately show "cache_wf S ?E" unfolding cache_wf_def by blast
  show "rule_view ?E q = (if q = pid then r else rule_view E q)" if "q \<in> S"
    unfolding E' rule_view_def by (simp add: slot_inj [OF assms(2) that assms(3)])
qed

lemma invalidate_policy_direct:
  assumes "cache_wf S E" "direct_ids S" "pid \<in> S"
  shows "cache_wf S (perm_engine_cache_invalidate_policy E pid)"
    and "q \<in> S \<Longrightarrow> rule_view (perm_engine_cache_invalidate_policy E pid) q = (if q = pid then None else rule_view E q)"
proof -
  let ?i = "slot pid" and ?E = "perm_engine_cache_invalidate_policy E pid"
  have nz: "pid \<noteq> 0" using assms(2,3) by (auto simp: direct_ids_def)
  note sc = slot_content [OF assms]
  have pd: "probe_del MAX_POLICY_CACHE (cache E) pid ?i = (if ce_policy_id (cache E ?i) = pid then Some ?i else None)"
    by (rule probe_del_step) (use sc in blast)
  have c: "cache ?E = (if ce_policy_id (cache E ?i) = pid then (cache E)(?i := (cache E ?i)\<lparr>ce_policy_id := 0\<rparr>) else cache E)"
    and n: "cache_count ?E = (if ce_policy_id (cache E ?i) = pid then (cache_count E + (2 ^ 64 - 1)) mod 2 ^ 64 else cache_count E)"
    by (simp_all add: perm_engine_cache_invalidate_policy_def pd clear_results_def)
  have occ: "occupied ?E = occupied E - (if ce_policy_id (cache E ?i) = pid then {?i} else {})"
    using sc nz by (auto simp: c occupied_def)
  have cnt: "cache_count ?E = card (occupied ?E)"
  proof (cases "ce_policy_id (cache E ?i) = pid")
    case True
    then have "?i \<in> occupied E" using nz by (simp add: occupied_def)
    moreover from this have "0 < card (occupied E)" by (auto simp: card_gt_0_iff)
    moreover have "card (occupied E) < 2 ^ 64" using card_occupied [of E] by simp
    ultimately have "(card (occupied E) + (2 ^ 64 - 1)) mod 2 ^ 64 = card (occupied E) - 1"
      by (intro dec_mod)
    with True \<open>?i \<in> occupied E\<close> assms(1) show ?thesis by (simp add: n occ cache_wf_def)
  qed (use assms(1) in \<open>simp add: n occ cache_wf_def\<close>)
  have "ce_policy_id (cache ?E i) \<in> S \<and> slot (ce_policy_id (cache ?E i)) = i" if "i \<in> occupied ?E" for i
    using that assms(1) by (cases "i = ?i") (simp_all add: occ c cache_wf_def split: if_splits)
  with cnt show "cache_wf S ?E" unfolding cache_wf_def by blast
  show "rule_view ?E q = (if q = pid then None else rule_view E q)" if "q \<in> S"
  proof (cases "q = pid")
    case True
    then show ?thesis using sc nz by (cases "ce_policy_id (cache E ?i) = pid") (simp_all add: rule_view_def c)
  next
    case False
    then show ?thesis using slot_inj [OF assms(2) that assms(3)] by (simp add: rule_view_def c)
  qed
qed

section \<open>The contract of a rule cache\<close>

text \<open>What evaluation relies on: a cache of values computed per id, filled on a miss and emptied
  for an id whose definition changes. The client lemmas say that such a cache only ever
  answers with the current value.\<close>

locale rule_cache =
  fixes look :: "'c \<Rightarrow> sso_id \<Rightarrow> 'r option"
    and put :: "'c \<Rightarrow> sso_id \<Rightarrow> 'r \<Rightarrow> 'c"
    and discard :: "'c \<Rightarrow> sso_id \<Rightarrow> 'c"
    and inv :: "'c \<Rightarrow> bool"
    and room :: "'c \<Rightarrow> bool"
    and usable :: "sso_id \<Rightarrow> bool"
  assumes put_inv: "inv c \<Longrightarrow> usable p \<Longrightarrow> room c \<Longrightarrow> inv (put c p r)"
    and look_put: "inv c \<Longrightarrow> usable p \<Longrightarrow> usable q \<Longrightarrow> room c \<Longrightarrow>
          look (put c p r) q = (if q = p then Some r else look c q)"
    and discard_inv: "inv c \<Longrightarrow> usable p \<Longrightarrow> inv (discard c p)"
    and look_discard: "inv c \<Longrightarrow> usable p \<Longrightarrow> usable q \<Longrightarrow>
          look (discard c p) q = (if q = p then None else look c q)"
begin

lemma fill_coherent:
  assumes "inv c" "usable p" "room c" "\<forall>q. usable q \<longrightarrow> look c q \<in> {None, Some (f q)}"
  shows "\<forall>q. usable q \<longrightarrow> look (put c p (f p)) q \<in> {None, Some (f q)}"
  using assms by (simp add: look_put)

lemma discard_coherent:
  assumes "inv c" "usable p" "\<forall>q. usable q \<longrightarrow> look c q \<in> {None, Some (f q)}" "\<forall>q. q \<noteq> p \<longrightarrow> f' q = f q"
  shows "\<forall>q. usable q \<longrightarrow> look (discard c p) q \<in> {None, Some (f' q)}"
  using assms by (simp add: look_discard)

lemma refresh:
  assumes "inv c" "usable p" "room (discard c p)"
  shows "look (put (discard c p) p r) p = Some r"
  using assms by (simp add: look_put discard_inv)

end

abbreviation "first_ids \<equiv> {p :: sso_id. 0 < p \<and> p \<le> 256}"

lemma direct_first_ids: "direct_ids first_ids"
proof -
  have "p = q" if "0 < p" "p \<le> 256" "0 < q" "q \<le> 256" "unat p mod 256 = unat q mod 256" for p q :: sso_id
  proof -
    have "0 < unat p" "unat p \<le> 256" "0 < unat q" "unat q \<le> 256"
      using that by (simp_all add: word_less_nat_alt word_le_nat_alt)
    with that(5) have "unat p = unat q"
      by (cases "unat p = 256"; cases "unat q = 256") auto
    then show ?thesis by (simp add: word_unat_eq_iff)
  qed
  then show ?thesis unfolding direct_ids_def inj_on_def slot_def by auto
qed

text \<open>The engine's cache meets the contract on the first 256 policy ids, which the backends hand
  out in sequence from 1.\<close>

interpretation rules: rule_cache perm_engine_get_cached_rule "\<lambda>E p r. perm_engine_cache_rule E p t (Some r)"
  perm_engine_cache_invalidate_policy "cache_wf first_ids" "\<lambda>E. cache_count E < MAX_POLICY_CACHE"
  "\<lambda>p. p \<in> first_ids" for t
proof
  fix E :: "'a permission_engine" and p q r
  assume E: "cache_wf first_ids E" "p \<in> first_ids"
  note d = direct_first_ids
  show i: "cache_wf first_ids (perm_engine_cache_invalidate_policy E p)"
    using invalidate_policy_direct(1) [OF E(1) d E(2)] .
  show "perm_engine_get_cached_rule (perm_engine_cache_invalidate_policy E p) q =
      (if q = p then None else perm_engine_get_cached_rule E q)" if q: "q \<in> first_ids"
    unfolding get_cached_rule_view [OF i d q] get_cached_rule_view [OF E(1) d q]
    by (rule invalidate_policy_direct(2) [OF E(1) d E(2) q])
  assume room: "cache_count E < MAX_POLICY_CACHE"
  show c: "cache_wf first_ids (perm_engine_cache_rule E p t (Some r))"
    using cache_rule_direct(1) [OF E(1) d E(2) room] .
  show "perm_engine_get_cached_rule (perm_engine_cache_rule E p t (Some r)) q =
      (if q = p then Some r else perm_engine_get_cached_rule E q)" if q: "q \<in> first_ids"
    unfolding get_cached_rule_view [OF c d q] get_cached_rule_view [OF E(1) d q]
    by (rule cache_rule_direct(2) [OF E(1) d E(2) room q])
qed

section \<open>Properties\<close>

text \<open>Registering a strategy of a new type makes it the one found for its type and leaves the
  others as they were; unregistering a type makes it unknown and keeps the rest. Types stay
  unique.\<close>

theorem strategy_registry:
  assumes "registry_wf E" "perm_engine_register_strategy (Some E) (Some st) = (SSO_OK, Some E1)"
    and "perm_engine_unregister_strategy (Some E1) u = (SSO_OK, Some E2)"
  shows "registry_wf E1 \<and> registry_wf E2 \<and>
    perm_engine_get_strategy E1 t = (if t = ps_type st then Some st else perm_engine_get_strategy E t) \<and>
    perm_engine_get_strategy E2 t = (if t = u then None else perm_engine_get_strategy E1 t)"
proof -
  have E1: "strategies E1 = strategies E @ [st]" "\<forall>x \<in> set (strategies E). ps_type x \<noteq> ps_type st"
    using assms(2) by (auto simp: perm_engine_register_strategy_def list_ex_iff split: if_splits)
  have wf1: "registry_wf E1" using register_keeps_wf [OF assms(1,2)] .
  obtain sts where sts: "remove_first_type u (strategies E1) = Some sts" "strategies E2 = sts"
    using assms(3) by (auto simp: perm_engine_unregister_strategy_def split: option.splits)
  have "map ps_type sts = remove1 u (map ps_type (strategies E1))" using sts(1) by (rule remove_first_type_map)
  then have "registry_wf E2" using wf1 unfolding registry_wf_def sts(2)
    by (metis distinct_remove1 length_map length_remove1 diff_le_self le_trans)
  moreover have "find (\<lambda>x. ps_type x = ps_type st) (strategies E) = None" using E1(2) by (simp add: find_None_iff)
  then have "perm_engine_get_strategy E1 t = (if t = ps_type st then Some st else perm_engine_get_strategy E t)"
    by (auto simp: perm_engine_get_strategy_def E1(1) find_type_append split: option.splits)
  moreover have "perm_engine_get_strategy E2 t = (if t = u then None else perm_engine_get_strategy E1 t)"
    using remove_first_type_find [OF _ sts(1)] wf1 by (simp add: perm_engine_get_strategy_def sts(2) registry_wf_def)
  ultimately show ?thesis using wf1 by blast
qed

theorem strategy_registry_witness:
  "perm_engine_get_strategy
     (the (snd (perm_engine_unregister_strategy
        (snd (perm_engine_register_strategy (Some (empty_engine :: unit permission_engine))
           (Some \<lparr>ps_type = PERM_STRATEGY_API, ps_name = ''api'', ps_needs_context = False,
                  ps_compile = None, ps_evaluate = None\<rparr>))) PERM_STRATEGY_API))) PERM_STRATEGY_API = None"
  using strategy_registry [OF registry_wf_empty, of "\<lparr>ps_type = PERM_STRATEGY_API, ps_name = ''api'',
      ps_needs_context = False, ps_compile = None, ps_evaluate = None\<rparr> :: unit permission_strategy"
      _ PERM_STRATEGY_API _ PERM_STRATEGY_API]
  by (simp add: perm_engine_register_strategy_def perm_engine_unregister_strategy_def empty_engine_def)

text \<open>Invalidating a user leaves no usable cached decision and no usable cached policy set of
  that user, and leaves every other user's entries alone.\<close>

theorem invalidate_user_clears:
  assumes "E' = perm_engine_cache_invalidate_user E uid" "i < RESULT_CACHE_SIZE" "j < POLICY_RES_CACHE_SIZE"
  shows "\<not> (re_valid (result_cache E' i) \<and> re_user_id (result_cache E' i) = uid) \<and>
    \<not> (rc_valid (res_cache E' j) \<and> rc_user_id (res_cache E' j) = uid) \<and>
    (re_user_id (result_cache E i) \<noteq> uid \<longrightarrow> result_cache E' i = result_cache E i) \<and>
    (rc_user_id (res_cache E j) \<noteq> uid \<longrightarrow> res_cache E' j = res_cache E j)"
  using assms by (simp add: perm_engine_cache_invalidate_user_def)

theorem invalidate_user_clears_witness:
  "\<not> (re_valid (result_cache (perm_engine_cache_invalidate_user
        (empty_engine\<lparr>result_cache := (\<lambda>_. \<lparr>re_user_id = 7, re_params_hash = 1, re_allowed = True, re_timestamp = 0, re_valid = True\<rparr>)\<rparr>) 7) 3))"
  using invalidate_user_clears [OF refl, of 3 0
    "empty_engine\<lparr>result_cache := (\<lambda>_. \<lparr>re_user_id = 7, re_params_hash = 1, re_allowed = True, re_timestamp = 0, re_valid = True\<rparr>)\<rparr>" 7]
  by (simp add: perm_engine_cache_invalidate_user_def)

text \<open>As long as the policy ids in use differ modulo 256, the rule cache is a map: after caching
  a rule the lookup finds exactly it, after invalidating the policy it finds nothing, and other
  policies are unaffected either way.\<close>

theorem rule_cache_direct:
  assumes "cache_wf S E" "direct_ids S" "p \<in> S" "q \<in> S" "cache_count E < MAX_POLICY_CACHE"
  shows "perm_engine_get_cached_rule (perm_engine_cache_rule E p t (Some r)) q =
           (if q = p then Some r else perm_engine_get_cached_rule E q) \<and>
         perm_engine_get_cached_rule (perm_engine_cache_invalidate_policy E p) q =
           (if q = p then None else perm_engine_get_cached_rule E q)"
  unfolding get_cached_rule_view [OF cache_rule_direct(1) [OF assms(1-3,5)] assms(2,4)]
    get_cached_rule_view [OF invalidate_policy_direct(1) [OF assms(1-3)] assms(2,4)]
    get_cached_rule_view [OF assms(1,2,4)]
  using cache_rule_direct(2) [OF assms(1-3,5,4)] invalidate_policy_direct(2) [OF assms(1-3,4)] by blast

theorem rule_cache_direct_witness:
  "perm_engine_get_cached_rule (perm_engine_cache_rule (empty_engine :: unit permission_engine) 5
      PERM_STRATEGY_LBAC (Some (CLbac []))) 5 = Some (CLbac []) \<and>
   perm_engine_get_cached_rule (perm_engine_cache_invalidate_policy (empty_engine :: unit permission_engine) 5) 5 = None"
  using rule_cache_direct [of "{5}" "empty_engine :: unit permission_engine" 5 5 PERM_STRATEGY_LBAC "CLbac []"]
  by (simp add: cache_wf_def direct_ids_def occupied_def empty_engine_def)

text \<open>With ids that agree modulo 256 the cache can bring a dropped rule back. After policies 5
  and 261 were cached, 5 invalidated, and 261 recompiled and then invalidated itself (its rules
  changed), caching 5 again makes the lookup of 261 return its very first, outdated rule:
  emptying a slot breaks the probe sequence of the entry displaced behind it.\<close>

theorem rule_cache_stale:
  "let E1 = perm_engine_cache_rule (perm_engine_cache_rule empty_engine 5 t (Some a)) 261 t (Some old);
       E2 = perm_engine_cache_rule (perm_engine_cache_invalidate_policy E1 5) 261 t (Some again);
       E3 = perm_engine_cache_rule (perm_engine_cache_invalidate_policy E2 261) 5 t (Some a)
   in perm_engine_get_cached_rule E3 261 = Some old"
  by (simp add: empty_engine_def perm_engine_cache_rule_def perm_engine_cache_invalidate_policy_def clear_results_def
      perm_engine_get_cached_rule_def slot_def probe_numeral)

end
