(* ===== verification/Sso_Config.thy ===== *)
theory Sso_Config
  imports Sso_Core Libc_Numbers
begin

text \<open>
  The configuration, \<^verbatim>\<open>include/config.h\<close> and \<^verbatim>\<open>src/config.c\<close>: built-in defaults, overlaid by a TOML
  file, overlaid by environment variables. The TOML library's parser is a parameter that
  yields the parsed table; the typed lookups the code makes are functions on it. A
  \<^verbatim>\<open>char[n]\<close> field is its C string, and the copies into it truncate as the code does. The array
  of cluster nodes has 16 elements; a write past it is undefined, hence the option.
\<close>

section \<open>Structures\<close>

record password_policy =
  min_length :: int
  max_length :: int
  require_upper :: bool
  require_lower :: bool
  require_digit :: bool
  require_special :: bool
  expiry_days :: int
  history_count :: int

definition PASSWORD_POLICY_DEFAULT :: password_policy where
  "PASSWORD_POLICY_DEFAULT =
     \<lparr>min_length = 8, max_length = 128, require_upper = True, require_lower = True, require_digit = True,
      require_special = True, expiry_days = 0, history_count = 0\<rparr>"

record sso_config =
  cf_host :: string
  cf_port :: int
  cf_thread_pool_size :: int
  cf_queue_size :: int
  cf_request_timeout_ms :: int
  cf_max_body_size :: int
  cf_path :: string
  cf_use_memory :: bool
  cf_database_type :: string
  cf_database_url :: string
  cf_token_secret :: string
  cf_token_secret_2 :: string
  cf_private_key_pem :: string
  cf_public_key_pem :: string
  cf_private_key_pem_2 :: string
  cf_public_key_pem_2 :: string
  cf_admin_password :: string
  cf_token_ttl_ms :: int
  password_opslimit :: nat
  password_memlimit :: nat
  cf_tls_enabled :: bool
  cf_tls_cert_file :: string
  cf_tls_key_file :: string
  cf_sms_gateway_url :: string
  cf_sms_api_key :: string
  cf_log_level :: int
  cf_log_format :: int
  cf_audit_log_path :: string
  cf_audit_log_max_size_mb :: int
  cf_audit_log_max_backups :: int
  cf_audit_log_rotate_daily :: bool
  cf_audit_log_secret :: string
  cf_oauth_client_id :: string
  cf_oauth_client_secret :: string
  cf_oauth_redirect_uris :: string
  cf_oauth_issuer :: string
  cf_oauth_auth_code_ttl_ms :: int
  cf_max_ips :: int
  password_policy :: password_policy
  cf_raft_enabled :: bool
  cf_raft_node_id :: int
  cf_raft_nodes :: "(int \<times> string) list"
  cf_otlp_endpoint :: string

definition sso_config_default :: sso_config where
  "sso_config_default =
     \<lparr>cf_host = ''0.0.0.0'',
      cf_port = 8080,
      cf_thread_pool_size = 8,
      cf_queue_size = 1024,
      cf_request_timeout_ms = 10000,
      cf_max_body_size = 1048576,
      cf_path = ''sso_server.db'',
      cf_use_memory = False,
      cf_database_type = strlcpy ''sqlite'' 15,
      cf_database_url = strlcpy ''sso_server.db'' 1023,
      cf_token_secret = [],
      cf_token_secret_2 = [],
      cf_private_key_pem = [],
      cf_public_key_pem = [],
      cf_private_key_pem_2 = [],
      cf_public_key_pem_2 = [],
      cf_admin_password = [],
      cf_token_ttl_ms = 3600000,
      password_opslimit = 3,
      password_memlimit = 268435456,
      cf_tls_enabled = False,
      cf_tls_cert_file = [],
      cf_tls_key_file = [],
      cf_sms_gateway_url = [],
      cf_sms_api_key = [],
      cf_log_level = 0,
      cf_log_format = 0,
      cf_audit_log_path = ''audit.log'',
      cf_audit_log_max_size_mb = 10,
      cf_audit_log_max_backups = 5,
      cf_audit_log_rotate_daily = False,
      cf_audit_log_secret = [],
      cf_oauth_client_id = [],
      cf_oauth_client_secret = [],
      cf_oauth_redirect_uris = [],
      cf_oauth_issuer = [],
      cf_oauth_auth_code_ttl_ms = 0,
      cf_max_ips = 10000,
      password_policy = PASSWORD_POLICY_DEFAULT, cf_raft_enabled = False, cf_raft_node_id = 0,
      cf_raft_nodes = [], cf_otlp_endpoint = []\<rparr>"

section \<open>The TOML table\<close>

datatype toml =
    TString string
  | TInt int
  | TBool bool
  | TArray "toml list"
  | TTable "(string \<times> toml) list"
  | TOther

type_synonym toml_table = "(string \<times> toml) list"

definition toml_string_in :: "toml_table \<Rightarrow> string \<Rightarrow> string option" where
  "toml_string_in t k = (case map_of t k of Some (TString s) \<Rightarrow> Some s | _ \<Rightarrow> None)"

definition toml_int_in :: "toml_table \<Rightarrow> string \<Rightarrow> int option" where
  "toml_int_in t k = (case map_of t k of Some (TInt i) \<Rightarrow> Some i | _ \<Rightarrow> None)"

definition toml_bool_in :: "toml_table \<Rightarrow> string \<Rightarrow> bool option" where
  "toml_bool_in t k = (case map_of t k of Some (TBool b) \<Rightarrow> Some b | _ \<Rightarrow> None)"

definition toml_array_in :: "toml_table \<Rightarrow> string \<Rightarrow> toml list option" where
  "toml_array_in t k = (case map_of t k of Some (TArray a) \<Rightarrow> Some a | _ \<Rightarrow> None)"

definition toml_table_in :: "toml_table \<Rightarrow> string \<Rightarrow> toml_table option" where
  "toml_table_in t k = (case map_of t k of Some (TTable u) \<Rightarrow> Some u | _ \<Rightarrow> None)"

definition toml_key_exists :: "toml_table \<Rightarrow> string \<Rightarrow> bool" where
  "toml_key_exists t k = (map_of t k \<noteq> None)"

section \<open>Reading one value\<close>

text \<open>The casts \<^verbatim>\<open>(int)\<close> and \<^verbatim>\<open>(unsigned long)\<close> of a 64-bit integer, and \<^verbatim>\<open>atoi\<close>, \<^verbatim>\<open>atol\<close>.\<close>

definition to_int32 :: "int \<Rightarrow> int" where
  "to_int32 i = sint (word_of_int i :: 32 word)"

definition to_ulong :: "int \<Rightarrow> nat" where
  "to_ulong i = unat (word_of_int i :: 64 word)"

definition atoi_int :: "string \<Rightarrow> int" where
  "atoi_int s = sint (atoi s)"

definition atol :: "string \<Rightarrow> int" where
  "atol s =
     (case scan_number s of (neg, ds, rest) \<Rightarrow>
        let v = (if neg then - int (digits_val ds) else int (digits_val ds))
        in max (- (2 ^ 63)) (min (2 ^ 63 - 1) v))"

definition get_string :: "toml_table \<Rightarrow> string \<Rightarrow> nat \<Rightarrow> string \<Rightarrow> string" where
  "get_string t k n dest = (case toml_string_in t k of Some s \<Rightarrow> strlcpy s n | None \<Rightarrow> dest)"

text \<open>The loop over the array elements: \<open>acc\<close> is what has been written to \<^verbatim>\<open>dest\<close> so far.\<close>

definition join_elem :: "nat \<Rightarrow> string \<Rightarrow> string \<Rightarrow> string" where
  "join_elem n s acc =
     (let acc1 = (if 0 < length acc \<and> length acc < n - 1 then acc @ '' '' else acc);
          remaining = n - length acc1;
          slen = (if length (cstr s) \<ge> remaining then remaining - 1 else length (cstr s))
      in acc1 @ take slen (cstr s))"

fun join_loop :: "nat \<Rightarrow> toml list \<Rightarrow> string \<Rightarrow> string" where
  "join_loop n [] acc = acc"
| "join_loop n (e # es) acc =
     (case e of TString s \<Rightarrow> join_loop n es (join_elem n s acc) | _ \<Rightarrow> join_loop n es acc)"

definition get_string_array :: "toml_table \<Rightarrow> string \<Rightarrow> nat \<Rightarrow> string \<Rightarrow> string" where
  "get_string_array t k n dest =
     (case toml_string_in t k of
        Some s \<Rightarrow> strlcpy s n
      | None \<Rightarrow> (case toml_array_in t k of None \<Rightarrow> dest | Some es \<Rightarrow> join_loop n es []))"

definition get_int :: "toml_table \<Rightarrow> string \<Rightarrow> int \<Rightarrow> int" where
  "get_int t k dest = (case toml_int_in t k of Some i \<Rightarrow> to_int32 i | None \<Rightarrow> dest)"

definition get_long :: "toml_table \<Rightarrow> string \<Rightarrow> int \<Rightarrow> int" where
  "get_long t k dest = (case toml_int_in t k of Some i \<Rightarrow> i | None \<Rightarrow> dest)"

definition get_ulong :: "toml_table \<Rightarrow> string \<Rightarrow> nat \<Rightarrow> nat" where
  "get_ulong t k dest = (case toml_int_in t k of Some i \<Rightarrow> to_ulong i | None \<Rightarrow> dest)"

definition get_bool :: "toml_table \<Rightarrow> string \<Rightarrow> bool \<Rightarrow> bool" where
  "get_bool t k dest = (case toml_bool_in t k of Some b \<Rightarrow> b | None \<Rightarrow> dest)"

definition clamp_level :: "int \<Rightarrow> int" where
  "clamp_level l = (let l1 = (if l < 0 then 0 else l) in if l1 > 3 then 3 else l1)"

section \<open>The sections of the file\<close>

definition load_server :: "toml_table \<Rightarrow> sso_config \<Rightarrow> sso_config" where
  "load_server t cfg =
     cfg\<lparr>cf_host := get_string t ''host'' 128 (cf_host cfg),
         cf_port := get_int t ''port'' (cf_port cfg),
         cf_thread_pool_size := get_int t ''thread_pool_size'' (cf_thread_pool_size cfg),
         cf_queue_size := get_int t ''queue_size'' (cf_queue_size cfg),
         cf_request_timeout_ms := get_int t ''request_timeout_ms'' (cf_request_timeout_ms cfg),
         cf_max_body_size := get_long t ''max_body_size'' (cf_max_body_size cfg)\<rparr>"

definition load_database :: "toml_table \<Rightarrow> sso_config \<Rightarrow> sso_config" where
  "load_database t cfg =
     (let cfg1 = cfg\<lparr>cf_path := get_string t ''path'' 256 (cf_path cfg),
         cf_use_memory := get_bool t ''use_memory'' (cf_use_memory cfg),
         cf_database_type := get_string t ''type'' 16 (cf_database_type cfg),
         cf_database_url := get_string t ''url'' 1024 (cf_database_url cfg)\<rparr>
      in if \<not> toml_key_exists t ''url'' \<and> toml_key_exists t ''path''
         then cfg1\<lparr>cf_database_url := strlcpy (cf_path cfg1) 1024\<rparr> else cfg1)"

definition load_security :: "toml_table \<Rightarrow> sso_config \<Rightarrow> sso_config" where
  "load_security t cfg =
     cfg\<lparr>cf_token_secret := get_string t ''token_secret'' 128 (cf_token_secret cfg),
         cf_private_key_pem := get_string t ''private_key'' 4096 (cf_private_key_pem cfg),
         cf_public_key_pem := get_string t ''public_key'' 4096 (cf_public_key_pem cfg),
         cf_admin_password := get_string t ''admin_password'' 128 (cf_admin_password cfg),
         cf_token_ttl_ms := get_long t ''token_ttl_ms'' (cf_token_ttl_ms cfg),
         password_opslimit := get_ulong t ''password_opslimit'' (password_opslimit cfg),
         password_memlimit := get_ulong t ''password_memlimit'' (password_memlimit cfg),
         cf_tls_enabled := get_bool t ''tls_enabled'' (cf_tls_enabled cfg),
         cf_tls_cert_file := get_string t ''tls_cert_file'' 512 (cf_tls_cert_file cfg),
         cf_tls_key_file := get_string t ''tls_key_file'' 512 (cf_tls_key_file cfg)\<rparr>"

definition load_sms :: "toml_table \<Rightarrow> sso_config \<Rightarrow> sso_config" where
  "load_sms t cfg =
     cfg\<lparr>cf_sms_gateway_url := get_string t ''gateway_url'' 256 (cf_sms_gateway_url cfg),
         cf_sms_api_key := get_string t ''api_key'' 128 (cf_sms_api_key cfg)\<rparr>"

definition load_oauth :: "toml_table \<Rightarrow> sso_config \<Rightarrow> sso_config" where
  "load_oauth t cfg =
     cfg\<lparr>cf_oauth_client_id := get_string t ''client_id'' 64 (cf_oauth_client_id cfg),
         cf_oauth_client_secret := get_string t ''client_secret'' 128 (cf_oauth_client_secret cfg),
         cf_oauth_redirect_uris := get_string_array t ''redirect_uris'' 512 (cf_oauth_redirect_uris cfg),
         cf_oauth_issuer := get_string t ''issuer'' 256 (cf_oauth_issuer cfg),
         cf_oauth_auth_code_ttl_ms := get_long t ''auth_code_ttl_ms'' (cf_oauth_auth_code_ttl_ms cfg)\<rparr>"

definition load_logging :: "toml_table \<Rightarrow> sso_config \<Rightarrow> sso_config" where
  "load_logging t cfg =
     cfg\<lparr>cf_log_level := clamp_level (get_int t ''level'' (cf_log_level cfg)),
         cf_audit_log_path := get_string t ''audit_log_path'' 256 (cf_audit_log_path cfg),
         cf_audit_log_max_size_mb := get_int t ''audit_log_max_size_mb'' (cf_audit_log_max_size_mb cfg),
         cf_audit_log_max_backups := get_int t ''audit_log_max_backups'' (cf_audit_log_max_backups cfg),
         cf_audit_log_rotate_daily := get_bool t ''audit_log_rotate_daily'' (cf_audit_log_rotate_daily cfg),
         cf_audit_log_secret := get_string t ''audit_log_secret'' 128 (cf_audit_log_secret cfg)\<rparr>"

definition load_telemetry :: "toml_table \<Rightarrow> sso_config \<Rightarrow> sso_config" where
  "load_telemetry t cfg = cfg\<lparr>cf_otlp_endpoint := get_string t ''otlp_endpoint'' 256 (cf_otlp_endpoint cfg)\<rparr>"

definition load_ratelimit :: "toml_table \<Rightarrow> sso_config \<Rightarrow> sso_config" where
  "load_ratelimit t cfg =
     cfg\<lparr>cf_max_ips := get_int t ''max_ips'' (cf_max_ips cfg)\<rparr>"

definition load_password_policy :: "toml_table \<Rightarrow> sso_config \<Rightarrow> sso_config" where
  "load_password_policy t cfg =
     (let p = password_policy cfg
      in cfg\<lparr>password_policy := p\<lparr>min_length := get_int t ''min_length'' (min_length p),
           max_length := get_int t ''max_length'' (max_length p),
           require_upper := get_bool t ''require_upper'' (require_upper p),
           require_lower := get_bool t ''require_lower'' (require_lower p),
           require_digit := get_bool t ''require_digit'' (require_digit p),
           require_special := get_bool t ''require_special'' (require_special p),
           expiry_days := get_int t ''expiry_days'' (expiry_days p),
           history_count := get_int t ''history_count'' (history_count p)\<rparr>\<rparr>)"

text \<open>The nodes of the cluster: at most the first 16 elements of the array are looked at, and each
  complete one is written at index \<^verbatim>\<open>raft_node_count\<close>, the number of nodes already there.\<close>

fun load_nodes :: "nat \<Rightarrow> toml list \<Rightarrow> (int \<times> string) list \<Rightarrow> (int \<times> string) list option" where
  "load_nodes 0 es nodes = Some nodes"
| "load_nodes (Suc k) [] nodes = Some nodes"
| "load_nodes (Suc k) (e # es) nodes =
     (case e of
        TTable nt \<Rightarrow>
          (case (toml_int_in nt ''id'', toml_string_in nt ''url'') of
             (Some i, Some u) \<Rightarrow>
               if length nodes < 16 then load_nodes k es (nodes @ [(to_int32 i, take 255 (cstr u))]) else None
           | _ \<Rightarrow> load_nodes k es nodes)
      | _ \<Rightarrow> load_nodes k es nodes)"

definition load_raft :: "toml_table \<Rightarrow> sso_config \<Rightarrow> sso_config option" where
  "load_raft t cfg =
     (let cfg1 = cfg\<lparr>cf_raft_enabled := get_bool t ''enabled'' (cf_raft_enabled cfg),
                      cf_raft_node_id := get_int t ''node_id'' (cf_raft_node_id cfg)\<rparr>
      in case toml_array_in t ''nodes'' of
           None \<Rightarrow> Some cfg1
         | Some es \<Rightarrow> map_option (\<lambda>ns. cfg1\<lparr>cf_raft_nodes := ns\<rparr>) (load_nodes 16 es (cf_raft_nodes cfg1)))"

definition in_section :: "toml_table \<Rightarrow> string \<Rightarrow> (toml_table \<Rightarrow> sso_config \<Rightarrow> sso_config) \<Rightarrow> sso_config \<Rightarrow> sso_config" where
  "in_section root_tab name f cfg = (case toml_table_in root_tab name of Some t \<Rightarrow> f t cfg | None \<Rightarrow> cfg)"

definition load_sections :: "toml_table \<Rightarrow> sso_config \<Rightarrow> sso_config option" where
  "load_sections r cfg =
     (let cfg1 = in_section r ''server'' load_server cfg;
          cfg2 = in_section r ''database'' load_database cfg1;
          cfg3 = in_section r ''security'' load_security cfg2;
          cfg4 = in_section r ''sms'' load_sms cfg3;
          cfg5 = in_section r ''oauth'' load_oauth cfg4;
          cfg6 = in_section r ''logging'' load_logging cfg5;
          cfg7 = in_section r ''telemetry'' load_telemetry cfg6;
          cfg8 = in_section r ''ratelimit'' load_ratelimit cfg7;
          cfg9 = in_section r ''password_policy'' load_password_policy cfg8
      in case toml_table_in r ''raft'' of Some t \<Rightarrow> load_raft t cfg9 | None \<Rightarrow> Some cfg9)"

text \<open>\<open>parse\<close> stands for opening and parsing a file: no value when it cannot be opened, no table when
  it is not TOML.\<close>

definition sso_config_load ::
  "(string \<Rightarrow> toml_table option option) \<Rightarrow> string option \<Rightarrow> sso_config option \<Rightarrow>
     (sso_error \<times> sso_config option) option" where
  "sso_config_load parse filename cfg =
     (case (filename, cfg) of
        (Some f, Some c) \<Rightarrow>
          (case parse f of
             None \<Rightarrow> Some (SSO_ERR_NOT_FOUND, cfg)
           | Some None \<Rightarrow> Some (SSO_ERR_INIT, cfg)
           | Some (Some r) \<Rightarrow> map_option (\<lambda>c'. (SSO_OK, Some c')) (load_sections r c))
      | _ \<Rightarrow> Some (SSO_ERR_INVALID_PARAM, cfg))"

section \<open>Environment variables\<close>

text \<open>\<^verbatim>\<open>SSO_STRNCPY_DST\<close> passes one less than the size of the field.\<close>

definition env_str :: "(string \<Rightarrow> string option) \<Rightarrow> string \<Rightarrow> nat \<Rightarrow> string \<Rightarrow> string" where
  "env_str getenv k n dst = (case getenv k of Some v \<Rightarrow> strlcpy v (n - 1) | None \<Rightarrow> dst)"

definition env_val :: "(string \<Rightarrow> string option) \<Rightarrow> string \<Rightarrow> (string \<Rightarrow> 'v) \<Rightarrow> 'v \<Rightarrow> 'v" where
  "env_val getenv k conv dst = (case getenv k of Some v \<Rightarrow> conv v | None \<Rightarrow> dst)"

definition env_true :: "string \<Rightarrow> bool" where
  "env_true v = (v = ''1'' \<or> strcaseeq v ''true'')"

definition env_policy :: "(string \<Rightarrow> string option) \<Rightarrow> password_policy \<Rightarrow> password_policy" where
  "env_policy getenv p =
     p\<lparr>min_length := env_val getenv ''SSO_PASSWORD_MIN_LENGTH'' atoi_int (min_length p),
       max_length := env_val getenv ''SSO_PASSWORD_MAX_LENGTH'' atoi_int (max_length p),
       require_upper := env_val getenv ''SSO_PASSWORD_REQUIRE_UPPER'' env_true (require_upper p),
       require_lower := env_val getenv ''SSO_PASSWORD_REQUIRE_LOWER'' env_true (require_lower p),
       require_digit := env_val getenv ''SSO_PASSWORD_REQUIRE_DIGIT'' env_true (require_digit p),
       require_special := env_val getenv ''SSO_PASSWORD_REQUIRE_SPECIAL'' env_true (require_special p),
       expiry_days := env_val getenv ''SSO_PASSWORD_EXPIRY_DAYS'' atoi_int (expiry_days p),
       history_count := env_val getenv ''SSO_PASSWORD_HISTORY_COUNT'' atoi_int (history_count p)\<rparr>"

definition sso_config_apply_env :: "(string \<Rightarrow> string option) \<Rightarrow> sso_config \<Rightarrow> sso_config" where
  "sso_config_apply_env getenv cfg =
     cfg\<lparr>cf_host := env_str getenv ''SSO_HOST'' 128 (cf_host cfg),
         cf_database_type := env_str getenv ''SSO_DATABASE_TYPE'' 16 (cf_database_type cfg),
         cf_database_url := env_str getenv ''SSO_DATABASE_URL'' 1024 (cf_database_url cfg),
         cf_token_secret := env_str getenv ''SSO_TOKEN_SECRET'' 128 (cf_token_secret cfg),
         cf_token_secret_2 := env_str getenv ''SSO_TOKEN_SECRET_2'' 128 (cf_token_secret_2 cfg),
         cf_private_key_pem := env_str getenv ''SSO_PRIVATE_KEY'' 4096 (cf_private_key_pem cfg),
         cf_public_key_pem := env_str getenv ''SSO_PUBLIC_KEY'' 4096 (cf_public_key_pem cfg),
         cf_private_key_pem_2 := env_str getenv ''SSO_PRIVATE_KEY_2'' 4096 (cf_private_key_pem_2 cfg),
         cf_public_key_pem_2 := env_str getenv ''SSO_PUBLIC_KEY_2'' 4096 (cf_public_key_pem_2 cfg),
         cf_admin_password := env_str getenv ''SSO_ADMIN_PASSWORD'' 128 (cf_admin_password cfg),
         cf_sms_gateway_url := env_str getenv ''SSO_SMS_GATEWAY_URL'' 256 (cf_sms_gateway_url cfg),
         cf_sms_api_key := env_str getenv ''SSO_SMS_API_KEY'' 128 (cf_sms_api_key cfg),
         cf_audit_log_path := env_str getenv ''SSO_AUDIT_LOG_PATH'' 256 (cf_audit_log_path cfg),
         cf_tls_cert_file := env_str getenv ''SSO_TLS_CERT_FILE'' 512 (cf_tls_cert_file cfg),
         cf_tls_key_file := env_str getenv ''SSO_TLS_KEY_FILE'' 512 (cf_tls_key_file cfg),
         cf_oauth_client_id := env_str getenv ''SSO_OAUTH_CLIENT_ID'' 64 (cf_oauth_client_id cfg),
         cf_oauth_client_secret := env_str getenv ''SSO_OAUTH_CLIENT_SECRET'' 128 (cf_oauth_client_secret cfg),
         cf_oauth_redirect_uris := env_str getenv ''SSO_OAUTH_REDIRECT_URIS'' 512 (cf_oauth_redirect_uris cfg),
         cf_oauth_issuer := env_str getenv ''SSO_OAUTH_ISSUER'' 256 (cf_oauth_issuer cfg),
         cf_port := env_val getenv ''SSO_PORT'' atoi_int (cf_port cfg),
         password_opslimit := env_val getenv ''SSO_PASSWORD_OPSLIMIT'' (\<lambda>v. to_ulong (atol v)) (password_opslimit cfg),
         password_memlimit := env_val getenv ''SSO_PASSWORD_MEMLIMIT'' (\<lambda>v. to_ulong (atol v)) (password_memlimit cfg),
         cf_log_level := env_val getenv ''SSO_LOG_LEVEL'' (\<lambda>v. clamp_level (atoi_int v)) (cf_log_level cfg),
         cf_log_format := env_val getenv ''SSO_LOG_FORMAT'' atoi_int (cf_log_format cfg),
         cf_request_timeout_ms := env_val getenv ''SSO_REQUEST_TIMEOUT_MS'' atoi_int (cf_request_timeout_ms cfg),
         cf_max_body_size := env_val getenv ''SSO_MAX_BODY_SIZE'' atol (cf_max_body_size cfg),
         cf_tls_enabled := env_val getenv ''SSO_TLS_ENABLED'' env_true (cf_tls_enabled cfg),
         cf_oauth_auth_code_ttl_ms := env_val getenv ''SSO_OAUTH_AUTH_CODE_TTL_MS'' atol (cf_oauth_auth_code_ttl_ms cfg),
         password_policy := env_policy getenv (password_policy cfg)\<rparr>"

section \<open>Well-formed configurations\<close>

definition fits :: "nat \<Rightarrow> string \<Rightarrow> bool" where
  "fits n s \<longleftrightarrow> nul_free s \<and> length s < n"

text \<open>Every string ends inside its field, the log level is one of the four, and the nodes fit.\<close>

definition config_wf :: "sso_config \<Rightarrow> bool" where
  "config_wf cfg \<longleftrightarrow>
     fits 128 (cf_host cfg) \<and>
     fits 256 (cf_path cfg) \<and>
     fits 16 (cf_database_type cfg) \<and>
     fits 1024 (cf_database_url cfg) \<and>
     fits 128 (cf_token_secret cfg) \<and>
     fits 128 (cf_token_secret_2 cfg) \<and>
     fits 4096 (cf_private_key_pem cfg) \<and>
     fits 4096 (cf_public_key_pem cfg) \<and>
     fits 4096 (cf_private_key_pem_2 cfg) \<and>
     fits 4096 (cf_public_key_pem_2 cfg) \<and>
     fits 128 (cf_admin_password cfg) \<and>
     fits 512 (cf_tls_cert_file cfg) \<and>
     fits 512 (cf_tls_key_file cfg) \<and>
     fits 256 (cf_sms_gateway_url cfg) \<and>
     fits 128 (cf_sms_api_key cfg) \<and>
     fits 256 (cf_audit_log_path cfg) \<and>
     fits 128 (cf_audit_log_secret cfg) \<and>
     fits 64 (cf_oauth_client_id cfg) \<and>
     fits 128 (cf_oauth_client_secret cfg) \<and>
     fits 512 (cf_oauth_redirect_uris cfg) \<and>
     fits 256 (cf_oauth_issuer cfg) \<and>
     fits 256 (cf_otlp_endpoint cfg) \<and>
     0 \<le> cf_log_level cfg \<and> cf_log_level cfg \<le> 3 \<and> length (cf_raft_nodes cfg) \<le> 16 \<and>
     (\<forall>n \<in> set (cf_raft_nodes cfg). fits 256 (snd n))"

text \<open>Start-up: defaults, then the file if it loads, then the environment.\<close>

definition config_startup ::
  "(string \<Rightarrow> toml_table option option) \<Rightarrow> (string \<Rightarrow> string option) \<Rightarrow> string \<Rightarrow> sso_config option" where
  "config_startup parse getenv f = do {
     (err, c) \<leftarrow> sso_config_load parse (Some f) (Some sso_config_default);
     map_option (sso_config_apply_env getenv) c
   }"

text \<open>Reload on SIGHUP: the file and the environment over a copy of the running configuration.\<close>

definition config_reload ::
  "(string \<Rightarrow> toml_table option option) \<Rightarrow> (string \<Rightarrow> string option) \<Rightarrow> string \<Rightarrow> sso_config \<Rightarrow> sso_config option" where
  "config_reload parse getenv f old = do {
     (err, c) \<leftarrow> sso_config_load parse (Some f) (Some old);
     if err = SSO_OK then map_option (sso_config_apply_env getenv) c else Some old
   }"

section \<open>Bounds\<close>

lemma fits_strlcpy: "0 < m \<Longrightarrow> m \<le> n \<Longrightarrow> fits n (strlcpy s m)"
  using strlcpy_length [of m "[]" "Some s"] by (simp add: fits_def)

lemma fits_get_string: "fits n d \<Longrightarrow> fits n (get_string t k n d)"
  by (cases "n = 0") (auto simp: get_string_def fits_strlcpy split: option.split, simp add: fits_def)

lemma join_elem_fits: "fits n acc \<Longrightarrow> fits n (join_elem n s acc)"
  by (auto simp: join_elem_def fits_def Let_def)

lemma join_loop_fits: "fits n acc \<Longrightarrow> fits n (join_loop n es acc)"
  by (induction es arbitrary: acc) (auto simp: join_elem_fits split: toml.split)

lemma fits_get_string_array: "0 < n \<Longrightarrow> fits n d \<Longrightarrow> fits n (get_string_array t k n d)"
  by (auto simp: get_string_array_def fits_strlcpy join_loop_fits fits_def [of n "[]"] split: option.split)

lemma fits_env_str: "1 < n \<Longrightarrow> fits n d \<Longrightarrow> fits n (env_str g k n d)"
  by (auto simp: env_str_def fits_strlcpy split: option.split)

lemma clamp_level_range: "0 \<le> clamp_level l" "clamp_level l \<le> 3"
  by (simp_all add: clamp_level_def)

lemmas fits_rules = fits_get_string fits_get_string_array fits_env_str fits_strlcpy clamp_level_range

lemma load_nodes_bound:
  "length nodes + k \<le> 16 \<Longrightarrow> \<forall>n \<in> set nodes. fits 256 (snd n) \<Longrightarrow>
   \<exists>ns. load_nodes k es nodes = Some ns \<and> length ns \<le> 16 \<and> (\<forall>n \<in> set ns. fits 256 (snd n))"
proof (induction k es nodes rule: load_nodes.induct)
  case (3 k e es nodes)
  have new: "fits 256 (take 255 (cstr u))" for u by (simp add: fits_def)
  from 3 new show ?case by (auto split: toml.split option.split)
qed auto

lemma in_section_wf:
  "config_wf cfg \<Longrightarrow> (\<And>t c. config_wf c \<Longrightarrow> config_wf (f t c)) \<Longrightarrow> config_wf (in_section r k f cfg)"
  by (simp add: in_section_def split: option.split)

lemma in_section_nodes:
  "(\<And>t c. cf_raft_nodes (f t c) = cf_raft_nodes c) \<Longrightarrow> cf_raft_nodes (in_section r k f cfg) = cf_raft_nodes cfg"
  by (simp add: in_section_def split: option.split)

lemma load_server_wf: "config_wf cfg \<Longrightarrow> config_wf (load_server t cfg)"
  by (simp add: config_wf_def load_server_def fits_rules)

lemma load_database_wf: "config_wf cfg \<Longrightarrow> config_wf (load_database t cfg)"
  by (simp add: config_wf_def load_database_def fits_rules Let_def)

lemma load_security_wf: "config_wf cfg \<Longrightarrow> config_wf (load_security t cfg)"
  by (simp add: config_wf_def load_security_def fits_rules)

lemma load_sms_wf: "config_wf cfg \<Longrightarrow> config_wf (load_sms t cfg)"
  by (simp add: config_wf_def load_sms_def fits_rules)

lemma load_oauth_wf: "config_wf cfg \<Longrightarrow> config_wf (load_oauth t cfg)"
  by (simp add: config_wf_def load_oauth_def fits_rules)

lemma load_logging_wf: "config_wf cfg \<Longrightarrow> config_wf (load_logging t cfg)"
  by (simp add: config_wf_def load_logging_def fits_rules)

lemma load_telemetry_wf: "config_wf cfg \<Longrightarrow> config_wf (load_telemetry t cfg)"
  by (simp add: config_wf_def load_telemetry_def fits_rules)

lemma load_ratelimit_wf: "config_wf cfg \<Longrightarrow> config_wf (load_ratelimit t cfg)"
  by (simp add: config_wf_def load_ratelimit_def)

lemma load_password_policy_wf: "config_wf cfg \<Longrightarrow> config_wf (load_password_policy t cfg)"
  by (simp add: config_wf_def load_password_policy_def Let_def)

lemmas section_wf = load_server_wf load_database_wf load_security_wf load_sms_wf load_oauth_wf load_logging_wf
  load_telemetry_wf load_ratelimit_wf load_password_policy_wf

text \<open>The sections before the cluster's keep the invariant and the node list.\<close>

definition plain_sections :: "toml_table \<Rightarrow> sso_config \<Rightarrow> sso_config" where
  "plain_sections r cfg =
     in_section r ''password_policy'' load_password_policy (in_section r ''ratelimit'' load_ratelimit
       (in_section r ''telemetry'' load_telemetry (in_section r ''logging'' load_logging
         (in_section r ''oauth'' load_oauth (in_section r ''sms'' load_sms (in_section r ''security'' load_security
           (in_section r ''database'' load_database (in_section r ''server'' load_server cfg))))))))"

lemma plain_sections_wf: "config_wf cfg \<Longrightarrow> config_wf (plain_sections r cfg)"
  unfolding plain_sections_def by (intro in_section_wf section_wf)

lemma plain_sections_nodes: "cf_raft_nodes (plain_sections r cfg) = cf_raft_nodes cfg"
  unfolding plain_sections_def
  by (simp add: in_section_nodes load_server_def load_database_def load_security_def load_sms_def load_oauth_def
      load_logging_def load_telemetry_def load_ratelimit_def load_password_policy_def Let_def)

lemma load_sections_plain:
  "load_sections r cfg =
     (case toml_table_in r ''raft'' of Some t \<Rightarrow> load_raft t (plain_sections r cfg) | None \<Rightarrow> Some (plain_sections r cfg))"
  unfolding load_sections_def plain_sections_def Let_def by (rule refl)

lemma load_raft_wf:
  assumes "config_wf cfg" "cf_raft_nodes cfg = []"
  shows "\<exists>c. load_raft t cfg = Some c \<and> config_wf c"
proof (cases "toml_array_in t ''nodes''")
  case None
  then show ?thesis using assms by (simp add: load_raft_def config_wf_def)
next
  case (Some es)
  obtain ns where "load_nodes 16 es [] = Some ns" "length ns \<le> 16" "\<forall>n \<in> set ns. fits 256 (snd n)"
    using load_nodes_bound [of "[]" 16 es] by auto
  with Some assms show ?thesis by (simp add: load_raft_def config_wf_def)
qed

lemma config_default_wf: "config_wf sso_config_default"
  by (simp add: config_wf_def sso_config_default_def fits_def sso_strlcpy_def cstr_def)

lemma apply_env_wf: "config_wf cfg \<Longrightarrow> config_wf (sso_config_apply_env g cfg)"
  by (simp add: config_wf_def sso_config_apply_env_def fits_rules env_val_def split: option.split)

definition complete_node :: "toml \<Rightarrow> bool" where
  "complete_node e \<longleftrightarrow> (\<exists>nt i u. e = TTable nt \<and> toml_int_in nt ''id'' = Some i \<and> toml_string_in nt ''url'' = Some u)"

lemma load_nodes_complete:
  assumes "\<forall>e \<in> set es. complete_node e" "length es \<le> k" "length nodes \<le> 16"
  shows "if length nodes + length es \<le> 16
         then \<exists>ns. load_nodes k es nodes = Some ns \<and> length ns = length nodes + length es
         else load_nodes k es nodes = None"
  using assms
proof (induction k es nodes rule: load_nodes.induct)
  case (3 k e es nodes)
  then show ?case by (auto simp: complete_node_def split: option.splits if_splits)
qed auto

text \<open>C25: whatever the configuration file and the environment hold, start-up yields a configuration,
  and in it every string is terminated inside its field, the log level is one of the four
  levels, and the list of cluster nodes stays within its 16 elements.\<close>

theorem config_startup_wf: "\<exists>cfg. config_startup parse getenv f = Some cfg \<and> config_wf cfg"
proof -
  note d = config_default_wf
  have n: "cf_raft_nodes sso_config_default = []" by (simp add: sso_config_default_def)
  have "\<exists>c. load_sections r sso_config_default = Some c \<and> config_wf c" for r
    using load_raft_wf [OF plain_sections_wf [OF d]] plain_sections_wf [OF d]
    by (auto simp: load_sections_plain plain_sections_nodes n split: option.split)
  then have "\<exists>err c. sso_config_load parse (Some f) (Some sso_config_default) = Some (err, Some c) \<and> config_wf c"
    using d by (fastforce simp: sso_config_load_def split: option.split)
  then show ?thesis
    using apply_env_wf by (fastforce simp: config_startup_def)
qed

text \<open>A reload reads the file over the running configuration and appends its cluster nodes to
  those already there. When the file lists \<open>n\<close> complete nodes and the running configuration and the
  file together hold more than 16, the reload writes past the end of the array.\<close>

theorem config_reload_overflow:
  assumes "parse f = Some (Some r)" "toml_table_in r ''raft'' = Some t" "toml_array_in t ''nodes'' = Some es"
    and "\<forall>e \<in> set es. complete_node e"
    and "length es \<le> 16" "length (cf_raft_nodes old) \<le> 16" "16 < length (cf_raft_nodes old) + length es"
  shows "config_reload parse getenv f old = None"
  using assms(1-3,7) load_nodes_complete [OF assms(4-6)]
  by (simp add: config_reload_def sso_config_load_def load_sections_plain load_raft_def plain_sections_nodes)

theorem config_reload_overflow_witness:
  "let nodes = map (\<lambda>i. TTable [(''id'', TInt i), (''url'', TString ''http://n'')]) [1..9];
       parse = (\<lambda>_. Some (Some [(''raft'', TTable [(''nodes'', TArray nodes)])]))
   in \<exists>cfg. config_startup parse (\<lambda>_. None) ''sso.toml'' = Some cfg \<and> length (cf_raft_nodes cfg) = 9 \<and>
        config_reload parse (\<lambda>_. None) ''sso.toml'' cfg = None"
proof -
  define nodes where "nodes = map (\<lambda>i. TTable [(''id'', TInt i), (''url'', TString ''http://n'')]) [1..9]"
  define parse :: "string \<Rightarrow> toml_table option option"
    where "parse = (\<lambda>_. Some (Some [(''raft'', TTable [(''nodes'', TArray nodes)])]))"
  have cn: "\<forall>e \<in> set nodes. complete_node e" and len: "length nodes = 9"
    by (auto simp: nodes_def complete_node_def toml_int_in_def toml_string_in_def)
  obtain ns where ns: "load_nodes 16 nodes [] = Some ns" "length ns = 9"
    using load_nodes_complete [OF cn, of 16 "[]"] len by auto
  have env: "cf_raft_nodes (sso_config_apply_env g c) = cf_raft_nodes c" for g c
    by (simp add: sso_config_apply_env_def)
  have d: "cf_raft_nodes sso_config_default = []" by (simp add: sso_config_default_def)
  obtain cfg where c: "config_startup parse (\<lambda>_. None) ''sso.toml'' = Some cfg" "cf_raft_nodes cfg = ns"
    by (simp add: config_startup_def sso_config_load_def load_sections_plain parse_def toml_table_in_def load_raft_def
        toml_array_in_def plain_sections_nodes env d ns)
  have "config_reload parse (\<lambda>_. None) ''sso.toml'' cfg = None"
    by (rule config_reload_overflow [where r = "[(''raft'', TTable [(''nodes'', TArray nodes)])]" and es = nodes and t = "[(''nodes'', TArray nodes)]"])
       (use cn len ns(2) in \<open>simp_all add: parse_def toml_table_in_def toml_array_in_def c(2)\<close>)
  with c ns(2) show ?thesis by (simp add: Let_def nodes_def parse_def)
qed

end
