(* ===== verification/Sso_Context.thy ===== *)
theory Sso_Context
  imports Perm_Cache Sso_Config
begin

text \<open>
  The root object \<^verbatim>\<open>sso_context\<close> of \<^verbatim>\<open>include/sso.h\<close>, through which every manager reaches the
  storage backend and the permission engine. The managers hold nothing but a pointer back to the
  context (the user manager also its hash limits), so a manager is an option: \<open>None\<close> for NULL.
  The backend's state is a field of the context, since the backend object owns it.
\<close>

record user_manager =
  hash_opslimit :: nat
  hash_memlimit :: nat

record 's sso_context =
  storage_backend :: "'s storage_backend option"
  store :: 's
  user_mgr :: "user_manager option"
  role_mgr :: bool
  group_mgr :: bool
  policy_mgr :: bool
  perm_engine :: "'s permission_engine option"
  sso_config :: "sso_config option"

text \<open>\<^verbatim>\<open>if (!sb || !sb->f) return SSO_ERR_NOT_IMPLEMENTED\<close>: the function the backend offers, if any.\<close>

definition sb_fn :: "('s storage_backend \<Rightarrow> 'f option) \<Rightarrow> 's sso_context \<Rightarrow> 'f option" where
  "sb_fn sel ctx = Option.bind (storage_backend ctx) sel"

definition set_store :: "'s sso_context \<Rightarrow> sso_error \<times> 's \<Rightarrow> sso_error \<times> 's sso_context" where
  "set_store ctx r = (fst r, ctx\<lparr>store := snd r\<rparr>)"

definition on_engine :: "('s permission_engine \<Rightarrow> 's permission_engine) \<Rightarrow> 's sso_context \<Rightarrow> 's sso_context" where
  "on_engine f ctx = ctx\<lparr>perm_engine := map_option f (perm_engine ctx)\<rparr>"

text \<open>The pattern every write follows: call the backend and, on success, drop cached decisions.\<close>

definition store_then ::
  "('s permission_engine \<Rightarrow> 's permission_engine) \<Rightarrow> 's sso_context \<Rightarrow> sso_error \<times> 's \<Rightarrow> sso_error \<times> 's sso_context" where
  "store_then f ctx r =
     (let (err, ctx') = set_store ctx r in (err, if err = SSO_OK then on_engine f ctx' else ctx'))"

abbreviation invalidate_user :: "sso_id \<Rightarrow> 's permission_engine \<Rightarrow> 's permission_engine" where
  "invalidate_user uid \<equiv> (\<lambda>E. perm_engine_cache_invalidate_user E uid)"

abbreviation invalidate_policy :: "sso_id \<Rightarrow> 's permission_engine \<Rightarrow> 's permission_engine" where
  "invalidate_policy pid \<equiv> (\<lambda>E. perm_engine_cache_invalidate_policy E pid)"

abbreviation invalidate_all :: "'s permission_engine \<Rightarrow> 's permission_engine" where
  "invalidate_all \<equiv> perm_engine_cache_invalidate_all"

text \<open>What a successful write leaves behind in the engine.\<close>

lemma store_then_ok:
  "store_then f ctx r = (SSO_OK, ctx') \<Longrightarrow>
   fst r = SSO_OK \<and> store ctx' = snd r \<and> perm_engine ctx' = map_option f (perm_engine ctx) \<and>
   storage_backend ctx' = storage_backend ctx"
  by (auto simp: store_then_def set_store_def on_engine_def split: if_splits)

lemma store_then_fail:
  "store_then f ctx r = (err, ctx') \<Longrightarrow> err \<noteq> SSO_OK \<Longrightarrow> perm_engine ctx' = perm_engine ctx \<and> store ctx' = snd r"
  by (auto simp: store_then_def set_store_def split: if_splits)

text \<open>A context over the in-memory tables and nothing else, for concrete instances.\<close>

definition bare_context :: "'s storage_backend \<Rightarrow> 's \<Rightarrow> 's sso_context" where
  "bare_context sb s =
     \<lparr>storage_backend = Some sb, store = s, user_mgr = Some \<lparr>hash_opslimit = 0, hash_memlimit = 0\<rparr>,
      role_mgr = True, group_mgr = True, policy_mgr = True, perm_engine = Some empty_engine,
      sso_config = None\<rparr>"

end
