(* ===== verification/User_Manager.thy ===== *)
theory User_Manager
  imports Sso_Context
begin

text \<open>
  The user manager, \<^verbatim>\<open>src/user.c\<close>. Password hashing and verification are libsodium's: the record
  \<open>pwhash\<close> of functions is an argument of the definitions that use them. A time argument stands for
  \<^verbatim>\<open>sso_timestamp_now()\<close>. A nullable string argument is an option.
\<close>

record pwhash =
  pwhash_str :: "string \<Rightarrow> nat \<Rightarrow> nat \<Rightarrow> string option"
  pwhash_str_verify :: "string \<Rightarrow> string \<Rightarrow> bool"
  OPSLIMIT_MODERATE :: nat
  MEMLIMIT_MODERATE :: nat

definition hash_password :: "pwhash \<Rightarrow> string \<Rightarrow> nat \<Rightarrow> nat \<Rightarrow> string" where
  "hash_password H pw ops mem = (case pwhash_str H pw ops mem of None \<Rightarrow> [] | Some h \<Rightarrow> h)"

definition user_manager_create :: "pwhash \<Rightarrow> 's sso_context option \<Rightarrow> sso_error \<times> user_manager option" where
  "user_manager_create H ctx =
     (case ctx of
        None \<Rightarrow> (SSO_ERR_INVALID_PARAM, None)
      | Some c \<Rightarrow>
          (SSO_OK, Some (case sso_config c of
             Some cfg \<Rightarrow>
               \<lparr>hash_opslimit = (if password_opslimit cfg \<noteq> 0 then password_opslimit cfg else OPSLIMIT_MODERATE H),
                hash_memlimit = (if password_memlimit cfg \<noteq> 0 then password_memlimit cfg else MEMLIMIT_MODERATE H)\<rparr>
           | None \<Rightarrow> \<lparr>hash_opslimit = OPSLIMIT_MODERATE H, hash_memlimit = MEMLIMIT_MODERATE H\<rparr>)))"

definition user_manager_set_hash_params :: "user_manager option \<Rightarrow> nat \<Rightarrow> nat \<Rightarrow> user_manager option" where
  "user_manager_set_hash_params mgr ops mem =
     map_option (\<lambda>m. m\<lparr>hash_opslimit := ops, hash_memlimit := mem\<rparr>) mgr"

section \<open>Create, read, update, delete\<close>

definition zero_user :: user where
  "zero_user = \<lparr>u_id = 0, username = [], phone = [], password_hash = [], email = [], display_name = [],
     u_status = USER_STATUS_INACTIVE, u_created_at = 0, u_updated_at = 0, attributes = [], mfa_enabled = 0,
     mfa_secret = [], password_set_at = 0\<rparr>"

definition create_user_record :: "'s sso_context \<Rightarrow> user \<Rightarrow> sso_error \<times> user option \<times> 's sso_context" where
  "create_user_record ctx u =
     (case sb_fn sb_user_create ctx of
        None \<Rightarrow> (SSO_ERR_NOT_IMPLEMENTED, None, ctx)
      | Some f \<Rightarrow>
          (let (err, u', s') = f (store ctx) u
           in (err, if err = SSO_OK then Some u' else None, ctx\<lparr>store := s'\<rparr>)))"

definition user_create ::
  "pwhash \<Rightarrow> timestamp \<Rightarrow> 's sso_context \<Rightarrow> user_manager option \<Rightarrow> string option \<Rightarrow> string option \<Rightarrow>
     string option \<Rightarrow> string option \<Rightarrow> sso_error \<times> user option \<times> 's sso_context" where
  "user_create H now ctx mgr uname pw mail disp =
     (case (mgr, uname, pw) of
        (Some m, Some un, Some p) \<Rightarrow>
          if sb_fn sb_user_create ctx = None then (SSO_ERR_NOT_IMPLEMENTED, None, ctx)
          else create_user_record ctx
            (zero_user\<lparr>username := strlcpy un SSO_MAX_USERNAME,
                       email := (case mail of None \<Rightarrow> [] | Some e \<Rightarrow> strlcpy e SSO_MAX_EMAIL),
                       display_name := (case disp of None \<Rightarrow> [] | Some d \<Rightarrow> strlcpy d SSO_MAX_DISPLAY_NAME),
                       u_status := USER_STATUS_ACTIVE, u_created_at := now, u_updated_at := now,
                       password_set_at := now,
                       password_hash := hash_password H p (hash_opslimit m) (hash_memlimit m)\<rparr>)
      | _ \<Rightarrow> (SSO_ERR_INVALID_PARAM, None, ctx))"

definition user_create_by_phone ::
  "timestamp \<Rightarrow> 's sso_context \<Rightarrow> user_manager option \<Rightarrow> string option \<Rightarrow> sso_error \<times> user option \<times> 's sso_context" where
  "user_create_by_phone now ctx mgr ph =
     (case (mgr, ph) of
        (Some m, Some p) \<Rightarrow>
          if sb_fn sb_user_create ctx = None then (SSO_ERR_NOT_IMPLEMENTED, None, ctx)
          else create_user_record ctx
            (zero_user\<lparr>phone := strlcpy p SSO_MAX_PHONE, username := strlcpy p SSO_MAX_USERNAME,
                       u_status := USER_STATUS_ACTIVE, u_created_at := now, u_updated_at := now,
                       password_set_at := now\<rparr>)
      | _ \<Rightarrow> (SSO_ERR_INVALID_PARAM, None, ctx))"

definition user_get_by_id :: "'s sso_context \<Rightarrow> user_manager option \<Rightarrow> sso_id \<Rightarrow> sso_error \<times> user option" where
  "user_get_by_id ctx mgr i =
     (case mgr of
        None \<Rightarrow> (SSO_ERR_INVALID_PARAM, None)
      | Some _ \<Rightarrow> (case sb_fn sb_user_get_by_id ctx of
                     None \<Rightarrow> (SSO_ERR_NOT_IMPLEMENTED, None) | Some f \<Rightarrow> f (store ctx) i))"

definition user_get_by_username ::
  "'s sso_context \<Rightarrow> user_manager option \<Rightarrow> string option \<Rightarrow> sso_error \<times> user option" where
  "user_get_by_username ctx mgr uname =
     (case (mgr, uname) of
        (Some _, Some n) \<Rightarrow> (case sb_fn sb_user_get_by_name ctx of
                               None \<Rightarrow> (SSO_ERR_NOT_IMPLEMENTED, None) | Some f \<Rightarrow> f (store ctx) n)
      | _ \<Rightarrow> (SSO_ERR_INVALID_PARAM, None))"

definition user_get_by_phone ::
  "'s sso_context \<Rightarrow> user_manager option \<Rightarrow> string option \<Rightarrow> sso_error \<times> user option" where
  "user_get_by_phone ctx mgr ph =
     (case (mgr, ph) of
        (Some _, Some p) \<Rightarrow> (case sb_fn sb_user_get_by_phone ctx of
                               None \<Rightarrow> (SSO_ERR_NOT_IMPLEMENTED, None) | Some f \<Rightarrow> f (store ctx) p)
      | _ \<Rightarrow> (SSO_ERR_INVALID_PARAM, None))"

definition user_update ::
  "timestamp \<Rightarrow> 's sso_context \<Rightarrow> user_manager option \<Rightarrow> user option \<Rightarrow> sso_error \<times> 's sso_context" where
  "user_update now ctx mgr u =
     (case (mgr, u) of
        (Some _, Some x) \<Rightarrow>
          (case sb_fn sb_user_update ctx of
             None \<Rightarrow> (SSO_ERR_NOT_IMPLEMENTED, ctx)
           | Some f \<Rightarrow> store_then (invalidate_user (u_id x)) ctx (f (store ctx) (x\<lparr>u_updated_at := now\<rparr>)))
      | _ \<Rightarrow> (SSO_ERR_INVALID_PARAM, ctx))"

definition user_delete :: "'s sso_context \<Rightarrow> user_manager option \<Rightarrow> sso_id \<Rightarrow> sso_error \<times> 's sso_context" where
  "user_delete ctx mgr i =
     (case mgr of
        None \<Rightarrow> (SSO_ERR_INVALID_PARAM, ctx)
      | Some _ \<Rightarrow> (case sb_fn sb_user_delete ctx of
                     None \<Rightarrow> (SSO_ERR_NOT_IMPLEMENTED, ctx)
                   | Some f \<Rightarrow> store_then (invalidate_user i) ctx (f (store ctx) i)))"

definition user_list ::
  "'s sso_context \<Rightarrow> user_manager option \<Rightarrow> string option \<Rightarrow> int \<Rightarrow> int \<Rightarrow> int \<Rightarrow> sso_error \<times> sso_id list \<times> nat" where
  "user_list ctx mgr q status offset limit =
     (case mgr of
        None \<Rightarrow> (SSO_ERR_INVALID_PARAM, [], 0)
      | Some _ \<Rightarrow> (case sb_fn sb_user_list ctx of
                     None \<Rightarrow> (SSO_ERR_NOT_IMPLEMENTED, [], 0)
                   | Some f \<Rightarrow> f (store ctx) q status offset limit))"

section \<open>Authentication\<close>

definition user_authenticate ::
  "pwhash \<Rightarrow> timestamp \<Rightarrow> 's sso_context \<Rightarrow> user_manager option \<Rightarrow> string option \<Rightarrow> string option \<Rightarrow>
     sso_error \<times> user option" where
  "user_authenticate H now ctx mgr uname pw =
     (case (mgr, uname, pw) of
        (Some _, Some _, Some p) \<Rightarrow>
          (case user_get_by_username ctx mgr uname of
             (SSO_OK, Some stored) \<Rightarrow>
               if u_status stored \<noteq> USER_STATUS_ACTIVE then (SSO_ERR_AUTH_FAILED, None)
               else if \<not> pwhash_str_verify H (password_hash stored) p then (SSO_ERR_AUTH_FAILED, None)
               else (case sso_config ctx of
                       Some cfg \<Rightarrow>
                         if expiry_days (password_policy cfg) > 0 \<and> password_set_at stored > 0 \<and>
                            password_set_at stored + expiry_days (password_policy cfg) * 86400000 < now
                         then (SSO_ERR_PASSWORD_EXPIRED, None)
                         else (SSO_OK, Some stored)
                     | None \<Rightarrow> (SSO_OK, Some stored))
           | _ \<Rightarrow> (SSO_ERR_AUTH_FAILED, None))
      | _ \<Rightarrow> (SSO_ERR_INVALID_PARAM, None))"

definition user_set_password ::
  "pwhash \<Rightarrow> timestamp \<Rightarrow> 's sso_context \<Rightarrow> user_manager option \<Rightarrow> sso_id \<Rightarrow> string option \<Rightarrow> sso_error \<times> 's sso_context" where
  "user_set_password H now ctx mgr uid pw =
     (case (mgr, pw) of
        (Some m, Some p) \<Rightarrow>
          (case user_get_by_id ctx mgr uid of
             (SSO_OK, Some u) \<Rightarrow>
               user_update now ctx mgr
                 (Some (u\<lparr>password_hash := hash_password H p (hash_opslimit m) (hash_memlimit m),
                          password_set_at := now\<rparr>))
           | (err, _) \<Rightarrow> (err, ctx))
      | _ \<Rightarrow> (SSO_ERR_INVALID_PARAM, ctx))"

definition user_set_status ::
  "timestamp \<Rightarrow> 's sso_context \<Rightarrow> user_manager option \<Rightarrow> sso_id \<Rightarrow> user_status \<Rightarrow> sso_error \<times> 's sso_context" where
  "user_set_status now ctx mgr uid st =
     (case mgr of
        None \<Rightarrow> (SSO_ERR_INVALID_PARAM, ctx)
      | Some _ \<Rightarrow>
          (case user_get_by_id ctx mgr uid of
             (SSO_OK, Some u) \<Rightarrow> user_update now ctx mgr (Some (u\<lparr>u_status := st\<rparr>))
           | (err, _) \<Rightarrow> (err, ctx)))"

section \<open>Memberships\<close>

definition user_get_roles ::
  "'s sso_context \<Rightarrow> user_manager option \<Rightarrow> sso_id \<Rightarrow> nat \<Rightarrow> sso_error \<times> sso_id list" where
  "user_get_roles ctx mgr uid m =
     (case mgr of
        None \<Rightarrow> (SSO_ERR_INVALID_PARAM, [])
      | Some _ \<Rightarrow> (case sb_fn sb_get_user_roles ctx of
                     None \<Rightarrow> (SSO_ERR_NOT_IMPLEMENTED, []) | Some f \<Rightarrow> f (store ctx) uid m))"

definition user_get_groups ::
  "'s sso_context \<Rightarrow> user_manager option \<Rightarrow> sso_id \<Rightarrow> nat \<Rightarrow> sso_error \<times> sso_id list" where
  "user_get_groups ctx mgr uid m =
     (case mgr of
        None \<Rightarrow> (SSO_ERR_INVALID_PARAM, [])
      | Some _ \<Rightarrow> (case sb_fn sb_get_user_groups ctx of
                     None \<Rightarrow> (SSO_ERR_NOT_IMPLEMENTED, []) | Some f \<Rightarrow> f (store ctx) uid m))"

end
