(* ===== verification/Role_Manager.thy ===== *)
theory Role_Manager
  imports Sso_Context
begin

text \<open>
  The role manager, \<^verbatim>\<open>src/role.c\<close>. A manager is present or NULL; it carries no data of its own.
\<close>

section \<open>Create, read, update, delete\<close>

definition role_create ::
  "timestamp \<Rightarrow> 's sso_context \<Rightarrow> bool \<Rightarrow> string option \<Rightarrow> string option \<Rightarrow> sso_id \<Rightarrow>
     sso_error \<times> role option \<times> 's sso_context" where
  "role_create now ctx mgr name descr parent =
     (case (mgr, name) of
        (True, Some n) \<Rightarrow>
          (case sb_fn sb_role_create ctx of
             None \<Rightarrow> (SSO_ERR_NOT_IMPLEMENTED, None, ctx)
           | Some f \<Rightarrow>
               (let (err, x, s') = f (store ctx)
                      \<lparr>r_id = 0, r_name = strlcpy n SSO_MAX_ROLE_NAME,
                       r_description = (case descr of None \<Rightarrow> [] | Some d \<Rightarrow> strlcpy d SSO_MAX_DESCRIPTION),
                       parent_role_id = parent, r_status = ROLE_STATUS_ACTIVE,
                       r_created_at = now, r_updated_at = now\<rparr>
                in (err, if err = SSO_OK then Some x else None, ctx\<lparr>store := s'\<rparr>)))
      | _ \<Rightarrow> (SSO_ERR_INVALID_PARAM, None, ctx))"

definition role_get_by_id :: "'s sso_context \<Rightarrow> bool \<Rightarrow> sso_id \<Rightarrow> sso_error \<times> role option" where
  "role_get_by_id ctx mgr i =
     (if \<not> mgr then (SSO_ERR_INVALID_PARAM, None)
      else case sb_fn sb_role_get_by_id ctx of
             None \<Rightarrow> (SSO_ERR_NOT_IMPLEMENTED, None) | Some f \<Rightarrow> f (store ctx) i)"

definition role_get_by_name :: "'s sso_context \<Rightarrow> bool \<Rightarrow> string option \<Rightarrow> sso_error \<times> role option" where
  "role_get_by_name ctx mgr name =
     (case (mgr, name) of
        (True, Some n) \<Rightarrow> (case sb_fn sb_role_get_by_name ctx of
                             None \<Rightarrow> (SSO_ERR_NOT_IMPLEMENTED, None) | Some f \<Rightarrow> f (store ctx) n)
      | _ \<Rightarrow> (SSO_ERR_INVALID_PARAM, None))"

definition role_update ::
  "timestamp \<Rightarrow> 's sso_context \<Rightarrow> bool \<Rightarrow> role option \<Rightarrow> sso_error \<times> 's sso_context" where
  "role_update now ctx mgr x =
     (case (mgr, x) of
        (True, Some y) \<Rightarrow>
          (case sb_fn sb_role_update ctx of
             None \<Rightarrow> (SSO_ERR_NOT_IMPLEMENTED, ctx)
           | Some f \<Rightarrow> store_then invalidate_all ctx (f (store ctx) (y\<lparr>r_updated_at := now\<rparr>)))
      | _ \<Rightarrow> (SSO_ERR_INVALID_PARAM, ctx))"

definition role_delete :: "'s sso_context \<Rightarrow> bool \<Rightarrow> sso_id \<Rightarrow> sso_error \<times> 's sso_context" where
  "role_delete ctx mgr i =
     (if \<not> mgr then (SSO_ERR_INVALID_PARAM, ctx)
      else case sb_fn sb_role_delete ctx of
             None \<Rightarrow> (SSO_ERR_NOT_IMPLEMENTED, ctx)
           | Some f \<Rightarrow> store_then invalidate_all ctx (f (store ctx) i))"

definition role_list ::
  "'s sso_context \<Rightarrow> bool \<Rightarrow> string option \<Rightarrow> int \<Rightarrow> int \<Rightarrow> int \<Rightarrow> sso_error \<times> sso_id list \<times> nat" where
  "role_list ctx mgr q status offset limit =
     (if \<not> mgr then (SSO_ERR_INVALID_PARAM, [], 0)
      else case sb_fn sb_role_list ctx of
             None \<Rightarrow> (SSO_ERR_NOT_IMPLEMENTED, [], 0) | Some f \<Rightarrow> f (store ctx) q status offset limit)"

section \<open>Hierarchy\<close>

text \<open>The loop climbs at most \<open>m\<close> parents, so a cycle cannot keep it running.\<close>

fun role_ancestors_loop :: "('s, sso_id, sso_id) get_fn \<Rightarrow> 's \<Rightarrow> sso_id \<Rightarrow> nat \<Rightarrow> sso_id list" where
  "role_ancestors_loop f s cur 0 = []"
| "role_ancestors_loop f s cur (Suc m) =
     (case f s cur of
        (SSO_OK, Some par) \<Rightarrow>
          if par = SSO_ID_NONE then [] else par # role_ancestors_loop f s par m
      | _ \<Rightarrow> [])"

definition role_get_ancestors :: "'s sso_context \<Rightarrow> bool \<Rightarrow> sso_id \<Rightarrow> nat \<Rightarrow> sso_error \<times> sso_id list" where
  "role_get_ancestors ctx mgr i m =
     (if \<not> mgr then (SSO_ERR_INVALID_PARAM, [])
      else case sb_fn sb_role_get_parent ctx of
             None \<Rightarrow> (SSO_ERR_NOT_IMPLEMENTED, [])
           | Some f \<Rightarrow> (SSO_OK, role_ancestors_loop f (store ctx) i m))"

fun role_children_loop :: "'s sso_context \<Rightarrow> sso_id \<Rightarrow> sso_id list \<Rightarrow> nat \<Rightarrow> sso_id list" where
  "role_children_loop ctx i [] m = []"
| "role_children_loop ctx i (c # cs) m =
     (if m = 0 then []
      else case role_get_by_id ctx True c of
             (SSO_OK, Some x) \<Rightarrow>
               if parent_role_id x = i then c # role_children_loop ctx i cs (m - 1)
               else role_children_loop ctx i cs m
           | _ \<Rightarrow> role_children_loop ctx i cs m)"

definition role_get_children :: "'s sso_context \<Rightarrow> bool \<Rightarrow> sso_id \<Rightarrow> nat \<Rightarrow> sso_error \<times> sso_id list" where
  "role_get_children ctx mgr i m =
     (if \<not> mgr then (SSO_ERR_INVALID_PARAM, [])
      else case role_list ctx mgr None (- 1) 0 256 of
             (SSO_OK, all, _) \<Rightarrow> (SSO_OK, role_children_loop ctx i all m)
           | (err, _, _) \<Rightarrow> (err, []))"

section \<open>Assignments\<close>

definition role_assign_to_user :: "'s sso_context \<Rightarrow> bool \<Rightarrow> sso_id \<Rightarrow> sso_id \<Rightarrow> sso_error \<times> 's sso_context" where
  "role_assign_to_user ctx mgr rid uid =
     (if \<not> mgr then (SSO_ERR_INVALID_PARAM, ctx)
      else case sb_fn sb_assign_role_to_user ctx of
             None \<Rightarrow> (SSO_ERR_NOT_IMPLEMENTED, ctx)
           | Some f \<Rightarrow> store_then (invalidate_user uid) ctx (f (store ctx) rid uid))"

definition role_unassign_from_user :: "'s sso_context \<Rightarrow> bool \<Rightarrow> sso_id \<Rightarrow> sso_id \<Rightarrow> sso_error \<times> 's sso_context" where
  "role_unassign_from_user ctx mgr rid uid =
     (if \<not> mgr then (SSO_ERR_INVALID_PARAM, ctx)
      else case sb_fn sb_unassign_role_from_user ctx of
             None \<Rightarrow> (SSO_ERR_NOT_IMPLEMENTED, ctx)
           | Some f \<Rightarrow> store_then (invalidate_user uid) ctx (f (store ctx) rid uid))"

definition role_assign_to_group :: "'s sso_context \<Rightarrow> bool \<Rightarrow> sso_id \<Rightarrow> sso_id \<Rightarrow> sso_error \<times> 's sso_context" where
  "role_assign_to_group ctx mgr rid gid =
     (if \<not> mgr then (SSO_ERR_INVALID_PARAM, ctx)
      else case sb_fn sb_assign_role_to_group ctx of
             None \<Rightarrow> (SSO_ERR_NOT_IMPLEMENTED, ctx)
           | Some f \<Rightarrow> store_then invalidate_all ctx (f (store ctx) rid gid))"

definition role_unassign_from_group :: "'s sso_context \<Rightarrow> bool \<Rightarrow> sso_id \<Rightarrow> sso_id \<Rightarrow> sso_error \<times> 's sso_context" where
  "role_unassign_from_group ctx mgr rid gid =
     (if \<not> mgr then (SSO_ERR_INVALID_PARAM, ctx)
      else case sb_fn sb_unassign_role_from_group ctx of
             None \<Rightarrow> (SSO_ERR_NOT_IMPLEMENTED, ctx)
           | Some f \<Rightarrow> store_then invalidate_all ctx (f (store ctx) rid gid))"

definition role_get_users :: "'s sso_context \<Rightarrow> bool \<Rightarrow> sso_id \<Rightarrow> nat \<Rightarrow> sso_error \<times> sso_id list" where
  "role_get_users ctx mgr rid m =
     (if \<not> mgr then (SSO_ERR_INVALID_PARAM, [])
      else case sb_fn sb_get_role_users ctx of
             None \<Rightarrow> (SSO_ERR_NOT_IMPLEMENTED, []) | Some f \<Rightarrow> f (store ctx) rid m)"

definition role_get_policies :: "'s sso_context \<Rightarrow> bool \<Rightarrow> sso_id \<Rightarrow> nat \<Rightarrow> sso_error \<times> sso_id list" where
  "role_get_policies ctx mgr rid m =
     (if \<not> mgr then (SSO_ERR_INVALID_PARAM, [])
      else case sb_fn sb_get_target_policies ctx of
             None \<Rightarrow> (SSO_ERR_NOT_IMPLEMENTED, []) | Some f \<Rightarrow> f (store ctx) POLICY_TARGET_ROLE rid m)"

end
