(* ===== verification/Group_Manager.thy ===== *)
theory Group_Manager
  imports Sso_Context
begin

text \<open>
  The group manager, \<^verbatim>\<open>src/group.c\<close>. A manager is present or NULL; it carries no data of its own.
\<close>

section \<open>Create, read, update, delete\<close>

definition group_create ::
  "timestamp \<Rightarrow> 's sso_context \<Rightarrow> bool \<Rightarrow> string option \<Rightarrow> string option \<Rightarrow> sso_id \<Rightarrow>
     sso_error \<times> group option \<times> 's sso_context" where
  "group_create now ctx mgr name descr parent =
     (case (mgr, name) of
        (True, Some n) \<Rightarrow>
          (case sb_fn sb_group_create ctx of
             None \<Rightarrow> (SSO_ERR_NOT_IMPLEMENTED, None, ctx)
           | Some f \<Rightarrow>
               (let (err, x, s') = f (store ctx)
                      \<lparr>g_id = 0, g_name = strlcpy n SSO_MAX_GROUP_NAME,
                       g_description = (case descr of None \<Rightarrow> [] | Some d \<Rightarrow> strlcpy d SSO_MAX_DESCRIPTION),
                       parent_group_id = parent, g_status = GROUP_STATUS_ACTIVE,
                       g_created_at = now, g_updated_at = now\<rparr>
                in (err, if err = SSO_OK then Some x else None, ctx\<lparr>store := s'\<rparr>)))
      | _ \<Rightarrow> (SSO_ERR_INVALID_PARAM, None, ctx))"

definition group_get_by_id :: "'s sso_context \<Rightarrow> bool \<Rightarrow> sso_id \<Rightarrow> sso_error \<times> group option" where
  "group_get_by_id ctx mgr i =
     (if \<not> mgr then (SSO_ERR_INVALID_PARAM, None)
      else case sb_fn sb_group_get_by_id ctx of
             None \<Rightarrow> (SSO_ERR_NOT_IMPLEMENTED, None) | Some f \<Rightarrow> f (store ctx) i)"

definition group_get_by_name :: "'s sso_context \<Rightarrow> bool \<Rightarrow> string option \<Rightarrow> sso_error \<times> group option" where
  "group_get_by_name ctx mgr name =
     (case (mgr, name) of
        (True, Some n) \<Rightarrow> (case sb_fn sb_group_get_by_name ctx of
                             None \<Rightarrow> (SSO_ERR_NOT_IMPLEMENTED, None) | Some f \<Rightarrow> f (store ctx) n)
      | _ \<Rightarrow> (SSO_ERR_INVALID_PARAM, None))"

definition group_update ::
  "timestamp \<Rightarrow> 's sso_context \<Rightarrow> bool \<Rightarrow> group option \<Rightarrow> sso_error \<times> 's sso_context" where
  "group_update now ctx mgr x =
     (case (mgr, x) of
        (True, Some y) \<Rightarrow>
          (case sb_fn sb_group_update ctx of
             None \<Rightarrow> (SSO_ERR_NOT_IMPLEMENTED, ctx)
           | Some f \<Rightarrow> store_then invalidate_all ctx (f (store ctx) (y\<lparr>g_updated_at := now\<rparr>)))
      | _ \<Rightarrow> (SSO_ERR_INVALID_PARAM, ctx))"

definition group_delete :: "'s sso_context \<Rightarrow> bool \<Rightarrow> sso_id \<Rightarrow> sso_error \<times> 's sso_context" where
  "group_delete ctx mgr i =
     (if \<not> mgr then (SSO_ERR_INVALID_PARAM, ctx)
      else case sb_fn sb_group_delete ctx of
             None \<Rightarrow> (SSO_ERR_NOT_IMPLEMENTED, ctx)
           | Some f \<Rightarrow> store_then invalidate_all ctx (f (store ctx) i))"

definition group_list ::
  "'s sso_context \<Rightarrow> bool \<Rightarrow> string option \<Rightarrow> int \<Rightarrow> int \<Rightarrow> int \<Rightarrow> sso_error \<times> sso_id list \<times> nat" where
  "group_list ctx mgr q status offset limit =
     (if \<not> mgr then (SSO_ERR_INVALID_PARAM, [], 0)
      else case sb_fn sb_group_list ctx of
             None \<Rightarrow> (SSO_ERR_NOT_IMPLEMENTED, [], 0) | Some f \<Rightarrow> f (store ctx) q status offset limit)"

section \<open>Hierarchy\<close>

text \<open>The loop climbs at most \<open>m\<close> parents, so a cycle cannot keep it running.\<close>

fun group_ancestors_loop :: "('s, sso_id, sso_id) get_fn \<Rightarrow> 's \<Rightarrow> sso_id \<Rightarrow> nat \<Rightarrow> sso_id list" where
  "group_ancestors_loop f s cur 0 = []"
| "group_ancestors_loop f s cur (Suc m) =
     (case f s cur of
        (SSO_OK, Some par) \<Rightarrow>
          if par = SSO_ID_NONE then [] else par # group_ancestors_loop f s par m
      | _ \<Rightarrow> [])"

definition group_get_ancestors :: "'s sso_context \<Rightarrow> bool \<Rightarrow> sso_id \<Rightarrow> nat \<Rightarrow> sso_error \<times> sso_id list" where
  "group_get_ancestors ctx mgr i m =
     (if \<not> mgr then (SSO_ERR_INVALID_PARAM, [])
      else case sb_fn sb_group_get_parent ctx of
             None \<Rightarrow> (SSO_ERR_NOT_IMPLEMENTED, [])
           | Some f \<Rightarrow> (SSO_OK, group_ancestors_loop f (store ctx) i m))"

fun group_children_loop :: "'s sso_context \<Rightarrow> sso_id \<Rightarrow> sso_id list \<Rightarrow> nat \<Rightarrow> sso_id list" where
  "group_children_loop ctx i [] m = []"
| "group_children_loop ctx i (c # cs) m =
     (if m = 0 then []
      else case group_get_by_id ctx True c of
             (SSO_OK, Some x) \<Rightarrow>
               if parent_group_id x = i then c # group_children_loop ctx i cs (m - 1)
               else group_children_loop ctx i cs m
           | _ \<Rightarrow> group_children_loop ctx i cs m)"

definition group_get_children :: "'s sso_context \<Rightarrow> bool \<Rightarrow> sso_id \<Rightarrow> nat \<Rightarrow> sso_error \<times> sso_id list" where
  "group_get_children ctx mgr i m =
     (if \<not> mgr then (SSO_ERR_INVALID_PARAM, [])
      else case group_list ctx mgr None (- 1) 0 256 of
             (SSO_OK, all, _) \<Rightarrow> (SSO_OK, group_children_loop ctx i all m)
           | (err, _, _) \<Rightarrow> (err, []))"

section \<open>Memberships\<close>

definition group_add_user :: "'s sso_context \<Rightarrow> bool \<Rightarrow> sso_id \<Rightarrow> sso_id \<Rightarrow> sso_error \<times> 's sso_context" where
  "group_add_user ctx mgr gid uid =
     (if \<not> mgr then (SSO_ERR_INVALID_PARAM, ctx)
      else case sb_fn sb_add_user_to_group ctx of
             None \<Rightarrow> (SSO_ERR_NOT_IMPLEMENTED, ctx)
           | Some f \<Rightarrow> store_then (invalidate_user uid) ctx (f (store ctx) gid uid))"

definition group_remove_user :: "'s sso_context \<Rightarrow> bool \<Rightarrow> sso_id \<Rightarrow> sso_id \<Rightarrow> sso_error \<times> 's sso_context" where
  "group_remove_user ctx mgr gid uid =
     (if \<not> mgr then (SSO_ERR_INVALID_PARAM, ctx)
      else case sb_fn sb_remove_user_from_group ctx of
             None \<Rightarrow> (SSO_ERR_NOT_IMPLEMENTED, ctx)
           | Some f \<Rightarrow> store_then (invalidate_user uid) ctx (f (store ctx) gid uid))"

definition group_get_members :: "'s sso_context \<Rightarrow> bool \<Rightarrow> sso_id \<Rightarrow> nat \<Rightarrow> sso_error \<times> sso_id list" where
  "group_get_members ctx mgr gid m =
     (if \<not> mgr then (SSO_ERR_INVALID_PARAM, [])
      else case sb_fn sb_get_group_users ctx of
             None \<Rightarrow> (SSO_ERR_NOT_IMPLEMENTED, []) | Some f \<Rightarrow> f (store ctx) gid m)"

definition group_get_policies :: "'s sso_context \<Rightarrow> bool \<Rightarrow> sso_id \<Rightarrow> nat \<Rightarrow> sso_error \<times> sso_id list" where
  "group_get_policies ctx mgr gid m =
     (if \<not> mgr then (SSO_ERR_INVALID_PARAM, [])
      else case sb_fn sb_get_target_policies ctx of
             None \<Rightarrow> (SSO_ERR_NOT_IMPLEMENTED, []) | Some f \<Rightarrow> f (store ctx) POLICY_TARGET_GROUP gid m)"

end
