(* ===== verification/Policy_Manager.thy ===== *)
theory Policy_Manager
  imports User_Manager Role_Manager Group_Manager "HOL-Library.Multiset"
begin

text \<open>
  The policy manager, \<^verbatim>\<open>src/policy.c\<close>: policies, their assignment to users, roles and groups, and
  the resolution of all policies that apply to a user, sorted by priority.
\<close>

section \<open>Create, read, update, delete\<close>

definition policy_create ::
  "timestamp \<Rightarrow> 's sso_context \<Rightarrow> bool \<Rightarrow> string option \<Rightarrow> perm_strategy_type \<Rightarrow> policy_effect \<Rightarrow> int \<Rightarrow>
     string option \<Rightarrow> sso_error \<times> policy option \<times> 's sso_context" where
  "policy_create now ctx mgr name strategy effect prio rules_json =
     (case (mgr, name, rules_json) of
        (True, Some n, Some rs) \<Rightarrow>
          (case sb_fn sb_policy_create ctx of
             None \<Rightarrow> (SSO_ERR_NOT_IMPLEMENTED, None, ctx)
           | Some f \<Rightarrow>
               (let (err, p, s') = f (store ctx)
                      \<lparr>p_id = 0, p_name = strlcpy n SSO_MAX_POLICY_NAME, strategy_type = strategy,
                       p_effect = effect, priority = prio, rules = strlcpy rs SSO_MAX_RULES_JSON,
                       p_status = POLICY_STATUS_ENABLED, p_created_at = now, p_updated_at = now\<rparr>
                in (err, if err = SSO_OK then Some p else None, ctx\<lparr>store := s'\<rparr>)))
      | _ \<Rightarrow> (SSO_ERR_INVALID_PARAM, None, ctx))"

definition policy_get_by_id :: "'s sso_context \<Rightarrow> bool \<Rightarrow> sso_id \<Rightarrow> sso_error \<times> policy option" where
  "policy_get_by_id ctx mgr i =
     (if \<not> mgr then (SSO_ERR_INVALID_PARAM, None)
      else case sb_fn sb_policy_get_by_id ctx of
             None \<Rightarrow> (SSO_ERR_NOT_IMPLEMENTED, None) | Some f \<Rightarrow> f (store ctx) i)"

definition policy_get_by_name :: "'s sso_context \<Rightarrow> bool \<Rightarrow> string option \<Rightarrow> sso_error \<times> policy option" where
  "policy_get_by_name ctx mgr name =
     (case (mgr, name) of
        (True, Some n) \<Rightarrow> (case sb_fn sb_policy_get_by_name ctx of
                             None \<Rightarrow> (SSO_ERR_NOT_IMPLEMENTED, None) | Some f \<Rightarrow> f (store ctx) n)
      | _ \<Rightarrow> (SSO_ERR_INVALID_PARAM, None))"

definition policy_update ::
  "timestamp \<Rightarrow> 's sso_context \<Rightarrow> bool \<Rightarrow> policy option \<Rightarrow> sso_error \<times> 's sso_context" where
  "policy_update now ctx mgr x =
     (case (mgr, x) of
        (True, Some p) \<Rightarrow>
          (case sb_fn sb_policy_update ctx of
             None \<Rightarrow> (SSO_ERR_NOT_IMPLEMENTED, ctx)
           | Some f \<Rightarrow> store_then (invalidate_policy (p_id p)) ctx (f (store ctx) (p\<lparr>p_updated_at := now\<rparr>)))
      | _ \<Rightarrow> (SSO_ERR_INVALID_PARAM, ctx))"

definition policy_delete :: "'s sso_context \<Rightarrow> bool \<Rightarrow> sso_id \<Rightarrow> sso_error \<times> 's sso_context" where
  "policy_delete ctx mgr i =
     (if \<not> mgr then (SSO_ERR_INVALID_PARAM, ctx)
      else case sb_fn sb_policy_delete ctx of
             None \<Rightarrow> (SSO_ERR_NOT_IMPLEMENTED, ctx)
           | Some f \<Rightarrow> store_then (invalidate_policy i) ctx (f (store ctx) i))"

definition policy_list ::
  "'s sso_context \<Rightarrow> bool \<Rightarrow> string option \<Rightarrow> int \<Rightarrow> int \<Rightarrow> int \<Rightarrow> sso_error \<times> sso_id list \<times> nat" where
  "policy_list ctx mgr q status offset limit =
     (if \<not> mgr then (SSO_ERR_INVALID_PARAM, [], 0)
      else case sb_fn sb_policy_list ctx of
             None \<Rightarrow> (SSO_ERR_NOT_IMPLEMENTED, [], 0) | Some f \<Rightarrow> f (store ctx) q status offset limit)"

text \<open>The loop that loads the policies of a list of ids until \<open>max\<close> are in the output.\<close>

fun load_policies :: "'s sso_context \<Rightarrow> nat \<Rightarrow> sso_id list \<Rightarrow> policy list \<Rightarrow> policy list" where
  "load_policies ctx m [] acc = acc"
| "load_policies ctx m (i # is) acc =
     (if \<not> length acc < m then acc
      else case policy_get_by_id ctx True i of
             (SSO_OK, Some p) \<Rightarrow> load_policies ctx m is (acc @ [p])
           | _ \<Rightarrow> load_policies ctx m is acc)"

definition policy_get_direct_policies ::
  "'s sso_context \<Rightarrow> bool \<Rightarrow> policy_target_type \<Rightarrow> sso_id \<Rightarrow> nat \<Rightarrow> sso_error \<times> policy list" where
  "policy_get_direct_policies ctx mgr tt tid m =
     (if \<not> mgr then (SSO_ERR_INVALID_PARAM, [])
      else case sb_fn sb_get_target_policies ctx of
             None \<Rightarrow> (SSO_ERR_NOT_IMPLEMENTED, [])
           | Some f \<Rightarrow>
               (case f (store ctx) tt tid 64 of
                  (SSO_OK, ids) \<Rightarrow>
                    (let ps = load_policies ctx m ids []
                     in (if ps \<noteq> [] then SSO_OK else SSO_ERR_NOT_FOUND, ps))
                | (err, _) \<Rightarrow> (err, [])))"

section \<open>Assignments\<close>

definition target_invalidation :: "policy_target_type \<Rightarrow> sso_id \<Rightarrow> 's permission_engine \<Rightarrow> 's permission_engine" where
  "target_invalidation tt tid = (if tt = POLICY_TARGET_USER then invalidate_user tid else invalidate_all)"

definition policy_assign_to ::
  "'s sso_context \<Rightarrow> bool \<Rightarrow> sso_id \<Rightarrow> policy_target_type \<Rightarrow> sso_id \<Rightarrow> sso_error \<times> 's sso_context" where
  "policy_assign_to ctx mgr pid tt tid =
     (if \<not> mgr then (SSO_ERR_INVALID_PARAM, ctx)
      else case sb_fn sb_assign_policy ctx of
             None \<Rightarrow> (SSO_ERR_NOT_IMPLEMENTED, ctx)
           | Some f \<Rightarrow> store_then (target_invalidation tt tid) ctx (f (store ctx) pid tt tid))"

definition policy_unassign_from ::
  "'s sso_context \<Rightarrow> bool \<Rightarrow> sso_id \<Rightarrow> policy_target_type \<Rightarrow> sso_id \<Rightarrow> sso_error \<times> 's sso_context" where
  "policy_unassign_from ctx mgr pid tt tid =
     (if \<not> mgr then (SSO_ERR_INVALID_PARAM, ctx)
      else case sb_fn sb_unassign_policy ctx of
             None \<Rightarrow> (SSO_ERR_NOT_IMPLEMENTED, ctx)
           | Some f \<Rightarrow> store_then (target_invalidation tt tid) ctx (f (store ctx) pid tt tid))"

definition policy_get_targets ::
  "'s sso_context \<Rightarrow> bool \<Rightarrow> sso_id \<Rightarrow> policy_target_type \<Rightarrow> nat \<Rightarrow> sso_error \<times> sso_id list" where
  "policy_get_targets ctx mgr pid tt m =
     (if \<not> mgr then (SSO_ERR_INVALID_PARAM, [])
      else case sb_fn sb_get_policy_targets ctx of
             None \<Rightarrow> (SSO_ERR_NOT_IMPLEMENTED, []) | Some f \<Rightarrow> f (store ctx) pid tt m)"

section \<open>Resolution\<close>

definition collect_policies_for_target ::
  "'s sso_context \<Rightarrow> policy_target_type \<Rightarrow> sso_id \<Rightarrow> nat \<Rightarrow> policy list \<Rightarrow> policy list" where
  "collect_policies_for_target ctx tt tid m acc =
     (case sb_fn sb_get_target_policies ctx of
        None \<Rightarrow> acc
      | Some f \<Rightarrow> (case f (store ctx) tt tid 64 of
                     (SSO_OK, ids) \<Rightarrow> load_policies ctx m ids acc | _ \<Rightarrow> acc))"

fun collect_targets ::
  "'s sso_context \<Rightarrow> policy_target_type \<Rightarrow> nat \<Rightarrow> sso_id list \<Rightarrow> policy list \<Rightarrow> policy list" where
  "collect_targets ctx tt m [] acc = acc"
| "collect_targets ctx tt m (t # ts) acc =
     (if \<not> length acc < m then acc
      else collect_targets ctx tt m ts (collect_policies_for_target ctx tt t m acc))"

text \<open>One loop each over the user's roles and groups: the target itself, then up to 16 ancestors.\<close>

fun collect_hierarchy ::
  "'s sso_context \<Rightarrow> policy_target_type \<Rightarrow> (sso_id \<Rightarrow> sso_error \<times> sso_id list) \<Rightarrow> bool \<Rightarrow> nat \<Rightarrow> sso_id list \<Rightarrow>
     policy list \<Rightarrow> policy list" where
  "collect_hierarchy ctx tt anc mgr m [] acc = acc"
| "collect_hierarchy ctx tt anc mgr m (t # ts) acc =
     (if \<not> length acc < m then acc
      else let acc1 = collect_policies_for_target ctx tt t m acc;
               acc2 = (if mgr then (case anc t of (SSO_OK, as) \<Rightarrow> collect_targets ctx tt m as acc1 | _ \<Rightarrow> acc1)
                       else acc1)
           in collect_hierarchy ctx tt anc mgr m ts acc2)"

text \<open>The insertion sort. The sorted prefix is kept in reverse, so that the inner loop, which
  moves down from its end, walks the list from its head.\<close>

fun insert_down :: "policy \<Rightarrow> policy list \<Rightarrow> policy list" where
  "insert_down key [] = [key]"
| "insert_down key (p # ps) = (if priority p < priority key then p # insert_down key ps else key # p # ps)"

fun sort_loop :: "policy list \<Rightarrow> policy list \<Rightarrow> policy list" where
  "sort_loop rev_prefix [] = rev rev_prefix"
| "sort_loop rev_prefix (key # rest) = sort_loop (insert_down key rev_prefix) rest"

definition policy_resolve_for_user ::
  "'s sso_context \<Rightarrow> bool \<Rightarrow> sso_id \<Rightarrow> nat \<Rightarrow> sso_error \<times> policy list" where
  "policy_resolve_for_user ctx mgr uid m =
     (if \<not> mgr then (SSO_ERR_INVALID_PARAM, [])
      else case user_mgr ctx of
             None \<Rightarrow> (SSO_ERR_NOT_FOUND, [])
           | Some um \<Rightarrow>
               (let acc1 = collect_policies_for_target ctx POLICY_TARGET_USER uid m [];
                    acc2 = (case user_get_roles ctx (Some um) uid 64 of
                              (SSO_OK, rs) \<Rightarrow>
                                collect_hierarchy ctx POLICY_TARGET_ROLE
                                  (\<lambda>r. role_get_ancestors ctx (role_mgr ctx) r 16) (role_mgr ctx) m rs acc1
                            | _ \<Rightarrow> acc1);
                    acc3 = (case user_get_groups ctx (Some um) uid 64 of
                              (SSO_OK, gs) \<Rightarrow>
                                collect_hierarchy ctx POLICY_TARGET_GROUP
                                  (\<lambda>g. group_get_ancestors ctx (group_mgr ctx) g 16) (group_mgr ctx) m gs acc2
                            | _ \<Rightarrow> acc2);
                    ps = sort_loop [] acc3
                in (if ps \<noteq> [] then SSO_OK else SSO_ERR_NOT_FOUND, ps)))"

section \<open>Validation and status\<close>

definition policy_validate_rules :: "bool \<Rightarrow> policy option \<Rightarrow> sso_error" where
  "policy_validate_rules mgr p = (if mgr \<and> p \<noteq> None then SSO_OK else SSO_ERR_INVALID_PARAM)"

definition policy_set_status ::
  "timestamp \<Rightarrow> 's sso_context \<Rightarrow> bool \<Rightarrow> sso_id \<Rightarrow> policy_status \<Rightarrow> sso_error \<times> 's sso_context" where
  "policy_set_status now ctx mgr pid st =
     (if \<not> mgr then (SSO_ERR_INVALID_PARAM, ctx)
      else case policy_get_by_id ctx mgr pid of
             (SSO_OK, Some p) \<Rightarrow> policy_update now ctx mgr (Some (p\<lparr>p_status := st\<rparr>))
           | (err, _) \<Rightarrow> (err, ctx))"

section \<open>Specification of the resolution\<close>

text \<open>The targets in the order the code visits them, and the policies of one target.\<close>

definition load_one :: "'s sso_context \<Rightarrow> sso_id \<Rightarrow> policy option" where
  "load_one ctx i = (case policy_get_by_id ctx True i of (SSO_OK, Some p) \<Rightarrow> Some p | _ \<Rightarrow> None)"

definition target_policies :: "'s sso_context \<Rightarrow> policy_target_type \<times> sso_id \<Rightarrow> policy list" where
  "target_policies ctx t =
     (case sb_fn sb_get_target_policies ctx of
        None \<Rightarrow> []
      | Some f \<Rightarrow> (case f (store ctx) (fst t) (snd t) 64 of
                     (SSO_OK, ids) \<Rightarrow> List.map_filter (load_one ctx) ids | _ \<Rightarrow> []))"

definition ancestor_list :: "(sso_id \<Rightarrow> sso_error \<times> sso_id list) \<Rightarrow> bool \<Rightarrow> sso_id \<Rightarrow> sso_id list" where
  "ancestor_list anc mgr t = (if mgr then case anc t of (SSO_OK, as) \<Rightarrow> as | _ \<Rightarrow> [] else [])"

definition hierarchy_targets ::
  "policy_target_type \<Rightarrow> (sso_id \<Rightarrow> sso_error \<times> sso_id list) \<Rightarrow> bool \<Rightarrow> sso_error \<times> sso_id list \<Rightarrow>
     (policy_target_type \<times> sso_id) list" where
  "hierarchy_targets tt anc mgr direct =
     (case direct of
        (SSO_OK, ts) \<Rightarrow>
          concat (map (\<lambda>t. map (Pair tt) (t # ancestor_list anc mgr t)) ts)
      | _ \<Rightarrow> [])"

definition resolution_targets :: "'s sso_context \<Rightarrow> user_manager \<Rightarrow> sso_id \<Rightarrow> (policy_target_type \<times> sso_id) list" where
  "resolution_targets ctx um uid =
     (POLICY_TARGET_USER, uid) #
     hierarchy_targets POLICY_TARGET_ROLE (\<lambda>r. role_get_ancestors ctx (role_mgr ctx) r 16) (role_mgr ctx)
       (user_get_roles ctx (Some um) uid 64) @
     hierarchy_targets POLICY_TARGET_GROUP (\<lambda>g. group_get_ancestors ctx (group_mgr ctx) g 16) (group_mgr ctx)
       (user_get_groups ctx (Some um) uid 64)"

section \<open>The sort is stable and descending\<close>

lemma mset_insert_down [simp]: "mset (insert_down k ps) = add_mset k (mset ps)"
  by (induction ps) auto

lemma filter_insert_down:
  "filter (\<lambda>x. c = - priority x) (insert_down k ps) =
     (if c = - priority k then k # filter (\<lambda>x. c = - priority x) ps else filter (\<lambda>x. c = - priority x) ps)"
  if "sorted (map priority ps)"
  using that
proof (induction ps)
  case (Cons p ps)
  show ?case
  proof (cases "priority p < priority k")
    case False
    then show ?thesis by simp
  next
    case True
    with Cons show ?thesis by auto
  qed
qed simp

lemma sorted_insert_down:
  "sorted (map priority ps) \<Longrightarrow> sorted (map priority (insert_down k ps))"
proof (induction ps)
  case (Cons p ps)
  then show ?case by (cases ps) (auto split: if_splits)
qed simp

lemma sort_loop_spec:
  assumes "sorted (map priority ps)"
  shows "mset (sort_loop ps xs) = mset ps + mset xs"
    and "sorted (map priority (rev (sort_loop ps xs)))"
    and "filter (\<lambda>x. c = - priority x) (sort_loop ps xs) =
           rev (filter (\<lambda>x. c = - priority x) ps) @ filter (\<lambda>x. c = - priority x) xs"
  using assms
  by (induction ps xs rule: sort_loop.induct) (auto simp: sorted_insert_down filter_insert_down rev_filter)

lemma sorted_rev_neg: "sorted (map priority (rev xs)) \<Longrightarrow> sorted (map (\<lambda>p. - priority p) xs)"
proof (induction xs)
  case (Cons x xs)
  then show ?case by (auto simp: sorted_append)
qed simp

lemma sort_loop_sort_key: "sort_loop [] xs = sort_key (\<lambda>p. - priority p) xs"
proof (rule properties_for_sort_key [symmetric])
  show "mset (sort_loop [] xs) = mset xs" by (simp add: sort_loop_spec(1))
  show "filter (\<lambda>x. - priority k = - priority x) (sort_loop [] xs) = filter (\<lambda>x. - priority k = - priority x) xs" for k
    using sort_loop_spec(3) [of "[]" "- priority k" xs] by simp
  show "sorted (map (\<lambda>p. - priority p) (sort_loop [] xs))"
    by (rule sorted_rev_neg) (simp add: sort_loop_spec(2))
qed

section \<open>The collection loops\<close>

lemma take_full: "\<not> length acc < m \<Longrightarrow> length acc \<le> m \<Longrightarrow> take m (acc @ xs) = acc"
  by simp

lemma take_take_append: "take m (take m xs @ ys) = take m (xs @ ys)"
  by (cases "length xs \<le> m") (simp_all add: min_def)

lemma load_policies_Cons:
  "load_policies ctx m (i # is) acc =
     (if \<not> length acc < m then acc
      else load_policies ctx m is (acc @ (case load_one ctx i of Some p \<Rightarrow> [p] | None \<Rightarrow> [])))"
  by (simp add: load_one_def split: prod.split sso_error.split option.split)

lemma map_filter_Cons:
  "List.map_filter f (x # xs) = (case f x of Some y \<Rightarrow> [y] | None \<Rightarrow> []) @ List.map_filter f xs"
  by (simp add: map_filter_simps split: option.split)

lemma load_policies_take:
  "length acc \<le> m \<Longrightarrow> load_policies ctx m is acc = take m (acc @ List.map_filter (load_one ctx) is)"
proof (induction "is" arbitrary: acc)
  case (Cons i "is")
  show ?case
  proof (cases "length acc < m")
    case True
    then have "length (acc @ (case load_one ctx i of Some p \<Rightarrow> [p] | None \<Rightarrow> [])) \<le> m"
      by (simp split: option.split)
    from Cons.IH [OF this] True show ?thesis
      by (simp add: load_policies_Cons map_filter_Cons del: load_policies.simps(2) take_append split: option.split)
  next
    case False
    then show ?thesis using Cons.prems by (simp add: take_full del: take_append)
  qed
qed (simp add: map_filter_simps)

lemma collect_target_take:
  "length acc \<le> m \<Longrightarrow> collect_policies_for_target ctx tt t m acc = take m (acc @ target_policies ctx (tt, t))"
  by (simp add: collect_policies_for_target_def target_policies_def load_policies_take del: take_append
      split: prod.split sso_error.split option.split)

lemma collect_targets_take:
  "length acc \<le> m \<Longrightarrow>
   collect_targets ctx tt m ts acc = take m (acc @ concat (map (target_policies ctx) (map (Pair tt) ts)))"
proof (induction ts arbitrary: acc)
  case (Cons t ts)
  show ?case
  proof (cases "length acc < m")
    case True
    then show ?thesis
      using Cons.prems by (simp add: Cons.IH collect_target_take take_take_append del: take_append)
  next
    case False
    then show ?thesis using Cons.prems by (simp add: take_full del: take_append)
  qed
qed simp

lemma hierarchy_targets_Cons:
  "hierarchy_targets tt anc mgr (SSO_OK, t # ts) =
     (tt, t) # map (Pair tt) (ancestor_list anc mgr t) @ hierarchy_targets tt anc mgr (SSO_OK, ts)"
  by (simp add: hierarchy_targets_def)

lemma collect_hierarchy_Cons:
  "collect_hierarchy ctx tt anc mgr m (t # ts) acc =
     (if \<not> length acc < m then acc
      else collect_hierarchy ctx tt anc mgr m ts
             (collect_targets ctx tt m (ancestor_list anc mgr t) (collect_policies_for_target ctx tt t m acc)))"
  by (simp add: ancestor_list_def split: prod.split sso_error.split)

lemma collect_hierarchy_take:
  "length acc \<le> m \<Longrightarrow>
   collect_hierarchy ctx tt anc mgr m ts acc =
     take m (acc @ concat (map (target_policies ctx) (hierarchy_targets tt anc mgr (SSO_OK, ts))))"
proof (induction ts arbitrary: acc)
  case (Cons t ts)
  show ?case
  proof (cases "length acc < m")
    case True
    then show ?thesis
      using Cons.prems
      by (simp add: Cons.IH collect_hierarchy_Cons hierarchy_targets_Cons collect_target_take collect_targets_take
          take_take_append del: collect_hierarchy.simps(2) take_append)
  next
    case False
    then show ?thesis using Cons.prems by (simp add: take_full del: take_append)
  qed
qed (simp add: hierarchy_targets_def)

lemma collect_hierarchy_result:
  assumes "length acc \<le> m"
  shows "(case r of (SSO_OK, ts) \<Rightarrow> collect_hierarchy ctx tt anc mgr m ts acc | _ \<Rightarrow> acc) =
           take m (acc @ concat (map (target_policies ctx) (hierarchy_targets tt anc mgr r)))"
proof (cases "fst r = SSO_OK")
  case True
  then show ?thesis using assms by (cases r) (simp add: collect_hierarchy_take)
next
  case False
  then have "hierarchy_targets tt anc mgr r = []"
    by (cases r) (simp add: hierarchy_targets_def split: sso_error.split)
  with False assms show ?thesis by (cases r) (simp split: sso_error.split)
qed

lemma resolve_sorted:
  assumes "user_mgr ctx = Some um"
  shows "policy_resolve_for_user ctx True uid m =
           (let ps = sort_key (\<lambda>p. - priority p)
                       (take m (concat (map (target_policies ctx) (resolution_targets ctx um uid))))
            in (if ps = [] then SSO_ERR_NOT_FOUND else SSO_OK, ps))"
proof -
  have len: "length (take m xs) \<le> m" for xs :: "policy list" by simp
  show ?thesis
    by (simp add: policy_resolve_for_user_def assms collect_target_take collect_hierarchy_result len
        sort_loop_sort_key resolution_targets_def take_take_append Let_def del: take_append)
qed

end
