(* ===== verification/Storage_Memory.thy ===== *)
theory Storage_Memory
  imports Storage
begin

text \<open>
  The in-memory backend, \<^verbatim>\<open>src/storage_memory.c\<close>: dynamic arrays of users, roles, groups and
  policies, lists of id pairs for the assignments, and their operations. A dynamic array is
  the list of its elements (growing it is invisible). The id counters are 64-bit and wrap.
  Allocation failure is not modelled.
\<close>

section \<open>Dynamic arrays and pair lists\<close>

fun da_find :: "('e \<Rightarrow> bool) \<Rightarrow> 'e list \<Rightarrow> nat option" where
  "da_find P [] = None"
| "da_find P (e # es) = (if P e then Some 0 else map_option Suc (da_find P es))"

definition da_add :: "'e list \<Rightarrow> 'e \<Rightarrow> sso_error \<times> 'e list" where
  "da_add d it = (SSO_OK, d @ [it])"

definition da_rm :: "'e list \<Rightarrow> nat \<Rightarrow> 'e list" where
  "da_rm d i = take i d @ drop (Suc i) d"

type_synonym pl = "(sso_id \<times> sso_id) list"

definition pl_add :: "pl \<Rightarrow> sso_id \<Rightarrow> sso_id \<Rightarrow> sso_error \<times> pl" where
  "pl_add l a b = (SSO_OK, l @ [(a, b)])"

fun pl_rm :: "pl \<Rightarrow> sso_id \<Rightarrow> sso_id \<Rightarrow> pl" where
  "pl_rm [] a b = []"
| "pl_rm (p # l) a b = (if p = (a, b) then l else p # pl_rm l a b)"

fun pl_get :: "pl \<Rightarrow> sso_id \<Rightarrow> nat \<Rightarrow> nat \<Rightarrow> sso_id list" where
  "pl_get l key col 0 = []"
| "pl_get [] key col (Suc m) = []"
| "pl_get ((a, b) # l) key col (Suc m) =
     (if col = 1 \<and> a = key then b # pl_get l key col m
      else if col = 2 \<and> b = key then a # pl_get l key col m
      else pl_get l key col (Suc m))"

text \<open>The removal loops run the index from the end down to the start and close the gap with a
  move each time.\<close>

fun rm_back :: "('e \<Rightarrow> bool) \<Rightarrow> nat \<Rightarrow> 'e list \<Rightarrow> 'e list" where
  "rm_back P 0 l = l"
| "rm_back P (Suc i) l = rm_back P i (if P (l ! i) then da_rm l i else l)"

definition pl_rm_by_b :: "pl \<Rightarrow> sso_id \<Rightarrow> pl" where
  "pl_rm_by_b l bval = rm_back (\<lambda>p. snd p = bval) (length l) l"

definition pl_rm_by_a :: "pl \<Rightarrow> sso_id \<Rightarrow> pl" where
  "pl_rm_by_a l aval = rm_back (\<lambda>p. fst p = aval) (length l) l"

type_synonym al = "(sso_id \<times> policy_target_type \<times> sso_id) list"

definition al_add :: "al \<Rightarrow> sso_id \<Rightarrow> policy_target_type \<Rightarrow> sso_id \<Rightarrow> sso_error \<times> al" where
  "al_add l p t i = (SSO_OK, l @ [(p, t, i)])"

definition al_rm_by_target :: "al \<Rightarrow> policy_target_type \<Rightarrow> sso_id \<Rightarrow> al" where
  "al_rm_by_target l tt tid = rm_back (\<lambda>a. fst (snd a) = tt \<and> snd (snd a) = tid) (length l) l"

section \<open>The backend's state\<close>

record sms =
  sms_p :: string
  sms_c :: string
  sms_ex :: timestamp

record revoked_jti =
  rj_jti :: string
  rj_expires_at :: timestamp

record mem_priv =
  users :: "user list"
  roles :: "role list"
  groups :: "group list"
  policies :: "policy list"
  oauth_clients :: "oauth_client list"
  user_roles :: pl
  user_groups :: pl
  role_groups :: pl
  policy_assignments :: al
  sms_codes :: "sms list"
  oauth_codes :: "oauth_auth_code list"
  refresh_tokens :: "refresh_token list"
  revoked_jtis :: "revoked_jti list"
  next_uid :: sso_id
  next_rid :: sso_id
  next_gid :: sso_id
  next_pid :: sso_id
  next_ocid :: sso_id

definition mem_open :: mem_priv where
  "mem_open =
     \<lparr>users = [], roles = [], groups = [], policies = [], oauth_clients = [], user_roles = [],
      user_groups = [], role_groups = [], policy_assignments = [], sms_codes = [], oauth_codes = [],
      refresh_tokens = [], revoked_jtis = [], next_uid = 1, next_rid = 1, next_gid = 1,
      next_pid = 1, next_ocid = 1\<rparr>"

section \<open>Users\<close>

definition mem_user_create :: "(mem_priv, user) create_fn" where
  "mem_user_create P u =
     (if username u \<noteq> [] \<and> da_find (\<lambda>x. username x = username u) (users P) \<noteq> None
      then (SSO_ERR_ALREADY_EXISTS, u, P)
      else let u' = u\<lparr>u_id := next_uid P\<rparr>; (err, us) = da_add (users P) u'
           in (err, u', P\<lparr>users := us, next_uid := next_uid P + 1\<rparr>))"

definition get_where :: "('e \<Rightarrow> bool) \<Rightarrow> 'e list \<Rightarrow> sso_error \<times> 'e option" where
  "get_where Q xs = (case da_find Q xs of None \<Rightarrow> (SSO_ERR_NOT_FOUND, None) | Some i \<Rightarrow> (SSO_OK, Some (xs ! i)))"

definition mem_user_get_by_id :: "(mem_priv, sso_id, user) get_fn" where
  "mem_user_get_by_id P i = get_where (\<lambda>u. u_id u = i) (users P)"

definition mem_user_get_by_name :: "(mem_priv, string, user) get_fn" where
  "mem_user_get_by_name P n = get_where (\<lambda>u. username u = n) (users P)"

definition mem_user_get_by_phone :: "(mem_priv, string, user) get_fn" where
  "mem_user_get_by_phone P p = get_where (\<lambda>u. phone u = p) (users P)"

definition mem_user_update :: "(mem_priv, user) update_fn" where
  "mem_user_update P u =
     (case da_find (\<lambda>x. u_id x = u_id u) (users P) of
        None \<Rightarrow> (SSO_ERR_NOT_FOUND, P)
      | Some i \<Rightarrow> (SSO_OK, P\<lparr>users := (users P)[i := u]\<rparr>))"

definition mem_user_delete :: "mem_priv delete_fn" where
  "mem_user_delete P id' =
     (case da_find (\<lambda>x. u_id x = id') (users P) of
        None \<Rightarrow> (SSO_ERR_NOT_FOUND, P)
      | Some i \<Rightarrow>
          (SSO_OK, P\<lparr>users := da_rm (users P) i,
                     user_roles := pl_rm_by_b (user_roles P) id',
                     user_groups := pl_rm_by_b (user_groups P) id',
                     policy_assignments := al_rm_by_target (policy_assignments P) POLICY_TARGET_USER id'\<rparr>))"

text \<open>The listing loops: \<open>keep\<close> is the status and text filter, \<open>seen\<close> the number of matches so far;
  offset and limit are \<^verbatim>\<open>int\<close>s cast to \<^verbatim>\<open>size_t\<close>.\<close>

definition size_t :: "int \<Rightarrow> nat" where
  "size_t i = unat (word_of_int i :: 64 word)"

fun list_loop :: "('e \<Rightarrow> bool) \<Rightarrow> ('e \<Rightarrow> 'o) \<Rightarrow> nat \<Rightarrow> nat \<Rightarrow> nat \<Rightarrow> 'e list \<Rightarrow> 'o list \<times> nat" where
  "list_loop keep out off lim seen [] = ([], seen)"
| "list_loop keep out off lim seen (e # es) =
     (if \<not> keep e then list_loop keep out off lim seen es
      else if seen < off then list_loop keep out off lim (Suc seen) es
      else if seen - off \<ge> lim then list_loop keep out off lim (Suc seen) es
      else (let (ids, tot) = list_loop keep out off lim (Suc seen) es in (out e # ids, tot)))"

definition has_query :: "string option \<Rightarrow> string list \<Rightarrow> bool" where
  "has_query q texts =
     (case q of None \<Rightarrow> True | Some s \<Rightarrow> s = [] \<or> (\<exists>t \<in> set texts. strstr t s \<noteq> None))"

fun user_status_int :: "user_status \<Rightarrow> int" where
  "user_status_int USER_STATUS_INACTIVE = 0"
| "user_status_int USER_STATUS_ACTIVE = 1"
| "user_status_int USER_STATUS_LOCKED = 2"
| "user_status_int (USER_STATUS_UNKNOWN i) = i"

definition mem_user_list :: "mem_priv list_fn" where
  "mem_user_list P q status offset limit =
     (let keep = (\<lambda>u. (status = - 1 \<or> user_status_int (u_status u) = status) \<and>
                      has_query q [username u, display_name u, email u, phone u]);
          (ids, total) = list_loop keep u_id (size_t offset) (size_t limit) 0 (users P)
      in (SSO_OK, ids, total))"

section \<open>Roles, groups, policies\<close>

definition mem_role_create :: "(mem_priv, role) create_fn" where
  "mem_role_create P x =
     (if da_find (\<lambda>y. r_name y = r_name x) (roles P) \<noteq> None then (SSO_ERR_ALREADY_EXISTS, x, P)
      else let x' = x\<lparr>r_id := next_rid P\<rparr>; (err, xs) = da_add (roles P) x'
           in (err, x', P\<lparr>roles := xs, next_rid := next_rid P + 1\<rparr>))"

definition mem_group_create :: "(mem_priv, group) create_fn" where
  "mem_group_create P x =
     (if da_find (\<lambda>y. g_name y = g_name x) (groups P) \<noteq> None then (SSO_ERR_ALREADY_EXISTS, x, P)
      else let x' = x\<lparr>g_id := next_gid P\<rparr>; (err, xs) = da_add (groups P) x'
           in (err, x', P\<lparr>groups := xs, next_gid := next_gid P + 1\<rparr>))"

definition mem_policy_create :: "(mem_priv, policy) create_fn" where
  "mem_policy_create P x =
     (if da_find (\<lambda>y. p_name y = p_name x) (policies P) \<noteq> None then (SSO_ERR_ALREADY_EXISTS, x, P)
      else let x' = x\<lparr>p_id := next_pid P\<rparr>; (err, xs) = da_add (policies P) x'
           in (err, x', P\<lparr>policies := xs, next_pid := next_pid P + 1\<rparr>))"

definition mem_role_get_by_id :: "(mem_priv, sso_id, role) get_fn" where
  "mem_role_get_by_id P i = get_where (\<lambda>x. r_id x = i) (roles P)"

definition mem_group_get_by_id :: "(mem_priv, sso_id, group) get_fn" where
  "mem_group_get_by_id P i = get_where (\<lambda>x. g_id x = i) (groups P)"

definition mem_policy_get_by_id :: "(mem_priv, sso_id, policy) get_fn" where
  "mem_policy_get_by_id P i = get_where (\<lambda>x. p_id x = i) (policies P)"

definition mem_role_get_by_name :: "(mem_priv, string, role) get_fn" where
  "mem_role_get_by_name P n = get_where (\<lambda>x. r_name x = n) (roles P)"

definition mem_group_get_by_name :: "(mem_priv, string, group) get_fn" where
  "mem_group_get_by_name P n = get_where (\<lambda>x. g_name x = n) (groups P)"

definition mem_policy_get_by_name :: "(mem_priv, string, policy) get_fn" where
  "mem_policy_get_by_name P n = get_where (\<lambda>x. p_name x = n) (policies P)"

definition mem_role_update :: "(mem_priv, role) update_fn" where
  "mem_role_update P x =
     (case da_find (\<lambda>y. r_id y = r_id x) (roles P) of
        None \<Rightarrow> (SSO_ERR_NOT_FOUND, P)
      | Some i \<Rightarrow> (SSO_OK, P\<lparr>roles := (roles P)[i := x]\<rparr>))"

definition mem_group_update :: "(mem_priv, group) update_fn" where
  "mem_group_update P x =
     (case da_find (\<lambda>y. g_id y = g_id x) (groups P) of
        None \<Rightarrow> (SSO_ERR_NOT_FOUND, P)
      | Some i \<Rightarrow> (SSO_OK, P\<lparr>groups := (groups P)[i := x]\<rparr>))"

definition mem_policy_update :: "(mem_priv, policy) update_fn" where
  "mem_policy_update P x =
     (case da_find (\<lambda>y. p_id y = p_id x) (policies P) of
        None \<Rightarrow> (SSO_ERR_NOT_FOUND, P)
      | Some i \<Rightarrow> (SSO_OK, P\<lparr>policies := (policies P)[i := x]\<rparr>))"

definition mem_role_delete :: "mem_priv delete_fn" where
  "mem_role_delete P id' =
     (case da_find (\<lambda>x. r_id x = id') (roles P) of
        None \<Rightarrow> (SSO_ERR_NOT_FOUND, P)
      | Some i \<Rightarrow>
          (SSO_OK, P\<lparr>roles := da_rm (roles P) i,
                     user_roles := pl_rm_by_a (user_roles P) id',
                     role_groups := pl_rm_by_a (role_groups P) id',
                     policy_assignments := al_rm_by_target (policy_assignments P) POLICY_TARGET_ROLE id'\<rparr>))"

text \<open>As in the code, deleting a group clears column a of \<open>role_groups\<close> (which holds role ids) and
  column b of \<open>user_groups\<close> (which holds user ids).\<close>

definition mem_group_delete :: "mem_priv delete_fn" where
  "mem_group_delete P id' =
     (case da_find (\<lambda>x. g_id x = id') (groups P) of
        None \<Rightarrow> (SSO_ERR_NOT_FOUND, P)
      | Some i \<Rightarrow>
          (SSO_OK, P\<lparr>groups := da_rm (groups P) i,
                     role_groups := pl_rm_by_a (role_groups P) id',
                     user_groups := pl_rm_by_b (user_groups P) id',
                     policy_assignments := al_rm_by_target (policy_assignments P) POLICY_TARGET_GROUP id'\<rparr>))"

definition mem_policy_delete :: "mem_priv delete_fn" where
  "mem_policy_delete P id' =
     (case da_find (\<lambda>x. p_id x = id') (policies P) of
        None \<Rightarrow> (SSO_ERR_NOT_FOUND, P)
      | Some i \<Rightarrow> (SSO_OK, P\<lparr>policies := da_rm (policies P) i\<rparr>))"

fun role_status_int :: "role_status \<Rightarrow> int" where
  "role_status_int ROLE_STATUS_INACTIVE = 0"
| "role_status_int ROLE_STATUS_ACTIVE = 1"
| "role_status_int (ROLE_STATUS_UNKNOWN i) = i"

fun group_status_int :: "group_status \<Rightarrow> int" where
  "group_status_int GROUP_STATUS_INACTIVE = 0"
| "group_status_int GROUP_STATUS_ACTIVE = 1"
| "group_status_int (GROUP_STATUS_UNKNOWN i) = i"

fun policy_status_int :: "policy_status \<Rightarrow> int" where
  "policy_status_int POLICY_STATUS_DISABLED = 0"
| "policy_status_int POLICY_STATUS_ENABLED = 1"
| "policy_status_int (POLICY_STATUS_UNKNOWN i) = i"

definition mem_role_list :: "mem_priv list_fn" where
  "mem_role_list P q status offset limit =
     (let keep = (\<lambda>x. (status = - 1 \<or> role_status_int (r_status x) = status) \<and> has_query q [r_name x]);
          (ids, total) = list_loop keep r_id (size_t offset) (size_t limit) 0 (roles P)
      in (SSO_OK, ids, total))"

definition mem_group_list :: "mem_priv list_fn" where
  "mem_group_list P q status offset limit =
     (let keep = (\<lambda>x. (status = - 1 \<or> group_status_int (g_status x) = status) \<and> has_query q [g_name x]);
          (ids, total) = list_loop keep g_id (size_t offset) (size_t limit) 0 (groups P)
      in (SSO_OK, ids, total))"

definition mem_policy_list :: "mem_priv list_fn" where
  "mem_policy_list P q status offset limit =
     (let keep = (\<lambda>x. (status = - 1 \<or> policy_status_int (p_status x) = status) \<and> has_query q [p_name x]);
          (ids, total) = list_loop keep p_id (size_t offset) (size_t limit) 0 (policies P)
      in (SSO_OK, ids, total))"

section \<open>Assignments\<close>

definition mem_assign_role_to_user :: "mem_priv pair_fn" where
  "mem_assign_role_to_user P a b = (let (err, l) = pl_add (user_roles P) a b in (err, P\<lparr>user_roles := l\<rparr>))"

definition mem_assign_role_to_group :: "mem_priv pair_fn" where
  "mem_assign_role_to_group P a b = (let (err, l) = pl_add (role_groups P) a b in (err, P\<lparr>role_groups := l\<rparr>))"

definition mem_add_user_to_group :: "mem_priv pair_fn" where
  "mem_add_user_to_group P a b = (let (err, l) = pl_add (user_groups P) a b in (err, P\<lparr>user_groups := l\<rparr>))"

definition mem_remove_user_from_group :: "mem_priv pair_fn" where
  "mem_remove_user_from_group P g u = (SSO_OK, P\<lparr>user_groups := pl_rm (user_groups P) g u\<rparr>)"

definition mem_unassign_role_from_user :: "mem_priv pair_fn" where
  "mem_unassign_role_from_user P r u = (SSO_OK, P\<lparr>user_roles := pl_rm (user_roles P) r u\<rparr>)"

definition mem_unassign_role_from_group :: "mem_priv pair_fn" where
  "mem_unassign_role_from_group P r g = (SSO_OK, P\<lparr>role_groups := pl_rm (role_groups P) r g\<rparr>)"

definition ids_result :: "sso_id list \<Rightarrow> sso_error \<times> sso_id list" where
  "ids_result ids = (if ids \<noteq> [] then SSO_OK else SSO_ERR_NOT_FOUND, ids)"

definition mem_get_user_roles :: "mem_priv ids_fn" where
  "mem_get_user_roles P uid m = ids_result (pl_get (user_roles P) uid 2 m)"

definition mem_get_role_users :: "mem_priv ids_fn" where
  "mem_get_role_users P rid m = ids_result (pl_get (user_roles P) rid 1 m)"

definition mem_get_user_groups :: "mem_priv ids_fn" where
  "mem_get_user_groups P uid m = ids_result (pl_get (user_groups P) uid 2 m)"

definition mem_get_group_users :: "mem_priv ids_fn" where
  "mem_get_group_users P gid m = ids_result (pl_get (user_groups P) gid 1 m)"

definition mem_assign_policy :: "mem_priv \<Rightarrow> sso_id \<Rightarrow> policy_target_type \<Rightarrow> sso_id \<Rightarrow> sso_error \<times> mem_priv" where
  "mem_assign_policy P pid tt tid =
     (let (err, l) = al_add (policy_assignments P) pid tt tid in (err, P\<lparr>policy_assignments := l\<rparr>))"

definition mem_unassign_policy :: "mem_priv \<Rightarrow> sso_id \<Rightarrow> policy_target_type \<Rightarrow> sso_id \<Rightarrow> sso_error \<times> mem_priv" where
  "mem_unassign_policy P pid tt tid =
     (SSO_OK, P\<lparr>policy_assignments :=
        (case da_find (\<lambda>a. a = (pid, tt, tid)) (policy_assignments P) of
           None \<Rightarrow> policy_assignments P
         | Some i \<Rightarrow> da_rm (policy_assignments P) i)\<rparr>)"

fun al_get :: "(sso_id \<times> policy_target_type \<times> sso_id \<Rightarrow> bool) \<Rightarrow>
    (sso_id \<times> policy_target_type \<times> sso_id \<Rightarrow> sso_id) \<Rightarrow> al \<Rightarrow> nat \<Rightarrow> sso_id list" where
  "al_get Q out l 0 = []"
| "al_get Q out [] (Suc m) = []"
| "al_get Q out (a # l) (Suc m) = (if Q a then out a # al_get Q out l m else al_get Q out l (Suc m))"

definition mem_get_policy_targets ::
  "mem_priv \<Rightarrow> sso_id \<Rightarrow> policy_target_type \<Rightarrow> nat \<Rightarrow> sso_error \<times> sso_id list" where
  "mem_get_policy_targets P pid tt m =
     ids_result (al_get (\<lambda>(p, t, i). p = pid \<and> t = tt) (\<lambda>(p, t, i). i) (policy_assignments P) m)"

definition mem_get_target_policies ::
  "mem_priv \<Rightarrow> policy_target_type \<Rightarrow> sso_id \<Rightarrow> nat \<Rightarrow> sso_error \<times> sso_id list" where
  "mem_get_target_policies P tt tid m =
     ids_result (al_get (\<lambda>(p, t, i). t = tt \<and> i = tid) (\<lambda>(p, t, i). p) (policy_assignments P) m)"

section \<open>Hierarchy\<close>

definition mem_role_get_parent :: "(mem_priv, sso_id, sso_id) get_fn" where
  "mem_role_get_parent P rid =
     (case da_find (\<lambda>x. r_id x = rid) (roles P) of
        None \<Rightarrow> (SSO_ERR_NOT_FOUND, None) | Some i \<Rightarrow> (SSO_OK, Some (parent_role_id (roles P ! i))))"

definition mem_group_get_parent :: "(mem_priv, sso_id, sso_id) get_fn" where
  "mem_group_get_parent P gid =
     (case da_find (\<lambda>x. g_id x = gid) (groups P) of
        None \<Rightarrow> (SSO_ERR_NOT_FOUND, None) | Some i \<Rightarrow> (SSO_OK, Some (parent_group_id (groups P ! i))))"

definition mem_role_active :: "mem_priv \<Rightarrow> sso_id \<Rightarrow> bool" where
  "mem_role_active P rid =
     (case mem_role_get_by_id P rid of (SSO_OK, Some r) \<Rightarrow> r_status r = ROLE_STATUS_ACTIVE | _ \<Rightarrow> False)"

definition add_new :: "sso_id list \<Rightarrow> sso_id \<Rightarrow> sso_id list" where
  "add_new ids x = (if x \<in> set ids then ids else ids @ [x])"

text \<open>The inner \<^verbatim>\<open>while\<close> loop of \<^verbatim>\<open>mem_get_user_roles_with_ancestors\<close>, which climbs from \<open>cur\<close> as long
  as there is room in the output; it has no other bound.\<close>

partial_function (option) ancestors_loop :: "mem_priv \<Rightarrow> nat \<Rightarrow> sso_id \<Rightarrow> sso_id list \<Rightarrow> sso_id list option" where
  "ancestors_loop P m cur ids =
     (if \<not> length ids < m then Some ids
      else case mem_role_get_parent P cur of
             (SSO_OK, Some par) \<Rightarrow>
               if par = SSO_ID_NONE then Some ids
               else if \<not> mem_role_active P par then Some ids
               else ancestors_loop P m par (add_new ids par)
           | _ \<Rightarrow> Some ids)"

fun closure_loop :: "mem_priv \<Rightarrow> nat \<Rightarrow> sso_id list \<Rightarrow> sso_id list \<Rightarrow> sso_id list option" where
  "closure_loop P m [] ids = Some ids"
| "closure_loop P m (cur # dir) ids =
     (if \<not> length ids < m then Some ids
      else if \<not> mem_role_active P cur then closure_loop P m dir ids
      else do {
        ids' \<leftarrow> ancestors_loop P m cur (add_new ids cur);
        closure_loop P m dir ids'
      })"

definition mem_get_user_roles_with_ancestors ::
  "mem_priv \<Rightarrow> sso_id \<Rightarrow> nat \<Rightarrow> (sso_error \<times> sso_id list) option" where
  "mem_get_user_roles_with_ancestors P uid m =
     (let dir = pl_get (user_roles P) uid 2 64
      in if dir = [] then Some (SSO_ERR_NOT_FOUND, [])
         else map_option ids_result (closure_loop P m dir []))"

section \<open>Codes, clients and tokens\<close>

definition mem_save_sms_code :: "mem_priv \<Rightarrow> string \<Rightarrow> string \<Rightarrow> timestamp \<Rightarrow> sso_error \<times> mem_priv" where
  "mem_save_sms_code P p c ex =
     (case da_find (\<lambda>x. sms_p x = p) (sms_codes P) of
        Some i \<Rightarrow> (SSO_OK, P\<lparr>sms_codes := (sms_codes P)[i := (sms_codes P ! i)\<lparr>sms_c := strlcpy c 15, sms_ex := ex\<rparr>]\<rparr>)
      | None \<Rightarrow>
          (SSO_OK, P\<lparr>sms_codes := sms_codes P @ [\<lparr>sms_p = strlcpy p 31, sms_c = strlcpy c 15, sms_ex = ex\<rparr>]\<rparr>))"

definition mem_get_sms_code :: "timestamp \<Rightarrow> mem_priv \<Rightarrow> string \<Rightarrow> sso_error \<times> string option" where
  "mem_get_sms_code now P p =
     (case da_find (\<lambda>x. sms_p x = p) (sms_codes P) of
        None \<Rightarrow> (SSO_ERR_NOT_FOUND, None)
      | Some i \<Rightarrow>
          if now > sms_ex (sms_codes P ! i) then (SSO_ERR_TOKEN_EXPIRED, None)
          else (SSO_OK, Some (strlcpy (sms_c (sms_codes P ! i)) 15)))"

definition mem_delete_sms_code :: "mem_priv \<Rightarrow> string \<Rightarrow> sso_error \<times> mem_priv" where
  "mem_delete_sms_code P p =
     (case da_find (\<lambda>x. sms_p x = p) (sms_codes P) of
        None \<Rightarrow> (SSO_OK, P)
      | Some i \<Rightarrow> (SSO_OK, P\<lparr>sms_codes := da_rm (sms_codes P) i\<rparr>))"

definition mem_oauth_code_create :: "(mem_priv, oauth_auth_code) update_fn" where
  "mem_oauth_code_create P c = (SSO_OK, P\<lparr>oauth_codes := oauth_codes P @ [c]\<rparr>)"

definition mem_oauth_code_get :: "(mem_priv, string, oauth_auth_code) get_fn" where
  "mem_oauth_code_get P c = get_where (\<lambda>x. oc_code x = c) (oauth_codes P)"

definition mem_oauth_code_mark_used :: "mem_priv \<Rightarrow> string \<Rightarrow> sso_error \<times> mem_priv" where
  "mem_oauth_code_mark_used P c =
     (case da_find (\<lambda>x. oc_code x = c) (oauth_codes P) of
        None \<Rightarrow> (SSO_ERR_NOT_FOUND, P)
      | Some i \<Rightarrow> (SSO_OK, P\<lparr>oauth_codes := (oauth_codes P)[i := (oauth_codes P ! i)\<lparr>used := 1\<rparr>]\<rparr>))"

definition mem_oauth_code_cleanup :: "timestamp \<Rightarrow> mem_priv \<Rightarrow> sso_error \<times> mem_priv" where
  "mem_oauth_code_cleanup now P =
     (SSO_OK, P\<lparr>oauth_codes := filter (\<lambda>x. used x = 0 \<and> oc_expires_at x > now) (oauth_codes P)\<rparr>)"

definition mem_oauth_client_create :: "timestamp \<Rightarrow> (mem_priv, oauth_client) create_fn" where
  "mem_oauth_client_create now P c =
     (if da_find (\<lambda>x. client_id x = client_id c) (oauth_clients P) \<noteq> None then (SSO_ERR_ALREADY_EXISTS, c, P)
      else let c1 = c\<lparr>cl_id := next_ocid P\<rparr>;
               c2 = (if cl_created_at c1 = 0 then c1\<lparr>cl_created_at := now\<rparr> else c1);
               c3 = (if cl_updated_at c2 = 0 then c2\<lparr>cl_updated_at := cl_created_at c2\<rparr> else c2);
               (err, cs) = da_add (oauth_clients P) c3
           in (err, c3, P\<lparr>oauth_clients := cs, next_ocid := next_ocid P + 1\<rparr>))"

definition mem_oauth_client_get :: "(mem_priv, string, oauth_client) get_fn" where
  "mem_oauth_client_get P c = get_where (\<lambda>x. client_id x = c) (oauth_clients P)"

definition mem_oauth_client_update :: "(mem_priv, oauth_client) update_fn" where
  "mem_oauth_client_update P c =
     (case da_find (\<lambda>x. cl_id x = cl_id c) (oauth_clients P) of
        None \<Rightarrow> (SSO_ERR_NOT_FOUND, P)
      | Some i \<Rightarrow> (SSO_OK, P\<lparr>oauth_clients := (oauth_clients P)[i := c]\<rparr>))"

definition mem_oauth_client_delete :: "mem_priv \<Rightarrow> string \<Rightarrow> sso_error \<times> mem_priv" where
  "mem_oauth_client_delete P c =
     (case da_find (\<lambda>x. client_id x = c) (oauth_clients P) of
        None \<Rightarrow> (SSO_ERR_NOT_FOUND, P)
      | Some i \<Rightarrow> (SSO_OK, P\<lparr>oauth_clients := da_rm (oauth_clients P) i\<rparr>))"

definition mem_oauth_client_list :: "mem_priv \<Rightarrow> int \<Rightarrow> int \<Rightarrow> nat \<Rightarrow> sso_error \<times> oauth_client list" where
  "mem_oauth_client_list P offset limit m =
     (SSO_OK, take (min (size_t limit) m) (drop (size_t offset) (oauth_clients P)))"

definition mem_rt_create :: "(mem_priv, refresh_token) update_fn" where
  "mem_rt_create P rt = (SSO_OK, P\<lparr>refresh_tokens := refresh_tokens P @ [rt]\<rparr>)"

definition mem_rt_get :: "(mem_priv, string, refresh_token) get_fn" where
  "mem_rt_get P h = get_where (\<lambda>x. token_hash x = h) (refresh_tokens P)"

definition mem_rt_revoke :: "mem_priv \<Rightarrow> string \<Rightarrow> sso_error \<times> mem_priv" where
  "mem_rt_revoke P h =
     (case da_find (\<lambda>x. token_hash x = h) (refresh_tokens P) of
        None \<Rightarrow> (SSO_ERR_NOT_FOUND, P)
      | Some i \<Rightarrow>
          (SSO_OK, P\<lparr>refresh_tokens := (refresh_tokens P)[i := (refresh_tokens P ! i)\<lparr>rt_revoked := 1\<rparr>]\<rparr>))"

definition mem_rt_revoke_family :: "mem_priv \<Rightarrow> sso_id \<Rightarrow> string \<Rightarrow> sso_error \<times> mem_priv" where
  "mem_rt_revoke_family P uid cid =
     (SSO_OK, P\<lparr>refresh_tokens :=
        map (\<lambda>x. if rt_user_id x = uid \<and> rt_client_id x = cid then x\<lparr>rt_revoked := 1\<rparr> else x)
          (refresh_tokens P)\<rparr>)"

definition mem_jti_revoke :: "mem_priv \<Rightarrow> string \<Rightarrow> timestamp \<Rightarrow> sso_error \<times> mem_priv" where
  "mem_jti_revoke P jti expires =
     (case da_find (\<lambda>x. rj_jti x = jti) (revoked_jtis P) of
        Some i \<Rightarrow> (SSO_OK, P\<lparr>revoked_jtis := (revoked_jtis P)[i := (revoked_jtis P ! i)\<lparr>rj_expires_at := expires\<rparr>]\<rparr>)
      | None \<Rightarrow> (SSO_OK, P\<lparr>revoked_jtis := revoked_jtis P @ [\<lparr>rj_jti = strlcpy jti 64, rj_expires_at = expires\<rparr>]\<rparr>))"

definition mem_jti_is_revoked :: "timestamp \<Rightarrow> mem_priv \<Rightarrow> string \<Rightarrow> bool" where
  "mem_jti_is_revoked now P jti = list_ex (\<lambda>x. rj_jti x = jti \<and> rj_expires_at x > now) (revoked_jtis P)"

section \<open>The function table of the backend\<close>

definition storage_memory :: "mem_priv storage_backend" where
  "storage_memory =
     \<lparr>sb_name = ''memory'', sb_open = Some (\<lambda>_ _. (SSO_OK, mem_open)), sb_user_create = Some mem_user_create, sb_user_get_by_id = Some mem_user_get_by_id,
      sb_user_get_by_name = Some mem_user_get_by_name, sb_user_get_by_phone = Some mem_user_get_by_phone,
      sb_user_update = Some mem_user_update, sb_user_delete = Some mem_user_delete,
      sb_user_list = Some mem_user_list,
      sb_save_sms_code = Some mem_save_sms_code, sb_get_sms_code = Some mem_get_sms_code,
      sb_delete_sms_code = Some mem_delete_sms_code,
      sb_role_create = Some mem_role_create, sb_role_get_by_id = Some mem_role_get_by_id,
      sb_role_get_by_name = Some mem_role_get_by_name, sb_role_update = Some mem_role_update,
      sb_role_delete = Some mem_role_delete, sb_role_list = Some mem_role_list,
      sb_group_create = Some mem_group_create, sb_group_get_by_id = Some mem_group_get_by_id,
      sb_group_get_by_name = Some mem_group_get_by_name, sb_group_update = Some mem_group_update,
      sb_group_delete = Some mem_group_delete, sb_group_list = Some mem_group_list,
      sb_policy_create = Some mem_policy_create, sb_policy_get_by_id = Some mem_policy_get_by_id,
      sb_policy_get_by_name = Some mem_policy_get_by_name, sb_policy_update = Some mem_policy_update,
      sb_policy_delete = Some mem_policy_delete, sb_policy_list = Some mem_policy_list,
      sb_assign_role_to_user = Some mem_assign_role_to_user,
      sb_unassign_role_from_user = Some mem_unassign_role_from_user,
      sb_get_user_roles = Some mem_get_user_roles, sb_get_role_users = Some mem_get_role_users,
      sb_assign_role_to_group = Some mem_assign_role_to_group,
      sb_unassign_role_from_group = Some mem_unassign_role_from_group,
      sb_add_user_to_group = Some mem_add_user_to_group,
      sb_remove_user_from_group = Some mem_remove_user_from_group,
      sb_get_user_groups = Some mem_get_user_groups, sb_get_group_users = Some mem_get_group_users,
      sb_assign_policy = Some mem_assign_policy, sb_unassign_policy = Some mem_unassign_policy,
      sb_get_policy_targets = Some mem_get_policy_targets,
      sb_get_target_policies = Some mem_get_target_policies,
      sb_role_get_parent = Some mem_role_get_parent, sb_group_get_parent = Some mem_group_get_parent,
      sb_get_user_roles_with_ancestors = Some mem_get_user_roles_with_ancestors,
      sb_oauth_code_create = Some mem_oauth_code_create, sb_oauth_code_get = Some mem_oauth_code_get,
      sb_oauth_code_mark_used = Some mem_oauth_code_mark_used,
      sb_oauth_code_cleanup = Some mem_oauth_code_cleanup,
      sb_oauth_client_create = Some mem_oauth_client_create, sb_oauth_client_get = Some mem_oauth_client_get,
      sb_oauth_client_update = Some mem_oauth_client_update,
      sb_oauth_client_delete = Some mem_oauth_client_delete,
      sb_oauth_client_list = Some mem_oauth_client_list,
      sb_refresh_token_create = Some mem_rt_create, sb_refresh_token_get = Some mem_rt_get,
      sb_refresh_token_revoke = Some mem_rt_revoke,
      sb_refresh_token_revoke_family = Some mem_rt_revoke_family,
      sb_jti_revoke = Some mem_jti_revoke, sb_jti_is_revoked = Some mem_jti_is_revoked,
      sb_audit_log_write = None, sb_audit_log_list = None, sb_exec_sql_file = None\<rparr>"

section \<open>Arrays as tables\<close>

lemma storage_memory_fns [simp]:
  "sb_user_create storage_memory = Some mem_user_create"
  "sb_user_get_by_id storage_memory = Some mem_user_get_by_id"
  "sb_user_get_by_name storage_memory = Some mem_user_get_by_name"
  "sb_user_get_by_phone storage_memory = Some mem_user_get_by_phone"
  "sb_user_update storage_memory = Some mem_user_update"
  "sb_user_delete storage_memory = Some mem_user_delete"
  "sb_user_list storage_memory = Some mem_user_list"
  "sb_save_sms_code storage_memory = Some mem_save_sms_code"
  "sb_get_sms_code storage_memory = Some mem_get_sms_code"
  "sb_delete_sms_code storage_memory = Some mem_delete_sms_code"
  "sb_role_create storage_memory = Some mem_role_create"
  "sb_role_get_by_id storage_memory = Some mem_role_get_by_id"
  "sb_role_get_by_name storage_memory = Some mem_role_get_by_name"
  "sb_role_update storage_memory = Some mem_role_update"
  "sb_role_delete storage_memory = Some mem_role_delete"
  "sb_role_list storage_memory = Some mem_role_list"
  "sb_group_create storage_memory = Some mem_group_create"
  "sb_group_get_by_id storage_memory = Some mem_group_get_by_id"
  "sb_group_get_by_name storage_memory = Some mem_group_get_by_name"
  "sb_group_update storage_memory = Some mem_group_update"
  "sb_group_delete storage_memory = Some mem_group_delete"
  "sb_group_list storage_memory = Some mem_group_list"
  "sb_policy_create storage_memory = Some mem_policy_create"
  "sb_policy_get_by_id storage_memory = Some mem_policy_get_by_id"
  "sb_policy_get_by_name storage_memory = Some mem_policy_get_by_name"
  "sb_policy_update storage_memory = Some mem_policy_update"
  "sb_policy_delete storage_memory = Some mem_policy_delete"
  "sb_policy_list storage_memory = Some mem_policy_list"
  "sb_assign_role_to_user storage_memory = Some mem_assign_role_to_user"
  "sb_unassign_role_from_user storage_memory = Some mem_unassign_role_from_user"
  "sb_get_user_roles storage_memory = Some mem_get_user_roles"
  "sb_get_role_users storage_memory = Some mem_get_role_users"
  "sb_assign_role_to_group storage_memory = Some mem_assign_role_to_group"
  "sb_unassign_role_from_group storage_memory = Some mem_unassign_role_from_group"
  "sb_add_user_to_group storage_memory = Some mem_add_user_to_group"
  "sb_remove_user_from_group storage_memory = Some mem_remove_user_from_group"
  "sb_get_user_groups storage_memory = Some mem_get_user_groups"
  "sb_get_group_users storage_memory = Some mem_get_group_users"
  "sb_assign_policy storage_memory = Some mem_assign_policy"
  "sb_unassign_policy storage_memory = Some mem_unassign_policy"
  "sb_get_policy_targets storage_memory = Some mem_get_policy_targets"
  "sb_get_target_policies storage_memory = Some mem_get_target_policies"
  "sb_role_get_parent storage_memory = Some mem_role_get_parent"
  "sb_group_get_parent storage_memory = Some mem_group_get_parent"
  "sb_get_user_roles_with_ancestors storage_memory = Some mem_get_user_roles_with_ancestors"
  "sb_oauth_code_create storage_memory = Some mem_oauth_code_create"
  "sb_oauth_code_get storage_memory = Some mem_oauth_code_get"
  "sb_oauth_code_mark_used storage_memory = Some mem_oauth_code_mark_used"
  "sb_oauth_code_cleanup storage_memory = Some mem_oauth_code_cleanup"
  "sb_oauth_client_create storage_memory = Some mem_oauth_client_create"
  "sb_oauth_client_get storage_memory = Some mem_oauth_client_get"
  "sb_oauth_client_update storage_memory = Some mem_oauth_client_update"
  "sb_oauth_client_delete storage_memory = Some mem_oauth_client_delete"
  "sb_oauth_client_list storage_memory = Some mem_oauth_client_list"
  "sb_refresh_token_create storage_memory = Some mem_rt_create"
  "sb_refresh_token_get storage_memory = Some mem_rt_get"
  "sb_refresh_token_revoke storage_memory = Some mem_rt_revoke"
  "sb_refresh_token_revoke_family storage_memory = Some mem_rt_revoke_family"
  "sb_jti_revoke storage_memory = Some mem_jti_revoke"
  "sb_jti_is_revoked storage_memory = Some mem_jti_is_revoked"
  "sb_audit_log_write storage_memory = None"
  "sb_audit_log_list storage_memory = None"
  "sb_exec_sql_file storage_memory = None"
  "sb_open storage_memory = Some (\<lambda>_ _. (SSO_OK, mem_open))"
  by (simp_all add: storage_memory_def)

lemma da_find_None: "da_find P xs = None \<longleftrightarrow> (\<forall>x \<in> set xs. \<not> P x)"
  by (induction xs) auto

lemma da_find_SomeD: "da_find P xs = Some i \<Longrightarrow> i < length xs \<and> P (xs ! i) \<and> (\<forall>j < i. \<not> P (xs ! j))"
proof (induction xs arbitrary: i)
  case (Cons x xs)
  then show ?case by (cases i) (auto split: if_splits simp: nth_Cons split: nat.splits)
qed simp

lemma da_find_find: "find P xs = map_option ((!) xs) (da_find P xs)"
  by (induction xs) (auto simp: option.map_comp comp_def)

lemma get_where_find:
  "get_where Q xs = (case find Q xs of None \<Rightarrow> (SSO_ERR_NOT_FOUND, None) | Some e \<Rightarrow> (SSO_OK, Some e))"
  by (cases "da_find Q xs") (simp_all add: get_where_def da_find_find)

definition table_view :: "('e \<Rightarrow> sso_id) \<Rightarrow> 'e list \<Rightarrow> sso_id \<Rightarrow> 'e option" where
  "table_view key xs i = find (\<lambda>e. key e = i) xs"

definition table_inv :: "('e \<Rightarrow> sso_id) \<Rightarrow> 'e list \<Rightarrow> sso_id \<Rightarrow> bool" where
  "table_inv key xs nxt \<longleftrightarrow>
     distinct (map key xs) \<and> (\<forall>e \<in> set xs. 0 < key e \<and> key e < nxt) \<and> 0 < nxt"

lemma table_view_key: "table_view key xs i = Some e \<Longrightarrow> key e = i"
  by (auto simp: table_view_def find_Some_iff)

lemma table_view_None: "table_view key xs i = None \<longleftrightarrow> i \<notin> key ` set xs"
  by (auto simp: table_view_def find_None_iff)

lemma table_view_append:
  "key e \<notin> key ` set xs \<Longrightarrow> table_view key (xs @ [e]) = (table_view key xs)(key e \<mapsto> e)"
  by (induction xs) (auto simp: table_view_def fun_eq_iff)

lemma table_view_update:
  "da_find (\<lambda>x. key x = key e) xs = Some i \<Longrightarrow>
   table_view key (xs[i := e]) = (table_view key xs)(key e \<mapsto> e)"
proof (induction xs arbitrary: i)
  case (Cons x xs)
  then show ?case
    by (cases i) (auto simp: table_view_def fun_eq_iff split: if_splits)
qed simp

lemma table_view_rm:
  "distinct (map key xs) \<Longrightarrow> da_find (\<lambda>x. key x = k) xs = Some i \<Longrightarrow>
   table_view key (da_rm xs i) = (table_view key xs)(k := None)"
proof (induction xs arbitrary: i)
  case (Cons x xs)
  show ?case
  proof (cases "key x = k")
    case True
    with Cons.prems have "k \<notin> key ` set xs" by auto
    then have "table_view key xs k = None" by (simp add: table_view_None)
    with True Cons.prems show ?thesis by (auto simp: da_rm_def table_view_def fun_eq_iff)
  next
    case False
    with Cons show ?thesis by (auto simp: da_rm_def table_view_def fun_eq_iff split: if_splits)
  qed
qed simp

lemma table_inv_add:
  assumes "table_inv key xs nxt" "key e = nxt" "nxt + 1 \<noteq> 0"
  shows "table_inv key (xs @ [e]) (nxt + 1)" and "key e \<notin> key ` set xs"
proof -
  have lt: "nxt < nxt + 1" using assms(3) unatSuc [of nxt] by (simp add: word_less_nat_alt add.commute)
  then show "table_inv key (xs @ [e]) (nxt + 1)" "key e \<notin> key ` set xs"
    using assms(1,2) by (auto simp: table_inv_def dest: less_trans [OF _ lt])
qed

lemma table_inv_update:
  assumes "table_inv key xs nxt" "da_find (\<lambda>x. key x = key e) xs = Some i"
  shows "table_inv key (xs[i := e]) nxt"
proof -
  have i: "i < length xs" "key (xs ! i) = key e" using da_find_SomeD [OF assms(2)] by auto
  then have m: "map key (xs[i := e]) = map key xs" by (metis list_update_id map_update)
  then have "key ` set (xs[i := e]) = key ` set xs" by (metis list.set_map)
  with assms(1) m show ?thesis unfolding table_inv_def by (metis imageE imageI)
qed

lemma set_da_rm: "set (da_rm xs i) \<subseteq> set xs"
  by (auto simp: da_rm_def dest: in_set_takeD in_set_dropD)

lemma table_inv_rm: "table_inv key xs nxt \<Longrightarrow> table_inv key (da_rm xs i) nxt"
proof -
  assume a: "table_inv key xs nxt"
  have "map key (da_rm xs i) = da_rm (map key xs) i" by (simp add: da_rm_def take_map drop_map)
  moreover have "distinct (da_rm (map key xs) i)"
    using a unfolding table_inv_def da_rm_def
    by (simp add: set_take_disj_set_drop_if_distinct)
  ultimately show ?thesis using a set_da_rm [of xs i] unfolding table_inv_def by auto
qed

lemma rm_back_filter: "i \<le> length l \<Longrightarrow> rm_back P i l = filter (\<lambda>x. \<not> P x) (take i l) @ drop i l"
proof (induction i arbitrary: l)
  case (Suc i)
  then have "take (Suc i) l = take i l @ [l ! i]" and "drop i l = l ! i # drop (Suc i) l"
    by (simp_all add: take_Suc_conv_app_nth Cons_nth_drop_Suc)
  with Suc show ?case by (auto simp: da_rm_def)
qed simp

lemma rm_loops [simp]:
  "pl_rm_by_b l v = filter (\<lambda>p. snd p \<noteq> v) l"
  "pl_rm_by_a l v = filter (\<lambda>p. fst p \<noteq> v) l"
  "al_rm_by_target al tt tid = filter (\<lambda>a. \<not> (fst (snd a) = tt \<and> snd (snd a) = tid)) al"
  by (simp_all add: pl_rm_by_b_def pl_rm_by_a_def al_rm_by_target_def rm_back_filter)

lemma pl_get_2: "pl_get l key 2 m = take m (map fst (filter (\<lambda>p. snd p = key) l))"
  by (induction l key "2 :: nat" m rule: pl_get.induct) auto

lemma pl_get_1: "pl_get l key (Suc 0) m = take m (map snd (filter (\<lambda>p. fst p = key) l))"
  by (induction l key "Suc 0" m rule: pl_get.induct) auto

lemma al_get_filter: "al_get Q out l m = take m (map out (filter Q l))"
  by (induction Q out l m rule: al_get.induct) auto

lemma list_loop_page:
  "list_loop keep out off lim seen es =
     (map out (take (lim - (seen - off)) (drop (off - seen) (filter keep es))), seen + length (filter keep es))"
proof (induction es arbitrary: seen)
  case (Cons e es)
  show ?case
  proof (cases "keep e")
    case True
    consider "seen < off" | "off \<le> seen" "lim \<le> seen - off" | "off \<le> seen" "seen - off < lim" by linarith
    then show ?thesis
    proof cases
      case 1
      then obtain k where "off - seen = Suc k" "off - Suc seen = k" by (metis Suc_diff_Suc)
      with 1 True Cons show ?thesis by simp
    next
      case 3
      then obtain k where "lim - (seen - off) = Suc k" "lim - (Suc seen - off) = k"
        by (metis Suc_diff_Suc Suc_diff_le diff_Suc_Suc)
      with 3 True Cons show ?thesis by simp
    qed (use True Cons in simp)
  qed (use Cons in simp)
qed simp

section \<open>The invariant and the entity contract\<close>

text \<open>Ids are unique, never 0 (\<^verbatim>\<open>SSO_ID_NONE\<close>), and below the counter, in each of the four tables.\<close>

definition mem_inv :: "mem_priv \<Rightarrow> bool" where
  "mem_inv P \<longleftrightarrow> table_inv u_id (users P) (next_uid P) \<and> table_inv r_id (roles P) (next_rid P) \<and>
     table_inv g_id (groups P) (next_gid P) \<and> table_inv p_id (policies P) (next_pid P)"

lemma mem_inv_open: "mem_inv mem_open"
  by (simp add: mem_inv_def mem_open_def table_inv_def)

lemmas table_facts = table_view_append table_view_update table_view_rm table_inv_update table_inv_rm

lemma da_find_view: "da_find (\<lambda>x. key x = k) xs = None \<longleftrightarrow> table_view key xs k = None"
  by (auto simp: da_find_None table_view_def find_None_iff)

lemma da_find_cases:
  obtains "table_view key xs k = None" "da_find (\<lambda>x. key x = k) xs = None"
  | i e where "table_view key xs k = Some e" "da_find (\<lambda>x. key x = k) xs = Some i"
  by (cases "da_find (\<lambda>x. key x = k) xs"; cases "table_view key xs k")
     (auto simp: da_find_view [of key k xs] dest: da_find_view [THEN iffD2])

lemma get_where_view:
  "get_where (\<lambda>e. key e = i) xs =
     (case table_view key xs i of None \<Rightarrow> (SSO_ERR_NOT_FOUND, None) | Some e \<Rightarrow> (SSO_OK, Some e))"
  by (simp add: get_where_find table_view_def)

interpretation mem_users: entity_store mem_user_create mem_user_get_by_id mem_user_update mem_user_delete
  u_id mem_inv "\<lambda>P. next_uid P + 1 \<noteq> 0" "\<lambda>P. table_view u_id (users P)"
proof
  fix P P' :: mem_priv and e e' :: user
  assume "mem_user_create P e = (SSO_OK, e', P')" "mem_inv P" "next_uid P + 1 \<noteq> 0"
  then show "table_view u_id (users P) (u_id e') = None \<and>
      table_view u_id (users P') = (table_view u_id (users P))(u_id e' \<mapsto> e') \<and> mem_inv P'"
    using table_inv_add [of u_id "users P" "next_uid P" e']
    by (auto simp: mem_user_create_def da_add_def Let_def mem_inv_def table_view_append table_view_None
        split: if_splits)
next
  fix P :: mem_priv and e :: user
  assume "mem_inv P"
  then show "case table_view u_id (users P) (u_id e) of
      None \<Rightarrow> mem_user_update P e = (SSO_ERR_NOT_FOUND, P)
    | Some _ \<Rightarrow> \<exists>P'. mem_user_update P e = (SSO_OK, P') \<and>
        table_view u_id (users P') = (table_view u_id (users P))(u_id e \<mapsto> e) \<and> mem_inv P'"
    by (cases rule: da_find_cases [of u_id "users P" "u_id e"])
       (auto simp: mem_user_update_def mem_inv_def table_facts)
next
  fix P :: mem_priv and i
  assume "mem_inv P"
  then show "case table_view u_id (users P) i of
      None \<Rightarrow> mem_user_delete P i = (SSO_ERR_NOT_FOUND, P)
    | Some _ \<Rightarrow> \<exists>P'. mem_user_delete P i = (SSO_OK, P') \<and>
        table_view u_id (users P') = (table_view u_id (users P))(i := None) \<and> mem_inv P'"
    by (cases rule: da_find_cases [of u_id "users P" i])
       (auto simp: mem_user_delete_def mem_inv_def table_facts table_inv_def [of u_id "users P"])
qed (auto simp: mem_user_get_by_id_def get_where_view mem_user_create_def da_add_def Let_def
     dest: table_view_key split: if_splits)

interpretation mem_roles: entity_store mem_role_create mem_role_get_by_id mem_role_update mem_role_delete
  r_id mem_inv "\<lambda>P. next_rid P + 1 \<noteq> 0" "\<lambda>P. table_view r_id (roles P)"
proof
  fix P P' :: mem_priv and e e' :: role
  assume "mem_role_create P e = (SSO_OK, e', P')" "mem_inv P" "next_rid P + 1 \<noteq> 0"
  then show "table_view r_id (roles P) (r_id e') = None \<and>
      table_view r_id (roles P') = (table_view r_id (roles P))(r_id e' \<mapsto> e') \<and> mem_inv P'"
    using table_inv_add [of r_id "roles P" "next_rid P" e']
    by (auto simp: mem_role_create_def da_add_def Let_def mem_inv_def table_view_append table_view_None
        split: if_splits)
next
  fix P :: mem_priv and e :: role
  assume "mem_inv P"
  then show "case table_view r_id (roles P) (r_id e) of
      None \<Rightarrow> mem_role_update P e = (SSO_ERR_NOT_FOUND, P)
    | Some _ \<Rightarrow> \<exists>P'. mem_role_update P e = (SSO_OK, P') \<and>
        table_view r_id (roles P') = (table_view r_id (roles P))(r_id e \<mapsto> e) \<and> mem_inv P'"
    by (cases rule: da_find_cases [of r_id "roles P" "r_id e"])
       (auto simp: mem_role_update_def mem_inv_def table_facts)
next
  fix P :: mem_priv and i
  assume "mem_inv P"
  then show "case table_view r_id (roles P) i of
      None \<Rightarrow> mem_role_delete P i = (SSO_ERR_NOT_FOUND, P)
    | Some _ \<Rightarrow> \<exists>P'. mem_role_delete P i = (SSO_OK, P') \<and>
        table_view r_id (roles P') = (table_view r_id (roles P))(i := None) \<and> mem_inv P'"
    by (cases rule: da_find_cases [of r_id "roles P" i])
       (auto simp: mem_role_delete_def mem_inv_def table_facts table_inv_def [of r_id "roles P"])
qed (auto simp: mem_role_get_by_id_def get_where_view mem_role_create_def da_add_def Let_def
     dest: table_view_key split: if_splits)

interpretation mem_groups: entity_store mem_group_create mem_group_get_by_id mem_group_update mem_group_delete
  g_id mem_inv "\<lambda>P. next_gid P + 1 \<noteq> 0" "\<lambda>P. table_view g_id (groups P)"
proof
  fix P P' :: mem_priv and e e' :: group
  assume "mem_group_create P e = (SSO_OK, e', P')" "mem_inv P" "next_gid P + 1 \<noteq> 0"
  then show "table_view g_id (groups P) (g_id e') = None \<and>
      table_view g_id (groups P') = (table_view g_id (groups P))(g_id e' \<mapsto> e') \<and> mem_inv P'"
    using table_inv_add [of g_id "groups P" "next_gid P" e']
    by (auto simp: mem_group_create_def da_add_def Let_def mem_inv_def table_view_append table_view_None
        split: if_splits)
next
  fix P :: mem_priv and e :: group
  assume "mem_inv P"
  then show "case table_view g_id (groups P) (g_id e) of
      None \<Rightarrow> mem_group_update P e = (SSO_ERR_NOT_FOUND, P)
    | Some _ \<Rightarrow> \<exists>P'. mem_group_update P e = (SSO_OK, P') \<and>
        table_view g_id (groups P') = (table_view g_id (groups P))(g_id e \<mapsto> e) \<and> mem_inv P'"
    by (cases rule: da_find_cases [of g_id "groups P" "g_id e"])
       (auto simp: mem_group_update_def mem_inv_def table_facts)
next
  fix P :: mem_priv and i
  assume "mem_inv P"
  then show "case table_view g_id (groups P) i of
      None \<Rightarrow> mem_group_delete P i = (SSO_ERR_NOT_FOUND, P)
    | Some _ \<Rightarrow> \<exists>P'. mem_group_delete P i = (SSO_OK, P') \<and>
        table_view g_id (groups P') = (table_view g_id (groups P))(i := None) \<and> mem_inv P'"
    by (cases rule: da_find_cases [of g_id "groups P" i])
       (auto simp: mem_group_delete_def mem_inv_def table_facts table_inv_def [of g_id "groups P"])
qed (auto simp: mem_group_get_by_id_def get_where_view mem_group_create_def da_add_def Let_def
     dest: table_view_key split: if_splits)

interpretation mem_policies: entity_store mem_policy_create mem_policy_get_by_id mem_policy_update mem_policy_delete
  p_id mem_inv "\<lambda>P. next_pid P + 1 \<noteq> 0" "\<lambda>P. table_view p_id (policies P)"
proof
  fix P P' :: mem_priv and e e' :: policy
  assume "mem_policy_create P e = (SSO_OK, e', P')" "mem_inv P" "next_pid P + 1 \<noteq> 0"
  then show "table_view p_id (policies P) (p_id e') = None \<and>
      table_view p_id (policies P') = (table_view p_id (policies P))(p_id e' \<mapsto> e') \<and> mem_inv P'"
    using table_inv_add [of p_id "policies P" "next_pid P" e']
    by (auto simp: mem_policy_create_def da_add_def Let_def mem_inv_def table_view_append table_view_None
        split: if_splits)
next
  fix P :: mem_priv and e :: policy
  assume "mem_inv P"
  then show "case table_view p_id (policies P) (p_id e) of
      None \<Rightarrow> mem_policy_update P e = (SSO_ERR_NOT_FOUND, P)
    | Some _ \<Rightarrow> \<exists>P'. mem_policy_update P e = (SSO_OK, P') \<and>
        table_view p_id (policies P') = (table_view p_id (policies P))(p_id e \<mapsto> e) \<and> mem_inv P'"
    by (cases rule: da_find_cases [of p_id "policies P" "p_id e"])
       (auto simp: mem_policy_update_def mem_inv_def table_facts)
next
  fix P :: mem_priv and i
  assume "mem_inv P"
  then show "case table_view p_id (policies P) i of
      None \<Rightarrow> mem_policy_delete P i = (SSO_ERR_NOT_FOUND, P)
    | Some _ \<Rightarrow> \<exists>P'. mem_policy_delete P i = (SSO_OK, P') \<and>
        table_view p_id (policies P') = (table_view p_id (policies P))(i := None) \<and> mem_inv P'"
    by (cases rule: da_find_cases [of p_id "policies P" i])
       (auto simp: mem_policy_delete_def mem_inv_def table_facts table_inv_def [of p_id "policies P"])
qed (auto simp: mem_policy_get_by_id_def get_where_view mem_policy_create_def da_add_def Let_def
     dest: table_view_key split: if_splits)

end
