(* ===== verification/Storage_Roles.thy ===== *)
theory Storage_Roles
  imports Storage_Memory
begin

text \<open>
  Properties of the in-memory backend: its invariant over every sequence of operations, the
  round trips of the tables, cascading deletes, paging, and the role closure
  \<^verbatim>\<open>mem_get_user_roles_with_ancestors\<close> that role-based decisions rest on.
\<close>

section \<open>Sequences of operations\<close>

text \<open>One call of a state-changing operation, as long as the id counters have room.\<close>

inductive mem_step :: "mem_priv \<Rightarrow> mem_priv \<Rightarrow> bool" where
  step_user_create: "mem_user_create P u = (e, u', P') \<Longrightarrow> next_uid P + 1 \<noteq> 0 \<Longrightarrow> mem_step P P'"
| step_user_update: "mem_user_update P u = (e, P') \<Longrightarrow> mem_step P P'"
| step_user_delete: "mem_user_delete P i = (e, P') \<Longrightarrow> mem_step P P'"
| step_role_create: "mem_role_create P r = (e, r', P') \<Longrightarrow> next_rid P + 1 \<noteq> 0 \<Longrightarrow> mem_step P P'"
| step_role_update: "mem_role_update P r = (e, P') \<Longrightarrow> mem_step P P'"
| step_role_delete: "mem_role_delete P i = (e, P') \<Longrightarrow> mem_step P P'"
| step_group_create: "mem_group_create P g = (e, g', P') \<Longrightarrow> next_gid P + 1 \<noteq> 0 \<Longrightarrow> mem_step P P'"
| step_group_update: "mem_group_update P g = (e, P') \<Longrightarrow> mem_step P P'"
| step_group_delete: "mem_group_delete P i = (e, P') \<Longrightarrow> mem_step P P'"
| step_policy_create: "mem_policy_create P p = (e, p', P') \<Longrightarrow> next_pid P + 1 \<noteq> 0 \<Longrightarrow> mem_step P P'"
| step_policy_update: "mem_policy_update P p = (e, P') \<Longrightarrow> mem_step P P'"
| step_policy_delete: "mem_policy_delete P i = (e, P') \<Longrightarrow> mem_step P P'"
| step_assign_role_user: "mem_assign_role_to_user P a b = (e, P') \<Longrightarrow> mem_step P P'"
| step_unassign_role_user: "mem_unassign_role_from_user P a b = (e, P') \<Longrightarrow> mem_step P P'"
| step_assign_role_group: "mem_assign_role_to_group P a b = (e, P') \<Longrightarrow> mem_step P P'"
| step_unassign_role_group: "mem_unassign_role_from_group P a b = (e, P') \<Longrightarrow> mem_step P P'"
| step_add_user_group: "mem_add_user_to_group P a b = (e, P') \<Longrightarrow> mem_step P P'"
| step_remove_user_group: "mem_remove_user_from_group P a b = (e, P') \<Longrightarrow> mem_step P P'"
| step_assign_policy: "mem_assign_policy P pid tt tid = (e, P') \<Longrightarrow> mem_step P P'"
| step_unassign_policy: "mem_unassign_policy P pid tt tid = (e, P') \<Longrightarrow> mem_step P P'"
| step_save_sms: "mem_save_sms_code P ph c ex = (e, P') \<Longrightarrow> mem_step P P'"
| step_delete_sms: "mem_delete_sms_code P ph = (e, P') \<Longrightarrow> mem_step P P'"
| step_code_create: "mem_oauth_code_create P c' = (e, P') \<Longrightarrow> mem_step P P'"
| step_code_used: "mem_oauth_code_mark_used P c = (e, P') \<Longrightarrow> mem_step P P'"
| step_code_cleanup: "mem_oauth_code_cleanup now P = (e, P') \<Longrightarrow> mem_step P P'"
| step_client_create: "mem_oauth_client_create now P cl = (e, cl', P') \<Longrightarrow> mem_step P P'"
| step_client_update: "mem_oauth_client_update P cl = (e, P') \<Longrightarrow> mem_step P P'"
| step_client_delete: "mem_oauth_client_delete P c = (e, P') \<Longrightarrow> mem_step P P'"
| step_rt_create: "mem_rt_create P rt = (e, P') \<Longrightarrow> mem_step P P'"
| step_rt_revoke: "mem_rt_revoke P h = (e, P') \<Longrightarrow> mem_step P P'"
| step_rt_family: "mem_rt_revoke_family P i c = (e, P') \<Longrightarrow> mem_step P P'"
| step_jti_revoke: "mem_jti_revoke P j ex = (e, P') \<Longrightarrow> mem_step P P'"

text \<open>An operation that leaves the four tables and their counters alone keeps the invariant.\<close>

lemma mem_inv_frame:
  assumes "mem_inv P" "users P' = users P" "roles P' = roles P" "groups P' = groups P"
    "policies P' = policies P" "next_uid P' = next_uid P" "next_rid P' = next_rid P"
    "next_gid P' = next_gid P" "next_pid P' = next_pid P"
  shows "mem_inv P'"
  using assms by (simp add: mem_inv_def)

lemmas mem_side_defs =
  mem_assign_role_to_user_def mem_unassign_role_from_user_def mem_assign_role_to_group_def
  mem_unassign_role_from_group_def mem_add_user_to_group_def mem_remove_user_from_group_def
  mem_assign_policy_def mem_unassign_policy_def mem_save_sms_code_def mem_delete_sms_code_def
  mem_oauth_code_create_def mem_oauth_code_mark_used_def mem_oauth_code_cleanup_def
  mem_oauth_client_create_def mem_oauth_client_update_def mem_oauth_client_delete_def
  mem_rt_create_def mem_rt_revoke_def mem_rt_revoke_family_def mem_jti_revoke_def
  pl_add_def al_add_def da_add_def Let_def

context entity_store
begin

lemma create_keeps: "create s e = (err, e', s') \<Longrightarrow> inv s \<Longrightarrow> room s \<Longrightarrow> inv s'"
  using create_view create_fail by (cases "err = SSO_OK") blast+

lemma update_keeps: "update s e = (err, s') \<Longrightarrow> inv s \<Longrightarrow> inv s'"
  using update_view [of s e] by (auto split: option.splits)

lemma del_keeps: "del s i = (err, s') \<Longrightarrow> inv s \<Longrightarrow> inv s'"
  using del_view [of s i] by (auto split: option.splits)

end

lemmas mem_crud_keeps =
  mem_users.create_keeps mem_users.update_keeps mem_users.del_keeps
  mem_roles.create_keeps mem_roles.update_keeps mem_roles.del_keeps
  mem_groups.create_keeps mem_groups.update_keeps mem_groups.del_keeps
  mem_policies.create_keeps mem_policies.update_keeps mem_policies.del_keeps

lemma mem_step_inv: "mem_step P P' \<Longrightarrow> mem_inv P \<Longrightarrow> mem_inv P'"
proof (induction rule: mem_step.induct)
  case (step_client_create now P cl e cl' P')
  then show ?case by (elim mem_inv_frame) (auto simp: mem_side_defs split: if_splits)
qed (erule (2) mem_crud_keeps | erule (1) mem_crud_keeps |
     (erule mem_inv_frame; auto simp: mem_side_defs split: option.splits))+

section \<open>The role closure\<close>

text \<open>The active parent of a role: the role the inner loop climbs to next.\<close>

definition up :: "mem_priv \<Rightarrow> sso_id \<Rightarrow> sso_id option" where
  "up P r = (case mem_role_get_parent P r of
               (SSO_OK, Some par) \<Rightarrow> if par \<noteq> SSO_ID_NONE \<and> mem_role_active P par then Some par else None
             | _ \<Rightarrow> None)"

text \<open>The role itself and the ancestors that an unbroken chain of active parents leads to.\<close>

inductive climbs :: "mem_priv \<Rightarrow> sso_id \<Rightarrow> sso_id \<Rightarrow> bool" for P where
  climbs_refl: "climbs P r r"
| climbs_up: "up P r = Some b \<Longrightarrow> climbs P b a \<Longrightarrow> climbs P r a"

inductive_simps climbs_iff: "climbs P r a"

lemma climbs_set: "Collect (climbs P r) = insert r (case up P r of None \<Rightarrow> {} | Some b \<Rightarrow> Collect (climbs P b))"
  by (auto simp: climbs_iff [of P r] split: option.splits)

lemma ancestors_loop_up:
  "ancestors_loop P m cur ids =
     (if \<not> length ids < m then Some ids
      else case up P cur of None \<Rightarrow> Some ids | Some par \<Rightarrow> ancestors_loop P m par (add_new ids par))"
  by (subst ancestors_loop.simps) (auto simp: up_def split: prod.splits sso_error.splits option.splits)

lemma set_add_new [simp]: "set (add_new ids x) = insert x (set ids)"
  by (auto simp: add_new_def)

lemma distinct_add_new [simp]: "distinct (add_new ids x) = distinct ids"
  by (auto simp: add_new_def)

lemma length_add_new: "length ids < m \<Longrightarrow> length (add_new ids x) \<le> m"
  by (auto simp: add_new_def)

text \<open>The hierarchy is acyclic when a rank decreases from each role to its active parent.\<close>

definition acyclic_by :: "(sso_id \<Rightarrow> nat) \<Rightarrow> mem_priv \<Rightarrow> bool" where
  "acyclic_by rank P \<longleftrightarrow> (\<forall>r b. up P r = Some b \<longrightarrow> rank b < rank r)"

lemma ancestors_loop_spec:
  assumes "acyclic_by rank P" "length ids \<le> m" "distinct ids" "cur \<in> set ids"
  shows "\<exists>ids'. ancestors_loop P m cur ids = Some ids' \<and> length ids' \<le> m \<and> distinct ids' \<and>
    set ids \<subseteq> set ids' \<and> set ids' \<subseteq> set ids \<union> Collect (climbs P cur) \<and>
    (length ids' < m \<longrightarrow> set ids' = set ids \<union> Collect (climbs P cur))"
  using assms(2-)
proof (induction "rank cur" arbitrary: cur ids rule: less_induct)
  case less
  show ?case
  proof (cases "length ids < m")
    case True
    show ?thesis
    proof (cases "up P cur")
      case None
      then have "Collect (climbs P cur) = {cur}" by (subst climbs_set) simp
      with None True less(2-4) show ?thesis by (subst ancestors_loop_up) auto
    next
      case (Some par)
      then have "rank par < rank cur" using assms(1) by (simp add: acyclic_by_def)
      from less(1) [OF this, of "add_new ids par"] True less(3) obtain ids' where
        "ancestors_loop P m par (add_new ids par) = Some ids'" "length ids' \<le> m" "distinct ids'"
        "insert par (set ids) \<subseteq> set ids'" "set ids' \<subseteq> insert par (set ids) \<union> Collect (climbs P par)"
        "length ids' < m \<longrightarrow> set ids' = insert par (set ids) \<union> Collect (climbs P par)"
        by (auto simp: length_add_new)
      moreover have "Collect (climbs P cur) = insert cur (Collect (climbs P par))"
        using Some by (subst climbs_set) simp
      moreover have "par \<in> Collect (climbs P par)" by (simp add: climbs_refl)
      ultimately show ?thesis using True Some less(4) by (subst ancestors_loop_up) auto
    qed
  next
    case False
    with less(2-4) show ?thesis by (subst ancestors_loop_up) auto
  qed
qed

lemma closure_loop_spec:
  assumes "acyclic_by rank P" "length ids \<le> m" "distinct ids"
  shows "\<exists>ids'. closure_loop P m dir ids = Some ids' \<and> length ids' \<le> m \<and> distinct ids' \<and> set ids \<subseteq> set ids' \<and>
    set ids' \<subseteq> set ids \<union> {a. \<exists>r \<in> set dir. mem_role_active P r \<and> climbs P r a} \<and>
    (length ids' < m \<longrightarrow> set ids' = set ids \<union> {a. \<exists>r \<in> set dir. mem_role_active P r \<and> climbs P r a})"
  using assms(2-)
proof (induction dir arbitrary: ids)
  case (Cons cur dir)
  show ?case
  proof (cases "length ids < m \<and> mem_role_active P cur")
    case True
    then obtain ids1 where 1: "ancestors_loop P m cur (add_new ids cur) = Some ids1" "length ids1 \<le> m"
      "distinct ids1" "insert cur (set ids) \<subseteq> set ids1"
      "set ids1 \<subseteq> insert cur (set ids) \<union> Collect (climbs P cur)"
      "length ids1 < m \<longrightarrow> set ids1 = insert cur (set ids) \<union> Collect (climbs P cur)"
      using ancestors_loop_spec [OF assms(1), of "add_new ids cur" m cur] Cons.prems length_add_new
      by auto
    from Cons.IH [OF 1(2,3)] obtain ids2 where 2: "closure_loop P m dir ids1 = Some ids2"
      "length ids2 \<le> m" "distinct ids2" "set ids1 \<subseteq> set ids2"
      "set ids2 \<subseteq> set ids1 \<union> {a. \<exists>r \<in> set dir. mem_role_active P r \<and> climbs P r a}"
      "length ids2 < m \<longrightarrow> set ids2 = set ids1 \<union> {a. \<exists>r \<in> set dir. mem_role_active P r \<and> climbs P r a}"
      by blast
    have c: "climbs P cur cur" by (rule climbs_refl)
    have "length ids1 \<le> length ids2"
      using 1(3) 2(3,4) by (metis card_mono distinct_card List.finite_set)
    with 1 2 have "length ids2 < m \<longrightarrow>
        set ids2 = set ids \<union> {a. \<exists>r \<in> set (cur # dir). mem_role_active P r \<and> climbs P r a}"
      using True c by auto
    moreover have "set ids2 \<subseteq> set ids \<union> {a. \<exists>r \<in> set (cur # dir). mem_role_active P r \<and> climbs P r a}"
      using 1(5) 2(5) True c by auto
    ultimately show ?thesis using True 1(1,4) 2 by auto
  next
    case False
    show ?thesis
    proof (cases "length ids < m")
      case True
      with False have "\<not> mem_role_active P cur" by simp
      then have "{a. \<exists>r \<in> set (cur # dir). mem_role_active P r \<and> climbs P r a} =
          {a. \<exists>r \<in> set dir. mem_role_active P r \<and> climbs P r a}" by auto
      with Cons.IH [OF Cons.prems] True \<open>\<not> mem_role_active P cur\<close> show ?thesis by simp
    qed (use Cons.prems in auto)
  qed
qed auto

text \<open>On a cycle of two active roles the loop has nothing to add and nothing to stop it.\<close>

definition stuck :: "mem_priv \<Rightarrow> sso_id \<Rightarrow> sso_id \<Rightarrow> mem_priv \<Rightarrow> nat \<Rightarrow> sso_id \<Rightarrow> sso_id list \<Rightarrow> bool" where
  "stuck Q a b P m cur ids \<longleftrightarrow> P = Q \<and> cur \<in> {a, b} \<and> {a, b} \<subseteq> set ids \<and> length ids < m"

lemma ancestors_loop_cycle:
  assumes "up Q a = Some b" "up Q b = Some a" "ancestors_loop P m cur ids = Some ids'"
  shows "\<not> stuck Q a b P m cur ids"
proof -
  let ?N = "\<lambda>(((P, m), cur), ids) _. \<not> stuck Q a b P m cur ids"
  have "?N (((P, m), cur), ids) ids'"
  proof (rule ancestors_loop.raw_induct [where Pa = ?N, OF _ assms(3)])
    fix f P m cur ids y
    assume IH: "\<And>P m cur ids y. f P m cur ids = Some y \<Longrightarrow> ?N (((P, m), cur), ids) y"
      and body: "(if \<not> length ids < m then Some ids
        else case mem_role_get_parent P cur of
             (SSO_OK, Some par) \<Rightarrow>
               if par = SSO_ID_NONE then Some ids
               else if \<not> mem_role_active P par then Some ids
               else f P m par (add_new ids par)
           | _ \<Rightarrow> Some ids) = Some y"
    have False if st: "stuck Q a b P m cur ids"
    proof -
    obtain par where par: "up P cur = Some par" "par \<in> {a, b}"
      using assms(1,2) st by (auto simp: stuck_def)
    then have "f P m par (add_new ids par) = Some y"
      using body st by (auto simp: stuck_def up_def split: prod.splits sso_error.splits option.splits if_splits)
    moreover have "add_new ids par = ids" using par st by (auto simp: add_new_def stuck_def)
    ultimately have "\<not> stuck Q a b P m par ids" using IH [of P m par ids y] by simp
    with st par show False by (simp add: stuck_def)
    qed
    then show "?N (((P, m), cur), ids) y" by auto
  qed
  then show ?thesis by simp
qed

section \<open>Properties\<close>

text \<open>C13: whatever sequence of backend operations runs from an empty store, ids stay unique,
  non-zero and below their counters in every table (until a 64-bit counter runs out).\<close>

theorem mem_reachable_inv: "mem_step\<^sup>*\<^sup>* mem_open P \<Longrightarrow> mem_inv P"
  by (induction rule: rtranclp_induct) (auto intro: mem_inv_open mem_step_inv)

theorem mem_reachable_inv_witness:
  "mem_inv (snd (snd (mem_user_create mem_open sample_user)))"
proof (rule mem_reachable_inv, rule r_into_rtranclp)
  obtain e u' P' where m: "mem_user_create mem_open sample_user = (e, u', P')" by (metis prod_cases3)
  then show "mem_step mem_open (snd (snd (mem_user_create mem_open sample_user)))"
    using step_user_create [OF m] by (simp add: mem_open_def)
qed

text \<open>Creating a user gives it an id no user had, reading that id back yields the stored user,
  and no other user changes.\<close>

theorem mem_user_create_get:
  assumes "mem_inv P" "next_uid P + 1 \<noteq> 0" "mem_user_create P u = (SSO_OK, u', P')"
  shows "mem_user_get_by_id P (u_id u') = (SSO_ERR_NOT_FOUND, None) \<and>
    mem_user_get_by_id P' (u_id u') = (SSO_OK, Some u') \<and>
    (\<forall>i. i \<noteq> u_id u' \<longrightarrow> mem_user_get_by_id P' i = mem_user_get_by_id P i)"
  using mem_users.create_view [OF assms(3,1,2)] mem_users.get_after_create [OF assms(3,1,2)]
  by (simp_all add: mem_users.get_view)

theorem mem_user_create_get_witness:
  "mem_user_get_by_id (snd (snd (mem_user_create mem_open sample_user))) 1 =
     (SSO_OK, Some (sample_user\<lparr>u_id := 1\<rparr>))"
  using mem_user_create_get [of mem_open sample_user "sample_user\<lparr>u_id := 1\<rparr>"] mem_inv_open
  by (simp add: mem_user_create_def mem_open_def Let_def da_add_def)

text \<open>Updating a policy replaces exactly that policy, deleting it removes exactly that policy,
  and deleting it again fails without changing the store.\<close>

theorem mem_policy_update_delete:
  assumes "mem_inv P" "mem_policy_get_by_id P (p_id p) \<noteq> (SSO_ERR_NOT_FOUND, None)"
  shows "\<exists>P1 P2. mem_policy_update P p = (SSO_OK, P1) \<and> mem_policy_get_by_id P1 (p_id p) = (SSO_OK, Some p) \<and>
      mem_policy_delete P1 (p_id p) = (SSO_OK, P2) \<and>
      mem_policy_get_by_id P2 (p_id p) = (SSO_ERR_NOT_FOUND, None) \<and>
      mem_policy_delete P2 (p_id p) = (SSO_ERR_NOT_FOUND, P2) \<and>
      (\<forall>i. i \<noteq> p_id p \<longrightarrow> mem_policy_get_by_id P2 i = mem_policy_get_by_id P i)"
proof -
  from assms obtain P1 where P1: "mem_policy_update P p = (SSO_OK, P1)"
    using mem_policies.update_view [OF assms(1), of p] by (auto simp: mem_policies.get_view split: option.splits)
  note u = mem_policies.update_then_get [OF assms(1) P1]
  obtain P2 where P2: "mem_policy_delete P1 (p_id p) = (SSO_OK, P2)"
    using mem_policies.del_view [OF u(3), of "p_id p"] u(1) by (auto simp: mem_policies.get_view split: option.splits)
  show ?thesis
    using P1 P2 u(1,2) mem_policies.delete_then_get(1,2) [OF u(3) P2] mem_policies.delete_twice [OF u(3) P2]
    by (intro exI [of _ P1] exI [of _ P2]) simp
qed

theorem mem_policy_update_delete_witness:
  "\<exists>P1 P2. mem_policy_update (mem_open\<lparr>policies := [sample_policy], next_pid := 2\<rparr>) sample_policy = (SSO_OK, P1) \<and>
     mem_policy_delete P1 1 = (SSO_OK, P2) \<and> mem_policy_get_by_id P2 1 = (SSO_ERR_NOT_FOUND, None)"
  using mem_policy_update_delete [of "mem_open\<lparr>policies := [sample_policy], next_pid := 2\<rparr>" sample_policy]
  by (auto simp: sample_policy_def mem_inv_def mem_open_def table_inv_def mem_policy_get_by_id_def get_where_def)

text \<open>Deleting a user leaves no trace of it: no role or group membership, no policy assigned to it.\<close>

theorem mem_user_delete_cascade:
  assumes "mem_user_delete P uid = (SSO_OK, P')"
  shows "mem_get_user_roles P' uid m = (SSO_ERR_NOT_FOUND, []) \<and>
    mem_get_user_groups P' uid m = (SSO_ERR_NOT_FOUND, []) \<and>
    mem_get_target_policies P' POLICY_TARGET_USER uid m = (SSO_ERR_NOT_FOUND, []) \<and>
    (\<forall>v. v \<noteq> uid \<longrightarrow> mem_get_user_roles P' v m = mem_get_user_roles P v m)"
proof -
  from assms have P': "user_roles P' = filter (\<lambda>p. snd p \<noteq> uid) (user_roles P)"
    "user_groups P' = filter (\<lambda>p. snd p \<noteq> uid) (user_groups P)"
    "policy_assignments P' =
       filter (\<lambda>a. \<not> (fst (snd a) = POLICY_TARGET_USER \<and> snd (snd a) = uid)) (policy_assignments P)"
    by (auto simp: mem_user_delete_def split: option.splits)
  have "filter (\<lambda>p. snd p = v) (user_roles P') = filter (\<lambda>p. snd p = v) (user_roles P)" if "v \<noteq> uid" for v
    unfolding P' filter_filter by (rule filter_cong) (use that in auto)
  moreover have "filter (\<lambda>p. snd p = uid) (user_roles P') = []"
    "filter (\<lambda>p. snd p = uid) (user_groups P') = []"
    "filter (\<lambda>(p, t, i). t = POLICY_TARGET_USER \<and> i = uid) (policy_assignments P') = []"
    by (auto simp: P' filter_empty_conv)
  ultimately show ?thesis
    by (simp add: mem_get_user_roles_def mem_get_user_groups_def mem_get_target_policies_def
        pl_get_2 al_get_filter ids_result_def)
qed

theorem mem_user_delete_cascade_witness:
  "mem_get_user_roles (snd (mem_user_delete (mem_open\<lparr>users := [sample_user], user_roles := [(3, 1)]\<rparr>) 1)) 1 64 =
     (SSO_ERR_NOT_FOUND, [])"
  using mem_user_delete_cascade [of "mem_open\<lparr>users := [sample_user], user_roles := [(3, 1)]\<rparr>" 1 _ 64]
  by (simp add: mem_user_delete_def sample_user_def)

text \<open>Deleting a group in this backend clears the wrong columns. The group's own memberships
  survive, and the user whose id happens to equal the group's is removed from every group.\<close>

theorem mem_group_delete_wrong_column:
  assumes "mem_group_delete P g = (SSO_OK, P')" "(g, u) \<in> set (user_groups P)" "u \<noteq> g"
  shows "(g, u) \<in> set (user_groups P') \<and> mem_get_user_groups P' g m = (SSO_ERR_NOT_FOUND, [])"
proof -
  from assms(1) have "user_groups P' = filter (\<lambda>p. snd p \<noteq> g) (user_groups P)"
    by (auto simp: mem_group_delete_def split: option.splits)
  with assms(2,3) show ?thesis
    by (simp add: mem_get_user_groups_def pl_get_2 ids_result_def)
qed

theorem mem_group_delete_wrong_column_witness:
  "(1, 7) \<in> set (user_groups (snd (mem_group_delete
     (mem_open\<lparr>groups := [\<lparr>g_id = 1, g_name = ''g'', g_description = [], parent_group_id = 0,
                 g_status = GROUP_STATUS_ACTIVE, g_created_at = 0, g_updated_at = 0\<rparr>],
               user_groups := [(1, 7), (2, 1)]\<rparr>) 1)))"
  using mem_group_delete_wrong_column [of "mem_open\<lparr>groups := [\<lparr>g_id = 1, g_name = ''g'', g_description = [], parent_group_id = 0,
                 g_status = GROUP_STATUS_ACTIVE, g_created_at = 0, g_updated_at = 0\<rparr>],
               user_groups := [(1, 7), (2, 1)]\<rparr>" 1 _ 7]
  by (simp add: mem_group_delete_def)

lemma closure_spec:
  assumes "acyclic_by rank P"
  shows "\<exists>err ids. mem_get_user_roles_with_ancestors P uid m = Some (err, ids) \<and>
    (err = SSO_OK \<longleftrightarrow> ids \<noteq> []) \<and> distinct ids \<and> length ids \<le> m \<and>
    set ids \<subseteq> {a. \<exists>r \<in> set (pl_get (user_roles P) uid 2 64). mem_role_active P r \<and> climbs P r a} \<and>
    (length ids < m \<longrightarrow>
      set ids = {a. \<exists>r \<in> set (pl_get (user_roles P) uid 2 64). mem_role_active P r \<and> climbs P r a})"
proof (cases "pl_get (user_roles P) uid 2 64 = []")
  case False
  have "length ([] :: sso_id list) \<le> m" "distinct ([] :: sso_id list)" by simp_all
  from closure_loop_spec [OF assms this, of "pl_get (user_roles P) uid 2 64"]
  obtain ids where "closure_loop P m (pl_get (user_roles P) uid 2 64) [] = Some ids"
    "length ids \<le> m" "distinct ids"
    "set ids \<subseteq> {a. \<exists>r \<in> set (pl_get (user_roles P) uid 2 64). mem_role_active P r \<and> climbs P r a}"
    "length ids < m \<longrightarrow>
      set ids = {a. \<exists>r \<in> set (pl_get (user_roles P) uid 2 64). mem_role_active P r \<and> climbs P r a}"
    by (elim exE conjE) simp
  with False show ?thesis
    by (intro exI [of _ "fst (ids_result ids)"] exI [of _ ids])
       (simp add: mem_get_user_roles_with_ancestors_def ids_result_def)
qed (simp add: mem_get_user_roles_with_ancestors_def)

text \<open>C14: on an acyclic role hierarchy the closure of a user's roles always returns, without
  duplicates and within the given size. It holds only roles reached from a directly assigned
  active role through active parents, and all of them when the output did not fill up.\<close>

theorem mem_role_closure:
  assumes "acyclic_by rank P"
  shows "\<exists>err ids. mem_get_user_roles_with_ancestors P uid m = Some (err, ids) \<and>
    (err = SSO_OK \<longleftrightarrow> ids \<noteq> []) \<and> distinct ids \<and> length ids \<le> m \<and>
    set ids \<subseteq> {a. \<exists>r \<in> set (pl_get (user_roles P) uid 2 64). mem_role_active P r \<and> climbs P r a} \<and>
    (length ids < m \<longrightarrow>
      set ids = {a. \<exists>r \<in> set (pl_get (user_roles P) uid 2 64). mem_role_active P r \<and> climbs P r a})"
  by (rule closure_spec [OF assms])

theorem mem_role_closure_witness:
  "\<exists>err ids. mem_get_user_roles_with_ancestors
     (mem_open\<lparr>roles := [sample_role 1 2, sample_role 2 0], user_roles := [(1, 9)]\<rparr>) 9 128 = Some (err, ids) \<and>
     length ids \<le> 128"
proof -
  have "acyclic_by (\<lambda>r. if r = 1 then 1 else 0)
      (mem_open\<lparr>roles := [sample_role 1 2, sample_role 2 0], user_roles := [(1, 9)]\<rparr>)"
    by (auto simp: acyclic_by_def up_def mem_role_get_parent_def sample_role_def split: if_splits option.splits)
  from mem_role_closure [OF this, of 9 128] show ?thesis by blast
qed

text \<open>C15: two active roles that are each other's parent make the closure run forever for any user
  who holds one of them: the loop over parents has no cycle check, and a role already in the
  output does not use up room.\<close>

theorem mem_role_closure_cycle:
  assumes "pl_get (user_roles P) uid 2 64 = a # rest" "mem_role_active P a"
    and "up P a = Some b" "up P b = Some a" "2 < m"
  shows "mem_get_user_roles_with_ancestors P uid m = None"
proof -
  have "ancestors_loop P m a [a] = ancestors_loop P m b (add_new [a] b)"
    using assms(3,5) by (subst ancestors_loop_up) simp
  moreover have "length (add_new [a] b) < m" using assms(5) by (simp add: add_new_def)
  ultimately have "ancestors_loop P m a [a] = None"
    using ancestors_loop_cycle [OF assms(3,4), of P m b "add_new [a] b"]
    by (cases "ancestors_loop P m b (add_new [a] b)") (auto simp: stuck_def)
  then show ?thesis using assms by (simp add: mem_get_user_roles_with_ancestors_def add_new_def)
qed

theorem mem_role_closure_cycle_witness:
  "mem_get_user_roles_with_ancestors
     (mem_open\<lparr>roles := [sample_role 1 2, sample_role 2 1], user_roles := [(1, 9)]\<rparr>) 9 128 = None"
  by (rule mem_role_closure_cycle [where a = 1 and b = 2 and rest = "[]"])
     (simp_all add: pl_get_2 mem_role_active_def mem_role_get_by_id_def get_where_def up_def
       mem_role_get_parent_def sample_role_def)

text \<open>The user listing is the requested page of the matching users, in order, together with the
  number of all matches, for every offset and limit the API accepts.\<close>

theorem mem_user_list_page:
  "mem_user_list P q status offset limit =
     (let ms = filter (\<lambda>u. (status = - 1 \<or> user_status_int (u_status u) = status) \<and>
                           has_query q [username u, display_name u, email u, phone u]) (users P)
      in (SSO_OK, map u_id (take (size_t limit) (drop (size_t offset) ms)), length ms))"
  by (simp add: mem_user_list_def list_loop_page Let_def)

end
