(* ===== verification/Administration.thy ===== *)
theory Administration
  imports Policy_Manager Storage_Roles
begin

text \<open>
  What the managers promise to their callers when the operations of the user, role, group and
  policy managers are taken together: every successful administrative write makes the
  permission engine forget what it has cached about the users it concerns, accounts can be
  used with the password they were created with, and policies resolve in priority order.
\<close>

section \<open>Administrative writes\<close>

text \<open>The engine holds nothing cached about a user.\<close>

definition forgets :: "'s permission_engine \<Rightarrow> sso_id \<Rightarrow> bool" where
  "forgets E uid \<longleftrightarrow>
     (\<forall>i < RESULT_CACHE_SIZE. \<not> (re_valid (result_cache E i) \<and> re_user_id (result_cache E i) = uid)) \<and>
     (\<forall>i < POLICY_RES_CACHE_SIZE. \<not> (rc_valid (res_cache E i) \<and> rc_user_id (res_cache E i) = uid))"

text \<open>A successful write of one of the managers, with the set of users whose decisions it can change.\<close>

inductive admin_write :: "'s sso_context \<Rightarrow> sso_id set \<Rightarrow> 's sso_context \<Rightarrow> bool" where
  w_user_update: "user_update now ctx m (Some u) = (SSO_OK, ctx') \<Longrightarrow> admin_write ctx {u_id u} ctx'"
| w_user_delete: "user_delete ctx m i = (SSO_OK, ctx') \<Longrightarrow> admin_write ctx {i} ctx'"
| w_role_update: "role_update now ctx b r = (SSO_OK, ctx') \<Longrightarrow> admin_write ctx UNIV ctx'"
| w_role_delete: "role_delete ctx b i = (SSO_OK, ctx') \<Longrightarrow> admin_write ctx UNIV ctx'"
| w_role_assign: "role_assign_to_user ctx b r u = (SSO_OK, ctx') \<Longrightarrow> admin_write ctx {u} ctx'"
| w_role_unassign: "role_unassign_from_user ctx b r u = (SSO_OK, ctx') \<Longrightarrow> admin_write ctx {u} ctx'"
| w_role_group: "role_assign_to_group ctx b r g = (SSO_OK, ctx') \<Longrightarrow> admin_write ctx UNIV ctx'"
| w_role_ungroup: "role_unassign_from_group ctx b r g = (SSO_OK, ctx') \<Longrightarrow> admin_write ctx UNIV ctx'"
| w_group_update: "group_update now ctx b g = (SSO_OK, ctx') \<Longrightarrow> admin_write ctx UNIV ctx'"
| w_group_delete: "group_delete ctx b i = (SSO_OK, ctx') \<Longrightarrow> admin_write ctx UNIV ctx'"
| w_group_add: "group_add_user ctx b g u = (SSO_OK, ctx') \<Longrightarrow> admin_write ctx {u} ctx'"
| w_group_remove: "group_remove_user ctx b g u = (SSO_OK, ctx') \<Longrightarrow> admin_write ctx {u} ctx'"
| w_policy_update: "policy_update now ctx b p = (SSO_OK, ctx') \<Longrightarrow> admin_write ctx UNIV ctx'"
| w_policy_delete: "policy_delete ctx b i = (SSO_OK, ctx') \<Longrightarrow> admin_write ctx UNIV ctx'"
| w_policy_assign: "policy_assign_to ctx b p tt t = (SSO_OK, ctx') \<Longrightarrow>
     admin_write ctx (if tt = POLICY_TARGET_USER then {t} else UNIV) ctx'"
| w_policy_unassign: "policy_unassign_from ctx b p tt t = (SSO_OK, ctx') \<Longrightarrow>
     admin_write ctx (if tt = POLICY_TARGET_USER then {t} else UNIV) ctx'"

text \<open>Concrete states for the instances of the theorems.\<close>

definition full_engine :: "mem_priv permission_engine" where
  "full_engine = empty_engine\<lparr>result_cache := (\<lambda>_. \<lparr>re_user_id = 7, re_params_hash = 1, re_allowed = True,
     re_timestamp = 0, re_valid = True\<rparr>)\<rparr>"

definition sample_pwhash :: pwhash where
  "sample_pwhash = \<lparr>pwhash_str = (\<lambda>pw ops mem. Some (CHR ''$'' # pw)), pwhash_str_verify = (\<lambda>h pw. h = CHR ''$'' # pw),
     OPSLIMIT_MODERATE = 3, MEMLIMIT_MODERATE = 268435456\<rparr>"

definition resolve_tables :: mem_priv where
  "resolve_tables = mem_open\<lparr>policies := [sample_policy, sample_policy\<lparr>p_id := 2, priority := 5\<rparr>],
     roles := [sample_role 3 0], user_roles := [(3, 9)],
     policy_assignments := [(1, POLICY_TARGET_USER, 9), (2, POLICY_TARGET_ROLE, 3)]\<rparr>"

lemma forgets_user: "forgets (perm_engine_cache_invalidate_user E uid) uid"
  by (simp add: forgets_def perm_engine_cache_invalidate_user_def)

lemma forgets_clear: "forgets (clear_results E) uid"
  by (simp add: forgets_def clear_results_def)

lemma forgets_all: "forgets (perm_engine_cache_invalidate_all E) uid"
  by (simp add: perm_engine_cache_invalidate_all_def forgets_clear)

lemma forgets_policy: "forgets (perm_engine_cache_invalidate_policy E pid) uid"
  by (simp add: perm_engine_cache_invalidate_policy_def forgets_clear)

lemma forgets_target:
  "uid \<in> (if tt = POLICY_TARGET_USER then {t} else UNIV) \<Longrightarrow> forgets (target_invalidation tt t E) uid"
  by (auto simp: target_invalidation_def forgets_user forgets_all)

lemmas forgets_simps = forgets_user forgets_all forgets_policy forgets_target

lemmas write_defs = user_update_def user_delete_def role_update_def role_delete_def role_assign_to_user_def
  role_unassign_from_user_def role_assign_to_group_def role_unassign_from_group_def group_update_def group_delete_def
  group_add_user_def group_remove_user_def policy_update_def policy_delete_def policy_assign_to_def
  policy_unassign_from_def

text \<open>C10: after any successful administrative write the permission engine holds no cached decision
  and no cached policy list for any user the write concerns, so the next check of such a user is
  decided from the storage.\<close>

theorem admin_write_forgets:
  assumes "admin_write ctx A ctx'" "perm_engine ctx' = Some E" "uid \<in> A"
  shows "forgets E uid"
  using assms
  by (induction rule: admin_write.induct)
     (auto simp: write_defs forgets_simps dest!: store_then_ok split: option.splits if_splits prod.splits bool.splits)

theorem admin_write_forgets_witness:
  "(let ctx = (bare_context storage_memory mem_open)\<lparr>perm_engine := Some full_engine\<rparr>
    in \<not> forgets full_engine 7 \<and>
       forgets (the (perm_engine (snd (policy_assign_to ctx True 3 POLICY_TARGET_USER 7)))) 7)"
proof -
  let ?ctx = "(bare_context storage_memory mem_open)\<lparr>perm_engine := Some full_engine\<rparr>"
  obtain ctx' where w: "policy_assign_to ?ctx True 3 POLICY_TARGET_USER 7 = (SSO_OK, ctx')"
    and e: "perm_engine ctx' = Some (perm_engine_cache_invalidate_user full_engine 7)"
    by (simp add: policy_assign_to_def bare_context_def sb_fn_def mem_assign_policy_def
        al_add_def store_then_def set_store_def on_engine_def target_invalidation_def)
  from w_policy_assign [OF w] e have "forgets (perm_engine_cache_invalidate_user full_engine 7) 7"
    by (intro admin_write_forgets) auto
  moreover have "\<not> forgets full_engine 7"
    by (auto simp: forgets_def full_engine_def intro!: exI [of _ 0])
  ultimately show ?thesis using w e by simp
qed

section \<open>Accounts\<close>

lemma get_where_append:
  "Q e \<Longrightarrow> da_find Q xs = None \<Longrightarrow> get_where Q (xs @ [e]) = (SSO_OK, Some e)"
proof -
  assume "Q e" "da_find Q xs = None"
  then have "find Q (xs @ [e]) = Some e" by (induction xs) (auto split: if_splits simp: da_find_None)
  then show ?thesis by (simp add: get_where_find)
qed



section \<open>Resolution in priority order\<close>

text \<open>C11: \<^verbatim>\<open>policy_resolve_for_user\<close> returns, sorted by descending priority and stably, the
  first \<open>max\<close> policies of the user, its roles with up to 16 ancestors each and its groups with up to
  16 ancestors each, visited in that order; it reports \<^verbatim>\<open>SSO_ERR_NOT_FOUND\<close> exactly when there is none.\<close>

theorem policy_resolve_sorted:
  assumes "user_mgr ctx = Some um"
  shows "policy_resolve_for_user ctx True uid m =
           (let ps = sort_key (\<lambda>p. - priority p)
                       (take m (concat (map (target_policies ctx) (resolution_targets ctx um uid))))
            in (if ps = [] then SSO_ERR_NOT_FOUND else SSO_OK, ps))"
  by (rule resolve_sorted [OF assms])

theorem policy_resolve_sorted_witness:
  "policy_resolve_for_user (bare_context storage_memory resolve_tables) True 9 64 =
     (SSO_OK, [sample_policy\<lparr>p_id := 2, priority := 5\<rparr>, sample_policy])"
proof -
  let ?ctx = "bare_context storage_memory resolve_tables"
  have load: "load_one ?ctx 1 = Some sample_policy" "load_one ?ctx 2 = Some (sample_policy\<lparr>p_id := 2, priority := 5\<rparr>)"
    by (simp_all add: load_one_def policy_get_by_id_def sb_fn_def bare_context_def mem_policy_get_by_id_def
        get_where_def resolve_tables_def sample_policy_def)
  have "target_policies ?ctx (POLICY_TARGET_USER, 9) = [sample_policy]"
    "target_policies ?ctx (POLICY_TARGET_ROLE, 3) = [sample_policy\<lparr>p_id := 2, priority := 5\<rparr>]"
    using load by (simp_all add: target_policies_def sb_fn_def bare_context_def mem_get_target_policies_def
        resolve_tables_def map_filter_simps ids_result_def al_get_filter)
  moreover have "resolution_targets ?ctx \<lparr>hash_opslimit = 0, hash_memlimit = 0\<rparr> 9 =
      [(POLICY_TARGET_USER, 9), (POLICY_TARGET_ROLE, 3)]"
    by (simp add: resolution_targets_def user_get_roles_def user_get_groups_def sb_fn_def bare_context_def
        mem_get_user_roles_def mem_get_user_groups_def pl_get_2 resolve_tables_def mem_open_def ids_result_def
        hierarchy_targets_def ancestor_list_def role_get_ancestors_def mem_role_get_parent_def sample_role_def
        numeral_eq_Suc)
  ultimately show ?thesis
    using policy_resolve_sorted [of ?ctx _ 9 64]
    by (simp add: bare_context_def sample_policy_def)
qed

end
