(* ===== verification/Strategy_Rbac.thy ===== *)
theory Strategy_Rbac
  imports Role_Manager Storage_Roles "HOL-Library.Monad_Syntax"
begin

text \<open>
  The role strategy, \<^verbatim>\<open>strategies/rbac_perm.c\<close>: a rule names roles, and a request for a role is
  decided by the first rule of that name, provided the user holds the role directly or through
  the role hierarchy. The strategy reads roles through the context it was registered with;
  \<open>view_context\<close> is that context as far as the strategy reaches into it.
\<close>

definition view_context :: "'s store_view \<Rightarrow> 's sso_context" where
  "view_context v =
     \<lparr>storage_backend = sv_backend v, store = sv_store v, user_mgr = None, role_mgr = sv_role_mgr v,
      group_mgr = False, policy_mgr = False, perm_engine = None, sso_config = None\<rparr>"

definition user_has_role :: "'s store_view option \<Rightarrow> sso_id \<Rightarrow> string \<Rightarrow> bool option" where
  "user_has_role sso_ctx user_id role_name =
     (case sso_ctx of
        None \<Rightarrow> Some False
      | Some v \<Rightarrow>
          (case (sv_backend v, sv_role_mgr v) of
             (Some sb, True) \<Rightarrow>
               (case role_get_by_name (view_context v) True (Some role_name) of
                  (SSO_OK, Some target_role) \<Rightarrow>
                    (case sb_get_user_roles_with_ancestors sb of
                       None \<Rightarrow> Some False
                     | Some f \<Rightarrow>
                         do {
                           (err, ids) \<leftarrow> f (sv_store v) user_id 128;
                           if err \<noteq> SSO_OK then Some False else Some (r_id target_role \<in> set ids)
                         })
                | _ \<Rightarrow> Some False)
           | _ \<Rightarrow> Some False))"

definition rbac_compile_item :: "json \<Rightarrow> rbac_rule_item" where
  "rbac_compile_item item =
     (let name = yyjson_obj_get (Some item) ''name''; effect_v = yyjson_obj_get (Some item) ''effect''
      in \<lparr>ri_role_name = (if yyjson_is_str name then sso_strlcpy [] (yyjson_get_str name) 63 else []),
          ri_is_allow = (if yyjson_is_str effect_v then yyjson_get_str effect_v = Some ''allow'' else True)\<rparr>)"

definition rbac_compile :: "libs \<Rightarrow> string option \<Rightarrow> sso_error \<times> rbac_compiled_rule option" where
  "rbac_compile L rules_json =
     (case rules_json of
        None \<Rightarrow> (SSO_ERR_INVALID_PARAM, None)
      | Some s \<Rightarrow>
          (case yyjson_read L (cstr s) of
             None \<Rightarrow> (SSO_ERR_RULE_INVALID, None)
           | Some doc_root \<Rightarrow>
               (let roles_arr = yyjson_obj_get (Some doc_root) ''roles''
                in if \<not> yyjson_is_arr roles_arr then (SSO_ERR_RULE_INVALID, None)
                   else (SSO_OK, Some (map rbac_compile_item (yyjson_arr_elems roles_arr))))))"

fun rbac_walk ::
  "'s store_view option \<Rightarrow> sso_id \<Rightarrow> string \<Rightarrow> rbac_rule_item list \<Rightarrow> bool \<Rightarrow> (sso_error \<times> bool) option" where
  "rbac_walk v uid role_name [] result = Some (SSO_ERR_NOT_FOUND, result)"
| "rbac_walk v uid role_name (i # is) result =
     (if ri_role_name i = role_name
      then do {
        has \<leftarrow> user_has_role v uid role_name;
        Some (if has then (SSO_OK, ri_is_allow i) else (SSO_ERR_NOT_FOUND, result))
      }
      else rbac_walk v uid role_name is result)"

definition rbac_evaluate ::
  "'s store_view option \<Rightarrow> eval_context option \<Rightarrow> policy option \<Rightarrow> rbac_compiled_rule option \<Rightarrow> bool \<Rightarrow>
     (sso_error \<times> bool) option" where
  "rbac_evaluate v ctx policy compiled_rule result =
     (case (ctx, policy, compiled_rule) of
        (Some c, Some _, Some compiled) \<Rightarrow>
          (let role_name = str_at OFF_ROLE_NAME (params c)
           in if role_name = [] then Some (SSO_ERR_NOT_FOUND, result)
              else if v = None then Some (SSO_ERR_NOT_FOUND, result)
              else rbac_walk v (ec_user_id c) role_name compiled result)
      | _ \<Rightarrow> Some (SSO_ERR_INVALID_PARAM, result))"

definition rbac_validate :: "libs \<Rightarrow> string option \<Rightarrow> sso_error" where
  "rbac_validate L rules_json =
     (case rules_json of
        None \<Rightarrow> SSO_ERR_INVALID_PARAM
      | Some s \<Rightarrow>
          (case yyjson_read L (cstr s) of
             None \<Rightarrow> SSO_ERR_RULE_INVALID
           | Some doc_root \<Rightarrow>
               if yyjson_is_arr (yyjson_obj_get (Some doc_root) ''roles'') then SSO_OK else SSO_ERR_RULE_INVALID))"

section \<open>Over the in-memory tables\<close>

abbreviation mem_view :: "mem_priv \<Rightarrow> mem_priv store_view" where
  "mem_view P \<equiv> \<lparr>sv_backend = Some storage_memory, sv_store = P, sv_role_mgr = True\<rparr>"

text \<open>A rule set accepted by the validator is one the compiler accepts.\<close>

lemma rbac_validate_compile: "rbac_validate L r = fst (rbac_compile L r)"
  by (simp add: rbac_validate_def rbac_compile_def Let_def split: option.split)

lemma rbac_walk_find:
  "rbac_walk v uid n is b =
     (case find (\<lambda>i. ri_role_name i = n) is of
        None \<Rightarrow> Some (SSO_ERR_NOT_FOUND, b)
      | Some i \<Rightarrow> map_option (\<lambda>has. if has then (SSO_OK, ri_is_allow i) else (SSO_ERR_NOT_FOUND, b)) (user_has_role v uid n))"
  by (induction "is") (auto simp: bind_eq_Some_conv split: Option.bind_split option.split)

lemma climbs_active: "climbs P r a \<Longrightarrow> mem_role_active P r \<Longrightarrow> mem_role_active P a"
proof (induction rule: climbs.induct)
  case (climbs_up r b a)
  then show ?case by (simp add: up_def split: prod.splits sso_error.splits option.splits if_splits)
qed

lemma active_is_role: "mem_role_active P a \<Longrightarrow> a \<in> r_id ` set (roles P)"
  by (auto simp: mem_role_active_def mem_role_get_by_id_def get_where_def
      split: option.splits dest!: da_find_SomeD)

lemma user_has_role_mem:
  assumes "acyclic_by rank P" "length (roles P) < 128" "mem_role_get_by_name P n = (SSO_OK, Some r)"
  shows "user_has_role (Some (mem_view P)) uid n =
    Some (\<exists>d \<in> set (pl_get (user_roles P) uid 2 64). mem_role_active P d \<and> climbs P d (r_id r))"
proof -
  let ?C = "{a. \<exists>d \<in> set (pl_get (user_roles P) uid 2 64). mem_role_active P d \<and> climbs P d a}"
  from closure_spec [OF assms(1), of uid 128]
  obtain err ids where c: "mem_get_user_roles_with_ancestors P uid 128 = Some (err, ids)"
    "err = SSO_OK \<longleftrightarrow> ids \<noteq> []" "distinct ids" "set ids \<subseteq> ?C" "length ids < 128 \<longrightarrow> set ids = ?C"
    by (elim exE conjE) simp
  have "set ids \<subseteq> r_id ` set (roles P)"
    using c(4) climbs_active active_is_role by blast
  then have "card (set ids) \<le> length (roles P)"
    by (metis List.finite_set card_image_le card_length card_mono finite_imageI le_trans)
  with c(3) assms(2) have "length ids < 128" by (simp add: distinct_card)
  with c(5) have eq: "set ids = ?C" by blast
  then show ?thesis
    using c(1,2) assms(3)
    by (auto simp: user_has_role_def role_get_by_name_def view_context_def sb_fn_def)
qed

text \<open>C12: on the in-memory tables with an acyclic role hierarchy of fewer than 128 roles, the role
  strategy always returns; the first rule naming the requested role decides, and it does so
  exactly when the user holds an active role from which the requested role is reached through
  active parents. In every other case it reports \<^verbatim>\<open>SSO_ERR_NOT_FOUND\<close> and leaves the result alone.\<close>

theorem rbac_evaluate_hierarchy:
  assumes "acyclic_by rank P" "length (roles P) < 128"
    and "mem_role_get_by_name P n = (SSO_OK, Some r)" "str_at OFF_ROLE_NAME (params c) = n" "n \<noteq> []"
  shows "rbac_evaluate (Some (mem_view P)) (Some c) (Some p) (Some is) b =
    Some (case find (\<lambda>i. ri_role_name i = n) is of
            None \<Rightarrow> (SSO_ERR_NOT_FOUND, b)
          | Some i \<Rightarrow>
              if \<exists>d \<in> set (pl_get (user_roles P) (ec_user_id c) 2 64). mem_role_active P d \<and> climbs P d (r_id r)
              then (SSO_OK, ri_is_allow i) else (SSO_ERR_NOT_FOUND, b))"
  using assms(4,5) user_has_role_mem [OF assms(1-3), of "ec_user_id c"]
  by (simp add: rbac_evaluate_def rbac_walk_find Let_def split: option.split)

theorem rbac_evaluate_hierarchy_witness:
  "rbac_evaluate (Some (mem_view (mem_open\<lparr>roles := [(sample_role 1 2)\<lparr>r_name := ''dev''\<rparr>, sample_role 2 0], user_roles := [(1, 1)]\<rparr>)))
     (Some (sample_ctx (str_buf ''r''))) (Some sample_policy) (Some [\<lparr>ri_role_name = ''r'', ri_is_allow = True\<rparr>]) False =
   Some (SSO_OK, True)"
proof -
  let ?P = "mem_open\<lparr>roles := [(sample_role 1 2)\<lparr>r_name := ''dev''\<rparr>, sample_role 2 0], user_roles := [(1, 1)]\<rparr>"
  have a: "acyclic_by (\<lambda>r. if r = 1 then 1 else 0) ?P"
    by (auto simp: acyclic_by_def up_def mem_role_get_parent_def sample_role_def split: if_splits option.splits)
  have u: "up ?P 1 = Some 2" and d: "mem_role_active ?P 1"
    by (simp_all add: up_def mem_role_get_parent_def mem_role_active_def mem_role_get_by_id_def get_where_def sample_role_def)
  have "climbs ?P 1 2" using u by (blast intro: climbs.intros)
  moreover have "mem_role_get_by_name ?P ''r'' = (SSO_OK, Some (sample_role 2 0))"
    by (simp add: mem_role_get_by_name_def get_where_def sample_role_def)
  moreover have "pl_get (user_roles ?P) 1 2 64 = [1]" by (simp add: pl_get_2)
  ultimately show ?thesis
    using d rbac_evaluate_hierarchy [OF a, of "''r''" "sample_role 2 0" "sample_ctx (str_buf ''r'')" sample_policy
      "[\<lparr>ri_role_name = ''r'', ri_is_allow = True\<rparr>]" False]
    by (simp add: sample_role_def sample_ctx_def str_at_str_buf)
qed

end
