(* ===== verification/Audit_Log.thy ===== *)
theory Audit_Log
  imports Sso_Context
begin

text \<open>
  The audit log of \<^verbatim>\<open>src/permission.c\<close>: a JSON line per decision and per administrative action,
  signed with a chain of HMACs, in a file that is rotated by size or by day. The static
  variables of the file are a record, the file system is a map from paths to contents (with
  everything already written to the stream), and what the operating system answers during one
  call is a record of its own. The clock, \<^verbatim>\<open>localtime\<close> and \<^verbatim>\<open>HMAC\<close> are not in the sources; the
  first two are fields of that record, the last is a parameter.
\<close>

section \<open>State\<close>

record audit_state =
  s_path :: string
  s_max_size_mb :: int
  s_max_backups :: int
  s_rotate_daily :: bool
  s_last_yday :: int
  s_secret :: string
  s_hmac_prev :: "char list"
  s_stat_count :: "32 word"
  s_file_open :: bool
  s_files :: "string \<Rightarrow> string option"

definition audit_initial :: audit_state where
  "audit_initial =
     \<lparr>s_path = ''audit.log'', s_max_size_mb = 10, s_max_backups = 5, s_rotate_daily = False, s_last_yday = - 1,
      s_secret = [], s_hmac_prev = replicate 32 NUL, s_stat_count = 0, s_file_open = False, s_files = (\<lambda>_. None)\<rparr>"

text \<open>\<open>os_today\<close> is \<^verbatim>\<open>tm_yday\<close> of \<^verbatim>\<open>localtime(&now)\<close>; \<open>os_yesterday\<close> is that of \<^verbatim>\<open>localtime(&yesterday)\<close> with the date
  suffix \<^verbatim>\<open>strftime\<close> makes of it. Both calls return the same static buffer.\<close>

record os_view =
  os_entry_ms :: "64 word"
  os_line_ms :: "64 word"
  os_today :: "int option"
  os_yesterday :: "(int \<times> string) option"
  os_fopen :: "string \<Rightarrow> bool"

type_synonym hmac_fn = "string \<Rightarrow> char list \<Rightarrow> char list"

section \<open>Rotation\<close>

definition rename_file :: "string \<Rightarrow> string \<Rightarrow> (string \<Rightarrow> string option) \<Rightarrow> string \<Rightarrow> string option" where
  "rename_file old new fs = (case fs old of None \<Rightarrow> fs | Some content \<Rightarrow> (fs(old := None))(new := Some content))"

definition audit_log_close :: "audit_state \<Rightarrow> audit_state" where
  "audit_log_close A = A\<lparr>s_file_open := False\<rparr>"

definition audit_log_open :: "os_view \<Rightarrow> audit_state \<Rightarrow> bool \<times> audit_state" where
  "audit_log_open os A =
     (if s_file_open A then (True, A)
      else if os_fopen os (s_path A)
      then (True, A\<lparr>s_file_open := True,
                     s_files := (s_files A)(s_path A := Some (case s_files A (s_path A) of None \<Rightarrow> [] | Some c \<Rightarrow> c))\<rparr>)
      else (False, A))"

text \<open>The daily check. After \<^verbatim>\<open>localtime(&yesterday)\<close> the static buffer behind \<^verbatim>\<open>tm_info\<close> holds yesterday, so
  that is what the last line stores.\<close>

definition daily_check :: "os_view \<Rightarrow> audit_state \<Rightarrow> bool \<times> string \<times> audit_state" where
  "daily_check os A =
     (case os_today os of
        Some today \<Rightarrow>
          if \<not> s_rotate_daily A then (False, [], A)
          else if s_last_yday A \<noteq> - 1 \<and> today \<noteq> s_last_yday A
          then (case os_yesterday os of
                  Some (yday, date) \<Rightarrow> (True, date, A\<lparr>s_last_yday := yday\<rparr>)
                | None \<Rightarrow> (True, [], A\<lparr>s_last_yday := today\<rparr>))
          else (False, [], A\<lparr>s_last_yday := today\<rparr>)
      | None \<Rightarrow> (False, [], A))"

definition size_check :: "audit_state \<Rightarrow> bool" where
  "size_check A =
     (s_max_size_mb A > 0 \<and>
      (case s_files A (s_path A) of None \<Rightarrow> False | Some c \<Rightarrow> int (length c) \<ge> s_max_size_mb A * 1024 * 1024))"

fun shift_backups :: "string \<Rightarrow> nat \<Rightarrow> (string \<Rightarrow> string option) \<Rightarrow> string \<Rightarrow> string option" where
  "shift_backups p 0 fs = fs"
| "shift_backups p (Suc i) fs =
     shift_backups p i (rename_file (p @ ''.'' @ dec (Suc i)) (p @ ''.'' @ dec (Suc (Suc i))) fs)"

definition rotate_audit_log :: "os_view \<Rightarrow> audit_state \<Rightarrow> audit_state" where
  "rotate_audit_log os A =
     (let A1 = A\<lparr>s_stat_count := s_stat_count A + 1\<rparr>
      in if s_stat_count A1 mod 100 \<noteq> 0 then A1
         else let (daily, date_suffix, A2) = daily_check os A1
              in if \<not> (daily \<or> size_check A2) then A2
                 else let A3 = audit_log_close A2
                      in if date_suffix \<noteq> []
                         then A3\<lparr>s_files := rename_file (s_path A3) (s_path A3 @ date_suffix) (s_files A3)\<rparr>
                         else A3\<lparr>s_files := rename_file (s_path A3) (s_path A3 @ ''.1'')
                                   (shift_backups (s_path A3) (nat (s_max_backups A3 - 1)) (s_files A3))\<rparr>)"

section \<open>Signed lines\<close>

definition hex_sig :: "char list \<Rightarrow> string" where
  "hex_sig bs = concat (map hex_byte (take 32 bs))"

definition append_file :: "string \<Rightarrow> string \<Rightarrow> (string \<Rightarrow> string option) \<Rightarrow> string \<Rightarrow> string option" where
  "append_file p text fs = fs(p := Some ((case fs p of None \<Rightarrow> [] | Some c \<Rightarrow> c) @ text))"

definition write_audit_entry_with_hmac :: "hmac_fn \<Rightarrow> string \<Rightarrow> string \<Rightarrow> audit_state \<Rightarrow> audit_state" where
  "write_audit_entry_with_hmac hmac p json_payload A =
     (if s_secret A \<noteq> []
      then let mac = hmac (s_secret A) (s_hmac_prev A @ json_payload)
           in A\<lparr>s_hmac_prev := mac,
                s_files := append_file p (json_payload @ '',\"signature\":\"'' @ hex_sig mac @ ''\"}'' @ [CHR 0x0A]) (s_files A)\<rparr>
      else A\<lparr>s_files := append_file p (json_payload @ ''}'' @ [CHR 0x0A]) (s_files A)\<rparr>)"

section \<open>Escaping\<close>

fun escape_loop :: "(char \<Rightarrow> string) \<Rightarrow> nat \<Rightarrow> nat \<Rightarrow> string \<Rightarrow> string" where
  "escape_loop esc bnd j [] = []"
| "escape_loop esc bnd j (c # cs) =
     (if j < bnd then esc c @ escape_loop esc bnd (j + length (esc c)) cs else [])"

definition escape :: "(char \<Rightarrow> string) \<Rightarrow> nat \<Rightarrow> string option \<Rightarrow> string" where
  "escape esc n s = (case s of None \<Rightarrow> [] | Some t \<Rightarrow> escape_loop esc (n - 3) 0 (cstr t))"

definition esc_quote :: "char \<Rightarrow> string" where
  "esc_quote c = (if c = CHR 0x22 then [CHR 0x5C, CHR 0x22] else [c])"

definition esc_trace :: "char \<Rightarrow> string" where
  "esc_trace c = (if c = CHR 0x22 then [CHR 0x5C, CHR 0x22] else if c = CHR 0x0A then [CHR 0x5C, CHR ''n'']
     else if c = CHR 0x09 then [CHR 0x5C, CHR ''t''] else [c])"

definition esc_user :: "char \<Rightarrow> string" where
  "esc_user c = (if c = CHR 0x22 then [CHR 0x5C, CHR 0x22] else if c = CHR 0x5C then [CHR 0x5C, CHR 0x5C] else [c])"

definition esc_details :: "char \<Rightarrow> string" where
  "esc_details c = (if c = CHR 0x22 then [CHR 0x5C, CHR 0x22] else if c = CHR 0x0A then [CHR 0x5C, CHR ''n''] else [c])"

definition allow_str :: "bool \<Rightarrow> string" where
  "allow_str b = (if b then ''ALLOW'' else ''DENY'')"

section \<open>Decisions\<close>

definition audit_store :: "'s sso_context \<Rightarrow> audit_log_entry \<Rightarrow> 's sso_context" where
  "audit_store ctx e =
     (case sb_fn sb_audit_log_write ctx of None \<Rightarrow> ctx | Some f \<Rightarrow> ctx\<lparr>store := snd (f (store ctx) e)\<rparr>)"

definition decision_payload :: "64 word \<Rightarrow> sso_id \<Rightarrow> bool \<Rightarrow> 64 word \<Rightarrow> bool \<Rightarrow> string option \<Rightarrow> string" where
  "decision_payload ms uid allowed dur hit trace =
     snprintf 9216
       (''{\"timestamp_ms\":'' @ dec (unat ms) @ '',\"user_id\":'' @ dec (unat uid) @
        '',\"decision\":\"'' @ allow_str allowed @ ''\",\"duration_ms\":'' @ dec (unat dur) @
        '',\"cache_hit\":'' @ (if hit then ''true'' else ''false'') @
        '',\"trace\":\"'' @ escape esc_trace 8192 trace @ ''\"'')"

definition audit_log_decision ::
  "hmac_fn \<Rightarrow> os_view \<Rightarrow> eval_context \<Rightarrow> bool \<Rightarrow> string option \<Rightarrow> 64 word \<Rightarrow> bool \<Rightarrow>
     's sso_context \<times> audit_state \<Rightarrow> 's sso_context \<times> audit_state" where
  "audit_log_decision hmac os ec allowed trace duration_ms cache_hit = (\<lambda>(ctx, A).
     (let ctx1 = audit_store ctx
            \<lparr>ae_action = ''eval'', ae_timestamp_ms = os_entry_ms os, ae_user_id = ec_user_id ec, ae_username = None,
             ae_ip_address = None, ae_operation = None, ae_resource = None, ae_resource_id = 0,
             ae_status = Some (allow_str allowed), ae_details = None, ae_duration_ms = duration_ms,
             ae_cache_hit = cache_hit, ae_trace = trace\<rparr>;
          (ok, A1) = audit_log_open os (rotate_audit_log os A)
      in (ctx1,
          if \<not> ok then A1
          else write_audit_entry_with_hmac hmac (s_path A1)
                 (decision_payload (os_line_ms os) (ec_user_id ec) allowed duration_ms cache_hit trace) A1)))"

section \<open>Administrative actions\<close>

definition admin_payload ::
  "64 word \<Rightarrow> sso_id \<Rightarrow> string option \<Rightarrow> string option \<Rightarrow> string option \<Rightarrow> string option \<Rightarrow> sso_id \<Rightarrow>
     string option \<Rightarrow> string option \<Rightarrow> string" where
  "admin_payload ms uid uname ip operation resource rid status details =
     snprintf 5120
       (''{\"action\":\"admin\",\"timestamp_ms\":'' @ dec (unat ms) @ '',\"user_id\":'' @ dec (unat uid) @
        '',\"username\":\"'' @ escape esc_user 256 uname @ ''\",\"ip_address\":\"'' @ escape esc_quote 64 ip @
        ''\",\"operation\":\"'' @ escape esc_quote 64 operation @ ''\",\"resource\":\"'' @ escape esc_quote 64 resource @
        ''\",\"resource_id\":'' @ dec (unat rid) @ '',\"status\":\"'' @ escape esc_quote 16 status @
        ''\",\"details\":\"'' @ escape esc_details 1024 details @ ''\"'')"

definition admin_log_path :: "'s sso_context \<Rightarrow> audit_state \<Rightarrow> string" where
  "admin_log_path ctx A =
     (case sso_config ctx of
        Some cfg \<Rightarrow> if cf_audit_log_path cfg \<noteq> [] then cf_audit_log_path cfg else s_path A
      | None \<Rightarrow> s_path A)"

definition admin_audit_log ::
  "hmac_fn \<Rightarrow> os_view \<Rightarrow> sso_id \<Rightarrow> string option \<Rightarrow> string option \<Rightarrow> string option \<Rightarrow> string option \<Rightarrow> sso_id \<Rightarrow>
     string option \<Rightarrow> string option \<Rightarrow> 's sso_context \<times> audit_state \<Rightarrow> 's sso_context \<times> audit_state" where
  "admin_audit_log hmac os uid uname ip operation resource rid status details = (\<lambda>(ctx, A).
     (let ctx1 = audit_store ctx
            \<lparr>ae_action = ''admin'', ae_timestamp_ms = os_entry_ms os, ae_user_id = uid, ae_username = uname,
             ae_ip_address = ip, ae_operation = operation, ae_resource = resource, ae_resource_id = rid,
             ae_status = status, ae_details = details, ae_duration_ms = 0, ae_cache_hit = False, ae_trace = None\<rparr>;
          log_path = admin_log_path ctx A;
          A1 = rotate_audit_log os A;
          (ok, A2) = (if log_path = s_path A1 then audit_log_open os A1 else (os_fopen os log_path, A1))
      in (ctx1,
          if \<not> ok then A2
          else write_audit_entry_with_hmac hmac log_path
                 (admin_payload (os_line_ms os) uid uname ip operation resource rid status details) A2)))"

section \<open>The chain of signatures\<close>

text \<open>The specification: each signature covers the previous one and the payload.\<close>

fun mac_chain :: "hmac_fn \<Rightarrow> string \<Rightarrow> char list \<Rightarrow> string list \<Rightarrow> char list list" where
  "mac_chain hmac k prev [] = []"
| "mac_chain hmac k prev (x # xs) = hmac k (prev @ x) # mac_chain hmac k (hmac k (prev @ x)) xs"

definition signed_line :: "string \<Rightarrow> char list \<Rightarrow> string" where
  "signed_line x mac = x @ '',\"signature\":\"'' @ hex_sig mac @ ''\"}'' @ [CHR 0x0A]"

text \<open>An auditor's check of a list of payloads with their signatures.\<close>

fun chain_valid :: "hmac_fn \<Rightarrow> string \<Rightarrow> char list \<Rightarrow> (string \<times> char list) list \<Rightarrow> bool" where
  "chain_valid hmac k prev [] = True"
| "chain_valid hmac k prev ((x, mac) # es) = (mac = hmac k (prev @ x) \<and> chain_valid hmac k mac es)"

lemma length_mac_chain [simp]: "length (mac_chain hmac k prev xs) = length xs"
  by (induction xs arbitrary: prev) auto

lemma mac_chain_valid: "chain_valid hmac k prev (zip xs (mac_chain hmac k prev xs))"
  by (induction xs arbitrary: prev) auto

lemma chain_valid_unique:
  "length xs = length ms \<Longrightarrow> chain_valid hmac k prev (zip xs ms) \<longleftrightarrow> ms = mac_chain hmac k prev xs"
  by (induction xs arbitrary: ms prev; case_tac ms) auto

lemma append_file_append: "append_file p t (append_file p s fs) = append_file p (s @ t) fs"
  by (simp add: append_file_def)

lemma append_file_Nil: "fs p = Some c \<Longrightarrow> append_file p [] fs = fs"
  by (auto simp: append_file_def)

lemma write_entry_fields [simp]:
  "s_secret (write_audit_entry_with_hmac hmac p x A) = s_secret A"
  by (simp add: write_audit_entry_with_hmac_def Let_def)

lemma write_entries:
  assumes "s_secret A \<noteq> []" "s_files A p = Some c"
  shows "fold (write_audit_entry_with_hmac hmac p) xs A =
     A\<lparr>s_hmac_prev := last (s_hmac_prev A # mac_chain hmac (s_secret A) (s_hmac_prev A) xs),
       s_files := append_file p (concat (map2 signed_line xs (mac_chain hmac (s_secret A) (s_hmac_prev A) xs))) (s_files A)\<rparr>"
  using assms
proof (induction xs arbitrary: A c)
  case Nil
  then show ?case by (simp add: append_file_Nil)
next
  case (Cons x xs)
  let ?A = "write_audit_entry_with_hmac hmac p x A"
  let ?m = "hmac (s_secret A) (s_hmac_prev A @ x)"
  have A: "?A = A\<lparr>s_hmac_prev := ?m, s_files := append_file p (signed_line x ?m) (s_files A)\<rparr>"
    using Cons.prems(1) by (simp add: write_audit_entry_with_hmac_def signed_line_def Let_def)
  have "s_secret ?A \<noteq> []" "s_files ?A p = Some (c @ signed_line x ?m)"
    using Cons.prems by (simp_all add: A append_file_def)
  from Cons.IH [OF this] show ?case by (simp add: A append_file_append)
qed

lemma chain_collision:
  assumes "\<And>m. length (hmac k m) = 32" "length xs = length ys" "(prev, xs) \<noteq> (prev', ys)" "length prev = length prev'"
    and "last (prev # mac_chain hmac k prev xs) = last (prev' # mac_chain hmac k prev' ys)"
  shows "\<exists>m m'. m \<noteq> m' \<and> hmac k m = hmac k m'"
  using assms(2-5)
proof (induction xs ys arbitrary: prev prev' rule: list_induct2)
  case (Cons x xs y ys)
  let ?m = "hmac k (prev @ x)" and ?m' = "hmac k (prev' @ y)"
  show ?case
  proof (cases "(?m, xs) = (?m', ys)")
    case True
    with Cons.prems(1,2) have "prev @ x \<noteq> prev' @ y" by auto
    with True show ?thesis by blast
  next
    case False
    with Cons.IH [of ?m ?m'] Cons.prems(3) assms(1) show ?thesis by simp
  qed
qed simp

section \<open>Properties\<close>





text \<open>Daily rotation loses log data. When the day changes, the log is renamed to yesterday's date,
  but \<^verbatim>\<open>localtime\<close>'s shared buffer makes the code remember yesterday as the current day. The check
  a hundred entries later therefore rotates again, onto the same name: what was saved first is
  replaced by the entries written since.\<close>

theorem audit_daily_rotation_overwrites:
  assumes "s_rotate_daily A" "s_last_yday A = yday" "yday \<noteq> - 1" "today \<noteq> yday"
    and "os_today os = Some today" "os_yesterday os = Some (yday, date)" "date \<noteq> []"
    and "s_stat_count A = 99" "s_files A (s_path A) = Some saved"
  shows "let A1 = rotate_audit_log os A;
             A2 = A1\<lparr>s_files := append_file (s_path A) later (s_files A1), s_stat_count := 199\<rparr>
         in s_files A1 (s_path A @ date) = Some saved \<and> s_files (rotate_audit_log os A2) (s_path A @ date) = Some later"
  using assms
  by (simp add: rotate_audit_log_def daily_check_def audit_log_close_def rename_file_def append_file_def Let_def)

theorem audit_daily_rotation_overwrites_witness:
  "let os = \<lparr>os_entry_ms = 0, os_line_ms = 0, os_today = Some 1, os_yesterday = Some (0, ''-2026-01-01''), os_fopen = (\<lambda>_. True)\<rparr>;
       A = audit_initial\<lparr>s_rotate_daily := True, s_last_yday := 0, s_stat_count := 99, s_files := [''audit.log'' \<mapsto> ''old'']\<rparr>;
       A1 = rotate_audit_log os A;
       A2 = A1\<lparr>s_files := append_file ''audit.log'' ''new'' (s_files A1), s_stat_count := 199\<rparr>
   in s_files A1 ''audit.log-2026-01-01'' = Some ''old'' \<and> s_files (rotate_audit_log os A2) ''audit.log-2026-01-01'' = Some ''new''"
  using audit_daily_rotation_overwrites [of "audit_initial\<lparr>s_rotate_daily := True, s_last_yday := 0, s_stat_count := 99,
      s_files := [''audit.log'' \<mapsto> ''old'']\<rparr>" 0 1
      "\<lparr>os_entry_ms = 0, os_line_ms = 0, os_today = Some 1, os_yesterday = Some (0, ''-2026-01-01''), os_fopen = (\<lambda>_. True)\<rparr>"
      "''-2026-01-01''" "''old''" "''new''"]
  by (simp add: audit_initial_def Let_def)

text \<open>A backslash in a trace is not escaped, so a backslash before a quote ends the JSON string early.\<close>

lemma trace_escape_broken:
  "escape esc_trace 8192 (Some [CHR 0x5C, CHR 0x22]) = [CHR 0x5C, CHR 0x5C, CHR 0x22]"
  by (simp add: escape_def esc_trace_def cstr_def)

end
