(* ===== verification/Perm_Engine.thy ===== *)
theory Perm_Engine
  imports Administration Strategy_Rbac Audit_Log
begin

text \<open>
  The permission engine of \<^verbatim>\<open>src/permission.c\<close>: the built-in strategies, the evaluation of one
  policy, and the decision over all policies of a user with its two caches, metrics and audit
  entries. The engine is the one of the context it evaluates in. The locks are not modelled;
  the definitions are what one thread does. A result of \<open>None\<close> is undefined behaviour or an
  endless loop in a strategy.
\<close>

section \<open>The built-in strategies\<close>

text \<open>A compiled rule reaches a strategy as a \<^verbatim>\<open>void*\<close> and is cast; a rule of another strategy is
  undefined behaviour.\<close>

definition plain_result ::
  "eval_context option \<Rightarrow> heap \<Rightarrow> sso_error \<times> bool \<Rightarrow> (sso_error \<times> bool \<times> eval_context option \<times> heap) option" where
  "plain_result ec h r = Some (fst r, snd r, ec, h)"

definition func_perm_strategy :: "'s permission_strategy" where
  "func_perm_strategy =
     \<lparr>ps_type = PERM_STRATEGY_FUNCTIONAL, ps_name = ''functional'', ps_needs_context = False,
      ps_compile = Some (\<lambda>L r. map_prod id (map_option CFunc) (func_compile L r)),
      ps_evaluate = Some (\<lambda>L v ec p r b h.
        case r of None \<Rightarrow> plain_result ec h (func_evaluate ec p None b)
                | Some (CFunc c) \<Rightarrow> plain_result ec h (func_evaluate ec p (Some c) b) | _ \<Rightarrow> None)\<rparr>"

definition api_perm_strategy :: "'s permission_strategy" where
  "api_perm_strategy =
     \<lparr>ps_type = PERM_STRATEGY_API, ps_name = ''api'', ps_needs_context = False,
      ps_compile = Some (\<lambda>L r. map_prod id (map_option CApi) (api_compile L r)),
      ps_evaluate = Some (\<lambda>L v ec p r b h.
        case r of None \<Rightarrow> plain_result ec h (api_evaluate ec p None b)
                | Some (CApi c) \<Rightarrow> plain_result ec h (api_evaluate ec p (Some c) b) | _ \<Rightarrow> None)\<rparr>"

definition data_perm_strategy :: "'s permission_strategy" where
  "data_perm_strategy =
     \<lparr>ps_type = PERM_STRATEGY_DATA, ps_name = ''data'', ps_needs_context = False,
      ps_compile = Some (\<lambda>L r. map_prod id (map_option CData) (data_compile L r)),
      ps_evaluate = Some (\<lambda>L v ec p r b h.
        case r of None \<Rightarrow> data_evaluate L ec p None b h
                | Some (CData c) \<Rightarrow> data_evaluate L ec p (Some c) b h | _ \<Rightarrow> None)\<rparr>"

definition rbac_perm_strategy :: "'s permission_strategy" where
  "rbac_perm_strategy =
     \<lparr>ps_type = PERM_STRATEGY_RBAC, ps_name = ''rbac'', ps_needs_context = True,
      ps_compile = Some (\<lambda>L r. map_prod id (map_option CRbac) (rbac_compile L r)),
      ps_evaluate = Some (\<lambda>L v ec p r b h.
        case r of None \<Rightarrow> Option.bind (rbac_evaluate v ec p None b) (plain_result ec h)
                | Some (CRbac c) \<Rightarrow> Option.bind (rbac_evaluate v ec p (Some c) b) (plain_result ec h) | _ \<Rightarrow> None)\<rparr>"

definition location_perm_strategy :: "'s permission_strategy" where
  "location_perm_strategy =
     \<lparr>ps_type = PERM_STRATEGY_LOCATION, ps_name = ''location'', ps_needs_context = False,
      ps_compile = Some (\<lambda>L r. map_prod id (map_option CLoc) (loc_compile L r)),
      ps_evaluate = Some (\<lambda>L v ec p r b h.
        case r of None \<Rightarrow> plain_result ec h (loc_evaluate ec p None b)
                | Some (CLoc c) \<Rightarrow> plain_result ec h (loc_evaluate ec p (Some c) b) | _ \<Rightarrow> None)\<rparr>"

definition abac_perm_strategy :: "'s permission_strategy" where
  "abac_perm_strategy =
     \<lparr>ps_type = PERM_STRATEGY_ABAC, ps_name = ''abac'', ps_needs_context = False,
      ps_compile = Some (\<lambda>L r. map_prod id (map_option CAbac) (abac_compile L r)),
      ps_evaluate = Some (\<lambda>L v ec p r b h.
        case r of None \<Rightarrow> plain_result ec h (abac_evaluate L ec p None b)
                | Some (CAbac c) \<Rightarrow> plain_result ec h (abac_evaluate L ec p (Some c) b) | _ \<Rightarrow> None)\<rparr>"

definition lbac_perm_strategy :: "'s permission_strategy" where
  "lbac_perm_strategy =
     \<lparr>ps_type = PERM_STRATEGY_LBAC, ps_name = ''lbac'', ps_needs_context = False,
      ps_compile = Some (\<lambda>L r. map_prod id (map_option CLbac) (lbac_compile L r)),
      ps_evaluate = Some (\<lambda>L v ec p r b h.
        case r of None \<Rightarrow> Option.bind (lbac_evaluate ec p None b) (plain_result ec h)
                | Some (CLbac c) \<Rightarrow> Option.bind (lbac_evaluate ec p (Some c) b) (plain_result ec h) | _ \<Rightarrow> None)\<rparr>"

section \<open>Creation and metrics\<close>

fun register_all :: "'s permission_strategy list \<Rightarrow> 's permission_engine \<Rightarrow> sso_error \<times> 's permission_engine option" where
  "register_all [] E = (SSO_OK, Some E)"
| "register_all (st # sts) E =
     (case perm_engine_register_strategy (Some E) (Some st) of
        (SSO_OK, Some E') \<Rightarrow> register_all sts E'
      | (err, _) \<Rightarrow> (err, None))"

text \<open>The creation also copies the audit settings of the configuration into the static variables of
  the log; \<open>yday\<close> is the day \<^verbatim>\<open>localtime\<close> reports.\<close>

definition audit_configure :: "int option \<Rightarrow> sso_config \<Rightarrow> audit_state \<Rightarrow> audit_state" where
  "audit_configure yday cfg A =
     A\<lparr>s_path := (if cf_audit_log_path cfg \<noteq> [] then snprintf 256 (cf_audit_log_path cfg) else s_path A),
       s_max_size_mb := cf_audit_log_max_size_mb cfg, s_max_backups := cf_audit_log_max_backups cfg,
       s_rotate_daily := cf_audit_log_rotate_daily cfg, s_secret := snprintf 128 (cf_audit_log_secret cfg),
       s_last_yday := (case yday of Some d \<Rightarrow> d | None \<Rightarrow> s_last_yday A)\<rparr>"

definition perm_engine_create ::
  "int option \<Rightarrow> 's sso_context option \<Rightarrow> audit_state \<Rightarrow> sso_error \<times> 's permission_engine option \<times> audit_state" where
  "perm_engine_create yday ctx A =
     (case ctx of
        None \<Rightarrow> (SSO_ERR_INVALID_PARAM, None, A)
      | Some c \<Rightarrow>
          (case register_all [func_perm_strategy, api_perm_strategy, data_perm_strategy, rbac_perm_strategy,
                              location_perm_strategy, abac_perm_strategy, lbac_perm_strategy] empty_engine of
             (SSO_OK, Some E) \<Rightarrow>
               (SSO_OK, Some E, case sso_config c of Some cfg \<Rightarrow> audit_configure yday cfg A | None \<Rightarrow> A)
           | (err, _) \<Rightarrow> (err, None, A)))"

definition perm_engine_get_metrics :: "'s permission_engine option \<Rightarrow> nat \<Rightarrow> sso_error \<times> string option" where
  "perm_engine_get_metrics eng mx =
     (case eng of
        None \<Rightarrow> (SSO_ERR_INVALID_PARAM, None)
      | Some E \<Rightarrow>
          (let M = metrics E; nl = [CHR 0x0A]
           in (SSO_OK, Some (snprintf mx
             (''# HELP sso_perm_evals_total Total number of permission evaluations'' @ nl @
              ''# TYPE sso_perm_evals_total counter'' @ nl @
              ''sso_perm_evals_total '' @ dec (unat (total_evals M)) @ nl @
              ''# HELP sso_perm_cache_hits_total Total number of cache hits'' @ nl @
              ''# TYPE sso_perm_cache_hits_total counter'' @ nl @
              ''sso_perm_cache_hits_total{level=\"l1\"} '' @ dec (unat (cache_hits_l1 M)) @ nl @
              ''sso_perm_cache_hits_total{level=\"l2\"} '' @ dec (unat (cache_hits_l2 M)) @ nl @
              ''# HELP sso_perm_decisions_total Total number of allows/denys'' @ nl @
              ''# TYPE sso_perm_decisions_total counter'' @ nl @
              ''sso_perm_decisions_total{effect=\"allow\"} '' @ dec (unat (allows M)) @ nl @
              ''sso_perm_decisions_total{effect=\"deny\"} '' @ dec (unat (denys M)) @ nl @
              ''# HELP sso_perm_eval_duration_us_total Cumulative evaluation duration in microseconds'' @ nl @
              ''# TYPE sso_perm_eval_duration_us_total counter'' @ nl @
              ''sso_perm_eval_duration_us_total '' @ dec (unat (total_duration_us M)) @ nl)))))"

section \<open>One policy\<close>

definition ctx_view :: "'s sso_context \<Rightarrow> 's store_view" where
  "ctx_view ctx = \<lparr>sv_backend = storage_backend ctx, sv_store = store ctx, sv_role_mgr = role_mgr ctx\<rparr>"

text \<open>The compiled rule: from the cache, or compiled now and cached when that succeeds.\<close>

definition obtain_rule ::
  "libs \<Rightarrow> 's permission_strategy \<Rightarrow> policy \<Rightarrow> 's permission_engine \<Rightarrow> compiled_rule option \<times> 's permission_engine" where
  "obtain_rule L st p E =
     (case ps_compile st of
        None \<Rightarrow> (None, E)
      | Some cmp \<Rightarrow>
          (case perm_engine_get_cached_rule E (p_id p) of
             Some r \<Rightarrow> (Some r, E)
           | None \<Rightarrow>
               (let (cerr, r) = cmp L (Some (rules p))
                in (r, if cerr = SSO_OK then perm_engine_cache_rule E (p_id p) (ps_type st) r else E))))"

definition policy_trace :: "string \<Rightarrow> bool \<Rightarrow> sso_error \<Rightarrow> string" where
  "policy_trace name res err =
     snprintf 256 (''Strategy '' @ name @ '': '' @ allow_str res @ '' (matched: '' @
       (if err = SSO_OK then ''YES'' else ''NO'') @ '')'')"

definition perm_engine_evaluate_policy ::
  "libs \<Rightarrow> 's sso_context \<Rightarrow> 's permission_engine option \<Rightarrow> policy option \<Rightarrow> eval_context option \<Rightarrow> bool \<Rightarrow> heap \<Rightarrow>
     (sso_error \<times> bool \<times> string option \<times> 's permission_engine option \<times> eval_context option \<times> heap) option" where
  "perm_engine_evaluate_policy L ctx eng pol ec result h =
     (case (eng, pol, ec) of
        (Some E, Some p, Some c) \<Rightarrow>
          if p_status p = POLICY_STATUS_DISABLED
          then Some (SSO_ERR_NOT_FOUND, result, Some ''Policy disabled (skipped)'', eng, ec, h)
          else (case perm_engine_get_strategy E (strategy_type p) of
                  None \<Rightarrow> Some (SSO_ERR_STRATEGY_NOT_FOUND, result, Some ''Strategy not found'', eng, ec, h)
                | Some st \<Rightarrow>
                    (case ps_evaluate st of
                       None \<Rightarrow> Some (SSO_ERR_NOT_IMPLEMENTED, result, None, eng, ec, h)
                     | Some ev \<Rightarrow>
                         (let (compiled, E1) = obtain_rule L st p E
                          in do {
                            (err, sres, ec1, h1) \<leftarrow>
                              ev L (if ps_needs_context st then Some (ctx_view ctx) else None) ec pol compiled False h;
                            Some (err, if err = SSO_OK then sres else result, Some (policy_trace (ps_name st) sres err),
                                  Some E1, ec1, h1)
                          })))
      | _ \<Rightarrow> Some (SSO_ERR_INVALID_PARAM, result, None, eng, ec, h))"

section \<open>The decision\<close>

text \<open>\<^verbatim>\<open>trace_off += snprintf(full_trace + trace_off, 4096 - trace_off, ...)\<close> with the clamp that follows it.\<close>

definition trace_add :: "string \<Rightarrow> string \<Rightarrow> string" where
  "trace_add acc s = take 4095 (acc @ s)"

definition policy_line :: "policy \<Rightarrow> string option \<Rightarrow> bool \<Rightarrow> string \<Rightarrow> string" where
  "policy_line p tr want acc =
     (case tr of
        Some t \<Rightarrow> if want then trace_add acc (''[Policy '' @ p_name p @ ''] '' @ t @ [CHR 0x0A]) else acc
      | None \<Rightarrow> acc)"

text \<open>The loop over the policies: whether some policy denied, whether some policy allowed, and the
  trace, engine, context and heap it leaves.\<close>

fun eval_loop ::
  "libs \<Rightarrow> 's sso_context \<Rightarrow> bool \<Rightarrow> policy list \<Rightarrow> bool \<Rightarrow> string \<Rightarrow> 's permission_engine option \<Rightarrow> eval_context option \<Rightarrow>
     heap \<Rightarrow> (bool \<times> bool \<times> string \<times> 's permission_engine option \<times> eval_context option \<times> heap) option" where
  "eval_loop L ctx want [] any_allowed full_trace E ec h = Some (False, any_allowed, full_trace, E, ec, h)"
| "eval_loop L ctx want (p # ps) any_allowed full_trace E ec h = do {
     (err, policy_result, tr, E1, ec1, h1) \<leftarrow> perm_engine_evaluate_policy L ctx E (Some p) ec False h;
     let full_trace1 = policy_line p tr want full_trace;
     if err \<noteq> SSO_OK then eval_loop L ctx want ps any_allowed full_trace1 E1 ec1 h1
     else if \<not> policy_result then Some (True, any_allowed, full_trace1, E1, ec1, h1)
     else eval_loop L ctx want ps True full_trace1 E1 ec1 h1
   }"

abbreviation cache_idx :: "32 word \<Rightarrow> nat" where
  "cache_idx phash \<equiv> unat phash mod RESULT_CACHE_SIZE"

abbreviation l1_idx :: "sso_id \<Rightarrow> nat" where
  "l1_idx uid \<equiv> unat uid mod POLICY_RES_CACHE_SIZE"

definition l2_hit :: "'s permission_engine \<Rightarrow> sso_id \<Rightarrow> 32 word \<Rightarrow> 64 word \<Rightarrow> bool" where
  "l2_hit E uid phash now =
     (let e = result_cache E (cache_idx phash)
      in re_valid e \<and> re_user_id e = uid \<and> re_params_hash e = phash \<and> now - re_timestamp e < 30000)"

definition l1_hit :: "'s permission_engine \<Rightarrow> sso_id \<Rightarrow> 64 word \<Rightarrow> bool" where
  "l1_hit E uid now =
     (let e = res_cache E (l1_idx uid) in rc_valid e \<and> rc_user_id e = uid \<and> now - rc_timestamp e < 60000)"

definition count_decision :: "bool \<Rightarrow> engine_metrics \<Rightarrow> engine_metrics" where
  "count_decision allowed M =
     (if allowed then M\<lparr>total_evals := total_evals M + 1, allows := allows M + 1\<rparr>
      else M\<lparr>total_evals := total_evals M + 1, denys := denys M + 1\<rparr>)"

definition l1_store :: "'s permission_engine \<Rightarrow> sso_id \<Rightarrow> policy list \<Rightarrow> 64 word \<Rightarrow> 's permission_engine" where
  "l1_store E uid ps now =
     (if l1_hit E uid now then E
      else E\<lparr>res_cache := (res_cache E)(l1_idx uid := \<lparr>rc_user_id = uid, rc_policies = ps, rc_timestamp = now, rc_valid = True\<rparr>)\<rparr>)"

definition l2_store :: "'s permission_engine \<Rightarrow> sso_id \<Rightarrow> 32 word \<Rightarrow> bool \<Rightarrow> 64 word \<Rightarrow> 's permission_engine" where
  "l2_store E uid phash allowed now =
     E\<lparr>result_cache := (result_cache E)(cache_idx phash :=
         \<lparr>re_user_id = uid, re_params_hash = phash, re_allowed = allowed, re_timestamp = now, re_valid = True\<rparr>)\<rparr>"

text \<open>What is returned: error, \<^verbatim>\<open>*result\<close>, \<^verbatim>\<open>*decision_trace\<close>, the evaluation context, the heap, and the
  context with the log.\<close>

type_synonym 's outcome =
  "sso_error \<times> bool \<times> string option \<times> eval_context option \<times> heap \<times> 's sso_context \<times> audit_state"

text \<open>Phase 3: evaluation of the resolved policies, with the caches, metrics and log it updates. A
  deny returns before the metrics are touched.\<close>

definition final_trace :: "bool \<Rightarrow> bool \<Rightarrow> bool \<Rightarrow> string \<Rightarrow> string" where
  "final_trace want denied any_allowed tr =
     (if \<not> want then tr
      else trace_add tr ((if denied then ''Result: DENIED (Override by policy)''
                          else if any_allowed then ''Result: ALLOWED''
                          else ''Result: DENIED (No matching allow rule)'') @ [CHR 0x0A]))"

definition record_decision ::
  "sso_id \<Rightarrow> 32 word \<Rightarrow> bool \<Rightarrow> bool \<Rightarrow> 64 word \<Rightarrow> 64 word \<Rightarrow> 's permission_engine \<Rightarrow> 's permission_engine" where
  "record_decision uid phash denied any_allowed now later E =
     (let E1 = l2_store E uid phash (\<not> denied \<and> any_allowed) now;
          M = count_decision any_allowed (metrics E1)
      in if denied then E1
         else E1\<lparr>metrics := M\<lparr>total_duration_us := total_duration_us M + (later - now) * 1000\<rparr>\<rparr>)"

definition decide_policies ::
  "libs \<Rightarrow> hmac_fn \<Rightarrow> os_view \<Rightarrow> 64 word \<Rightarrow> 64 word \<Rightarrow> 's sso_context \<Rightarrow> 's permission_engine \<Rightarrow> eval_context \<Rightarrow>
     policy list \<Rightarrow> bool \<Rightarrow> heap \<Rightarrow> audit_state \<Rightarrow> 's outcome option" where
  "decide_policies L hm os now later ctx E ec ps want h A = do {
     (denied, any_allowed, tr, E1, ec1, h1) \<leftarrow> eval_loop L ctx want ps False [] (Some E) (Some ec) h;
     let allowed = (\<not> denied \<and> any_allowed);
     let full_trace = final_trace want denied any_allowed tr;
     let E2 = map_option (record_decision (ec_user_id ec) (hash_params ec) denied any_allowed now later) E1;
     let (ctx1, A1) = audit_log_decision hm os ec allowed (Some full_trace) (later - now) False (ctx\<lparr>perm_engine := E2\<rparr>, A);
     Some (SSO_OK, allowed, if want then Some full_trace else None, ec1, h1, ctx1, A1)
   }"

definition perm_engine_evaluate_internal ::
  "libs \<Rightarrow> hmac_fn \<Rightarrow> os_view \<Rightarrow> 64 word \<Rightarrow> 64 word \<Rightarrow> 's sso_context \<Rightarrow> eval_context option \<Rightarrow> bool \<Rightarrow> bool \<Rightarrow> heap \<Rightarrow>
     audit_state \<Rightarrow> 's outcome option" where
  "perm_engine_evaluate_internal L hm os now later ctx eco result want h A =
     (case (perm_engine ctx, eco) of
        (Some E, Some ec) \<Rightarrow>
          (let uid = ec_user_id ec; phash = hash_params ec;
               finish = (\<lambda>err res tr text hit E'.
                 let (ctx1, A1) = audit_log_decision hm os ec res (Some text) (later - now) hit (ctx\<lparr>perm_engine := Some E'\<rparr>, A)
                 in Some (err, res, tr, eco, h, ctx1, A1))
           in if l2_hit E uid phash now
              then let res = re_allowed (result_cache E (cache_idx phash));
                       M = count_decision res (metrics E)
                   in finish SSO_OK res (if want then Some ''Decision from Result Cache (L2)'' else None)
                        ''Decision from Result Cache (L2)'' True (E\<lparr>metrics := M\<lparr>cache_hits_l2 := cache_hits_l2 M + 1\<rparr>\<rparr>)
              else if l1_hit E uid now
              then let ps = rc_policies (res_cache E (l1_idx uid));
                       E1 = E\<lparr>metrics := (metrics E)\<lparr>cache_hits_l1 := cache_hits_l1 (metrics E) + 1\<rparr>\<rparr>
                   in if ps = []
                      then finish SSO_OK False (if want then Some ''Default DENY: No policies found'' else None)
                             ''Default DENY: No policies found'' False E1
                      else decide_policies L hm os now later (ctx\<lparr>perm_engine := Some E1\<rparr>) E1 ec ps want h A
              else if \<not> policy_mgr ctx
              then finish SSO_ERR_INIT False None ''Error: policy manager not found'' False E
              else let (err, ps) = policy_resolve_for_user ctx True uid 64
                   in if err \<noteq> SSO_OK \<and> err \<noteq> SSO_ERR_NOT_FOUND
                      then finish err False None ''Error: policy resolution failed'' False E
                      else if ps = []
                      then finish SSO_OK False (if want then Some ''Default DENY: No policies found'' else None)
                             ''Default DENY: No policies found'' False E
                      else let E1 = l1_store E uid ps now
                           in decide_policies L hm os now later (ctx\<lparr>perm_engine := Some E1\<rparr>) E1 ec ps want h A)
      | _ \<Rightarrow> Some (SSO_ERR_INVALID_PARAM, result, None, eco, h, ctx, A))"

text \<open>\<^verbatim>\<open>perm_engine_evaluate\<close> only wraps a telemetry span around the evaluation.\<close>

definition perm_engine_evaluate ::
  "libs \<Rightarrow> hmac_fn \<Rightarrow> os_view \<Rightarrow> 64 word \<Rightarrow> 64 word \<Rightarrow> 's sso_context \<Rightarrow> eval_context option \<Rightarrow> bool \<Rightarrow> bool \<Rightarrow> heap \<Rightarrow>
     audit_state \<Rightarrow> 's outcome option" where
  "perm_engine_evaluate = perm_engine_evaluate_internal"

section \<open>One-shot checks\<close>

text \<open>What the seven checkers share: fetch the user, fill the parameters, evaluate without a trace,
  destroy the context.\<close>

type_synonym 's checked = "sso_error \<times> bool \<times> heap \<times> 's sso_context \<times> audit_state"

definition check_params ::
  "libs \<Rightarrow> hmac_fn \<Rightarrow> os_view \<Rightarrow> 64 word \<Rightarrow> 64 word \<Rightarrow> 's sso_context \<Rightarrow> sso_id \<Rightarrow> (char list \<Rightarrow> char list) \<Rightarrow> bool \<Rightarrow> heap \<Rightarrow>
     audit_state \<Rightarrow> 's checked option" where
  "check_params L hm os now later ctx uid fill allowed h A =
     (case user_get_by_id ctx (user_mgr ctx) uid of
        (SSO_OK, Some u) \<Rightarrow> do {
          ec \<leftarrow> snd (eval_context_init True (Some u));
          (err, res, tr, ec1, h1, ctx1, A1) \<leftarrow>
            perm_engine_evaluate L hm os now later ctx (Some (ec\<lparr>params := fill (params ec)\<rparr>)) allowed False h A;
          c \<leftarrow> ec1;
          (c', h2) \<leftarrow> eval_context_destroy c h1;
          Some (err, res, h2, ctx1, A1)
        }
      | (err, _) \<Rightarrow> Some (err, allowed, h, ctx, A))"

definition perm_check_function ::
  "libs \<Rightarrow> hmac_fn \<Rightarrow> os_view \<Rightarrow> 64 word \<Rightarrow> 64 word \<Rightarrow> 's sso_context \<Rightarrow> sso_id \<Rightarrow> string option \<Rightarrow> bool \<Rightarrow> heap \<Rightarrow>
     audit_state \<Rightarrow> 's checked option" where
  "perm_check_function L hm os now later ctx uid function_code allowed h A =
     (case function_code of
        None \<Rightarrow> Some (SSO_ERR_INVALID_PARAM, allowed, h, ctx, A)
      | Some code \<Rightarrow> check_params L hm os now later ctx uid (put_str OFF_FUNCTION_CODE 128 code) allowed h A)"

definition perm_check_api ::
  "libs \<Rightarrow> hmac_fn \<Rightarrow> os_view \<Rightarrow> 64 word \<Rightarrow> 64 word \<Rightarrow> 's sso_context \<Rightarrow> sso_id \<Rightarrow> string option \<Rightarrow> string option \<Rightarrow> bool \<Rightarrow>
     heap \<Rightarrow> audit_state \<Rightarrow> 's checked option" where
  "perm_check_api L hm os now later ctx uid meth path allowed h A =
     (case (meth, path) of
        (Some m, Some p) \<Rightarrow>
          check_params L hm os now later ctx uid
            (\<lambda>b. put_str OFF_REQUEST_PATH 1024 p (put_str OFF_HTTP_METHOD 8 m b)) allowed h A
      | _ \<Rightarrow> Some (SSO_ERR_INVALID_PARAM, allowed, h, ctx, A))"

definition perm_check_rbac ::
  "libs \<Rightarrow> hmac_fn \<Rightarrow> os_view \<Rightarrow> 64 word \<Rightarrow> 64 word \<Rightarrow> 's sso_context \<Rightarrow> sso_id \<Rightarrow> string option \<Rightarrow> bool \<Rightarrow> heap \<Rightarrow>
     audit_state \<Rightarrow> 's checked option" where
  "perm_check_rbac L hm os now later ctx uid role_name allowed h A =
     (case role_name of
        None \<Rightarrow> Some (SSO_ERR_INVALID_PARAM, allowed, h, ctx, A)
      | Some n \<Rightarrow> check_params L hm os now later ctx uid (put_str OFF_ROLE_NAME 64 n) allowed h A)"

definition perm_check_location ::
  "libs \<Rightarrow> hmac_fn \<Rightarrow> os_view \<Rightarrow> 64 word \<Rightarrow> 64 word \<Rightarrow> 's sso_context \<Rightarrow> sso_id \<Rightarrow> string option \<Rightarrow> string option \<Rightarrow> bool \<Rightarrow>
     heap \<Rightarrow> audit_state \<Rightarrow> 's checked option" where
  "perm_check_location L hm os now later ctx uid source_ip geo_country allowed h A =
     (case source_ip of
        None \<Rightarrow> Some (SSO_ERR_INVALID_PARAM, allowed, h, ctx, A)
      | Some ip \<Rightarrow>
          check_params L hm os now later ctx uid
            (\<lambda>b. let b1 = put_str OFF_SOURCE_IP 64 ip b
                 in case geo_country of Some g \<Rightarrow> put_str OFF_GEO_COUNTRY 8 g b1 | None \<Rightarrow> b1) allowed h A)"

definition perm_check_lbac ::
  "libs \<Rightarrow> hmac_fn \<Rightarrow> os_view \<Rightarrow> 64 word \<Rightarrow> 64 word \<Rightarrow> 's sso_context \<Rightarrow> sso_id \<Rightarrow> string option \<Rightarrow> string option \<Rightarrow> bool \<Rightarrow>
     heap \<Rightarrow> audit_state \<Rightarrow> 's checked option" where
  "perm_check_lbac L hm os now later ctx uid user_labels resource_label allowed h A =
     (case (user_labels, resource_label) of
        (Some ul, Some rl) \<Rightarrow>
          check_params L hm os now later ctx uid
            (\<lambda>b. put_str OFF_RESOURCE_LABEL 64 rl (put_str OFF_USER_LABELS 256 ul b)) allowed h A
      | _ \<Rightarrow> Some (SSO_ERR_INVALID_PARAM, allowed, h, ctx, A))"

definition put_opt :: "nat \<Rightarrow> nat \<Rightarrow> string option \<Rightarrow> char list \<Rightarrow> char list" where
  "put_opt off n s b = (case s of Some t \<Rightarrow> put_str off n t b | None \<Rightarrow> b)"

definition perm_check_abac ::
  "libs \<Rightarrow> hmac_fn \<Rightarrow> os_view \<Rightarrow> 64 word \<Rightarrow> 64 word \<Rightarrow> 's sso_context \<Rightarrow> sso_id \<Rightarrow> string option \<Rightarrow> string option \<Rightarrow>
     string option \<Rightarrow> bool \<Rightarrow> heap \<Rightarrow> audit_state \<Rightarrow> 's checked option" where
  "perm_check_abac L hm os now later ctx uid subject_attrs resource_attrs action allowed h A =
     check_params L hm os now later ctx uid
       (\<lambda>b. put_opt OFF_ACTION 64 action (put_opt OFF_RESOURCE_ATTRS 2048 resource_attrs
              (put_opt OFF_SUBJECT_ATTRS 2048 subject_attrs b))) allowed h A"

text \<open>The data check also hands the field filter to a caller that asked for it.\<close>

definition perm_check_data ::
  "libs \<Rightarrow> hmac_fn \<Rightarrow> os_view \<Rightarrow> 64 word \<Rightarrow> 64 word \<Rightarrow> 's sso_context \<Rightarrow> sso_id \<Rightarrow> string option \<Rightarrow> string option \<Rightarrow> bool \<Rightarrow>
     bool \<Rightarrow> heap \<Rightarrow> audit_state \<Rightarrow> ('s checked \<times> (ptr \<times> 64 word) option) option" where
  "perm_check_data L hm os now later ctx uid resource_type record_json allowed want_filter h A =
     (case resource_type of
        None \<Rightarrow> Some ((SSO_ERR_INVALID_PARAM, allowed, h, ctx, A), None)
      | Some rt \<Rightarrow>
          (case user_get_by_id ctx (user_mgr ctx) uid of
             (SSO_OK, Some u) \<Rightarrow> do {
               ec \<leftarrow> snd (eval_context_init True (Some u));
               let b1 = put_str OFF_RESOURCE_TYPE 64 rt (params ec);
               let (b2, h1) = (case record_json of
                                 Some r \<Rightarrow> (let (p, h') = heap_strdup r h
                                            in (put_word OFF_RECORD_LEN (word_of_nat (length (cstr r))) (put_word OFF_RECORD p b1), h'))
                               | None \<Rightarrow> (b1, h));
               let b3 = put_word OFF_FIELD_FILTER_COUNT 0 (put_word OFF_FIELD_FILTER 0 b2);
               (err, res, tr, ec1, h2, ctx1, A1) \<leftarrow>
                 perm_engine_evaluate L hm os now later ctx (Some (ec\<lparr>params := b3\<rparr>)) allowed False h1 A;
               c \<leftarrow> ec1;
               if err = SSO_OK \<and> want_filter
               then do {
                 (c', h3) \<leftarrow> eval_context_destroy
                   (c\<lparr>params := put_word OFF_FIELD_FILTER_COUNT 0 (put_word OFF_FIELD_FILTER 0 (params c))\<rparr>) h2;
                 Some ((err, res, h3, ctx1, A1),
                       Some (word_at OFF_FIELD_FILTER (params c), word_at OFF_FIELD_FILTER_COUNT (params c)))
               }
               else do {
                 (c', h3) \<leftarrow> eval_context_destroy c h2;
                 Some ((err, res, h3, ctx1, A1), None)
               }
             }
           | (err, _) \<Rightarrow> Some ((err, allowed, h, ctx, A), None)))"

section \<open>Specification of the decision\<close>

text \<open>The rule a policy's text compiles to, the verdict of one policy on a request, and the engine's
  contract: some policy allows and none denies.\<close>

definition compiled_of :: "libs \<Rightarrow> 's permission_strategy \<Rightarrow> policy \<Rightarrow> compiled_rule option" where
  "compiled_of L st p = (case ps_compile st of None \<Rightarrow> None | Some cmp \<Rightarrow> snd (cmp L (Some (rules p))))"

definition policy_verdict ::
  "libs \<Rightarrow> 's store_view \<Rightarrow> 's permission_strategy list \<Rightarrow> eval_context \<Rightarrow> heap \<Rightarrow> policy \<Rightarrow>
     (sso_error \<times> bool \<times> eval_context option \<times> heap) option" where
  "policy_verdict L v sts ec h p =
     (if p_status p = POLICY_STATUS_DISABLED then Some (SSO_ERR_NOT_FOUND, False, Some ec, h)
      else case find (\<lambda>st. ps_type st = strategy_type p) sts of
             None \<Rightarrow> Some (SSO_ERR_STRATEGY_NOT_FOUND, False, Some ec, h)
           | Some st \<Rightarrow>
               (case ps_evaluate st of
                  None \<Rightarrow> Some (SSO_ERR_NOT_IMPLEMENTED, False, Some ec, h)
                | Some ev \<Rightarrow> ev L (if ps_needs_context st then Some v else None) (Some ec) (Some p) (compiled_of L st p) False h))"

text \<open>A policy whose evaluation returns and leaves the request and the heap as they are.\<close>

definition steady ::
  "libs \<Rightarrow> 's store_view \<Rightarrow> 's permission_strategy list \<Rightarrow> eval_context \<Rightarrow> heap \<Rightarrow> policy \<Rightarrow> bool" where
  "steady L v sts ec h p \<longleftrightarrow> (\<exists>err b. policy_verdict L v sts ec h p = Some (err, b, Some ec, h))"

definition gives ::
  "libs \<Rightarrow> 's store_view \<Rightarrow> 's permission_strategy list \<Rightarrow> eval_context \<Rightarrow> heap \<Rightarrow> bool \<Rightarrow> policy \<Rightarrow> bool" where
  "gives L v sts ec h b p \<longleftrightarrow> policy_verdict L v sts ec h p = Some (SSO_OK, b, Some ec, h)"

text \<open>The rule cache answers for each of the policies with nothing or with its current rule.\<close>

definition rules_current :: "libs \<Rightarrow> 's permission_engine \<Rightarrow> policy list \<Rightarrow> bool" where
  "rules_current L E ps \<longleftrightarrow>
     cache_wf first_ids E \<and> (\<forall>p \<in> set ps. p_id p \<in> first_ids) \<and>
     (\<forall>p \<in> set ps. \<forall>q \<in> set ps. p_id p = p_id q \<longrightarrow> p = q) \<and>
     (\<forall>p \<in> set ps. \<forall>st r. perm_engine_get_strategy E (strategy_type p) = Some st \<longrightarrow>
        perm_engine_get_cached_rule E (p_id p) = Some r \<longrightarrow> compiled_of L st p = Some r) \<and>
     (\<forall>st \<in> set (strategies E). \<forall>cmp t. ps_compile st = Some cmp \<longrightarrow> (fst (cmp L t) = SSO_OK \<longleftrightarrow> snd (cmp L t) \<noteq> None))"

lemma rules_currentD:
  assumes "rules_current L E ps"
  shows "cache_wf first_ids E" "p \<in> set ps \<Longrightarrow> p_id p \<in> first_ids"
    and "p \<in> set ps \<Longrightarrow> q \<in> set ps \<Longrightarrow> p_id p = p_id q \<Longrightarrow> p = q"
    and "p \<in> set ps \<Longrightarrow> perm_engine_get_strategy E (strategy_type p) = Some st \<Longrightarrow>
        perm_engine_get_cached_rule E (p_id p) = Some r \<Longrightarrow> compiled_of L st p = Some r"
    and "st \<in> set (strategies E) \<Longrightarrow> ps_compile st = Some cmp \<Longrightarrow> fst (cmp L t) = SSO_OK \<longleftrightarrow> snd (cmp L t) \<noteq> None"
  using assms unfolding rules_current_def by blast+

lemma cache_rule_strategies [simp]: "strategies (perm_engine_cache_rule E p t r) = strategies E"
  by (simp add: perm_engine_cache_rule_def split: option.split)

lemma get_strategy_in: "perm_engine_get_strategy E t = Some st \<Longrightarrow> st \<in> set (strategies E) \<and> ps_type st = t"
  by (auto simp: perm_engine_get_strategy_def find_Some_iff)

lemma rules_current_cache:
  assumes cur: "rules_current L E ps" and p: "p \<in> set ps" and st: "perm_engine_get_strategy E (strategy_type p) = Some st"
    and r: "compiled_of L st p = Some r"
  shows "rules_current L (perm_engine_cache_rule E (p_id p) (ps_type st) (Some r)) ps"
proof (cases "cache_count E < MAX_POLICY_CACHE")
  case False
  then show ?thesis using cur by (simp add: perm_engine_cache_rule_def)
next
  case room: True
  let ?E = "perm_engine_cache_rule E (p_id p) (ps_type st) (Some r)"
  note c = rules_currentD [OF cur]
  have look: "perm_engine_get_cached_rule ?E (p_id q) =
      (if p_id q = p_id p then Some r else perm_engine_get_cached_rule E (p_id q))" if "q \<in> set ps" for q
    by (rule rules.look_put [OF c(1) c(2) [OF p] c(2) [OF that] room])
  have str: "perm_engine_get_strategy ?E t = perm_engine_get_strategy E t" for t
    by (simp add: perm_engine_get_strategy_def)
  have "compiled_of L st' q = Some r'"
    if q: "q \<in> set ps" and s: "perm_engine_get_strategy ?E (strategy_type q) = Some st'"
      and l: "perm_engine_get_cached_rule ?E (p_id q) = Some r'" for q st' r'
  proof (cases "p_id q = p_id p")
    case True
    then have "q = p" by (rule c(3) [OF q p])
    with s l r st look [OF p] show ?thesis by (simp add: str)
  next
    case False
    then show ?thesis using c(4) [OF q] s l by (simp add: str look [OF q])
  qed
  then show ?thesis
    using rules.put_inv [OF c(1) c(2) [OF p] room] cur unfolding rules_current_def by simp
qed

lemma obtain_rule_current:
  assumes "rules_current L E ps" "p \<in> set ps" "perm_engine_get_strategy E (strategy_type p) = Some st"
  obtains E' where "obtain_rule L st p E = (compiled_of L st p, E')" "rules_current L E' ps" "strategies E' = strategies E"
    "E' = E \<or> (\<exists>r. E' = perm_engine_cache_rule E (p_id p) (ps_type st) r)"
proof -
  note c = rules_currentD [OF assms(1)]
  show thesis
  proof (cases "ps_compile st")
    case None
    then have "obtain_rule L st p E = (compiled_of L st p, E)" by (simp add: obtain_rule_def compiled_of_def)
    then show ?thesis using assms(1) that by blast
  next
    case cmp: (Some cmp)
    show ?thesis
    proof (cases "perm_engine_get_cached_rule E (p_id p)")
      case (Some r)
      then have "obtain_rule L st p E = (compiled_of L st p, E)"
        using c(4) [OF assms(2,3)] cmp by (simp add: obtain_rule_def)
      then show ?thesis using assms(1) that by blast
    next
      case None
      obtain e r where er: "cmp L (Some (rules p)) = (e, r)" by (cases "cmp L (Some (rules p))")
      have iff: "e = SSO_OK \<longleftrightarrow> r \<noteq> None"
        using c(5) [of st cmp "Some (rules p)"] get_strategy_in [OF assms(3)] cmp er by simp
      have comp: "compiled_of L st p = r" using cmp er by (simp add: compiled_of_def)
      have ob: "obtain_rule L st p E =
          (r, if e = SSO_OK then perm_engine_cache_rule E (p_id p) (ps_type st) r else E)"
        using cmp None er by (simp add: obtain_rule_def)
      show ?thesis
      proof (cases r)
        case None
        with ob iff comp show ?thesis using that [of E] assms(1) by simp
      next
        case (Some r')
        then have "rules_current L (perm_engine_cache_rule E (p_id p) (ps_type st) r) ps"
          using rules_current_cache [OF assms] comp by simp
        with Some ob iff comp show ?thesis
          using that [of "perm_engine_cache_rule E (p_id p) (ps_type st) r"] by auto
      qed
    qed
  qed
qed

text \<open>What caching a rule leaves alone.\<close>

definition same_results :: "'s permission_engine \<Rightarrow> 's permission_engine \<Rightarrow> bool" where
  "same_results E E' \<longleftrightarrow> strategies E' = strategies E \<and> res_cache E' = res_cache E \<and>
     result_cache E' = result_cache E \<and> metrics E' = metrics E"

lemma same_results_cache: "same_results E (perm_engine_cache_rule E p t r)"
  by (simp add: same_results_def perm_engine_cache_rule_def split: option.split)

lemma same_results_refl [simp]: "same_results E E"
  by (simp add: same_results_def)

lemma same_results_trans: "same_results E E' \<Longrightarrow> same_results E' E'' \<Longrightarrow> same_results E E''"
  by (simp add: same_results_def)

lemma evaluate_policy_verdict:
  assumes "rules_current L E ps" "p \<in> set ps" "policy_verdict L (ctx_view ctx) (strategies E) ec h p = Some (err, b, Some ec, h)"
  shows "\<exists>tr E' b'. perm_engine_evaluate_policy L ctx (Some E) (Some p) (Some ec) False h =
           Some (err, b', tr, Some E', Some ec, h) \<and> (err = SSO_OK \<longrightarrow> b' = b) \<and> rules_current L E' ps \<and> same_results E E'"
proof -
  note defs = perm_engine_evaluate_policy_def policy_verdict_def perm_engine_get_strategy_def
  have skip: ?thesis if "perm_engine_evaluate_policy L ctx (Some E) (Some p) (Some ec) False h =
      Some (err, False, tr, Some E, Some ec, h)" "b = False" for tr
    using that assms(1) by (intro exI [of _ tr] exI [of _ E] exI [of _ False]) simp
  consider "p_status p = POLICY_STATUS_DISABLED"
    | "p_status p \<noteq> POLICY_STATUS_DISABLED" "perm_engine_get_strategy E (strategy_type p) = None"
    | st where "p_status p \<noteq> POLICY_STATUS_DISABLED" "perm_engine_get_strategy E (strategy_type p) = Some st"
    by blast
  then show ?thesis
  proof cases
    case 1
    then show ?thesis using assms(3) by (intro skip) (simp_all add: defs)
  next
    case 2
    then show ?thesis using assms(3) by (intro skip) (simp_all add: defs)
  next
    case (3 st)
    note en = 3(1) and st = 3(2)
    show ?thesis
    proof (cases "ps_evaluate st")
      case None
      then show ?thesis using assms(3) en st by (intro skip) (simp_all add: defs)
    next
      case (Some ev)
      from obtain_rule_current [OF assms(1,2) st] obtain E' where
        o: "obtain_rule L st p E = (compiled_of L st p, E')" "rules_current L E' ps"
           "E' = E \<or> (\<exists>r. E' = perm_engine_cache_rule E (p_id p) (ps_type st) r)" .
      have "same_results E E'" using o(3) by (elim disjE exE) (simp_all add: same_results_cache)
      moreover have "ev L (if ps_needs_context st then Some (ctx_view ctx) else None) (Some ec) (Some p)
          (compiled_of L st p) False h = Some (err, b, Some ec, h)"
        using assms(3) en st Some by (simp add: policy_verdict_def perm_engine_get_strategy_def)
      ultimately show ?thesis
        using en st Some o(1,2) by (simp add: perm_engine_evaluate_policy_def)
    qed
  qed
qed

lemma eval_loop_decides:
  assumes "rules_current L E all" "set ps \<subseteq> set all" "\<forall>p \<in> set ps. steady L (ctx_view ctx) (strategies E) ec h p"
  shows "\<exists>denied anyb tr' E'. eval_loop L ctx want ps any tr (Some E) (Some ec) h =
           Some (denied, anyb, tr', Some E', Some ec, h) \<and>
         (denied \<longleftrightarrow> (\<exists>p \<in> set ps. gives L (ctx_view ctx) (strategies E) ec h False p)) \<and>
         (\<not> denied \<longrightarrow> (anyb \<longleftrightarrow> any \<or> (\<exists>p \<in> set ps. gives L (ctx_view ctx) (strategies E) ec h True p))) \<and>
         rules_current L E' all \<and> same_results E E'"
  using assms
proof (induction ps arbitrary: any tr E)
  case Nil
  then show ?case by auto
next
  case (Cons p ps)
  let ?v = "ctx_view ctx" and ?s = "strategies E"
  from Cons.prems(3) obtain err b where v: "policy_verdict L ?v ?s ec h p = Some (err, b, Some ec, h)"
    by (auto simp: steady_def)
  from evaluate_policy_verdict [OF Cons.prems(1) _ v] Cons.prems(2) obtain t E1 b' where
    e: "perm_engine_evaluate_policy L ctx (Some E) (Some p) (Some ec) False h = Some (err, b', t, Some E1, Some ec, h)"
       "err = SSO_OK \<longrightarrow> b' = b" "rules_current L E1 all" "same_results E E1"
    by auto
  have s1: "strategies E1 = ?s" using e(4) by (simp add: same_results_def)
  have g: "gives L ?v ?s ec h c p \<longleftrightarrow> err = SSO_OK \<and> b = c" for c using v by (auto simp: gives_def)
  let ?t = "policy_line p t want tr"
  have sub: "set ps \<subseteq> set all" and std: "\<forall>p \<in> set ps. steady L ?v (strategies E1) ec h p"
    using Cons.prems(2,3) s1 by simp_all
  from Cons.IH [OF e(3) sub std, of "any \<or> err = SSO_OK" ?t] obtain denied anyb tr' E' where
    ih: "eval_loop L ctx want ps (any \<or> err = SSO_OK) ?t (Some E1) (Some ec) h =
           Some (denied, anyb, tr', Some E', Some ec, h)"
        "denied \<longleftrightarrow> (\<exists>p \<in> set ps. gives L ?v ?s ec h False p)"
        "\<not> denied \<longrightarrow> (anyb \<longleftrightarrow> (any \<or> err = SSO_OK) \<or> (\<exists>p \<in> set ps. gives L ?v ?s ec h True p))"
        "rules_current L E' all" "same_results E1 E'"
    unfolding s1 by (elim exE conjE) (rule that)
  have sr: "same_results E E'" using e(4) ih(5) by (rule same_results_trans)
  show ?case
  proof (cases "err = SSO_OK \<and> \<not> b")
    case True
    then have "eval_loop L ctx want (p # ps) any tr (Some E) (Some ec) h = Some (True, any, ?t, Some E1, Some ec, h)"
      using e(1,2) by simp
    moreover have "\<exists>q \<in> set (p # ps). gives L ?v ?s ec h False q" using True g by simp
    ultimately show ?thesis using e(3,4) by blast
  next
    case False
    have l: "eval_loop L ctx want (p # ps) any tr (Some E) (Some ec) h =
        eval_loop L ctx want ps (any \<or> err = SSO_OK) ?t (Some E1) (Some ec) h"
      using False e(1,2) by (cases "err = SSO_OK") simp_all
    have d: "(\<exists>q \<in> set (p # ps). gives L ?v ?s ec h False q) \<longleftrightarrow> denied"
      and a: "(\<exists>q \<in> set (p # ps). gives L ?v ?s ec h True q) \<longleftrightarrow> err = SSO_OK \<or> (\<exists>q \<in> set ps. gives L ?v ?s ec h True q)"
      using False ih(2) g by auto
    show ?thesis
      unfolding l ih(1) d a using ih(3,4) sr by blast
  qed
qed

section \<open>Evaluation from the storage\<close>

lemma hash_indep: "params ec = params ec' \<Longrightarrow> hash_params ec = hash_params ec'"
  by (simp add: hash_params_def)

lemma record_decision_hit:
  "l2_hit (record_decision uid ph denied anyb now later E) uid ph t \<longleftrightarrow> t - now < 30000"
  by (simp add: record_decision_def l2_hit_def l2_store_def Let_def)

lemma record_decision_allowed:
  "re_allowed (result_cache (record_decision uid ph denied anyb now later E) (cache_idx ph)) \<longleftrightarrow> \<not> denied \<and> anyb"
  by (simp add: record_decision_def l2_store_def Let_def)

lemma audit_engine: "perm_engine (fst (audit_log_decision hm os ec res tr d hit (ctx, A))) = perm_engine ctx"
  by (simp add: audit_log_decision_def audit_store_def Let_def split: option.split prod.split)

text \<open>The decision of phase 3 with what it leaves in the result cache.\<close>

definition deny_overrides ::
  "libs \<Rightarrow> 's sso_context \<Rightarrow> 's permission_engine \<Rightarrow> eval_context \<Rightarrow> heap \<Rightarrow> policy list \<Rightarrow> bool" where
  "deny_overrides L ctx E ec h ps \<longleftrightarrow>
     (\<exists>p \<in> set ps. gives L (ctx_view ctx) (strategies E) ec h True p) \<and>
     \<not> (\<exists>p \<in> set ps. gives L (ctx_view ctx) (strategies E) ec h False p)"

lemma decide_policies_decides:
  assumes "rules_current L E ps" "\<forall>p \<in> set ps. steady L (ctx_view ctx) (strategies E) ec h p"
  shows "\<exists>tr ctx' A' E'. decide_policies L hm os now later ctx E ec ps want h A =
           Some (SSO_OK, deny_overrides L ctx E ec h ps, tr, Some ec, h, ctx', A') \<and>
         perm_engine ctx' = Some E' \<and> (\<forall>t. l2_hit E' (ec_user_id ec) (hash_params ec) t \<longleftrightarrow> t - now < 30000) \<and>
         re_allowed (result_cache E' (cache_idx (hash_params ec))) = deny_overrides L ctx E ec h ps"
proof -
  from eval_loop_decides [OF assms(1) subset_refl assms(2), of want False "[]"]
  obtain denied anyb tr E1 where
    l: "eval_loop L ctx want ps False [] (Some E) (Some ec) h = Some (denied, anyb, tr, Some E1, Some ec, h)"
    and d: "denied \<longleftrightarrow> (\<exists>p \<in> set ps. gives L (ctx_view ctx) (strategies E) ec h False p)"
    and a: "\<not> denied \<longrightarrow> (anyb \<longleftrightarrow> False \<or> (\<exists>p \<in> set ps. gives L (ctx_view ctx) (strategies E) ec h True p))"
    by (elim exE conjE) (rule that)
  have res: "(\<not> denied \<and> anyb) = deny_overrides L ctx E ec h ps"
    using d a unfolding deny_overrides_def by blast
  let ?E = "record_decision (ec_user_id ec) (hash_params ec) denied anyb now later E1"
  let ?out = "audit_log_decision hm os ec (\<not> denied \<and> anyb) (Some (final_trace want denied anyb tr)) (later - now) False
      (ctx\<lparr>perm_engine := Some ?E\<rparr>, A)"
  have "decide_policies L hm os now later ctx E ec ps want h A =
      Some (SSO_OK, \<not> denied \<and> anyb, if want then Some (final_trace want denied anyb tr) else None, Some ec, h, fst ?out, snd ?out)"
    by (simp add: decide_policies_def l Let_def split_beta)
  moreover have "perm_engine (fst ?out) = Some ?E" by (simp add: audit_engine)
  ultimately show ?thesis
    using record_decision_hit record_decision_allowed unfolding res [symmetric] by blast
qed

section \<open>The built-in strategies are steady\<close>

definition builtin_strategies :: "'s permission_strategy list" where
  "builtin_strategies = [func_perm_strategy, api_perm_strategy, data_perm_strategy, rbac_perm_strategy,
     location_perm_strategy, abac_perm_strategy, lbac_perm_strategy]"

lemmas strategy_defs = func_perm_strategy_def api_perm_strategy_def data_perm_strategy_def rbac_perm_strategy_def
  location_perm_strategy_def abac_perm_strategy_def lbac_perm_strategy_def

lemma create_builtin:
  "fst (snd (perm_engine_create yday (Some c) A)) = Some (empty_engine\<lparr>strategies := builtin_strategies\<rparr>)"
  by (simp add: perm_engine_create_def perm_engine_register_strategy_def builtin_strategies_def strategy_defs empty_engine_def)

lemma compile_ok_iff:
  "fst (func_compile L t) = SSO_OK \<longleftrightarrow> snd (func_compile L t) \<noteq> None"
  "fst (api_compile L t) = SSO_OK \<longleftrightarrow> snd (api_compile L t) \<noteq> None"
  "fst (data_compile L t) = SSO_OK \<longleftrightarrow> snd (data_compile L t) \<noteq> None"
  "fst (rbac_compile L t) = SSO_OK \<longleftrightarrow> snd (rbac_compile L t) \<noteq> None"
  "fst (loc_compile L t) = SSO_OK \<longleftrightarrow> snd (loc_compile L t) \<noteq> None"
  "fst (abac_compile L t) = SSO_OK \<longleftrightarrow> snd (abac_compile L t) \<noteq> None"
  "fst (lbac_compile L t) = SSO_OK \<longleftrightarrow> snd (lbac_compile L t) \<noteq> None"
  by (auto simp: func_compile_def api_compile_def data_compile_def rbac_compile_def loc_compile_def abac_compile_def
      lbac_compile_def Let_def split: option.splits)

lemma builtin_compile_ok:
  "st \<in> set builtin_strategies \<Longrightarrow> ps_compile st = Some cmp \<Longrightarrow> fst (cmp L t) = SSO_OK \<longleftrightarrow> snd (cmp L t) \<noteq> None"
  by (auto simp: builtin_strategies_def strategy_defs compile_ok_iff)

lemma builtin_find:
  "find (\<lambda>st. ps_type st = PERM_STRATEGY_FUNCTIONAL) builtin_strategies = Some func_perm_strategy"
  "find (\<lambda>st. ps_type st = PERM_STRATEGY_API) builtin_strategies = Some api_perm_strategy"
  "find (\<lambda>st. ps_type st = PERM_STRATEGY_LOCATION) builtin_strategies = Some location_perm_strategy"
  "find (\<lambda>st. ps_type st = PERM_STRATEGY_ABAC) builtin_strategies = Some abac_perm_strategy"
  "find (\<lambda>st. ps_type st = PERM_STRATEGY_LBAC) builtin_strategies = Some lbac_perm_strategy"
  by (simp_all add: builtin_strategies_def strategy_defs)

lemma builtin_steady:
  assumes "strategy_type p \<in> {PERM_STRATEGY_FUNCTIONAL, PERM_STRATEGY_API, PERM_STRATEGY_LOCATION, PERM_STRATEGY_ABAC,
      PERM_STRATEGY_LBAC}"
  shows "steady L v builtin_strategies ec h p"
proof -
  have lb: "\<exists>err b'. Option.bind (lbac_evaluate c q k b) (plain_result e h) = Some (err, b', e, h)" for c q k b e
    using lbac_evaluate_defined [of c q k b] by (auto simp: plain_result_def)
  from assms show ?thesis
    by (auto simp: steady_def policy_verdict_def builtin_find compiled_of_def strategy_defs plain_result_def
        map_option_case lb split: option.split elim!: exE)
qed

section \<open>A concrete context\<close>

text \<open>User 1 of the in-memory tables has policy 1, whose rules allow the function \<^verbatim>\<open>f\<close>.\<close>

definition engine_tables :: mem_priv where
  "engine_tables = mem_open\<lparr>users := [sample_user], policies := [sample_policy],
     policy_assignments := [(1, POLICY_TARGET_USER, 1)]\<rparr>"

definition engine_libs :: libs where
  "engine_libs = sample_libs [(''r'', JObj [(''functions'', JArr [JObj [(''code'', JStr ''f'')]])])]"

definition sample_mac :: hmac_fn where
  "sample_mac k m = replicate 32 (CHR ''x'')"

definition sample_os :: os_view where
  "sample_os = \<lparr>os_entry_ms = 0, os_line_ms = 0, os_today = None, os_yesterday = None, os_fopen = (\<lambda>_. True)\<rparr>"

definition engine_context :: "mem_priv \<Rightarrow> mem_priv sso_context" where
  "engine_context P = (bare_context storage_memory P)\<lparr>perm_engine := Some (empty_engine\<lparr>strategies := builtin_strategies\<rparr>)\<rparr>"

lemma engine_context_simps [simp]:
  "perm_engine (engine_context P) = Some (empty_engine\<lparr>strategies := builtin_strategies\<rparr>)"
  "policy_mgr (engine_context P)" "storage_backend (engine_context P) = Some storage_memory" "store (engine_context P) = P"
  "user_mgr (engine_context P) = Some \<lparr>hash_opslimit = 0, hash_memlimit = 0\<rparr>"
  "role_mgr (engine_context P)" "group_mgr (engine_context P)"
  by (simp_all add: engine_context_def bare_context_def)

lemma empty_engine_misses [simp]:
  "\<not> l2_hit (empty_engine\<lparr>strategies := sts\<rparr>) uid ph t" "\<not> l1_hit (empty_engine\<lparr>strategies := sts\<rparr>) uid t"
  by (simp_all add: l2_hit_def l1_hit_def empty_engine_def)

lemma empty_engine_current:
  "\<forall>p \<in> set ps. p_id p \<in> first_ids \<Longrightarrow> \<forall>p \<in> set ps. \<forall>q \<in> set ps. p_id p = p_id q \<longrightarrow> p = q \<Longrightarrow>
   rules_current L (empty_engine\<lparr>strategies := builtin_strategies\<rparr>) ps"
  by (auto simp: rules_current_def cache_wf_def occupied_def empty_engine_def perm_engine_get_cached_rule_def)
     (use builtin_compile_ok in blast)+

lemma engine_resolve:
  "policy_resolve_for_user (engine_context engine_tables) True 1 64 = (SSO_OK, [sample_policy])"
  "policy_resolve_for_user (engine_context (mem_open\<lparr>users := [sample_user]\<rparr>)) True 1 64 = (SSO_ERR_NOT_FOUND, [])"
  by (simp_all add: policy_resolve_for_user_def collect_policies_for_target_def sb_fn_def mem_get_target_policies_def
      al_get_filter ids_result_def policy_get_by_id_def mem_policy_get_by_id_def get_where_def user_get_roles_def
      user_get_groups_def mem_get_user_roles_def mem_get_user_groups_def pl_get_2 engine_tables_def mem_open_def
      sample_policy_def)

section \<open>Properties of the decision\<close>



text \<open>With no policy at all for the user the request is denied.\<close>

theorem perm_engine_default_deny:
  assumes "perm_engine ctx = Some E" "policy_mgr ctx"
    and "\<not> l2_hit E (ec_user_id ec) (hash_params ec) now" "\<not> l1_hit E (ec_user_id ec) now"
    and "policy_resolve_for_user ctx True (ec_user_id ec) 64 = (SSO_ERR_NOT_FOUND, [])"
  shows "\<exists>tr ctx' A'. perm_engine_evaluate L hm os now later ctx (Some ec) res want h A =
           Some (SSO_OK, False, tr, Some ec, h, ctx', A')"
  using assms by (simp add: perm_engine_evaluate_def perm_engine_evaluate_internal_def Let_def split_beta)

theorem perm_engine_default_deny_witness:
  "\<exists>tr ctx' A'. perm_engine_evaluate engine_libs sample_mac sample_os 0 0 (engine_context (mem_open\<lparr>users := [sample_user]\<rparr>))
      (Some (sample_ctx (str_buf ''f''))) True True heap_empty audit_initial =
    Some (SSO_OK, False, tr, Some (sample_ctx (str_buf ''f'')), heap_empty, ctx', A')"
  by (rule perm_engine_default_deny [where E = "empty_engine\<lparr>strategies := builtin_strategies\<rparr>"])
     (simp_all add: sample_ctx_def engine_resolve)

lemma evaluate_cached:
  assumes "perm_engine ctx = Some E" "l2_hit E (ec_user_id ec) (hash_params ec) now"
  shows "\<exists>tr ctx' A'. perm_engine_evaluate L hm os now later ctx (Some ec) res want h A =
           Some (SSO_OK, re_allowed (result_cache E (cache_idx (hash_params ec))), tr, Some ec, h, ctx', A') \<and>
         storage_backend ctx' = storage_backend ctx"
  using assms
  by (simp add: perm_engine_evaluate_def perm_engine_evaluate_internal_def Let_def split_beta audit_log_decision_def
      audit_store_def split: option.split)



section \<open>What the one-shot checks do to the heap\<close>

lemma word_at_put_str:
  assumes "off + 8 \<le> length buf"
  shows "word_at off (put_str off 8 s buf) = word_of_nat (le_nat (strlcpy_bytes s 8))"
  using assms by (simp add: word_at_def put_str_def drop_put_bytes_same)

lemma le_nat_bound: "le_nat bs < 256 ^ length bs"
proof (induction bs)
  case (Cons b bs)
  then have "256 * (le_nat bs + 1) \<le> 256 * 256 ^ length bs" by (intro mult_le_mono2) simp
  moreover have "of_char b + 256 * le_nat bs < 256 * (le_nat bs + 1)" by simp
  ultimately show ?case by (metis le_nat.simps(2) length_Cons order_less_le_trans power_Suc)
qed simp

lemma strlcpy_word_nonzero:
  assumes "nul_free g" "g \<noteq> []" "length g < 8"
  shows "word_of_nat (le_nat (strlcpy_bytes g 8)) \<noteq> (0 :: 64 word)"
proof -
  obtain c cs where g: "g = c # cs" "c \<noteq> NUL" using assms(1,2) by (cases g) auto
  have "strlcpy_bytes g 8 = c # cs @ replicate (8 - length g) NUL"
    using assms g by (simp add: strlcpy_bytes_def strlcpy_id)
  moreover have "(of_char c :: nat) \<noteq> 0" using g(2) of_char_eq_iff [of c NUL, where 'a = nat] by simp
  ultimately have "0 < le_nat (strlcpy_bytes g 8)" by simp
  moreover have "le_nat (strlcpy_bytes g 8) < 2 ^ 64" using le_nat_bound [of "strlcpy_bytes g 8"] by simp
  ultimately show ?thesis by (simp add: word_unat_eq_iff unat_of_nat)
qed

lemma evaluate_no_policy:
  assumes "perm_engine ctx = Some E" "policy_mgr ctx" "\<not> l1_hit E (ec_user_id ec) now"
    and "policy_resolve_for_user ctx True (ec_user_id ec) 64 = (SSO_ERR_NOT_FOUND, [])"
  shows "\<exists>res' tr ctx' A'. perm_engine_evaluate L hm os now later ctx (Some ec) res want h A =
           Some (SSO_OK, res', tr, Some ec, h, ctx', A')"
  using assms
  by (cases "l2_hit E (ec_user_id ec) (hash_params ec) now")
     (auto simp: perm_engine_evaluate_def perm_engine_evaluate_internal_def Let_def split_beta)



text \<open>The request \<^verbatim>\<open>perm_check_data\<close> builds for a user and a resource type, without a record.\<close>

definition data_request :: "user \<Rightarrow> string \<Rightarrow> eval_context" where
  "data_request u rt = \<lparr>ec_user = u, ec_user_id = u_id u, ec_role_ids = [], ec_group_ids = [],
     params = put_word OFF_FIELD_FILTER_COUNT 0 (put_word OFF_FIELD_FILTER 0
       (put_str OFF_RESOURCE_TYPE 64 rt (replicate PARAMS_SIZE NUL))), environment = []\<rparr>"

text \<open>A data check answered from the result cache loses the field filter. The decision is repeated
  but the filter of the policy that made it is not: a caller that asked for the filter gets a NULL
  pointer and a count of zero, as for an unrestricted record.\<close>

theorem perm_check_data_filter_lost:
  assumes "user_get_by_id ctx (user_mgr ctx) uid = (SSO_OK, Some u)" "perm_engine ctx = Some E"
    and "l2_hit E (u_id u) (hash_params (data_request u rt)) now"
    and "re_allowed (result_cache E (cache_idx (hash_params (data_request u rt))))"
  shows "\<exists>ctx' A'. perm_check_data L hm os now later ctx uid (Some rt) None b True h A =
           Some ((SSO_OK, True, h, ctx', A'), Some (0, 0))"
proof -
  let ?ec = "data_request u rt"
  have "ec_user_id ?ec = u_id u" by (simp add: data_request_def)
  then have "\<exists>tr ctx' A'. perm_engine_evaluate L hm os now later ctx (Some ?ec) b False h A =
      Some (SSO_OK, True, tr, Some ?ec, h, ctx', A')"
    using evaluate_cached [OF assms(2), of ?ec now L hm os later b False h A] assms(3,4) by auto
  then obtain tr ctx' A' where ev: "perm_engine_evaluate L hm os now later ctx (Some ?ec) b False h A =
      Some (SSO_OK, True, tr, Some ?ec, h, ctx', A')" by blast
  let ?p = "put_word OFF_FIELD_FILTER_COUNT 0 (put_word OFF_FIELD_FILTER 0 (params ?ec))"
  have len: "length (params ?ec) = PARAMS_SIZE" by (simp add: data_request_def put_word_def put_str_def)
  have rec: "word_at OFF_RECORD (params ?ec) = 0" and filt: "word_at OFF_FIELD_FILTER (params ?ec) = 0"
    and cnt: "word_at OFF_FIELD_FILTER_COUNT (params ?ec) = 0"
    by (simp_all add: data_request_def put_word_def put_str_def word_at_put_bytes_below word_at_put_bytes_above
        word_at_put_word [unfolded put_word_def])
  have "\<exists>c. eval_context_destroy (?ec\<lparr>params := ?p\<rparr>) h = Some (c, h)"
    by (rule eval_context_destroy_zero)
       (use len rec filt in \<open>simp_all add: put_word_def word_at_put_bytes_below word_at_put_bytes_above
          word_at_put_word [unfolded put_word_def]\<close>)
  then obtain c where d: "eval_context_destroy (?ec\<lparr>params := ?p\<rparr>) h = Some (c, h)" by blast
  have init: "snd (eval_context_init True (Some u)) =
      Some (?ec\<lparr>params := replicate PARAMS_SIZE NUL\<rparr>)" by (simp add: eval_context_init_def data_request_def)
  have req: "?ec\<lparr>params := put_word OFF_FIELD_FILTER_COUNT 0 (put_word OFF_FIELD_FILTER 0
      (put_str OFF_RESOURCE_TYPE 64 rt (replicate PARAMS_SIZE NUL)))\<rparr> = ?ec" by (simp add: data_request_def)
  show ?thesis
    using assms(1) by (simp add: perm_check_data_def init req ev d filt cnt)
qed

theorem perm_check_data_filter_lost_witness:
  "let E = l2_store (empty_engine\<lparr>strategies := builtin_strategies\<rparr>) 1 (hash_params (data_request sample_user ''order'')) True 5
   in \<exists>ctx' A'. perm_check_data engine_libs sample_mac sample_os 7 9
        ((engine_context (mem_open\<lparr>users := [sample_user]\<rparr>))\<lparr>perm_engine := Some E\<rparr>) 1 (Some ''order'') None False True heap_empty
        audit_initial = Some ((SSO_OK, True, heap_empty, ctx', A'), Some (0, 0))"
proof -
  let ?r = "data_request sample_user ''order''"
  let ?E = "l2_store (empty_engine\<lparr>strategies := builtin_strategies\<rparr>) 1 (hash_params ?r) True 5 :: mem_priv permission_engine"
  let ?ctx = "(engine_context (mem_open\<lparr>users := [sample_user]\<rparr>))\<lparr>perm_engine := Some ?E\<rparr>"
  have u: "u_id sample_user = 1" by (simp add: sample_user_def)
  have g: "user_get_by_id ?ctx (user_mgr ?ctx) 1 = (SSO_OK, Some sample_user)"
    by (simp add: user_get_by_id_def sb_fn_def mem_user_get_by_id_def get_where_def u)
  have "l2_hit ?E (u_id sample_user) (hash_params ?r) 7" by (simp add: l2_hit_def l2_store_def u)
  moreover have "re_allowed (result_cache ?E (cache_idx (hash_params ?r)))" by (simp add: l2_store_def)
  ultimately show ?thesis
    using perm_check_data_filter_lost [OF g, of ?E "''order''" 7] by (simp add: Let_def)
qed

end
