(* ===== verification/Json_Writer.thy ===== *)
theory Json_Writer
  imports Libc_Numbers
begin

text \<open>
  The JSON writer of \<^verbatim>\<open>src/yyjson.c\<close> as the server calls it, \<^verbatim>\<open>yyjson_mut_write\<close> with no flags: a
  minified document of objects, arrays, strings and unsigned numbers. A string that is not valid
  UTF-8 makes the writer return NULL, \<open>None\<close>. The mutable document is the value it describes.
\<close>

section \<open>Strings\<close>

text \<open>The table \<^verbatim>\<open>enc_table_cpy\<close>: how a byte is written. Half the entry is the number of bytes of the
  sequence that starts there.\<close>

definition enc_table_cpy :: "nat \<Rightarrow> nat" where
  "enc_table_cpy c =
     (if c < 0x20 then (if c \<in> {0x08, 0x09, 0x0A, 0x0C, 0x0D} then 2 else 3)
      else if c = 0x22 \<or> c = 0x5C then 2
      else if c < 0x80 then 0
      else if c < 0xC0 then 1
      else if c < 0xE0 then 4
      else if c < 0xF0 then 6
      else if c < 0xF8 then 8
      else 1)"

definition esc_single_char :: "nat \<Rightarrow> string" where
  "esc_single_char c =
     [CHR 0x5C,
      if c = 0x08 then CHR ''b'' else if c = 0x09 then CHR ''t'' else if c = 0x0A then CHR ''n''
      else if c = 0x0C then CHR ''f'' else if c = 0x0D then CHR ''r'' else char_of c]"

definition upper_hex_digit :: "nat \<Rightarrow> char" where
  "upper_hex_digit n = (if n < 10 then char_of (48 + n) else char_of (55 + n))"

definition esc_hex_char :: "nat \<Rightarrow> string" where
  "esc_hex_char c = [CHR 0x5C, CHR ''u'', CHR ''0'', CHR ''0'', upper_hex_digit (c div 16), upper_hex_digit (c mod 16)]"

definition is_utf8_seq2 :: "nat \<Rightarrow> nat \<Rightarrow> bool" where
  "is_utf8_seq2 a b \<longleftrightarrow> a AND 0xE0 = 0xC0 \<and> b AND 0xC0 = 0x80 \<and> a AND 0x1E \<noteq> 0"

definition is_utf8_seq3 :: "nat \<Rightarrow> nat \<Rightarrow> nat \<Rightarrow> bool" where
  "is_utf8_seq3 a b c \<longleftrightarrow>
     a AND 0xF0 = 0xE0 \<and> b AND 0xC0 = 0x80 \<and> c AND 0xC0 = 0x80 \<and>
     \<not> (a AND 0x0F = 0 \<and> b AND 0x20 = 0) \<and> \<not> (a AND 0x0F = 0x0D \<and> b AND 0x20 = 0x20)"

definition is_utf8_seq4 :: "nat \<Rightarrow> nat \<Rightarrow> nat \<Rightarrow> nat \<Rightarrow> bool" where
  "is_utf8_seq4 a b c d \<longleftrightarrow>
     a AND 0xF8 = 0xF0 \<and> b AND 0xC0 = 0x80 \<and> c AND 0xC0 = 0x80 \<and> d AND 0xC0 = 0x80 \<and>
     \<not> (a AND 0x07 = 0 \<and> b AND 0x30 = 0) \<and> (a AND 0x04 = 0 \<or> a AND 0x03 = 0 \<and> b AND 0x30 = 0)"

fun write_bytes :: "char list \<Rightarrow> string option" where
  "write_bytes [] = Some []"
| "write_bytes (x # xs) =
     (let a = of_char x; e = enc_table_cpy a
      in if e = 0 then map_option ((#) x) (write_bytes xs)
         else if e = 2 then map_option ((@) (esc_single_char a)) (write_bytes xs)
         else if e = 3 then map_option ((@) (esc_hex_char a)) (write_bytes xs)
         else if e = 4 then
           (case xs of
              y # ys \<Rightarrow> if is_utf8_seq2 a (of_char y) then map_option ((@) [x, y]) (write_bytes ys) else None
            | _ \<Rightarrow> None)
         else if e = 6 then
           (case xs of
              y # z # zs \<Rightarrow> if is_utf8_seq3 a (of_char y) (of_char z)
                            then map_option ((@) [x, y, z]) (write_bytes zs) else None
            | _ \<Rightarrow> None)
         else if e = 8 then
           (case xs of
              y # z # v # vs \<Rightarrow> if is_utf8_seq4 a (of_char y) (of_char z) (of_char v)
                                then map_option ((@) [x, y, z, v]) (write_bytes vs) else None
            | _ \<Rightarrow> None)
         else None)"

definition write_str :: "string \<Rightarrow> string option" where
  "write_str s = map_option (\<lambda>t. CHR 0x22 # t @ [CHR 0x22]) (write_bytes s)"

section \<open>Documents\<close>

datatype jw = JwStr string | JwUint "64 word" | JwArr "jw list" | JwObj "(string \<times> jw) list"

text \<open>Each value is followed by a comma; the end of a container overwrites the last one.\<close>

fun write_val :: "jw \<Rightarrow> string option" and write_elems :: "jw list \<Rightarrow> string option"
  and write_members :: "(string \<times> jw) list \<Rightarrow> string option" where
  "write_val (JwStr s) = write_str s"
| "write_val (JwUint n) = Some (dec (unat n))"
| "write_val (JwArr vs) = map_option (\<lambda>t. CHR ''['' # butlast t @ [CHR '']'']) (write_elems vs)"
| "write_val (JwObj ms) = map_option (\<lambda>t. CHR ''{'' # butlast t @ [CHR ''}'']) (write_members ms)"
| "write_elems [] = Some []"
| "write_elems (v # vs) = do { t \<leftarrow> write_val v; r \<leftarrow> write_elems vs; Some (t @ CHR '','' # r) }"
| "write_members [] = Some []"
| "write_members ((k, v) # ms) = do {
     q \<leftarrow> write_str k; t \<leftarrow> write_val v; r \<leftarrow> write_members ms; Some (q @ CHR '':'' # t @ CHR '','' # r)
   }"

definition yyjson_mut_write :: "jw \<Rightarrow> string option" where
  "yyjson_mut_write root = write_val root"

section \<open>Plain text\<close>

text \<open>Text the writer copies: printable ASCII without quotes and backslashes.\<close>

definition plain_char :: "char \<Rightarrow> bool" where
  "plain_char c \<longleftrightarrow> 0x20 \<le> (of_char c :: nat) \<and> (of_char c :: nat) < 0x80 \<and> c \<noteq> CHR 0x22 \<and> c \<noteq> CHR 0x5C"

definition plain_text :: "string \<Rightarrow> bool" where
  "plain_text s \<longleftrightarrow> (\<forall>c \<in> set s. plain_char c)"

lemma plain_enc: "plain_char c \<Longrightarrow> enc_table_cpy (of_char c) = 0"
proof -
  assume p: "plain_char c"
  then have "(of_char c :: nat) \<noteq> of_char (CHR 0x22)" "(of_char c :: nat) \<noteq> of_char (CHR 0x5C)"
    unfolding of_char_eq_iff by (simp_all add: plain_char_def)
  with p show ?thesis by (auto simp: plain_char_def enc_table_cpy_def)
qed

lemma write_bytes_plain: "plain_text s \<Longrightarrow> write_bytes s = Some s"
  by (induction s) (auto simp: plain_text_def plain_enc Let_def)

lemma write_str_plain: "plain_text s \<Longrightarrow> write_str s = Some (CHR 0x22 # s @ [CHR 0x22])"
  by (simp add: write_str_def write_bytes_plain)

end
