(* ===== verification/Json_Reader.thy ===== *)
theory Json_Reader
  imports Json_Value Json_Writer
begin

text \<open>
  The JSON reader of \<^verbatim>\<open>src/yyjson.c\<close> with the flags the server uses, none or \<^verbatim>\<open>YYJSON_READ_INSITU\<close>. The
  buffer is the list of its bytes; behind its end the reader sees the zero padding. The state machine
  of \<^verbatim>\<open>read_root_minify\<close> is a step function on the label, the open containers and the rest of the
  buffer. \<^verbatim>\<open>read_root_pretty\<close> is the same machine with short cuts for indentation. The conversion of a
  number's text to a double is an argument; \<open>None\<close> is a number that is infinite as a double.
\<close>

section \<open>Characters\<close>

definition char_is_space :: "char \<Rightarrow> bool" where
  "char_is_space c \<longleftrightarrow> c \<in> {CHR '' '', CHR 0x09, CHR 0x0A, CHR 0x0D}"

definition char_is_num :: "char \<Rightarrow> bool" where
  "char_is_num c \<longleftrightarrow> is_digit c \<or> c \<in> {CHR ''.'', CHR ''-'', CHR ''+''}"

definition char_is_ascii_skip :: "char \<Rightarrow> bool" where
  "char_is_ascii_skip c \<longleftrightarrow> 0x20 \<le> (of_char c :: nat) \<and> (of_char c :: nat) < 0x80 \<and> c \<noteq> CHR 0x22 \<and> c \<noteq> CHR 0x5C"

definition char_is_ctn :: "char \<Rightarrow> bool" where
  "char_is_ctn c \<longleftrightarrow> c = CHR ''['' \<or> c = CHR ''{''"

definition hex_conv :: "char \<Rightarrow> nat option" where
  "hex_conv ch =
     (let c = of_char ch
      in if 48 \<le> c \<and> c \<le> 57 then Some (c - 48) else if 65 \<le> c \<and> c \<le> 70 then Some (c - 55)
         else if 97 \<le> c \<and> c \<le> 102 then Some (c - 87) else None)"

definition hex_load_4 :: "char list \<Rightarrow> nat option" where
  "hex_load_4 s =
     (case s of
        c0 # c1 # c2 # c3 # _ \<Rightarrow> do {
          a \<leftarrow> hex_conv c0; b \<leftarrow> hex_conv c1; c \<leftarrow> hex_conv c2; d \<leftarrow> hex_conv c3;
          Some (((a * 16 + b) * 16 + c) * 16 + d)
        }
      | _ \<Rightarrow> None)"

section \<open>Strings\<close>

definition bytes_of :: "nat list \<Rightarrow> string" where
  "bytes_of = map char_of"

text \<open>After \<^verbatim>\<open>\u\<close>: the bytes of the character, and the rest.\<close>

definition read_uni_esc :: "char list \<Rightarrow> (string \<times> char list) option" where
  "read_uni_esc s = do {
     hi \<leftarrow> hex_load_4 s;
     let r = drop 4 s;
     if hi AND 0xF800 \<noteq> 0xD800
     then Some
       (if hi \<ge> 0x800 then bytes_of [0xE0 OR drop_bit 12 hi, 0x80 OR (drop_bit 6 hi AND 0x3F), 0x80 OR (hi AND 0x3F)]
        else if hi \<ge> 0x80 then bytes_of [0xC0 OR drop_bit 6 hi, 0x80 OR (hi AND 0x3F)]
        else bytes_of [hi], r)
     else if hi AND 0xFC00 \<noteq> 0xD800 then None
     else if take 2 r \<noteq> [CHR 0x5C, CHR ''u''] then None
     else do {
       lo \<leftarrow> hex_load_4 (drop 2 r);
       if lo AND 0xFC00 \<noteq> 0xDC00 then None
       else let uni = (push_bit 10 (hi - 0xD800) OR (lo - 0xDC00)) + 0x10000
            in Some (bytes_of [0xF0 OR drop_bit 18 uni, 0x80 OR (drop_bit 12 uni AND 0x3F),
                               0x80 OR (drop_bit 6 uni AND 0x3F), 0x80 OR (uni AND 0x3F)], drop 6 r)
     }
   }"

definition read_esc_char :: "char \<Rightarrow> char option" where
  "read_esc_char e =
     map_of [(CHR 0x22, CHR 0x22), (CHR 0x5C, CHR 0x5C), (CHR ''/'', CHR ''/''), (CHR ''b'', CHR 0x08), (CHR ''f'', CHR 0x0C),
             (CHR ''n'', CHR 0x0A), (CHR ''r'', CHR 0x0D), (CHR ''t'', CHR 0x09)] e"

text \<open>The length of the UTF-8 sequence at the start, 0 if there is none.\<close>

definition utf8_len :: "char list \<Rightarrow> nat" where
  "utf8_len s =
     (let b = map (of_char :: char \<Rightarrow> nat) (take 4 s @ replicate 4 NUL)
      in if is_utf8_seq3 (b ! 0) (b ! 1) (b ! 2) then 3
         else if is_utf8_seq2 (b ! 0) (b ! 1) then 2
         else if is_utf8_seq4 (b ! 0) (b ! 1) (b ! 2) (b ! 3) then 4 else 0)"

lemma length_read_uni_esc: "read_uni_esc s = Some (u, r) \<Longrightarrow> length r \<le> length s"
  by (auto simp: read_uni_esc_def Let_def bind_eq_Some_conv split: if_splits)

function read_chars :: "char list \<Rightarrow> (string \<times> char list) option" where
  "read_chars s =
     (if s = [] then None
      else if hd s = CHR 0x22 then Some ([], tl s)
      else if char_is_ascii_skip (hd s) then map_option (map_prod ((#) (hd s)) id) (read_chars (tl s))
      else if hd s = CHR 0x5C then
        (case tl s of
           [] \<Rightarrow> None
         | e # t \<Rightarrow>
             if e = CHR ''u'' then
               (case read_uni_esc t of
                  None \<Rightarrow> None
                | Some (u, r) \<Rightarrow> map_option (map_prod ((@) u) id) (read_chars r))
             else
               (case read_esc_char e of
                  None \<Rightarrow> None
                | Some x \<Rightarrow> map_option (map_prod ((#) x) id) (read_chars t)))
      else
        (let n = utf8_len s
         in if n = 0 then None else map_option (map_prod ((@) (take n s)) id) (read_chars (drop n s))))"
  by pat_completeness auto
termination
  by (relation "measure length") (auto simp: neq_Nil_conv dest: length_read_uni_esc)

declare read_chars.simps [simp del]

lemma length_read_chars: "read_chars s = Some (v, r) \<Longrightarrow> length r < length s"
proof (induction s arbitrary: v r rule: read_chars.induct)
  case (1 s)
  show ?case
    using 1(5) 1(1-4) length_read_uni_esc
    by (subst (asm) read_chars.simps)
      (fastforce simp: neq_Nil_conv Let_def split: if_splits list.splits option.splits)
qed

section \<open>Numbers\<close>

definition scan_frac :: "char list \<Rightarrow> char list option" where
  "scan_frac s =
     (if s \<noteq> [] \<and> hd s = CHR ''.''
      then if takeWhile is_digit (tl s) = [] then None else Some (dropWhile is_digit (tl s))
      else Some s)"

definition scan_exp :: "char list \<Rightarrow> char list option" where
  "scan_exp s =
     (if s \<noteq> [] \<and> (hd s = CHR ''e'' \<or> hd s = CHR ''E'')
      then let t = (if tl s \<noteq> [] \<and> (hd (tl s) = CHR ''-'' \<or> hd (tl s) = CHR ''+'') then tl (tl s) else tl s)
           in if takeWhile is_digit t = [] then None else Some (dropWhile is_digit t)
      else Some s)"

definition read_num :: "(string \<Rightarrow> dbl option) \<Rightarrow> char list \<Rightarrow> (json \<times> char list) option" where
  "read_num D s =
     (let s1 = (if s \<noteq> [] \<and> hd s = CHR ''-'' then tl s else s);
          ds = takeWhile is_digit s1
      in if ds = [] \<or> (hd ds = CHR ''0'' \<and> length ds > 1) then None
         else do {
           r1 \<leftarrow> scan_frac (dropWhile is_digit s1);
           r \<leftarrow> scan_exp r1;
           d \<leftarrow> D (take (length s - length r) s);
           Some (JNum d, r)
         })"

lemma length_read_num: "read_num D s = Some (v, r) \<Longrightarrow> length r < length s"
proof -
  have dw: "length (dropWhile is_digit x) \<le> length x" for x by (rule length_dropWhile_le)
  have f: "scan_frac x = Some y \<Longrightarrow> length y \<le> length x" for x y
    using dw [of "tl x"] by (auto simp: scan_frac_def split: if_splits)
  have e: "scan_exp x = Some y \<Longrightarrow> length y \<le> length x" for x y
    using dw [of "tl x"] dw [of "tl (tl x)"] by (auto simp: scan_exp_def Let_def split: if_splits)
  have d: "length (dropWhile is_digit x) < length x" if "takeWhile is_digit x \<noteq> []" for x
    using that dw [of "tl x"] by (cases x) (auto split: if_splits)
  assume "read_num D s = Some (v, r)"
  then obtain s1 r1 where s1: "s1 = (if s \<noteq> [] \<and> hd s = CHR ''-'' then tl s else s)" "takeWhile is_digit s1 \<noteq> []"
      and r: "scan_frac (dropWhile is_digit s1) = Some r1" "scan_exp r1 = Some r"
    by (auto simp: read_num_def Let_def bind_eq_Some_conv split: if_splits)
  have "length s1 \<le> length s" using s1(1) by auto
  then show ?thesis using d [OF s1(2)] f [OF r(1)] e [OF r(2)] by linarith
qed

section \<open>Documents\<close>

text \<open>A scalar at the start of the text, for every position where the machine reads a value: number, string or
  literal. \<open>None\<close> is a failure.\<close>

definition read_scalar :: "(string \<Rightarrow> dbl option) \<Rightarrow> char list \<Rightarrow> (json \<times> char list) option" where
  "read_scalar D s =
     (if s = [] then None
      else if char_is_num (hd s) then read_num D s
      else if hd s = CHR 0x22 then map_option (map_prod JStr id) (read_chars (tl s))
      else if prefix ''true'' s then Some (JBool True, drop 4 s)
      else if prefix ''false'' s then Some (JBool False, drop 5 s)
      else if prefix ''null'' s then Some (JNull, drop 4 s)
      else None)"

lemma length_read_scalar: "read_scalar D s = Some (v, r) \<Longrightarrow> length r < length s"
  by (cases s) (auto simp: read_scalar_def split: if_splits dest: length_read_num length_read_chars)

text \<open>An open container with what it holds so far, last first, and for an object the last key read; the labels of the
  machine; and what a step leads to.\<close>

datatype ctn = CArr "json list" | CObj "(string \<times> json) list" string

datatype label = Arr_val_begin | Arr_val_end | Obj_key_begin | Obj_key_end | Obj_val_begin | Obj_val_end

datatype outcome = Fail | Done json "char list" | Goto label ctn "ctn list" "char list"

fun add_val :: "json \<Rightarrow> ctn \<Rightarrow> ctn" where
  "add_val v (CArr vs) = CArr (v # vs)"
| "add_val v (CObj ms k) = CObj ((k, v) # ms) k"

fun ctn_value :: "ctn \<Rightarrow> json" where
  "ctn_value (CArr vs) = JArr (rev vs)"
| "ctn_value (CObj ms k) = JObj (rev ms)"

fun ctn_empty :: "ctn \<Rightarrow> bool" where
  "ctn_empty (CArr vs) \<longleftrightarrow> vs = []"
| "ctn_empty (CObj ms k) \<longleftrightarrow> ms = []"

fun val_begin :: "ctn \<Rightarrow> label" where
  "val_begin (CArr _) = Arr_val_begin"
| "val_begin (CObj _ _) = Obj_val_begin"

fun val_end :: "ctn \<Rightarrow> label" where
  "val_end (CArr _) = Arr_val_end"
| "val_end (CObj _ _) = Obj_val_end"

definition close_ctn :: "ctn \<Rightarrow> ctn list \<Rightarrow> char list \<Rightarrow> outcome" where
  "close_ctn c cs s =
     (case cs of [] \<Rightarrow> Done (ctn_value c) s | p # ps \<Rightarrow> Goto (val_end p) (add_val (ctn_value c) p) ps s)"

definition read_value :: "(string \<Rightarrow> dbl option) \<Rightarrow> ctn \<Rightarrow> ctn list \<Rightarrow> char list \<Rightarrow> outcome" where
  "read_value D c cs s =
     (if hd s = CHR ''{'' then Goto Obj_key_begin (CObj [] []) (c # cs) (tl s)
      else if hd s = CHR ''['' then Goto Arr_val_begin (CArr []) (c # cs) (tl s)
      else case read_scalar D s of None \<Rightarrow> Fail | Some (v, r) \<Rightarrow> Goto (val_end c) (add_val v c) cs r)"

definition json_step :: "(string \<Rightarrow> dbl option) \<Rightarrow> label \<Rightarrow> ctn \<Rightarrow> ctn list \<Rightarrow> char list \<Rightarrow> outcome" where
  "json_step D l c cs s =
     (if s = [] then Fail
      else if char_is_space (hd s) then Goto l c cs (tl s)
      else case l of
        Arr_val_begin \<Rightarrow>
          if hd s = CHR '']'' then (if ctn_empty c then close_ctn c cs (tl s) else Fail) else read_value D c cs s
      | Arr_val_end \<Rightarrow>
          if hd s = CHR '','' then Goto Arr_val_begin c cs (tl s)
          else if hd s = CHR '']'' then close_ctn c cs (tl s) else Fail
      | Obj_key_begin \<Rightarrow>
          if hd s = CHR 0x22 then
            (case (read_chars (tl s), c) of (Some (k, r), CObj ms _) \<Rightarrow> Goto Obj_key_end (CObj ms k) cs r | _ \<Rightarrow> Fail)
          else if hd s = CHR ''}'' then (if ctn_empty c then close_ctn c cs (tl s) else Fail)
          else Fail
      | Obj_key_end \<Rightarrow> if hd s = CHR '':'' then Goto Obj_val_begin c cs (tl s) else Fail
      | Obj_val_begin \<Rightarrow> read_value D c cs s
      | Obj_val_end \<Rightarrow>
          if hd s = CHR '','' then Goto Obj_key_begin c cs (tl s)
          else if hd s = CHR ''}'' then close_ctn c cs (tl s) else Fail)"

lemma length_json_step: "json_step D l c cs s = Goto l' c' cs' s' \<Longrightarrow> length s' < length s"
  by (cases s) (auto simp: json_step_def close_ctn_def read_value_def dest: length_read_scalar length_read_chars
    split: if_splits label.splits option.splits list.splits ctn.splits prod.splits)

function read_loop :: "(string \<Rightarrow> dbl option) \<Rightarrow> label \<Rightarrow> ctn \<Rightarrow> ctn list \<Rightarrow> char list \<Rightarrow> (json \<times> char list) option" where
  "read_loop D l c cs s =
     (case json_step D l c cs s of
        Fail \<Rightarrow> None
      | Done v r \<Rightarrow> Some (v, r)
      | Goto l' c' cs' s' \<Rightarrow> read_loop D l' c' cs' s')"
  by pat_completeness auto
termination by (relation "measure (\<lambda>(_, _, _, _, s). length s)") (auto dest: length_json_step)

declare read_loop.simps [simp del]

definition doc_end :: "(json \<times> char list) option \<Rightarrow> json option" where
  "doc_end r = (case r of Some (v, s) \<Rightarrow> if dropWhile char_is_space s = [] then Some v else None | None \<Rightarrow> None)"

definition yyjson_read_opts :: "(string \<Rightarrow> dbl option) \<Rightarrow> char list \<Rightarrow> json option" where
  "yyjson_read_opts D dat =
     (let s = dropWhile char_is_space dat
      in if s = [] then None
         else if hd s = CHR ''{'' then doc_end (read_loop D Obj_key_begin (CObj [] []) [] (tl s))
         else if hd s = CHR ''['' then doc_end (read_loop D Arr_val_begin (CArr []) [] (tl s))
         else doc_end (read_scalar D s))"

section \<open>Reading what was written\<close>

lemma read_chars_skip: "char_is_ascii_skip c \<Longrightarrow> read_chars (c # s) = map_option (map_prod ((#) c) id) (read_chars s)"
  by (subst read_chars.simps) (simp add: char_is_ascii_skip_def)

lemma read_chars_quote: "read_chars (CHR 0x22 # s) = Some ([], s)"
  by (subst read_chars.simps) simp

lemma read_chars_esc:
  "read_esc_char e = Some x \<Longrightarrow> read_chars (CHR 0x5C # e # s) = map_option (map_prod ((#) x) id) (read_chars s)"
  by (subst read_chars.simps) (auto simp: char_is_ascii_skip_def read_esc_char_def)

lemma read_chars_uni:
  "read_uni_esc t = Some (u, r) \<Longrightarrow> read_chars (CHR 0x5C # CHR ''u'' # t) = map_option (map_prod ((@) u) id) (read_chars r)"
  by (subst read_chars.simps) (simp add: char_is_ascii_skip_def)

lemma read_chars_seq:
  assumes "0x80 \<le> (of_char c :: nat)" "utf8_len (c # s) = Suc n"
  shows "read_chars (c # s) = map_option (map_prod ((@) (c # take n s)) id) (read_chars (drop n s))"
  using assms by (subst read_chars.simps) (auto simp: char_is_ascii_skip_def)

lemma and_sub: "(a :: nat) AND m = x \<Longrightarrow> m AND n = k \<Longrightarrow> a AND k = x AND n"
  by (auto simp: and.assoc)

lemma utf8_len_2:
  assumes "is_utf8_seq2 (of_char x) (of_char y)" shows "utf8_len (x # y # s) = 2"
proof -
  have "of_char x AND 0xF0 \<noteq> (0xE0 :: nat)"
    using assms and_sub [of "of_char x" "0xF0" "0xE0" "0xE0" "0xE0"] by (auto simp: is_utf8_seq2_def)
  then show ?thesis using assms by (simp add: utf8_len_def is_utf8_seq3_def)
qed

lemma utf8_len_3:
  "is_utf8_seq3 (of_char x) (of_char y) (of_char z) \<Longrightarrow> utf8_len (x # y # z # s) = 3"
  by (simp add: utf8_len_def)

lemma utf8_len_4:
  assumes "is_utf8_seq4 (of_char x) (of_char y) (of_char z) (of_char v)" shows "utf8_len (x # y # z # v # s) = 4"
proof -
  have a: "of_char x AND 0xF8 = (0xF0 :: nat)" using assms by (simp add: is_utf8_seq4_def)
  have "of_char x AND 0xF0 \<noteq> (0xE0 :: nat)" "of_char x AND 0xE0 \<noteq> (0xC0 :: nat)"
    using and_sub [OF a, of "0xF0" "0xF0"] and_sub [OF a, of "0xE0" "0xE0"] by auto
  then show ?thesis using assms by (simp add: utf8_len_def is_utf8_seq3_def is_utf8_seq2_def)
qed

lemma read_single_esc:
  assumes "enc_table_cpy (of_char x) = 2"
  shows "\<exists>e. esc_single_char (of_char x) = [CHR 0x5C, e] \<and> read_esc_char e = Some x"
proof -
  have "(of_char x :: nat) \<in> {0x08, 0x09, 0x0A, 0x0C, 0x0D, 0x22, 0x5C}"
    using assms by (auto simp: enc_table_cpy_def split: if_splits)
  then have "x \<in> char_of ` {0x08, 0x09, 0x0A, 0x0C, 0x0D, 0x22, 0x5C :: nat}"
    by (metis char_of_char image_eqI)
  moreover have c: "char_of (0x08 :: nat) = CHR 0x08" "char_of (0x09 :: nat) = CHR 0x09" "char_of (0x0A :: nat) = CHR 0x0A"
    "char_of (0x0C :: nat) = CHR 0x0C" "char_of (0x0D :: nat) = CHR 0x0D" "char_of (0x22 :: nat) = CHR 0x22"
    "char_of (0x5C :: nat) = CHR 0x5C"
    by (simp_all add: char_of_eq_iff)
  ultimately have "x \<in> {CHR 0x08, CHR 0x09, CHR 0x0A, CHR 0x0C, CHR 0x0D, CHR 0x22, CHR 0x5C}" by simp
  then show ?thesis by (elim insertE emptyE) (simp_all add: esc_single_char_def read_esc_char_def c)
qed

lemma hex_conv_digit: "n < 16 \<Longrightarrow> hex_conv (upper_hex_digit n) = Some n"
  by (auto simp: hex_conv_def upper_hex_digit_def of_char_of)

lemma read_hex_esc:
  assumes "enc_table_cpy (of_char x) = 3"
  shows "\<exists>t. esc_hex_char (of_char x) = CHR 0x5C # CHR ''u'' # t \<and> read_uni_esc (t @ r) = Some ([x], r)"
proof -
  have a: "(of_char x :: nat) < 0x20" using assms by (auto simp: enc_table_cpy_def split: if_splits)
  have z: "hex_conv (CHR ''0'') = Some 0" by (simp add: hex_conv_def)
  have h: "hex_load_4 ([CHR ''0'', CHR ''0'', upper_hex_digit (of_char x div 16), upper_hex_digit (of_char x mod 16)] @ r)
      = Some (of_char x)"
    using a by (simp add: hex_load_4_def z hex_conv_digit)
  have "(of_char x :: nat) AND 0xF800 \<noteq> 0xD800" 
    using a and_sub [of "of_char x" 31 "of_char x" "0xF800" 0] take_bit_nat_eq_self [of "of_char x" 5]
    by (simp add: take_bit_eq_mask mask_eq_exp_minus_1)
  then show ?thesis using a h by (simp add: esc_hex_char_def read_uni_esc_def Let_def bytes_of_def)
qed

lemma read_chars_written:
  "write_bytes s = Some t \<Longrightarrow> read_chars (t @ CHR 0x22 # r) = Some (s, r)"
proof (induction s arbitrary: t rule: write_bytes.induct)
  case 1
  then show ?case by (simp add: read_chars_quote)
next
  case (2 x xs)
  let ?a = "of_char x :: nat"
  let ?e = "enc_table_cpy ?a"
  consider (copy) "?e = 0" | (single) "?e = 2" | (hex) "?e = 3" | (two) "?e = 4" | (three) "?e = 6" | (four) "?e = 8"
    using 2(7) by (auto simp: Let_def split: if_splits)
  then show ?case
  proof cases
    case copy
    then have "char_is_ascii_skip x" by (auto simp: enc_table_cpy_def char_is_ascii_skip_def split: if_splits)
    then show ?thesis using 2(1) 2(7) copy by (auto simp: read_chars_skip Let_def)
  next
    case single
    then show ?thesis using 2(2) 2(7) read_single_esc [OF single] by (auto simp: read_chars_esc Let_def)
  next
    case hex
    obtain u where u: "write_bytes xs = Some u" "t = esc_hex_char ?a @ u" using 2(7) hex by (auto simp: Let_def)
    obtain w where "esc_hex_char ?a = CHR 0x5C # CHR ''u'' # w"
        "read_uni_esc (w @ u @ CHR 0x22 # r) = Some ([x], u @ CHR 0x22 # r)"
      using read_hex_esc [OF hex, of "u @ CHR 0x22 # r"] by blast
    then show ?thesis using 2(3) u hex by (simp add: read_chars_uni)
  next
    case two
    then have a: "0x80 \<le> ?a" by (auto simp: enc_table_cpy_def split: if_splits)
    obtain y ys u where xs: "xs = y # ys" "is_utf8_seq2 ?a (of_char y)" "write_bytes ys = Some u" "t = [x, y] @ u"
      using 2(7) two by (cases xs) (auto split: if_splits)
    have "read_chars (u @ CHR 0x22 # r) = Some (ys, r)" using two xs by (intro 2(4)) auto
    then show ?thesis using read_chars_seq [OF a, of "y # u @ CHR 0x22 # r" 1] utf8_len_2 [OF xs(2)] xs by simp
  next
    case three
    then have a: "0x80 \<le> ?a" by (auto simp: enc_table_cpy_def split: if_splits)
    obtain y z zs u where xs: "xs = y # z # zs" "is_utf8_seq3 ?a (of_char y) (of_char z)" "write_bytes zs = Some u"
        "t = [x, y, z] @ u"
      using 2(7) three by (auto split: if_splits list.splits)
    have "read_chars (u @ CHR 0x22 # r) = Some (zs, r)" using three xs by (intro 2(5)) auto
    then show ?thesis using read_chars_seq [OF a, of "y # z # u @ CHR 0x22 # r" 2] utf8_len_3 [OF xs(2)] xs by simp
  next
    case four
    then have a: "0x80 \<le> ?a" by (auto simp: enc_table_cpy_def split: if_splits)
    obtain y z v vs u where xs: "xs = y # z # v # vs" "is_utf8_seq4 ?a (of_char y) (of_char z) (of_char v)"
        "write_bytes vs = Some u" "t = [x, y, z, v] @ u"
      using 2(7) four by (auto split: if_splits list.splits)
    have "read_chars (u @ CHR 0x22 # r) = Some (vs, r)" using four xs by (intro 2(6)) auto
    then show ?thesis using read_chars_seq [OF a, of "y # z # v # u @ CHR 0x22 # r" 3] utf8_len_4 [OF xs(2)] xs by simp
  qed
qed

text \<open>The value a written document describes, with the doubles of its numbers.\<close>

fun json_of :: "(nat \<Rightarrow> dbl) \<Rightarrow> jw \<Rightarrow> json" where
  "json_of num (JwStr s) = JStr s"
| "json_of num (JwUint n) = JNum (num (unat n))"
| "json_of num (JwArr vs) = JArr (map (json_of num) vs)"
| "json_of num (JwObj ms) = JObj (map (\<lambda>(k, v). (k, json_of num v)) ms)"

definition at_stop :: "char list \<Rightarrow> bool" where
  "at_stop r \<longleftrightarrow> r = [] \<or> hd r \<in> {CHR '','', CHR '']'', CHR ''}''}"

lemma dec_no_zero: "n \<noteq> 0 \<Longrightarrow> hd (dec n) \<noteq> CHR ''0''"
proof (induction n rule: dec.induct)
  case (1 n)
  show ?case
  proof (cases "n < 10")
    case True
    then show ?thesis using 1(2) by (subst dec.simps) (simp add: char_of_eq_iff take_bit_nat_eq_self)
  next
    case False
    then have "hd (dec (n div 10)) \<noteq> CHR ''0''" using 1(1) by simp
    then show ?thesis using False by (subst dec.simps) (simp add: hd_append)
  qed
qed

lemma read_num_written:
  assumes "D (dec n) = Some d" "at_stop r" shows "read_num D (dec n @ r) = Some (JNum d, r)"
proof -
  have r: "r = [] \<or> \<not> is_digit (hd r)" using assms(2) by (auto simp: at_stop_def is_digit_def)
  have "is_digit (hd (dec n))" using dec_digits [of n] dec_not_Nil [of n] hd_in_set by blast
  then have h: "hd (dec n @ r) \<noteq> CHR ''-''" by (auto dest: digit_not_sign simp: hd_append)
  have z: "\<not> (hd (dec n) = CHR ''0'' \<and> length (dec n) > 1)"
    using dec_no_zero [of n] by (cases "n = 0") (auto simp: dec.simps [of 0])
  have "scan_frac r = Some r" "scan_exp r = Some r" using assms(2) by (auto simp: at_stop_def scan_frac_def scan_exp_def)
  then show ?thesis using assms(1) h z takeWhile_dec [OF r, of n] by (auto simp: read_num_def Let_def)
qed

lemma read_scalar_written:
  assumes "\<And>n. D (dec n) = Some (num n)" "at_stop r" "write_val v = Some t"
    "case v of JwStr s \<Rightarrow> True | JwUint n \<Rightarrow> True | _ \<Rightarrow> False"
  shows "read_scalar D (t @ r) = Some (json_of num v, r)"
    "t \<noteq> []" "\<not> char_is_space (hd t)" "hd t \<notin> {CHR '']'', CHR ''{'', CHR ''[''}"
proof -
  have "read_scalar D (t @ r) = Some (json_of num v, r) \<and> t \<noteq> [] \<and> \<not> char_is_space (hd t) \<and>
      hd t \<notin> {CHR '']'', CHR ''{'', CHR ''[''}"
  proof (cases v)
    case (JwStr s)
    then obtain u where u: "write_bytes s = Some u" "t = CHR 0x22 # u @ [CHR 0x22]"
      using assms(3) by (auto simp: write_str_def)
    then show ?thesis using JwStr read_chars_written [OF u(1), of r]
      by (simp add: read_scalar_def char_is_num_def is_digit_def char_is_space_def)
  next
    case (JwUint n)
    then have t: "t = dec (unat n)" using assms(3) by simp
    have d: "is_digit (hd t)" using t dec_digits [of "unat n"] dec_not_Nil [of "unat n"] hd_in_set by blast
    then have "\<not> char_is_space (hd t)" "hd t \<notin> {CHR '']'', CHR ''{'', CHR ''[''}"
      by (auto simp: char_is_space_def is_digit_def)
    then show ?thesis using JwUint t d read_num_written [of D "unat n" "num (unat n)" r] assms(1,2)
      by (simp add: read_scalar_def char_is_num_def hd_append)
  qed (use assms(4) in auto)
  then show "read_scalar D (t @ r) = Some (json_of num v, r)"
    "t \<noteq> []" "\<not> char_is_space (hd t)" "hd t \<notin> {CHR '']'', CHR ''{'', CHR ''[''}"
    by simp_all
qed

text \<open>What the machine does at the end of a container.\<close>

definition finish :: "(string \<Rightarrow> dbl option) \<Rightarrow> ctn \<Rightarrow> ctn list \<Rightarrow> char list \<Rightarrow> (json \<times> char list) option" where
  "finish D c cs s =
     (case cs of [] \<Rightarrow> Some (ctn_value c, s) | p # ps \<Rightarrow> read_loop D (val_end p) (add_val (ctn_value c) p) ps s)"

lemma loop_close:
  "read_loop D Arr_val_end c cs (CHR '']'' # s) = finish D c cs s"
  "read_loop D Obj_val_end c cs (CHR ''}'' # s) = finish D c cs s"
  "ctn_empty c \<Longrightarrow> read_loop D Arr_val_begin c cs (CHR '']'' # s) = finish D c cs s"
  "ctn_empty c \<Longrightarrow> read_loop D Obj_key_begin c cs (CHR ''}'' # s) = finish D c cs s"
  by (subst read_loop.simps, simp add: json_step_def char_is_space_def close_ctn_def finish_def split: list.split)+

lemma loop_comma:
  "read_loop D Arr_val_end c cs (CHR '','' # s) = read_loop D Arr_val_begin c cs s"
  "read_loop D Obj_val_end c cs (CHR '','' # s) = read_loop D Obj_key_begin c cs s"
  by (subst read_loop.simps, simp add: json_step_def char_is_space_def)+

lemma loop_open:
  "read_loop D (val_begin c) c cs (CHR ''{'' # s) = read_loop D Obj_key_begin (CObj [] []) (c # cs) s"
  "read_loop D (val_begin c) c cs (CHR ''['' # s) = read_loop D Arr_val_begin (CArr []) (c # cs) s"
  by (subst read_loop.simps, cases c, simp_all add: json_step_def read_value_def char_is_space_def)+

lemma loop_key:
  assumes "write_str k = Some q"
  shows "read_loop D Obj_key_begin (CObj ms k') cs (q @ CHR '':'' # s) = read_loop D Obj_val_begin (CObj ms k) cs s"
proof -
  obtain t where t: "write_bytes k = Some t" "q = CHR 0x22 # t @ [CHR 0x22]" using assms by (auto simp: write_str_def)
  have "read_loop D Obj_key_begin (CObj ms k') cs (q @ CHR '':'' # s) = read_loop D Obj_key_end (CObj ms k) cs (CHR '':'' # s)"
    using read_chars_written [OF t(1), of "CHR '':'' # s"] t(2)
    by (subst read_loop.simps) (simp add: json_step_def char_is_space_def)
  also have "\<dots> = read_loop D Obj_val_begin (CObj ms k) cs s"
    by (subst read_loop.simps) (simp add: json_step_def char_is_space_def)
  finally show ?thesis .
qed

lemma loop_scalar:
  assumes "read_scalar D (t @ r) = Some (v, r)" "t \<noteq> []" "\<not> char_is_space (hd t)" "hd t \<notin> {CHR '']'', CHR ''{'', CHR ''[''}"
  shows "read_loop D (val_begin c) c cs (t @ r) = read_loop D (val_end c) (add_val v c) cs r"
  using assms by (subst read_loop.simps) (cases c, auto simp: json_step_def read_value_def hd_append)

lemma write_not_Nil:
  "vs \<noteq> [] \<Longrightarrow> write_elems vs = Some t \<Longrightarrow> t \<noteq> []" "ms \<noteq> [] \<Longrightarrow> write_members ms = Some t \<Longrightarrow> t \<noteq> []"
  by (cases vs, auto simp: bind_eq_Some_conv) (cases ms, auto simp: bind_eq_Some_conv)

lemma loop_written:
  assumes D: "\<And>n. D (dec n) = Some (num n)"
  shows "write_val v = Some t \<Longrightarrow> at_stop r \<Longrightarrow>
      read_loop D (val_begin c) c cs (t @ r) = read_loop D (val_end c) (add_val (json_of num v) c) cs r"
    and "write_elems vs = Some t' \<Longrightarrow> vs \<noteq> [] \<Longrightarrow>
      read_loop D Arr_val_begin (CArr as) cs (butlast t' @ CHR '']'' # r) =
      finish D (CArr (rev (map (json_of num) vs) @ as)) cs r"
    and "write_members ms = Some t'' \<Longrightarrow> ms \<noteq> [] \<Longrightarrow>
      \<exists>k'. read_loop D Obj_key_begin (CObj bs k) cs (butlast t'' @ CHR ''}'' # r) =
      finish D (CObj (rev (map (\<lambda>(k, v). (k, json_of num v)) ms) @ bs) k') cs r"
proof (induction v and vs and ms arbitrary: t r c cs and t' as cs r and t'' bs k cs r
    rule: write_val_write_elems_write_members.induct)
  case (1 s)
  show ?case by (rule loop_scalar [OF read_scalar_written [where D = D and num = num, OF D 1(2) 1(1)]]) simp_all
next
  case (2 n)
  show ?case by (rule loop_scalar [OF read_scalar_written [where D = D and num = num, OF D 2(2) 2(1)]]) simp_all
next
  case (3 vs)
  then obtain u where u: "write_elems vs = Some u" "t = CHR ''['' # butlast u @ [CHR '']'']" by auto
  show ?case
  proof (cases "vs = []")
    case True
    then show ?thesis using u by (simp add: loop_open loop_close finish_def)
  next
    case False
    show ?thesis using 3(1) [OF u(1) False] u(2) by (simp add: loop_open finish_def)
  qed
next
  case (4 ms)
  then obtain u where u: "write_members ms = Some u" "t = CHR ''{'' # butlast u @ [CHR ''}'']" by auto
  show ?case
  proof (cases "ms = []")
    case True
    then show ?thesis using u by (simp add: loop_open loop_close finish_def)
  next
    case False
    obtain k' where "read_loop D Obj_key_begin (CObj [] []) (c # cs) (butlast u @ CHR ''}'' # r) =
        finish D (CObj (rev (map (\<lambda>(k, v). (k, json_of num v)) ms) @ []) k') (c # cs) r"
      using 4(1) [OF u(1) False] by blast
    then show ?thesis using u(2) by (simp add: loop_open finish_def)
  qed
next
  case 5
  then show ?case by simp
next
  case (6 v vs)
  then obtain u w where u: "write_val v = Some u" "write_elems vs = Some w" "t' = u @ CHR '','' # w"
    by (auto simp: bind_eq_Some_conv)
  note v = 6(1) [OF u(1), of _ "CArr as", simplified]
  show ?case
  proof (cases "vs = []")
    case True
    then show ?thesis using u v [of "CHR '']'' # r"] by (simp add: at_stop_def butlast_append loop_close)
  next
    case False
    have "butlast t' = u @ CHR '','' # butlast w" using u(3) write_not_Nil(1) [OF False u(2)] by (simp add: butlast_append)
    then show ?thesis using v [of "CHR '','' # butlast w @ CHR '']'' # r"] 6(2) [OF u(1,2) False]
      by (simp add: at_stop_def loop_comma)
  qed
next
  case 7
  then show ?case by simp
next
  case (8 n v ms)
  then obtain q u w where u: "write_str n = Some q" "write_val v = Some u" "write_members ms = Some w"
      "t'' = q @ CHR '':'' # u @ CHR '','' # w"
    by (auto simp: bind_eq_Some_conv)
  note v = 8(1) [OF u(1,2), of _ "CObj bs n", simplified]
  show ?case
  proof (cases "ms = []")
    case True
    then show ?thesis using u v [of "CHR ''}'' # r"] by (auto simp: at_stop_def butlast_append loop_close loop_key)
  next
    case False
    have "butlast t'' = q @ CHR '':'' # u @ CHR '','' # butlast w"
      using u(4) write_not_Nil(2) [OF False u(3)] by (simp add: butlast_append)
    then show ?thesis using v [of "CHR '','' # butlast w @ CHR ''}'' # r"] 8(2) [OF u(1-3) False]
      by (simp add: at_stop_def loop_comma loop_key [OF u(1)])
  qed
qed

lemma read_written:
  assumes "\<And>n. D (dec n) = Some (num n)" "yyjson_mut_write v = Some t"
  shows "yyjson_read_opts D t = Some (json_of num v)"
proof -
  have t: "write_val v = Some t" using assms(2) by (simp add: yyjson_mut_write_def)
  show ?thesis
  proof (cases "case v of JwStr s \<Rightarrow> True | JwUint n \<Rightarrow> True | _ \<Rightarrow> False")
    case True
    note s = read_scalar_written [where D = D and num = num and r = "[]", OF assms(1) _ t True]
    then have "dropWhile char_is_space t = t" by (cases t) (simp_all add: at_stop_def)
    then show ?thesis using s by (simp add: yyjson_read_opts_def at_stop_def doc_end_def Let_def)
  next
    case False
    then consider vs where "v = JwArr vs" | ms where "v = JwObj ms" by (auto split: jw.splits)
    then show ?thesis
    proof cases
      case (1 vs)
      then obtain u where u: "write_elems vs = Some u" "t = CHR ''['' # butlast u @ [CHR '']'']" using t by auto
      have "read_loop D Arr_val_begin (CArr []) [] (butlast u @ [CHR '']'']) = Some (json_of num v, [])"
        using loop_written(2) [where D = D and num = num, OF assms(1) u(1), of "[]" "[]" "[]"] 1 u(1)
        by (cases "vs = []") (simp_all add: loop_close finish_def)
      then show ?thesis using u(2) by (simp add: yyjson_read_opts_def char_is_space_def doc_end_def)
    next
      case (2 ms)
      then obtain u where u: "write_members ms = Some u" "t = CHR ''{'' # butlast u @ [CHR ''}'']" using t by auto
      have "read_loop D Obj_key_begin (CObj [] []) [] (butlast u @ [CHR ''}'']) = Some (json_of num v, [])"
        using loop_written(3) [where D = D and num = num, OF assms(1) u(1), of "[]" "[]" "[]" "[]"] 2 u(1)
        by (cases "ms = []") (auto simp: loop_close finish_def)
      then show ?thesis using u(2) by (simp add: yyjson_read_opts_def char_is_space_def doc_end_def)
    qed
  qed
qed


definition sample_doc :: jw where
  "sample_doc = JwObj [(''k'', JwArr [JwUint 10, JwStr [CHR 0x22, CHR 0x0A]]), (''e'', JwObj [])]"


end
