(* ===== verification/Token_Scan.thy ===== *)
theory Token_Scan
  imports Json_Writer
begin

text \<open>
  The scanners of \<^verbatim>\<open>src/token.c\<close> that read a token's claims and the key id of its header without a
  JSON parser. A pointer into the text is the rest of the text; the end of the list is the NUL.
  Reading past the NUL is undefined behaviour, \<open>None\<close>.
\<close>

section \<open>The token\<close>

record token =
  tk_str :: string
  tk_jti :: string
  tk_user_id :: sso_id
  tk_issued_at :: timestamp
  tk_expires_at :: timestamp
  tk_role_ids :: "sso_id list"
  tk_group_ids :: "sso_id list"
  tk_nonce :: "64 word"
  tk_oauth_nonce :: string
  tk_scope :: string
  tk_claims :: string
  tk_jkt :: string
  tk_raw_refresh :: string

definition zero_token :: token where
  "zero_token =
     \<lparr>tk_str = [], tk_jti = [], tk_user_id = 0, tk_issued_at = 0, tk_expires_at = 0, tk_role_ids = [], tk_group_ids = [],
      tk_nonce = 0, tk_oauth_nonce = [], tk_scope = [], tk_claims = [], tk_jkt = [], tk_raw_refresh = []\<rparr>"

section \<open>Pointers\<close>

abbreviation QUOTE :: char where
  "QUOTE \<equiv> CHR 0x22"

definition is_at :: "char \<Rightarrow> string \<Rightarrow> bool" where
  "is_at c p \<longleftrightarrow> p \<noteq> [] \<and> hd p = c"

definition at_digit :: "string \<Rightarrow> bool" where
  "at_digit p \<longleftrightarrow> p \<noteq> [] \<and> is_digit (hd p)"

definition is_blank :: "char \<Rightarrow> bool" where
  "is_blank c \<longleftrightarrow> c = CHR '' '' \<or> c = CHR 0x09 \<or> c = CHR 0x0A \<or> c = CHR 0x0D"

text \<open>The text up to the next quote, and the pointer after that quote if there is one.\<close>

definition quoted :: "string \<Rightarrow> string \<times> string" where
  "quoted p = (takeWhile (\<lambda>c. c \<noteq> QUOTE) p, drop 1 (dropWhile (\<lambda>c. c \<noteq> QUOTE) p))"

lemma length_quoted: "length (snd (quoted p)) \<le> length p"
  using length_dropWhile_le [of "\<lambda>c. c \<noteq> QUOTE" p] by (simp add: quoted_def)

lemma quoted_eq: "QUOTE \<notin> set v \<Longrightarrow> quoted (v @ QUOTE # rest) = (v, rest)"
  by (induction v) (auto simp: quoted_def)

section \<open>Claims\<close>

lemma cnf_member:
  assumes "p1 = dropWhile (\<lambda>c. c \<noteq> QUOTE \<and> c \<noteq> CHR ''}'') p" "p1 \<noteq> []" "quoted (tl p1) = (ikey, p4)"
    and "p5 = dropWhile (\<lambda>c. c = CHR '' '' \<or> c = CHR '':'') p4"
  shows "length p5 < length p"
proof -
  have "length p5 \<le> length p4" using assms(4) length_dropWhile_le by metis
  also have "\<dots> \<le> length (tl p1)" using length_quoted [of "tl p1"] assms(3) by simp
  also have "\<dots> < length p1" using assms(2) by simp
  also have "\<dots> \<le> length p" using assms(1) length_dropWhile_le by metis
  finally show ?thesis .
qed

lemma cnf_value: "quoted (tl p) = (v, q) \<Longrightarrow> length (dropWhile P q) \<le> length p"
  using length_quoted [of "tl p"] length_dropWhile_le [of P q] by simp

lemma cnf_other: "length (dropWhile P (dropWhile Q p)) \<le> length p"
  using length_dropWhile_le le_trans by metis

text \<open>The member \<^verbatim>\<open>cnf\<close> is scanned for \<^verbatim>\<open>jkt\<close>. When neither a quote nor a brace follows, the code steps
  over the NUL.\<close>

function cnf_loop :: "string \<Rightarrow> token \<Rightarrow> (token \<times> string) option" where
  "cnf_loop p tok =
     (if p = [] \<or> hd p = CHR ''}'' then Some (tok, p)
      else let p1 = dropWhile (\<lambda>c. c \<noteq> QUOTE \<and> c \<noteq> CHR ''}'') p
           in if p1 = [] then None
              else if hd p1 = CHR ''}'' then Some (tok, p1)
              else let (ikey, p4) = quoted (tl p1);
                       p5 = dropWhile (\<lambda>c. c = CHR '' '' \<or> c = CHR '':'') p4
                   in if is_at QUOTE p5
                      then let (v, q) = quoted (tl p5)
                           in cnf_loop (dropWhile (\<lambda>c. c = CHR '' '' \<or> c = CHR '','') q)
                                (if ikey = ''jkt'' \<and> length v < 64 then tok\<lparr>tk_jkt := v\<rparr> else tok)
                      else cnf_loop (dropWhile (\<lambda>c. c = CHR '' '' \<or> c = CHR '','')
                                       (dropWhile (\<lambda>c. c \<noteq> CHR '','' \<and> c \<noteq> CHR ''}'') p5)) tok)"
  by pat_completeness auto
termination
proof (relation "measure (\<lambda>(p, _). length p)")
  fix p :: string and p1 x ikey p4 p5 y v q and tok :: token
  assume *: "p1 = dropWhile (\<lambda>c. c \<noteq> QUOTE \<and> c \<noteq> CHR ''}'') p" "p1 \<noteq> []" "x = quoted (tl p1)" "(ikey, p4) = x"
    "p5 = dropWhile (\<lambda>c. c = CHR '' '' \<or> c = CHR '':'') p4" "is_at QUOTE p5" "y = quoted (tl p5)" "(v, q) = y"
  have "length p5 < length p" using *(3,4) by (intro cnf_member [OF *(1,2) _ *(5), where ikey = ikey]) simp
  moreover have "quoted (tl p5) = (v, q)" using *(7,8) by simp
  note cnf_value [OF this, of "\<lambda>c. c = CHR '' '' \<or> c = CHR '',''"]
  ultimately show "((dropWhile (\<lambda>c. c = CHR '' '' \<or> c = CHR '','') q, if ikey = ''jkt'' \<and> length v < 64 then tok\<lparr>tk_jkt := v\<rparr> else tok), p, tok)
      \<in> measure (\<lambda>(p, _). length p)" by simp
next
  fix p :: string and p1 x ikey p4 p5 and tok :: token
  assume *: "p1 = dropWhile (\<lambda>c. c \<noteq> QUOTE \<and> c \<noteq> CHR ''}'') p" "p1 \<noteq> []" "x = quoted (tl p1)" "(ikey, p4) = x"
    "p5 = dropWhile (\<lambda>c. c = CHR '' '' \<or> c = CHR '':'') p4"
  have "length p5 < length p" using *(3,4) by (intro cnf_member [OF *(1,2) _ *(5), where ikey = ikey]) simp
  with cnf_other [of "\<lambda>c. c = CHR '' '' \<or> c = CHR '',''" "\<lambda>c. c \<noteq> CHR '','' \<and> c \<noteq> CHR ''}''" p5]
  show "((dropWhile (\<lambda>c. c = CHR '' '' \<or> c = CHR '','') (dropWhile (\<lambda>c. c \<noteq> CHR '','' \<and> c \<noteq> CHR ''}'') p5), tok), p, tok)
      \<in> measure (\<lambda>(p, _). length p)" by simp
qed simp

declare cnf_loop.simps [simp del]

text \<open>At most 64 ids of an array.\<close>

fun ids_loop :: "nat \<Rightarrow> string \<Rightarrow> sso_id list \<Rightarrow> sso_id list \<times> string" where
  "ids_loop 0 p ids = (ids, p)"
| "ids_loop (Suc n) p ids =
     (if p = [] \<or> hd p = CHR '']'' then (ids, p)
      else let p1 = dropWhile (\<lambda>c. is_blank c \<or> c = CHR '','') p
           in if at_digit p1 then let (v, p2) = strtoull p1 in ids_loop n p2 (ids @ [v]) else (ids, p1))"

definition scan_ids :: "string \<Rightarrow> sso_id list \<times> string" where
  "scan_ids p = (let (ids, q) = ids_loop 64 p [] in (ids, drop 1 (dropWhile (\<lambda>c. c \<noteq> CHR '']'') q)))"

text \<open>What the switch does with a key and the pointer at its value. The two flags are \<^verbatim>\<open>found_sub\<close> and
  \<^verbatim>\<open>found_exp\<close>.\<close>

type_synonym scan_state = "token \<times> bool \<times> bool"

definition scan_value :: "string \<Rightarrow> string \<Rightarrow> scan_state \<Rightarrow> (scan_state \<times> string) option" where
  "scan_value key p st =
     (case st of (tok, fsub, fexp) \<Rightarrow>
        let str = (\<lambda>n upd. let (v, q) = quoted (tl p) in Some ((if length v < n then upd v else tok, fsub, fexp), q))
        in if key = ''jti'' \<and> is_at QUOTE p then str 64 (\<lambda>v. tok\<lparr>tk_jti := v\<rparr>)
           else if key = ''sub'' \<and> at_digit p then
             let (v, q) = strtoull p in Some ((tok\<lparr>tk_user_id := v\<rparr>, True, fexp), q)
           else if key = ''iat'' \<and> at_digit p then
             let (v, q) = strtoull p in Some ((tok\<lparr>tk_issued_at := sint v\<rparr>, fsub, fexp), q)
           else if key = ''exp'' \<and> at_digit p then
             let (v, q) = strtoull p in Some ((tok\<lparr>tk_expires_at := sint v\<rparr>, fsub, True), q)
           else if key = ''tnc'' \<and> at_digit p then
             let (v, q) = strtoull p in Some ((tok\<lparr>tk_nonce := v\<rparr>, fsub, fexp), q)
           else if key = ''cnf'' \<and> is_at (CHR ''{'') p then do {
             (tok1, q) \<leftarrow> cnf_loop (tl p) tok;
             Some ((tok1, fsub, fexp), if is_at (CHR ''}'') q then tl q else q)
           }
           else if key = ''scope'' \<and> is_at QUOTE p then str 256 (\<lambda>v. tok\<lparr>tk_scope := v\<rparr>)
           else if key = ''nonce'' \<and> is_at QUOTE p then str 128 (\<lambda>v. tok\<lparr>tk_oauth_nonce := v\<rparr>)
           else if key = ''roles'' \<and> is_at (CHR ''['') p then
             let (ids, q) = scan_ids (tl p) in Some ((if ids = [] then tok else tok\<lparr>tk_role_ids := ids\<rparr>, fsub, fexp), q)
           else if key = ''groups'' \<and> is_at (CHR ''['') p then
             let (ids, q) = scan_ids (tl p) in Some ((if ids = [] then tok else tok\<lparr>tk_group_ids := ids\<rparr>, fsub, fexp), q)
           else Some (st, p))"

lemma length_strtoull: "length (snd (strtoull p)) \<le> length p"
proof -
  obtain neg ds rest where n: "scan_number p = (neg, ds, rest)" by (cases "scan_number p")
  let ?s = "dropWhile is_space p"
  have "length rest \<le> length ?s"
    using n unfolding scan_number_def Let_def by (auto intro: le_trans [OF length_dropWhile_le] split: if_splits)
  then have "length rest \<le> length p" using length_dropWhile_le le_trans by blast
  then show ?thesis unfolding strtoull_def n by (simp add: Let_def)
qed

lemma length_ids_loop: "length (snd (ids_loop n p ids)) \<le> length p"
proof (induction n arbitrary: p ids)
  case (Suc n)
  let ?p1 = "dropWhile (\<lambda>c. is_blank c \<or> c = CHR '','') p"
  obtain v p2 where v: "strtoull ?p1 = (v, p2)" by (cases "strtoull ?p1")
  have "length (snd (ids_loop n p2 (ids @ [v]))) \<le> length p2" by (rule Suc)
  also have "\<dots> \<le> length ?p1" using length_strtoull [of ?p1] v by simp
  also have l: "\<dots> \<le> length p" by (rule length_dropWhile_le)
  finally show ?case using v l by (simp add: Let_def)
qed simp

lemma length_scan_ids: "length (snd (scan_ids p)) \<le> length p"
  using length_ids_loop [of 64 p "[]"] length_dropWhile_le [of "\<lambda>c. c \<noteq> CHR '']''" "snd (ids_loop 64 p [])"]
  by (simp add: scan_ids_def case_prod_unfold Let_def)

lemma length_cnf_loop: "cnf_loop p tok = Some (tok', q) \<Longrightarrow> length q \<le> length p"
proof (induction "length p" arbitrary: p tok rule: less_induct)
  case less
  let ?p1 = "dropWhile (\<lambda>c. c \<noteq> QUOTE \<and> c \<noteq> CHR ''}'') p"
  obtain ikey p4 where q1: "quoted (tl ?p1) = (ikey, p4)" by (cases "quoted (tl ?p1)")
  let ?p5 = "dropWhile (\<lambda>c. c = CHR '' '' \<or> c = CHR '':'') p4"
  obtain v r where q2: "quoted (tl ?p5) = (v, r)" by (cases "quoted (tl ?p5)")
  let ?a = "dropWhile (\<lambda>c. c = CHR '' '' \<or> c = CHR '','') r"
  let ?b = "dropWhile (\<lambda>c. c = CHR '' '' \<or> c = CHR '','') (dropWhile (\<lambda>c. c \<noteq> CHR '','' \<and> c \<noteq> CHR ''}'') ?p5)"
  have l1: "length ?p1 \<le> length p" by (rule length_dropWhile_le)
  have la: "length ?a < length p" and lb: "length ?b < length p" if "?p1 \<noteq> []"
    using cnf_member [OF refl that q1 refl] cnf_value [OF q2] cnf_other le_less_trans by blast+
  note unf = less.prems [unfolded cnf_loop.simps [of p] Let_def q1 prod.case q2]
  show ?case
  proof (cases "p = [] \<or> hd p = CHR ''}'' \<or> ?p1 = [] \<or> hd ?p1 = CHR ''}''")
    case True
    then show ?thesis using unf l1 by (auto split: if_splits)
  next
    case False
    then have "cnf_loop ?a (if ikey = ''jkt'' \<and> length v < 64 then tok\<lparr>tk_jkt := v\<rparr> else tok) = Some (tok', q) \<or>
        cnf_loop ?b tok = Some (tok', q)"
      using unf by (auto split: if_splits)
    then show ?thesis using less.hyps [OF la] less.hyps [OF lb] la lb False by (meson less_imp_le le_trans)
  qed
qed

lemma length_scan_value:
  assumes "scan_value key p st = Some (st', q)"
  shows "length q \<le> length p"
proof -
  obtain tok fs fe where st: "st = (tok, fs, fe)" by (cases st)
  have t: "length x \<le> length (tl p) \<Longrightarrow> length x \<le> length p" for x :: string by simp
  have c: "length (if is_at (CHR ''}'') q' then tl q' else q') \<le> length p" if "cnf_loop (tl p) tok = Some (tok', q')" for tok' q'
    using length_cnf_loop [OF that] by (auto intro: t)
  consider "q = p" | "q = snd (quoted (tl p))" | "q = snd (strtoull p)" | "q = snd (scan_ids (tl p))"
    | tok' q' where "cnf_loop (tl p) tok = Some (tok', q')" "q = (if is_at (CHR ''}'') q' then tl q' else q')"
    using assms unfolding scan_value_def st Let_def case_prod_unfold prod.sel
    by (simp only: fst_conv snd_conv split: if_splits bind_splits) (auto split: if_splits prod.splits)
  then show ?thesis
    using length_quoted [of "tl p"] length_strtoull [of p] length_scan_ids [of "tl p"] c by cases (auto intro: t)
qed

text \<open>The next quoted text and the pointer after it, unless the text ends first.\<close>

definition key_at :: "string \<Rightarrow> (string \<times> string) option" where
  "key_at p =
     (let p1 = dropWhile (\<lambda>c. c \<noteq> QUOTE) p;
          p3 = dropWhile (\<lambda>c. c \<noteq> QUOTE) (tl p1)
      in if p1 = [] \<or> p3 = [] \<or> tl p3 = [] then None else Some (takeWhile (\<lambda>c. c \<noteq> QUOTE) (tl p1), tl p3))"

lemma length_key_at:
  assumes "key_at p = Some (key, q)"
  shows "length (dropWhile P q) < length p"
proof -
  let ?p1 = "dropWhile (\<lambda>c. c \<noteq> QUOTE) p"
  have p1: "?p1 \<noteq> []" and q: "q = tl (dropWhile (\<lambda>c. c \<noteq> QUOTE) (tl ?p1))"
    using assms by (auto simp: key_at_def Let_def split: if_splits)
  have "length (dropWhile P q) \<le> length q" by (rule length_dropWhile_le)
  also have "\<dots> \<le> length (tl ?p1)" unfolding q using length_dropWhile_le [of "\<lambda>c. c \<noteq> QUOTE" "tl ?p1"] by simp
  also have "\<dots> < length ?p1" using p1 by simp
  also have "\<dots> \<le> length p" by (rule length_dropWhile_le)
  finally show ?thesis .
qed

text \<open>The loop over the keys of the text. A quoted text that no colon follows is passed over.\<close>

function scan_loop :: "string \<Rightarrow> scan_state \<Rightarrow> scan_state option" where
  "scan_loop p st =
     (case key_at p of
        None \<Rightarrow> Some st
      | Some (key, p4) \<Rightarrow>
          (let p5 = dropWhile is_blank p4
           in if \<not> is_at (CHR '':'') p5 then scan_loop p5 st
              else let p6 = dropWhile is_blank (tl p5)
                   in if p6 = [] then Some st
                      else case scan_value key p6 st of None \<Rightarrow> None | Some (st1, q) \<Rightarrow> scan_loop q st1))"
  by pat_completeness auto
termination
proof (relation "measure (\<lambda>(p, _). length p)")
  fix p key p4 p5 :: string and x and st :: scan_state
  assume "key_at p = Some x" "(key, p4) = x" "p5 = dropWhile is_blank p4"
  then show "((p5, st), p, st) \<in> measure (\<lambda>(p, _). length p)" using length_key_at [of p key p4 is_blank] by simp
next
  fix p key p4 p5 p6 q :: string and x y and st st1 :: scan_state
  assume *: "key_at p = Some x" "(key, p4) = x" "p5 = dropWhile is_blank p4" "p6 = dropWhile is_blank (tl p5)"
    "scan_value key p6 st = Some y" "(st1, q) = y"
  have "length q \<le> length p6" using *(5,6) length_scan_value [of key p6 st st1 q] by simp
  also have "\<dots> \<le> length p5" unfolding *(4) by (rule le_trans [OF length_dropWhile_le]) simp
  also have "\<dots> < length p" using *(1-3) length_key_at [of p key p4 is_blank] by simp
  finally show "((q, st1), p, st) \<in> measure (\<lambda>(p, _). length p)" by simp
qed simp

declare scan_loop.simps [simp del]

definition scan_jwt_payload :: "string \<Rightarrow> token \<Rightarrow> (sso_error \<times> token) option" where
  "scan_jwt_payload json tok =
     map_option (\<lambda>(tok1, fsub, fexp). (if fsub \<and> fexp then SSO_OK else SSO_ERR_TOKEN_INVALID, tok1))
       (scan_loop json (tok, False, False))"

section \<open>The key id of the header\<close>

fun skip_nested :: "nat \<Rightarrow> string \<Rightarrow> string" where
  "skip_nested depth [] = []"
| "skip_nested depth (c # p) =
     (let d = (if c = CHR ''{'' \<or> c = CHR ''['' then depth + 1
               else if c = CHR ''}'' \<or> c = CHR '']'' then depth - 1 else depth)
      in if d = 0 then c # p else skip_nested d p)"

definition skip_value :: "string \<Rightarrow> string" where
  "skip_value p =
     dropWhile (\<lambda>c. is_blank c \<or> c = CHR '','')
       (if is_at QUOTE p then snd (quoted (tl p))
        else if is_at (CHR ''{'') p \<or> is_at (CHR ''['') p then drop 1 (skip_nested 1 (tl p))
        else dropWhile (\<lambda>c. c \<noteq> CHR '','' \<and> c \<noteq> CHR ''}'') p)"

lemma length_skip_nested: "length (skip_nested d p) \<le> length p"
  by (induction d p rule: skip_nested.induct) (auto simp: Let_def le_SucI)

lemma length_skip_value: "length (skip_value p) \<le> length p"
proof -
  have "length (if is_at QUOTE p then snd (quoted (tl p))
        else if is_at (CHR ''{'') p \<or> is_at (CHR ''['') p then drop 1 (skip_nested 1 (tl p))
        else dropWhile (\<lambda>c. c \<noteq> CHR '','' \<and> c \<noteq> CHR ''}'') p) \<le> length p"
    using length_quoted [of "tl p"] length_skip_nested [of 1 "tl p"] length_dropWhile_le [of _ p] by auto
  then show ?thesis unfolding skip_value_def using length_dropWhile_le le_trans by blast
qed

function kid_loop :: "string \<Rightarrow> nat \<Rightarrow> string" where
  "kid_loop p kid_max =
     (case key_at p of
        None \<Rightarrow> []
      | Some (key, p4) \<Rightarrow>
          (let p5 = dropWhile is_blank p4
           in if \<not> is_at (CHR '':'') p5 then kid_loop p5 kid_max
              else let p6 = dropWhile is_blank (tl p5)
                   in if p6 = [] then []
                      else if key = ''kid'' \<and> is_at QUOTE p6
                      then let v = fst (quoted (tl p6)) in if length v < kid_max then v else []
                      else kid_loop (skip_value p6) kid_max))"
  by pat_completeness auto
termination
proof (relation "measure (\<lambda>(p, _). length p)")
  fix p key p4 p5 :: string and x and n :: nat
  assume "key_at p = Some x" "(key, p4) = x" "p5 = dropWhile is_blank p4"
  then show "((p5, n), p, n) \<in> measure (\<lambda>(p, _). length p)" using length_key_at [of p key p4 is_blank] by simp
next
  fix p key p4 p5 p6 :: string and x and n :: nat
  assume *: "key_at p = Some x" "(key, p4) = x" "p5 = dropWhile is_blank p4" "p6 = dropWhile is_blank (tl p5)"
  have "length (skip_value p6) \<le> length p6" by (rule length_skip_value)
  also have "\<dots> \<le> length p5" unfolding *(4) by (rule le_trans [OF length_dropWhile_le]) simp
  also have "\<dots> < length p" using *(1-3) length_key_at [of p key p4 is_blank] by simp
  finally show "((skip_value p6, n), p, n) \<in> measure (\<lambda>(p, _). length p)" by simp
qed simp

declare kid_loop.simps [simp del]

definition scan_header_kid :: "string option \<Rightarrow> nat \<Rightarrow> string" where
  "scan_header_kid json kid_max = (case json of None \<Rightarrow> [] | Some p \<Rightarrow> kid_loop p kid_max)"

end
