(* ===== verification/Token_Codec.thy ===== *)
theory Token_Codec
  imports Libc_Numbers
begin

text \<open>
  The encodings of \<^verbatim>\<open>src/token.c\<close>: hexadecimal and the URL-safe base 64 without padding. The input of
  an encoder is a list of bytes; the output buffer is the C string it leaves, and its length
  bounds the loops as in the code.
\<close>

section \<open>Encoders and decoders\<close>

text \<open>\<open>p\<close> is the offset of the write position in a buffer of \<open>hex_len\<close> bytes.\<close>

fun to_hex :: "char list \<Rightarrow> nat \<Rightarrow> nat \<Rightarrow> string" where
  "to_hex [] hex_len p = []"
| "to_hex (b # bs) hex_len p = (if p + 3 < hex_len then hex_byte b @ to_hex bs hex_len (p + 2) else [])"

definition b64url_table :: "char list" where
  "b64url_table = ''ABCDEFGHIJKLMNOPQRSTUVWXYZabcdefghijklmnopqrstuvwxyz0123456789-_''"

definition b64_sextets :: "nat \<Rightarrow> nat \<Rightarrow> nat \<Rightarrow> nat list" where
  "b64_sextets a b c =
     [drop_bit 2 a, push_bit 4 (a AND 0x03) OR drop_bit 4 b, push_bit 2 (b AND 0x0f) OR drop_bit 6 c, c AND 0x3f]"

fun base64url_loop :: "char list \<Rightarrow> nat \<Rightarrow> nat \<Rightarrow> string" where
  "base64url_loop [] output_len out = []"
| "base64url_loop [a] output_len out =
     (if out + 4 < output_len then map ((!) b64url_table) (take 2 (b64_sextets (of_char a) 0 0)) else [])"
| "base64url_loop [a, b] output_len out =
     (if out + 4 < output_len then map ((!) b64url_table) (take 3 (b64_sextets (of_char a) (of_char b) 0)) else [])"
| "base64url_loop (a # b # c # rest) output_len out =
     (if out + 4 < output_len
      then map ((!) b64url_table) (b64_sextets (of_char a) (of_char b) (of_char c)) @ base64url_loop rest output_len (out + 4)
      else [])"

definition base64url_encode :: "char list \<Rightarrow> nat \<Rightarrow> string" where
  "base64url_encode input output_len = base64url_loop input output_len 0"

text \<open>A character outside the alphabet is \<open>None\<close>, the code's \<open>-1\<close>.\<close>

definition b64url_rev :: "char \<Rightarrow> nat option" where
  "b64url_rev ch =
     (let c = of_char ch :: nat
      in if 65 \<le> c \<and> c \<le> 90 then Some (c - 65)
         else if 97 \<le> c \<and> c \<le> 122 then Some (c - 97 + 26)
         else if 48 \<le> c \<and> c \<le> 57 then Some (c - 48 + 52)
         else if ch = CHR ''-'' \<or> ch = CHR ''+'' then Some 62
         else if ch = CHR ''_'' \<or> ch = CHR ''/'' then Some 63
         else None)"

text \<open>The third and fourth character of a group may be missing or invalid. When only the third is,
  its bits are those of \<open>-1\<close>.\<close>

definition decode_group :: "nat \<Rightarrow> nat \<Rightarrow> nat \<Rightarrow> nat \<Rightarrow> nat option \<Rightarrow> nat option \<Rightarrow> char list" where
  "decode_group output_len out a b c d =
     (let o1 = [char_of (push_bit 2 a OR drop_bit 4 b)];
          o2 = (case c of
                  Some v \<Rightarrow> if out + 1 < output_len then o1 @ [char_of (push_bit 4 (b AND 0x0f) OR drop_bit 2 v)] else o1
                | None \<Rightarrow> o1)
      in case d of
           Some w \<Rightarrow> if out + length o2 < output_len
                     then o2 @ [char_of (push_bit 6 ((case c of Some v \<Rightarrow> v | None \<Rightarrow> 0x03) AND 0x03) OR w)] else o2
         | None \<Rightarrow> o2)"

function base64url_decode_loop :: "string \<Rightarrow> nat \<Rightarrow> nat \<Rightarrow> char list" where
  "base64url_decode_loop s output_len out =
     (if s = [] \<or> output_len \<le> out then []
      else case b64url_rev (hd s) of
        None \<Rightarrow> []
      | Some a \<Rightarrow>
          (case (if 1 < length s then b64url_rev (s ! 1) else None) of
             None \<Rightarrow> []
           | Some b \<Rightarrow>
               (let g = decode_group output_len out a b (if 2 < length s then b64url_rev (s ! 2) else None)
                          (if 3 < length s then b64url_rev (s ! 3) else None)
                in g @ base64url_decode_loop (drop 4 s) output_len (out + length g))))"
  by pat_completeness auto
termination by (relation "measure (\<lambda>(s, _, _). length s)") auto

declare base64url_decode_loop.simps [simp del]

definition base64url_decode :: "string \<Rightarrow> nat \<Rightarrow> char list" where
  "base64url_decode input output_len = base64url_decode_loop (cstr input) output_len 0"

definition is_hex_str :: "string \<Rightarrow> bool" where
  "is_hex_str s \<longleftrightarrow>
     s \<noteq> [] \<and> (\<forall>ch \<in> set s. let c = of_char ch :: nat in 48 \<le> c \<and> c \<le> 57 \<or> 97 \<le> c \<and> c \<le> 102 \<or> 65 \<le> c \<and> c \<le> 70)"

section \<open>Bits as arithmetic\<close>

lemma push_or_nat:
  fixes x y :: nat
  assumes "y < 2 ^ k"
  shows "push_bit k x OR y = x * 2 ^ k + y"
proof -
  have "push_bit k x AND y = 0"
  proof (rule bit_eqI)
    fix n
    have "\<not> bit y n" if "k \<le> n"
    proof -
      have "(2 :: nat) ^ k \<le> 2 ^ n" using that by (rule power_increasing) simp
      with assms have "y < 2 ^ n" by (rule order_less_le_trans)
      then have "y div 2 ^ n = 0" by (rule div_less)
      then show ?thesis by (simp add: bit_iff_odd)
    qed
    then show "bit (push_bit k x AND y) n = bit (0 :: nat) n" by (auto simp: bit_simps)
  qed
  then show ?thesis using disjunctive_add_eq_or [of "push_bit k x" y] by (simp add: push_bit_eq_mult)
qed

lemma and_masks:
  fixes a :: nat
  shows "a AND 0x03 = a mod 4" "a AND 0x0f = a mod 16" "a AND 0x3f = a mod 64"
  using take_bit_eq_mask [of 2 a] take_bit_eq_mask [of 4 a] take_bit_eq_mask [of 6 a]
  by (simp_all add: mask_eq_exp_minus_1 take_bit_eq_mod)

lemma sextets_arith:
  assumes "a < 256" "b < 256" "c < 256"
  shows "b64_sextets a b c = [a div 4, a mod 4 * 16 + b div 16, b mod 16 * 4 + c div 64, c mod 64]"
  using assms by (simp add: b64_sextets_def and_masks push_or_nat drop_bit_eq_div)

lemma rev_table_map: "map b64url_rev b64url_table = map Some [0..<64]"
  by (simp add: b64url_table_def b64url_rev_def Let_def upt_rec)

lemma rev_table: "i < 64 \<Longrightarrow> b64url_rev (b64url_table ! i) = Some i"
  using arg_cong [OF rev_table_map, of "\<lambda>xs. xs ! i"] arg_cong [OF rev_table_map, of length] by simp

section \<open>Round trip\<close>

lemma sextet_bounds:
  fixes a b c :: nat
  assumes "a < 256" "b < 256" "c < 256"
  shows "a div 4 < 64" "a mod 4 * 16 + b div 16 < 64" "b mod 16 * 4 + c div 64 < 64" "c mod 64 < 64"
proof -
  have "a mod 4 \<le> 3" "b div 16 \<le> 15" "b mod 16 \<le> 15" "c div 64 \<le> 3" using assms by (simp_all add: less_Suc_eq_le [symmetric])
  then show "a mod 4 * 16 + b div 16 < 64" "b mod 16 * 4 + c div 64 < 64" by linarith+
qed (use assms in simp_all)

lemma char_bounds:
  fixes a b c :: char
  shows "(of_char a :: nat) div 4 < 64" "of_char a mod 4 * 16 + (of_char b :: nat) div 16 < 64"
    "of_char b mod 16 * 4 + (of_char c :: nat) div 64 < 64" "(of_char c :: nat) mod 64 < 64"
    "(of_char a :: nat) mod 4 * 16 < 64" "(of_char b :: nat) mod 16 * 4 < 64"
  using sextet_bounds [of "of_char a" "of_char b" "of_char c"] sextet_bounds [of "of_char a" 0 0]
    sextet_bounds [of 0 "of_char b" 0] by simp_all

lemma char_sextets:
  "b64_sextets (of_char a) (of_char b) (of_char c) =
     [of_char a div 4, of_char a mod 4 * 16 + of_char b div 16, of_char b mod 16 * 4 + of_char c div 64, of_char c mod 64]"
  "b64_sextets (of_char a) (of_char b) 0 =
     [of_char a div 4, of_char a mod 4 * 16 + of_char b div 16, of_char b mod 16 * 4, 0]"
  "b64_sextets (of_char a) 0 0 = [of_char a div 4, of_char a mod 4 * 16, 0, 0]"
  by (simp_all add: sextets_arith)

lemma push_join:
  fixes x :: nat
  shows "push_bit 2 (x div 4) OR x mod 4 = x" "push_bit 4 (x div 16) OR x mod 16 = x" "push_bit 6 (x div 64) OR x mod 64 = x"
  using push_or_nat [of "x mod 4" 2 "x div 4"] push_or_nat [of "x mod 16" 4 "x div 16"] push_or_nat [of "x mod 64" 6 "x div 64"]
  by simp_all

lemma char_small:
  "(of_char c :: nat) div 16 div 16 = 0" "(of_char c :: nat) div 64 div 4 = 0"
  "(of_char c :: nat) div 16 mod 16 = of_char c div 16" "(of_char c :: nat) div 64 mod 4 = of_char c div 64"
proof -
  have "(of_char c :: nat) div 16 < 16" "(of_char c :: nat) div 64 < 4" by (simp_all add: less_mult_imp_div_less)
  then show "(of_char c :: nat) div 16 div 16 = 0" "(of_char c :: nat) div 64 div 4 = 0"
    "(of_char c :: nat) div 16 mod 16 = of_char c div 16" "(of_char c :: nat) div 64 mod 4 = of_char c div 64"
    by (simp_all only: div_less mod_less)
qed

lemma decode_group_chars:
  "out + 2 < n \<Longrightarrow> decode_group n out (of_char a div 4) (of_char a mod 4 * 16 + of_char b div 16)
     (Some (of_char b mod 16 * 4 + of_char c div 64)) (Some (of_char c mod 64)) = [a, b, c]"
  "out + 1 < n \<Longrightarrow> decode_group n out (of_char a div 4) (of_char a mod 4 * 16 + of_char b div 16)
     (Some (of_char b mod 16 * 4)) None = [a, b]"
  "decode_group n out (of_char a div 4) (of_char a mod 4 * 16) None None = [a]"
  by (simp_all add: decode_group_def and_masks drop_bit_eq_div push_join char_small Let_def)

lemma encode_alphabet: "set (base64url_loop bs n out) \<subseteq> set b64url_table"
proof -
  have "length b64url_table = 64" by (simp add: b64url_table_def)
  then have t: "b64url_table ! i \<in> set b64url_table" if "i < 64" for i using that by simp
  show ?thesis
    by (induction bs n out rule: base64url_loop.induct) (auto simp: char_sextets intro!: t char_bounds)
qed

lemma encode_nul_free: "nul_free (base64url_loop bs n out)"
proof -
  have "NUL \<notin> set b64url_table" by (simp add: b64url_table_def)
  then show ?thesis using encode_alphabet unfolding nul_free_def by blast
qed

lemma encode_no_dot: "CHR ''.'' \<notin> set (base64url_encode bs n)"
proof -
  have "CHR ''.'' \<notin> set b64url_table" by (simp add: b64url_table_def)
  then show ?thesis using encode_alphabet unfolding base64url_encode_def by blast
qed

lemma length_encode_loop:
  "out < n \<Longrightarrow> length (base64url_loop bs n out) < n - out \<and> 3 * length (base64url_loop bs n out) \<le> 4 * length bs + 2"
proof (induction bs n out rule: base64url_loop.induct)
  case (4 a b c rest n out)
  then show ?case by (cases "out + 4 < n") (auto simp: char_sextets)
qed (auto simp: char_sextets)

lemma length_encode:
  "0 < n \<Longrightarrow> length (base64url_encode bs n) < n" "0 < n \<Longrightarrow> 3 * length (base64url_encode bs n) \<le> 4 * length bs + 2"
  using length_encode_loop [of 0 n bs] by (simp_all add: base64url_encode_def)

lemma decode_step:
  assumes "i < 64" "j < 64" "k < 64" "l < 64" "out < m"
  shows "base64url_decode_loop [b64url_table ! i, b64url_table ! j] m out = decode_group m out i j None None"
    and "base64url_decode_loop [b64url_table ! i, b64url_table ! j, b64url_table ! k] m out =
         decode_group m out i j (Some k) None"
    and "base64url_decode_loop (b64url_table ! i # b64url_table ! j # b64url_table ! k # b64url_table ! l # rest) m out =
         (let g = decode_group m out i j (Some k) (Some l) in g @ base64url_decode_loop rest m (out + length g))"
  using assms
  by (subst base64url_decode_loop.simps, simp add: rev_table base64url_decode_loop.simps [of "[]"])+

lemma decode_encode_loop:
  assumes "out + 4 * ((length bs + 2) div 3) < n" "out' + length bs \<le> m"
  shows "base64url_decode_loop (base64url_loop bs n out) m out' = bs"
  using assms
proof (induction bs n out arbitrary: out' rule: base64url_loop.induct)
  case (1 n out)
  then show ?case by (simp add: base64url_decode_loop.simps)
next
  case (2 a n out)
  then have "out + 4 < n" "out' < m" and z: "(0 :: nat) < 64" by simp_all
  then show ?case
    by (simp add: char_sextets decode_step(1) [OF char_bounds(1) char_bounds(5) z z] decode_group_chars(3))
next
  case (3 a b n out)
  then have "out + 4 < n" "out' < m" "out' + 1 < m" and z: "(0 :: nat) < 64" by simp_all
  then show ?case
    by (simp add: char_sextets decode_step(2) [OF char_bounds(1) char_bounds(2) char_bounds(6) z]
        decode_group_chars(2) del: One_nat_def)
next
  case (4 a b c rest n out)
  have len: "(length (a # b # c # rest) + 2) div 3 = Suc ((length rest + 2) div 3)"
    using div_add_self2 [of 3 "length rest + 2"] by (simp add: add.assoc)
  have o: "out + 4 < n" "out + 4 + 4 * ((length rest + 2) div 3) < n" using "4.prems"(1) unfolding len by (simp_all only: mult_Suc_right add.assoc)
  have m: "out' < m" "out' + 2 < m" "out' + 3 + length rest \<le> m" using "4.prems"(2) by simp_all
  have "base64url_decode_loop (base64url_loop rest n (out + 4)) m (out' + 3) = rest"
    using o m by (intro "4.IH")
  then show ?case using o(1) m(1,2)
    by (simp add: char_sextets decode_step(3) [OF char_bounds(1-4)] decode_group_chars(1) Let_def numeral_3_eq_3)
qed

lemma base64url_inverse:
  assumes "4 * ((length bs + 2) div 3) < n" "length bs \<le> m"
  shows "base64url_decode (base64url_encode bs n) m = bs"
  using decode_encode_loop [of 0 bs n 0 m] assms
  by (simp add: base64url_decode_def base64url_encode_def cstr_nul_free encode_nul_free)

text \<open>Decoding inverts encoding: whatever the bytes, if both buffers are large enough the decoder
  returns the bytes that were encoded.\<close>

theorem base64url_round_trip:
  assumes "4 * ((length bs + 2) div 3) < n" "length bs \<le> m"
  shows "base64url_decode (base64url_encode bs n) m = bs"
  using assms by (rule base64url_inverse)

theorem base64url_round_trip_witness:
  "base64url_decode (base64url_encode [CHR 0x00, CHR 0xFF] 9) 2 = [CHR 0x00, CHR 0xFF]"
  by (rule base64url_round_trip) simp_all

end
