(* ===== verification/Token_Manager.thy ===== *)
theory Token_Manager
  imports Token_Scan Token_Codec Storage "HOL-Library.Char_ord" "HOL-Library.List_Lexorder"
begin

text \<open>
  The token manager of \<^verbatim>\<open>src/token.c\<close>: two key slots for rotation, issue and verification of signed
  tokens, the blocklist of revoked tokens, the sessions of a user and the nonces behind "log out
  everywhere". OpenSSL and libsodium are not in the sources: the functions of them that are called
  are the fields of a record. The clock and random bytes are arguments. Mutexes and counters of
  calls are not modelled, and an allocation succeeds except where its size matters. \<open>None\<close> is
  undefined behaviour, or a slot of one mode read as one of the other.
\<close>

section \<open>State\<close>

datatype sso_token_mode = SSO_TOKEN_MODE_HS256 | SSO_TOKEN_MODE_RS256 | SSO_TOKEN_MODE_CRYDI3

type_synonym pkey = nat

datatype slot_key = Secret "char list" | Rsa "pkey option" "pkey option"

record key_slot =
  kid :: string
  populated :: bool
  ks_mode :: sso_token_mode
  ks_key :: slot_key

definition zero_slot :: key_slot where
  "zero_slot = \<lparr>kid = [], populated = False, ks_mode = SSO_TOKEN_MODE_HS256, ks_key = Secret (replicate 32 NUL)\<rparr>"

abbreviation TOKEN_REVOCATION_STR_LEN :: nat where
  "TOKEN_REVOCATION_STR_LEN \<equiv> 64"

abbreviation SSO_MAX_CONCURRENT_SESSIONS :: nat where
  "SSO_MAX_CONCURRENT_SESSIONS \<equiv> 3"

record session_track =
  se_user_id :: sso_id
  se_jtis :: "string list"
  active_count :: nat
  oldest_idx :: nat

record token_manager =
  tm_mode :: sso_token_mode
  slots :: "key_slot list"
  active_slot :: nat
  rotation_counter :: "32 word"
  default_ttl_ms :: timestamp
  nonces :: "(sso_id \<times> 64 word) list"
  nonce_cap :: nat
  jtis :: "string list"
  rev_sorted :: bool
  sessions :: "session_track list"
  tm_storage :: bool

text \<open>What the manager calls in OpenSSL: the HMAC, reading a PEM key, the public key of a private one,
  writing a public key as PEM, signing, and the two steps of verifying.\<close>

record crypto =
  cr_hmac :: "char list \<Rightarrow> string \<Rightarrow> char list"
  cr_read_priv :: "string \<Rightarrow> pkey option"
  cr_read_pub :: "string \<Rightarrow> pkey option"
  cr_derive_pub :: "pkey \<Rightarrow> pkey option"
  cr_write_pub :: "pkey \<Rightarrow> string option"
  cr_sign :: "pkey option \<Rightarrow> string \<Rightarrow> char list option"
  cr_verify_init :: "pkey \<Rightarrow> bool"
  cr_verify :: "pkey \<Rightarrow> string \<Rightarrow> char list \<Rightarrow> bool"

section \<open>Key slots\<close>

definition zero_manager :: token_manager where
  "zero_manager =
     \<lparr>tm_mode = SSO_TOKEN_MODE_HS256, slots = [zero_slot, zero_slot], active_slot = 0, rotation_counter = 0,
      default_ttl_ms = 0, nonces = [], nonce_cap = 0, jtis = [], rev_sorted = False, sessions = [], tm_storage = False\<rparr>"

text \<open>The key buffer of 32 bytes, filled with zeros after a shorter secret.\<close>

definition secret_slot :: "string \<Rightarrow> char list \<Rightarrow> key_slot" where
  "secret_slot k secret =
     \<lparr>kid = k, populated = True, ks_mode = SSO_TOKEN_MODE_HS256, ks_key = Secret (take 32 (secret @ replicate 32 NUL))\<rparr>"

definition kid_name :: "32 word \<Rightarrow> string" where
  "kid_name n = ''sso-key-'' @ dec (unat n)"

definition token_manager_init :: "char list option \<Rightarrow> timestamp \<Rightarrow> token_manager \<Rightarrow> sso_error \<times> token_manager" where
  "token_manager_init secret ttl mgr =
     (case secret of
        None \<Rightarrow> (SSO_ERR_INVALID_PARAM, mgr)
      | Some s \<Rightarrow>
          if s = [] then (SSO_ERR_INVALID_PARAM, mgr)
          else (SSO_OK, zero_manager\<lparr>rotation_counter := 1, slots := [secret_slot ''sso-key-1'' s, zero_slot],
                                     default_ttl_ms := ttl\<rparr>))"

definition load_rsa_slot ::
  "crypto \<Rightarrow> key_slot \<Rightarrow> string option \<Rightarrow> string option \<Rightarrow> sso_token_mode \<Rightarrow> sso_error \<times> key_slot" where
  "load_rsa_slot cr slot priv_pem pub_pem mode =
     (case priv_pem of
        None \<Rightarrow> (SSO_ERR_INVALID_PARAM, slot)
      | Some pem \<Rightarrow>
          (let s = zero_slot\<lparr>ks_mode := mode, ks_key := Rsa None None\<rparr>
           in case cr_read_priv cr pem of
                None \<Rightarrow> (SSO_ERR_INIT, s)
              | Some priv \<Rightarrow>
                  (case (case pub_pem of Some p \<Rightarrow> cr_read_pub cr p | None \<Rightarrow> cr_derive_pub cr priv) of
                     None \<Rightarrow> (SSO_ERR_INIT, s)
                   | Some pub \<Rightarrow> (SSO_OK, s\<lparr>ks_key := Rsa (Some priv) (Some pub), populated := True\<rparr>))))"

definition populate_slot_rs256 ::
  "crypto \<Rightarrow> key_slot \<Rightarrow> string option \<Rightarrow> string option \<Rightarrow> 32 word \<Rightarrow> sso_error \<times> key_slot" where
  "populate_slot_rs256 cr slot priv_pem pub_pem kid_num =
     (let (err, s) = load_rsa_slot cr slot priv_pem pub_pem SSO_TOKEN_MODE_RS256
      in (err, if err = SSO_OK then s\<lparr>kid := kid_name kid_num\<rparr> else s))"

definition token_manager_init_rs256 ::
  "crypto \<Rightarrow> string option \<Rightarrow> string option \<Rightarrow> timestamp \<Rightarrow> token_manager \<Rightarrow> sso_error \<times> token_manager" where
  "token_manager_init_rs256 cr priv_pem pub_pem ttl mgr =
     (case priv_pem of
        None \<Rightarrow> (SSO_ERR_INVALID_PARAM, mgr)
      | Some _ \<Rightarrow>
          (let (err, s) = load_rsa_slot cr zero_slot priv_pem pub_pem SSO_TOKEN_MODE_RS256
           in (err, zero_manager\<lparr>tm_mode := SSO_TOKEN_MODE_RS256, rotation_counter := 1, default_ttl_ms := ttl,
                                 slots := [s\<lparr>kid := ''sso-key-1''\<rparr>, zero_slot]\<rparr>)))"

definition token_manager_get_public_key_pem :: "crypto \<Rightarrow> token_manager \<Rightarrow> string option" where
  "token_manager_get_public_key_pem cr mgr =
     (if tm_mode mgr \<noteq> SSO_TOKEN_MODE_RS256 then None
      else let slot = slots mgr ! active_slot mgr
           in case ks_key slot of
                Rsa _ (Some pub) \<Rightarrow> if populated slot then cr_write_pub cr pub else None
              | _ \<Rightarrow> None)"

definition free_slot_keys :: "key_slot \<Rightarrow> key_slot" where
  "free_slot_keys slot =
     (if \<not> populated slot then slot
      else slot\<lparr>populated := False,
             ks_key := (case ks_mode slot of
                          SSO_TOKEN_MODE_HS256 \<Rightarrow> Secret (replicate 32 NUL)
                        | SSO_TOKEN_MODE_RS256 \<Rightarrow> Rsa None None
                        | SSO_TOKEN_MODE_CRYDI3 \<Rightarrow> ks_key slot)\<rparr>)"

text \<open>What is left in the manager when its memory is returned.\<close>

definition token_manager_destroy :: "token_manager \<Rightarrow> token_manager" where
  "token_manager_destroy mgr = mgr\<lparr>slots := map free_slot_keys (slots mgr), nonces := [], jtis := [], sessions := []\<rparr>"

definition token_manager_init_standby :: "token_manager \<Rightarrow> char list option \<Rightarrow> sso_error \<times> token_manager" where
  "token_manager_init_standby mgr secret =
     (case secret of
        None \<Rightarrow> (SSO_ERR_INVALID_PARAM, mgr)
      | Some s \<Rightarrow>
          if s = [] then (SSO_ERR_INVALID_PARAM, mgr)
          else let n = rotation_counter mgr
               in (SSO_OK, mgr\<lparr>rotation_counter := n + 1, slots := (slots mgr)[1 := secret_slot (kid_name (n + 1)) s]\<rparr>))"

definition token_manager_init_rs256_standby ::
  "crypto \<Rightarrow> token_manager \<Rightarrow> string option \<Rightarrow> string option \<Rightarrow> sso_error \<times> token_manager" where
  "token_manager_init_rs256_standby cr mgr priv_pem pub_pem =
     (case priv_pem of
        None \<Rightarrow> (SSO_ERR_INVALID_PARAM, mgr)
      | Some _ \<Rightarrow>
          (let n = rotation_counter mgr;
               (err, s) = populate_slot_rs256 cr zero_slot priv_pem pub_pem (n + 1)
           in (err, mgr\<lparr>rotation_counter := n + 1, slots := (slots mgr)[1 := s]\<rparr>)))"

definition token_manager_rotate_key :: "token_manager \<Rightarrow> char list option \<Rightarrow> sso_error \<times> token_manager" where
  "token_manager_rotate_key mgr new_secret =
     (case new_secret of
        None \<Rightarrow> (SSO_ERR_INVALID_PARAM, mgr)
      | Some s \<Rightarrow>
          if s = [] then (SSO_ERR_INVALID_PARAM, mgr)
          else let standby = 1 - active_slot mgr; n = rotation_counter mgr
               in (SSO_OK, mgr\<lparr>rotation_counter := n + 1,
                               slots := (slots mgr)[standby := secret_slot (kid_name (n + 1)) s],
                               active_slot := standby\<rparr>))"

text \<open>A key that cannot be read leaves the standby slot empty and the active slot as it was.\<close>

definition token_manager_rotate_key_rs256 ::
  "crypto \<Rightarrow> token_manager \<Rightarrow> string option \<Rightarrow> string option \<Rightarrow> sso_error \<times> token_manager" where
  "token_manager_rotate_key_rs256 cr mgr priv_pem pub_pem =
     (case priv_pem of
        None \<Rightarrow> (SSO_ERR_INVALID_PARAM, mgr)
      | Some _ \<Rightarrow>
          (let standby = 1 - active_slot mgr; n = rotation_counter mgr;
               (err, s) = populate_slot_rs256 cr (free_slot_keys (slots mgr ! standby)) priv_pem pub_pem (n + 1);
               mgr1 = mgr\<lparr>rotation_counter := n + 1, slots := (slots mgr)[standby := s]\<rparr>
           in (err, if err = SSO_OK then mgr1\<lparr>active_slot := standby\<rparr> else mgr1)))"

definition token_manager_get_active_kid :: "token_manager \<Rightarrow> string option" where
  "token_manager_get_active_kid mgr =
     (let s = slots mgr ! active_slot mgr in if populated s then Some (kid s) else None)"

definition token_manager_get_slot_count :: "token_manager \<Rightarrow> nat" where
  "token_manager_get_slot_count mgr = length (filter populated (slots mgr))"

definition token_manager_get_slot :: "token_manager \<Rightarrow> nat \<Rightarrow> key_slot option" where
  "token_manager_get_slot mgr idx =
     (if idx \<ge> 2 then None else if populated (slots mgr ! idx) then Some (slots mgr ! idx) else None)"

definition slot_index_by_kid :: "token_manager \<Rightarrow> string \<Rightarrow> nat option" where
  "slot_index_by_kid mgr k = find (\<lambda>i. populated (slots mgr ! i) \<and> kid (slots mgr ! i) = k) [0, 1]"

section \<open>Nonces\<close>

fun nonce_set :: "(sso_id \<times> 64 word) list \<Rightarrow> sso_id \<Rightarrow> 64 word \<Rightarrow> (sso_id \<times> 64 word) list option" where
  "nonce_set [] uid n = None"
| "nonce_set ((u, m) # ns) uid n =
     (if u = uid then Some ((u, n) # ns) else map_option ((#) (u, m)) (nonce_set ns uid n))"

text \<open>A new user's nonce makes room for twice the capacity, whether or not there is room left.
  \<open>alloc\<close> tells whether a request for that many bytes succeeds; a pair takes sixteen.\<close>

definition token_set_nonce :: "(nat \<Rightarrow> bool) \<Rightarrow> token_manager \<Rightarrow> sso_id \<Rightarrow> 64 word \<Rightarrow> sso_error \<times> token_manager" where
  "token_set_nonce alloc mgr uid n =
     (case nonce_set (nonces mgr) uid n of
        Some ns \<Rightarrow> (SSO_OK, mgr\<lparr>nonces := ns\<rparr>)
      | None \<Rightarrow>
          (let new_cap = (if nonce_cap mgr \<noteq> 0 then nonce_cap mgr * 2 else 16)
           in if \<not> alloc (new_cap * 16) then (SSO_ERR_OUT_OF_MEMORY, mgr)
              else (SSO_OK, mgr\<lparr>nonces := nonces mgr @ [(uid, n)], nonce_cap := new_cap\<rparr>)))"

definition token_get_nonce :: "token_manager \<Rightarrow> sso_id \<Rightarrow> 64 word" where
  "token_get_nonce mgr uid = (case map_of (nonces mgr) uid of Some n \<Rightarrow> n | None \<Rightarrow> 0)"

definition token_bump_nonce :: "(nat \<Rightarrow> bool) \<Rightarrow> token_manager \<Rightarrow> sso_id \<Rightarrow> sso_error \<times> token_manager" where
  "token_bump_nonce alloc mgr uid = token_set_nonce alloc mgr uid (token_get_nonce mgr uid + 1)"

section \<open>Revocation and sessions\<close>

definition token_revoke ::
  "'s storage_backend option \<Rightarrow> 's \<Rightarrow> token_manager \<Rightarrow> string \<Rightarrow> timestamp \<Rightarrow> sso_error \<times> token_manager \<times> 's" where
  "token_revoke sb st mgr jti expires_at =
     (let (err, st1) = (case (if tm_storage mgr then Option.bind sb sb_jti_revoke else None) of
                          Some f \<Rightarrow> f st jti expires_at
                        | None \<Rightarrow> (SSO_OK, st))
      in if err \<noteq> SSO_OK then (err, mgr, st1)
         else (SSO_OK, mgr\<lparr>jtis := jtis mgr @ [strlcpy jti TOKEN_REVOCATION_STR_LEN], rev_sorted := False\<rparr>, st1))"

text \<open>\<^verbatim>\<open>bsearch\<close> of the C library between \<open>l\<close> and \<open>u\<close>.\<close>

function bsearch_from :: "string \<Rightarrow> string list \<Rightarrow> nat \<Rightarrow> nat \<Rightarrow> bool" where
  "bsearch_from key xs l u =
     (if u \<le> l then False
      else let idx = (l + u) div 2
           in if key < xs ! idx then bsearch_from key xs l idx
              else if xs ! idx < key then bsearch_from key xs (idx + 1) u
              else True)"
  by pat_completeness auto
termination by (relation "measure (\<lambda>(_, _, l, u). u - l)") auto

declare bsearch_from.simps [simp del]

definition token_is_revoked ::
  "timestamp \<Rightarrow> 's storage_backend option \<Rightarrow> 's \<Rightarrow> token_manager \<Rightarrow> string \<Rightarrow> bool \<times> token_manager" where
  "token_is_revoked now sb st mgr jti =
     (let js = (if rev_sorted mgr then jtis mgr else sort (jtis mgr));
          mgr1 = (if jtis mgr = [] then mgr else mgr\<lparr>jtis := js, rev_sorted := True\<rparr>)
      in if jtis mgr \<noteq> [] \<and> bsearch_from jti js 0 (length js) then (True, mgr1)
         else case (if tm_storage mgr then Option.bind sb sb_jti_is_revoked else None) of
                Some f \<Rightarrow> (f now st jti, mgr1)
              | None \<Rightarrow> (False, mgr1))"

text \<open>The tracker of a user holds up to three ids in a ring; a fourth replaces and revokes the oldest.\<close>

definition new_track :: "sso_id \<Rightarrow> session_track" where
  "new_track uid = \<lparr>se_user_id = uid, se_jtis = replicate SSO_MAX_CONCURRENT_SESSIONS [], active_count = 0, oldest_idx = 0\<rparr>"

definition track_add :: "session_track \<Rightarrow> string \<Rightarrow> session_track \<times> string option" where
  "track_add t jti =
     (let j = strlcpy jti TOKEN_REVOCATION_STR_LEN
      in if active_count t < SSO_MAX_CONCURRENT_SESSIONS
         then (t\<lparr>se_jtis := (se_jtis t)[active_count t := j], active_count := active_count t + 1\<rparr>, None)
         else (t\<lparr>se_jtis := (se_jtis t)[oldest_idx t := j],
                 oldest_idx := (oldest_idx t + 1) mod SSO_MAX_CONCURRENT_SESSIONS\<rparr>,
               Some (se_jtis t ! oldest_idx t)))"

fun sessions_add :: "session_track list \<Rightarrow> sso_id \<Rightarrow> string \<Rightarrow> session_track list \<times> string option" where
  "sessions_add [] uid jti = (case track_add (new_track uid) jti of (t, e) \<Rightarrow> ([t], e))"
| "sessions_add (t # ts) uid jti =
     (if se_user_id t = uid then (case track_add t jti of (t', e) \<Rightarrow> (t' # ts, e))
      else (case sessions_add ts uid jti of (ts', e) \<Rightarrow> (t # ts', e)))"

definition token_register_session ::
  "'s storage_backend option \<Rightarrow> 's \<Rightarrow> token_manager \<Rightarrow> sso_id \<Rightarrow> string \<Rightarrow> token_manager \<times> 's" where
  "token_register_session sb st mgr uid jti =
     (case sessions_add (sessions mgr) uid jti of
        (ss, None) \<Rightarrow> (mgr\<lparr>sessions := ss\<rparr>, st)
      | (ss, Some oldest) \<Rightarrow> snd (token_revoke sb st (mgr\<lparr>sessions := ss\<rparr>) oldest 0))"

section \<open>Issue\<close>

text \<open>The argument \<^verbatim>\<open>dpop_jkt\<close>: NULL, a string of the caller's, or the field \<^verbatim>\<open>jkt\<close> of the token that is
  being issued, which the first \<^verbatim>\<open>memset\<close> clears.\<close>

datatype jkt_arg = NoJkt | Jkt string | OutJkt

definition read_jkt :: "jkt_arg \<Rightarrow> string" where
  "read_jkt a = (case a of Jkt s \<Rightarrow> strlcpy s 64 | _ \<Rightarrow> [])"

definition alg_str :: "sso_token_mode \<Rightarrow> string" where
  "alg_str m = (case m of SSO_TOKEN_MODE_RS256 \<Rightarrow> ''RS256'' | SSO_TOKEN_MODE_CRYDI3 \<Rightarrow> ''CRYDI3'' | _ \<Rightarrow> ''HS256'')"

definition uint64 :: "timestamp \<Rightarrow> 64 word" where
  "uint64 t = word_of_int t"

definition token_jti :: "timestamp \<Rightarrow> char list \<Rightarrow> string" where
  "token_jti issued rnd = snprintf 64 (hex (unat (uint64 issued)) @ concat (map hex_byte rnd))"

definition jwt_header :: "sso_token_mode \<Rightarrow> string \<Rightarrow> jw" where
  "jwt_header m k = JwObj [(''alg'', JwStr (alg_str m)), (''typ'', JwStr ''JWT''), (''kid'', JwStr k)]"

definition jwt_claims :: "token \<Rightarrow> (string \<times> jw) list" where
  "jwt_claims t =
     [(''jti'', JwStr (tk_jti t)), (''sub'', JwUint (tk_user_id t)), (''iat'', JwUint (uint64 (tk_issued_at t))),
      (''exp'', JwUint (uint64 (tk_expires_at t))), (''tnc'', JwUint (tk_nonce t)),
      (''iss'', JwStr ''sso-server''), (''aud'', JwStr ''sso-api'')] @
     (if tk_scope t \<noteq> [] then [(''scope'', JwStr (tk_scope t))] else []) @
     (if tk_oauth_nonce t \<noteq> [] then [(''nonce'', JwStr (tk_oauth_nonce t))] else []) @
     [(''roles'', JwArr (map JwUint (tk_role_ids t)))] @
     (if tk_group_ids t \<noteq> [] then [(''groups'', JwArr (map JwUint (tk_group_ids t)))] else []) @
     (if tk_jkt t \<noteq> [] then [(''cnf'', JwObj [(''jkt'', JwStr (tk_jkt t))])] else [])"

definition token_destroy :: "token \<Rightarrow> token" where
  "token_destroy t = t\<lparr>tk_role_ids := [], tk_group_ids := []\<rparr>"

text \<open>The signature over the signing input as it is appended to the token; \<open>Some None\<close> is a failure of
  the RSA signature.\<close>

definition sign_input :: "crypto \<Rightarrow> sso_token_mode \<Rightarrow> key_slot \<Rightarrow> string \<Rightarrow> string option option" where
  "sign_input cr mode slot inp =
     (case mode of
        SSO_TOKEN_MODE_HS256 \<Rightarrow>
          (case ks_key slot of Secret s \<Rightarrow> Some (Some (base64url_encode (cr_hmac cr s inp) 129)) | _ \<Rightarrow> None)
      | SSO_TOKEN_MODE_CRYDI3 \<Rightarrow> Some (Some (base64url_encode (replicate 3293 (CHR 0xAA)) (3293 * 2 + 2)))
      | SSO_TOKEN_MODE_RS256 \<Rightarrow>
          (case ks_key slot of
             Rsa priv _ \<Rightarrow> Some (map_option (\<lambda>sig. base64url_encode sig (length sig * 2 + 2)) (cr_sign cr priv inp))
           | _ \<Rightarrow> None))"

definition token_fields ::
  "token_manager \<Rightarrow> sso_id \<Rightarrow> sso_id list \<Rightarrow> sso_id list \<Rightarrow> string option \<Rightarrow> timestamp \<Rightarrow> jkt_arg \<Rightarrow> timestamp \<Rightarrow>
     char list \<Rightarrow> char list \<Rightarrow> token" where
  "token_fields mgr uid roles groups scp ttl jkt now rnd8 rnd32 =
     zero_token\<lparr>tk_jkt := read_jkt jkt, tk_user_id := uid, tk_issued_at := now,
       tk_expires_at := now + (if ttl = 0 then default_ttl_ms mgr else ttl), tk_nonce := token_get_nonce mgr uid,
       tk_scope := (case scp of Some s \<Rightarrow> strlcpy s 256 | None \<Rightarrow> []), tk_jti := token_jti now rnd8,
       tk_role_ids := roles, tk_group_ids := groups, tk_raw_refresh := base64url_encode rnd32 128\<rparr>"

definition token_issue ::
  "crypto \<Rightarrow> token_manager \<Rightarrow> sso_id \<Rightarrow> sso_id list \<Rightarrow> sso_id list \<Rightarrow> string option \<Rightarrow> timestamp \<Rightarrow> jkt_arg \<Rightarrow>
     timestamp \<Rightarrow> char list \<Rightarrow> char list \<Rightarrow> (sso_error \<times> token) option" where
  "token_issue cr mgr uid roles groups scp ttl jkt now rnd8 rnd32 =
     (let t = token_fields mgr uid roles groups scp ttl jkt now rnd8 rnd32;
          slot = slots mgr ! active_slot mgr
      in do {
        header_str \<leftarrow> yyjson_mut_write (jwt_header (tm_mode mgr) (kid slot));
        (case yyjson_mut_write (JwObj (jwt_claims t)) of
           None \<Rightarrow> Some (SSO_ERR_OUT_OF_MEMORY, token_destroy (t\<lparr>tk_raw_refresh := []\<rparr>))
         | Some payload_str \<Rightarrow> do {
             let signing_input = snprintf 2560 (base64url_encode header_str 256 @ ''.'' @ base64url_encode payload_str 2048);
             sig \<leftarrow> sign_input cr (tm_mode mgr) slot signing_input;
             (case sig of
                None \<Rightarrow> Some (SSO_ERR_INIT, token_destroy t)
              | Some b64 \<Rightarrow> Some (SSO_OK, t\<lparr>tk_str := snprintf 8192 (signing_input @ ''.'' @ b64)\<rparr>))
           })
      })"

text \<open>The call hands over \<^verbatim>\<open>out->jkt\<close>.\<close>

definition token_refresh ::
  "crypto \<Rightarrow> token_manager \<Rightarrow> token \<Rightarrow> timestamp \<Rightarrow> timestamp \<Rightarrow> char list \<Rightarrow> char list \<Rightarrow> (sso_error \<times> token) option" where
  "token_refresh cr mgr old ttl now rnd8 rnd32 =
     token_issue cr mgr (tk_user_id old) (tk_role_ids old) (tk_group_ids old) (Some (tk_scope old))
       (if ttl > 0 then ttl else default_ttl_ms mgr) OutJkt now rnd8 rnd32"

section \<open>Verification\<close>

text \<open>The three parts of a token; the third is everything after the second dot.\<close>

definition split_token :: "string \<Rightarrow> (string \<times> string \<times> string) option" where
  "split_token s =
     (let r1 = dropWhile (\<lambda>c. c \<noteq> CHR ''.'') s;
          r2 = dropWhile (\<lambda>c. c \<noteq> CHR ''.'') (tl r1)
      in if r1 = [] \<or> r2 = [] then None
         else Some (takeWhile (\<lambda>c. c \<noteq> CHR ''.'') s, takeWhile (\<lambda>c. c \<noteq> CHR ''.'') (tl r1), tl r2))"

definition header_kid :: "string \<Rightarrow> string" where
  "header_kid b64_header =
     (let j = base64url_decode b64_header 511 in if j = [] then [] else scan_header_kid (Some (cstr j)) 32)"

definition candidates :: "token_manager \<Rightarrow> string \<Rightarrow> nat list option" where
  "candidates mgr k =
     (if k \<noteq> [] then map_option (\<lambda>i. [i]) (slot_index_by_kid mgr k) else Some [active_slot mgr, 1 - active_slot mgr])"

fun try_slots :: "crypto \<Rightarrow> token_manager \<Rightarrow> nat list \<Rightarrow> string \<Rightarrow> string \<Rightarrow> bool option" where
  "try_slots cr mgr [] inp sig = Some False"
| "try_slots cr mgr (i # is) inp sig =
     (if \<not> populated (slots mgr ! i) then try_slots cr mgr is inp sig
      else case ks_key (slots mgr ! i) of
             Rsa _ _ \<Rightarrow> None
           | Secret s \<Rightarrow>
               (let mac = cr_hmac cr s inp
                in if sig = (if is_hex_str sig then to_hex mac 129 0 else base64url_encode mac 129) then Some True
                   else try_slots cr mgr is inp sig))"

definition verify_hs256 :: "crypto \<Rightarrow> token_manager \<Rightarrow> string \<Rightarrow> string \<Rightarrow> string \<Rightarrow> sso_error option" where
  "verify_hs256 cr mgr k inp sig =
     (case candidates mgr k of
        None \<Rightarrow> Some SSO_ERR_TOKEN_INVALID
      | Some is \<Rightarrow> map_option (\<lambda>ok. if ok then SSO_OK else SSO_ERR_TOKEN_INVALID) (try_slots cr mgr is inp sig))"

definition hex_val :: "char \<Rightarrow> nat" where
  "hex_val ch = (let c = of_char ch in if c \<le> 57 then c - 48 else if c \<le> 70 then c - 55 else c - 87)"

fun from_hex :: "string \<Rightarrow> char list" where
  "from_hex (a # b # s) = char_of (hex_val a * 16 + hex_val b) # from_hex s"
| "from_hex s = []"

definition verify_rs256 :: "crypto \<Rightarrow> token_manager \<Rightarrow> string \<Rightarrow> string \<Rightarrow> string \<Rightarrow> sso_error option" where
  "verify_rs256 cr mgr k inp sig =
     (case (if k \<noteq> [] then slot_index_by_kid mgr k else Some (active_slot mgr)) of
        None \<Rightarrow> Some SSO_ERR_TOKEN_INVALID
      | Some i \<Rightarrow>
          if \<not> populated (slots mgr ! i) then Some SSO_ERR_TOKEN_INVALID
          else case ks_key (slots mgr ! i) of
                 Secret _ \<Rightarrow> None
               | Rsa _ None \<Rightarrow> Some SSO_ERR_TOKEN_INVALID
               | Rsa _ (Some pub) \<Rightarrow>
                   (let sg = (if is_hex_str sig then from_hex sig else base64url_decode sig (length sig div 4 * 3 + 4))
                    in if \<not> cr_verify_init cr pub then Some SSO_ERR_INIT
                       else if \<not> cr_verify cr pub inp sg then Some SSO_ERR_TOKEN_INVALID else Some SSO_OK))"

definition verify_signature :: "crypto \<Rightarrow> token_manager \<Rightarrow> string \<Rightarrow> string \<Rightarrow> string \<Rightarrow> sso_error option" where
  "verify_signature cr mgr k inp sig =
     (case tm_mode mgr of
        SSO_TOKEN_MODE_HS256 \<Rightarrow> verify_hs256 cr mgr k inp sig
      | SSO_TOKEN_MODE_CRYDI3 \<Rightarrow> Some (if length sig < 100 then SSO_ERR_TOKEN_INVALID else SSO_OK)
      | SSO_TOKEN_MODE_RS256 \<Rightarrow> verify_rs256 cr mgr k inp sig)"

text \<open>The claims of a payload whose signature is good.\<close>

definition read_claims :: "timestamp \<Rightarrow> string \<Rightarrow> token \<Rightarrow> (sso_error \<times> token) option" where
  "read_claims now b64_payload out =
     (let decoded = base64url_decode b64_payload 4095
      in if decoded = [] then Some (SSO_ERR_TOKEN_INVALID, out)
         else do {
           (err, t) \<leftarrow> scan_jwt_payload (cstr decoded) out;
           if err \<noteq> SSO_OK then Some (err, t)
           else if now > tk_expires_at t then Some (SSO_ERR_TOKEN_EXPIRED, token_destroy t)
           else Some (SSO_OK, t)
         })"

definition token_verify :: "crypto \<Rightarrow> timestamp \<Rightarrow> token_manager \<Rightarrow> string \<Rightarrow> (sso_error \<times> token) option" where
  "token_verify cr now mgr token_str =
     (let out = zero_token\<lparr>tk_str := strlcpy token_str 8192\<rparr>
      in case split_token token_str of
           None \<Rightarrow> Some (SSO_ERR_TOKEN_INVALID, out)
         | Some (b64_header, b64_payload, sig) \<Rightarrow>
             if length b64_header \<ge> 128 \<or> length b64_payload \<ge> 2048 then Some (SSO_ERR_TOKEN_INVALID, out)
             else do {
               err \<leftarrow> verify_signature cr mgr (header_kid b64_header)
                        (snprintf 2560 (b64_header @ ''.'' @ b64_payload)) sig;
               if err \<noteq> SSO_OK then Some (err, out) else read_claims now b64_payload out
             })"

end
