(* ===== verification/Http_Common.thy ===== *)
theory Http_Common
  imports Json_Reader Sso_Context Token_Manager
begin

text \<open>
  The requests and responses of \<^verbatim>\<open>include/server.h\<close> and the helpers of \<^verbatim>\<open>src/handlers_common.c\<close> that every
  handler uses: fields of a JSON body, query parameters, ids in a path, the password rules, the two
  response builders and route matching. The body is parsed in place, so that parsing changes what
  the text functions see of it afterwards. What a failed parse leaves in the buffer is an argument,
  and so is the conversion of numbers. Memory from the arena is always there.
\<close>

section \<open>Requests and responses\<close>

datatype http_method = HTTP_GET | HTTP_POST | HTTP_PUT | HTTP_DELETE | HTTP_PATCH | HTTP_OPTIONS

record auth_context =
  au_user :: user
  au_token :: token

record http_request =
  rq_method :: http_method
  rq_path :: string
  rq_client_ip :: string
  rq_body :: "char list option"
  rq_body_len :: nat
  rq_query_params :: "string list option"
  rq_auth_token :: string
  rq_origin :: string
  rq_dpop_proof :: string
  rq_host :: string
  rq_method_str :: string
  rq_request_id :: string
  rq_user_agent :: string
  rq_userdata :: "auth_context option"
  rq_json_doc :: "json option"

record http_response =
  rs_status_code :: int
  rs_body :: "string option"
  rs_content_type :: string
  rs_extra_headers :: string
  rs_cors_origin :: string

definition zero_request :: http_request where
  "zero_request =
     \<lparr>rq_method = HTTP_GET, rq_path = [], rq_client_ip = [], rq_body = None, rq_body_len = 0, rq_query_params = None,
      rq_auth_token = [], rq_origin = [], rq_dpop_proof = [], rq_host = [], rq_method_str = [], rq_request_id = [],
      rq_user_agent = [], rq_userdata = None, rq_json_doc = None\<rparr>"

definition zero_response :: http_response where
  "zero_response =
     \<lparr>rs_status_code = 0, rs_body = None, rs_content_type = [], rs_extra_headers = [], rs_cors_origin = []\<rparr>"

definition sso_response_ok :: "http_response \<Rightarrow> string \<Rightarrow> http_response" where
  "sso_response_ok resp body_json =
     resp\<lparr>rs_status_code := 200, rs_body := Some body_json, rs_content_type := ''application/json''\<rparr>"

definition dquote :: "string \<Rightarrow> string" where
  "dquote s = CHR 0x22 # s @ [CHR 0x22]"

definition sso_response_error :: "http_response \<Rightarrow> int \<Rightarrow> string \<Rightarrow> http_response" where
  "sso_response_error resp code msg =
     resp\<lparr>rs_status_code := code, rs_content_type := ''application/json'',
          rs_body := Some (snprintf 1024 (''{'' @ dquote ''error'' @ '':'' @ dquote msg @ ''}''))\<rparr>"

text \<open>\<^verbatim>\<open>%lld\<close>.\<close>

definition sdec :: "int \<Rightarrow> string" where
  "sdec i = (if i < 0 then CHR ''-'' # dec (nat (- i)) else dec (nat i))"

section \<open>The JSON body\<close>

record json_env =
  js_num :: "string \<Rightarrow> dbl option"
  js_spoil :: "char list \<Rightarrow> char list"

text \<open>The text that is left of a buffer that was parsed in place: the first string of the document is decoded where it
  stands, and the NUL after it ends the text.\<close>

definition insitu_view :: "char list \<Rightarrow> string" where
  "insitu_view dat =
     (case dropWhile (\<lambda>c. c \<noteq> CHR 0x22) dat of
        [] \<Rightarrow> dat
      | q # r \<Rightarrow> takeWhile (\<lambda>c. c \<noteq> CHR 0x22) dat @ q # (case read_chars r of Some (s, _) \<Rightarrow> s | None \<Rightarrow> []))"

definition req_get_json :: "json_env \<Rightarrow> http_request \<Rightarrow> json option \<times> http_request" where
  "req_get_json J req =
     (case rq_json_doc req of
        Some d \<Rightarrow> (Some d, req)
      | None \<Rightarrow>
          (case rq_body req of
             None \<Rightarrow> (None, req)
           | Some b \<Rightarrow>
               if rq_body_len req = 0 then (None, req)
               else let dat = take (rq_body_len req) b
                    in case yyjson_read_opts (js_num J) dat of
                         Some d \<Rightarrow> (Some d, req\<lparr>rq_json_doc := Some d, rq_body := Some (insitu_view dat)\<rparr>)
                       | None \<Rightarrow> (None, req\<lparr>rq_body := Some (js_spoil J dat)\<rparr>)))"

definition req_json_str_value :: "json_env \<Rightarrow> http_request \<Rightarrow> string \<Rightarrow> string option \<times> http_request" where
  "req_json_str_value J req key =
     (case req_get_json J req of
        (None, req1) \<Rightarrow> (None, req1)
      | (Some d, req1) \<Rightarrow> (yyjson_get_str (yyjson_obj_get (Some d) key), req1))"

text \<open>The text scanners for a key: where the value starts.\<close>

definition after_key :: "string \<Rightarrow> string \<Rightarrow> string option" where
  "after_key json key =
     (let search = snprintf 128 (dquote key)
      in map_option (\<lambda>p.
           let p1 = dropWhile (\<lambda>c. c \<noteq> CHR '':'' \<and> c \<noteq> CHR '','') (drop (length search) p);
               p2 = (if p1 \<noteq> [] \<and> hd p1 = CHR '':'' then tl p1 else p1)
           in dropWhile (\<lambda>c. c \<in> {CHR '' '', CHR 0x09, CHR 0x0A}) p2) (strstr json search))"

text \<open>The characters up to the closing quote, with an escape skipped as a whole, and then the copy that undoes escapes.\<close>

fun raw_string :: "string \<Rightarrow> string" where
  "raw_string [] = []"
| "raw_string (c # s) =
     (if c = CHR 0x5C \<and> s \<noteq> [] then c # hd s # raw_string (tl s)
      else if c = CHR 0x22 then [] else c # raw_string s)"

fun unescape :: "string \<Rightarrow> string" where
  "unescape (c # e # s) =
     (if c = CHR 0x5C
      then (case map_of [(CHR 0x22, CHR 0x22), (CHR 0x5C, CHR 0x5C), (CHR ''/'', CHR ''/''), (CHR ''b'', CHR 0x08),
                         (CHR ''f'', CHR 0x0C), (CHR ''n'', CHR 0x0A), (CHR ''r'', CHR 0x0D), (CHR ''t'', CHR 0x09)] e of
              Some x \<Rightarrow> x # unescape s
            | None \<Rightarrow> c # unescape (e # s))
      else c # unescape (e # s))"
| "unescape s = s"

definition json_str_value :: "string option \<Rightarrow> string option \<Rightarrow> string option" where
  "json_str_value json key =
     (case (json, key) of
        (Some j, Some k) \<Rightarrow>
          (case after_key (cstr j) k of
             Some (c # s) \<Rightarrow> if c = CHR 0x22 then Some (unescape (raw_string s)) else None
           | _ \<Rightarrow> None)
      | _ \<Rightarrow> None)"

definition json_int_value :: "char list option \<Rightarrow> string \<Rightarrow> int \<Rightarrow> int" where
  "json_int_value json key def =
     (case json of
        None \<Rightarrow> def
      | Some j \<Rightarrow> (case after_key (cstr j) key of None \<Rightarrow> def | Some p \<Rightarrow> atol p))"

section \<open>Query and path\<close>

record page_query =
  qy_q :: string
  qy_status :: int
  qy_page :: int
  qy_limit :: int

definition query_param :: "page_query \<Rightarrow> string \<Rightarrow> page_query" where
  "query_param Q param =
     (if CHR ''='' \<notin> set param then Q
      else let key = takeWhile (\<lambda>c. c \<noteq> CHR ''='') param; val = tl (dropWhile (\<lambda>c. c \<noteq> CHR ''='') param)
           in if key = ''q'' then Q\<lparr>qy_q := strlcpy val 1024\<rparr>
              else if key = ''status'' then Q\<lparr>qy_status := atoi_int val\<rparr>
              else if key = ''page'' then Q\<lparr>qy_page := (if atoi_int val < 1 then 1 else atoi_int val)\<rparr>
              else if key = ''limit'' then
                (let l = (if atoi_int val < 1 then 1 else atoi_int val) in Q\<lparr>qy_limit := (if l > 100 then 100 else l)\<rparr>)
              else Q)"

definition parse_query_params :: "http_request \<Rightarrow> page_query" where
  "parse_query_params req =
     (let Q = \<lparr>qy_q = [], qy_status = -1, qy_page = 1, qy_limit = 20\<rparr>
      in case rq_query_params req of None \<Rightarrow> Q | Some ps \<Rightarrow> foldl query_param Q ps)"

definition extract_path_id :: "string \<Rightarrow> string \<Rightarrow> sso_id" where
  "extract_path_id path pre =
     (case strstr path pre of None \<Rightarrow> 0 | Some p \<Rightarrow> word_of_int (atol (drop (length pre) p)))"

function match_route :: "string \<Rightarrow> string \<Rightarrow> bool" where
  "match_route pattern path =
     (if pattern \<noteq> [] \<and> path \<noteq> [] then
        (if hd pattern = CHR '':'' then
           match_route (dropWhile (\<lambda>c. c \<noteq> CHR ''/'') (tl pattern)) (dropWhile (\<lambda>c. c \<noteq> CHR ''/'') path)
         else if hd pattern = CHR ''*'' then
           (if tl pattern \<noteq> [] then match_route (tl pattern) (dropWhile (\<lambda>c. c \<noteq> CHR ''/'') path) else True)
         else hd pattern = hd path \<and> match_route (tl pattern) (tl path))
      else
        let pat = (if pattern \<noteq> [] \<and> hd pattern = CHR ''/'' \<and> path = [] then tl pattern else pattern);
            pth = (if path \<noteq> [] \<and> hd path = CHR ''/'' \<and> pat = [] then tl path else path)
        in pat = [] \<and> pth = [])"
  by pat_completeness auto
termination
  by (relation "measure (\<lambda>(p, _). length p)")
    (auto simp: neq_Nil_conv less_Suc_eq_le intro: order_trans [OF length_dropWhile_le])

declare match_route.simps [simp del]

section \<open>Passwords and text messages\<close>

definition has_char :: "(nat \<Rightarrow> bool) \<Rightarrow> string \<Rightarrow> bool" where
  "has_char P s \<longleftrightarrow> (\<exists>c \<in> set s. P (of_char c))"

abbreviation (input) "is_upper n \<equiv> 65 \<le> n \<and> n \<le> (90 :: nat)"
abbreviation (input) "is_lower n \<equiv> 97 \<le> n \<and> n \<le> (122 :: nat)"
abbreviation (input) "is_numeral n \<equiv> 48 \<le> n \<and> n \<le> (57 :: nat)"
abbreviation (input) "is_special n \<equiv> \<not> is_upper n \<and> \<not> is_lower n \<and> \<not> is_numeral n \<and> 32 < n \<and> n < (127 :: nat)"

definition validate_password :: "string option \<Rightarrow> password_policy option \<Rightarrow> string option" where
  "validate_password password policy =
     (case password of
        None \<Rightarrow> Some ''Password required''
      | Some s \<Rightarrow>
          (let P = (case policy of Some p \<Rightarrow> p | None \<Rightarrow> PASSWORD_POLICY_DEFAULT);
               len = to_int32 (int (length s));
               min_len = (if min_length P > 0 then min_length P else 8);
               max_len = (if max_length P > 0 then max_length P else 128)
           in if len < min_len then Some ''Password must be at least 8 characters''
              else if len > max_len then Some ''Password must not exceed 128 characters''
              else if require_upper P \<and> \<not> has_char (\<lambda>n. is_upper n) s then Some ''Password must contain an uppercase letter''
              else if require_lower P \<and> \<not> has_char (\<lambda>n. is_lower n) s then Some ''Password must contain a lowercase letter''
              else if require_digit P \<and> \<not> has_char (\<lambda>n. is_numeral n) s then Some ''Password must contain a digit''
              else if require_special P \<and> \<not> has_char (\<lambda>n. is_special n) s
              then Some ''Password must contain a special character''
              else None))"

text \<open>libcurl: whether a handle can be had, and the gateway's answer to a request, a transport failure or a status.\<close>

record curl =
  curl_init_ok :: bool
  curl_perform :: "string \<Rightarrow> string \<Rightarrow> int option"

definition sms_post_data :: "string \<Rightarrow> string \<Rightarrow> string option \<Rightarrow> string" where
  "sms_post_data ph code api_key =
     snprintf 512 (''{'' @ dquote ''phone'' @ '':'' @ dquote ph @ '','' @ dquote ''code'' @ '':'' @ dquote code @ '','' @
                   dquote ''api_key'' @ '':'' @ dquote (case api_key of Some k \<Rightarrow> k | None \<Rightarrow> []) @ ''}'')"

definition send_real_sms :: "curl \<Rightarrow> (string \<Rightarrow> string option) \<Rightarrow> string \<Rightarrow> string \<Rightarrow> sso_error" where
  "send_real_sms C getenv ph code =
     (if \<not> curl_init_ok C then SSO_ERR_CURL
      else case getenv ''SSO_SMS_GATEWAY_URL'' of
             None \<Rightarrow> SSO_OK
           | Some url \<Rightarrow>
               (case curl_perform C url (sms_post_data ph code (getenv ''SSO_SMS_API_KEY'')) of
                  None \<Rightarrow> SSO_ERR_CURL
                | Some http_code \<Rightarrow> if 200 \<le> http_code \<and> http_code < 300 then SSO_OK else SSO_ERR_CURL))"

section \<open>Routes\<close>

text \<open>A route is a list of segments, each a fixed text or a parameter.\<close>

datatype seg = Lit string | Par string

fun seg_text :: "seg \<Rightarrow> string" where
  "seg_text (Lit s) = s"
| "seg_text (Par s) = CHR '':'' # s"

fun seg_wf :: "seg \<Rightarrow> bool" where
  "seg_wf (Lit s) \<longleftrightarrow> s \<noteq> [] \<and> set s \<inter> {CHR ''/'', CHR '':'', CHR ''*''} = {}"
| "seg_wf (Par s) \<longleftrightarrow> CHR ''/'' \<notin> set s"

fun seg_match :: "seg \<Rightarrow> string \<Rightarrow> bool" where
  "seg_match (Lit s) q \<longleftrightarrow> s = q"
| "seg_match (Par s) q \<longleftrightarrow> True"

definition path_text :: "string list \<Rightarrow> string" where
  "path_text qs = concat (map (\<lambda>q. CHR ''/'' # q) qs)"

definition part_wf :: "string \<Rightarrow> bool" where
  "part_wf q \<longleftrightarrow> q \<noteq> [] \<and> CHR ''/'' \<notin> set q"

definition slash_or_end :: "string \<Rightarrow> bool" where
  "slash_or_end s \<longleftrightarrow> s = [] \<or> hd s = CHR ''/''"

lemma match_literal:
  assumes "set a \<inter> {CHR ''/'', CHR '':'', CHR ''*''} = {}" "CHR ''/'' \<notin> set b" "slash_or_end R" "slash_or_end S"
  shows "match_route (a @ R) (b @ S) \<longleftrightarrow> a = b \<and> match_route R S"
  using assms(1,2)
proof (induction a b rule: list_induct2')
  case (2 x xs)
  then have "\<not> match_route (x # xs @ R) S" using assms(4)
    by (subst match_route.simps) (auto simp: slash_or_end_def Let_def)
  then show ?case by simp
next
  case (3 y ys)
  then have "\<not> match_route R (y # ys @ S)" using assms(3)
    by (subst match_route.simps) (auto simp: slash_or_end_def Let_def)
  then show ?case by simp
next
  case (4 x xs y ys)
  then show ?case by (subst match_route.simps) auto
qed simp

lemma dropWhile_part: "CHR ''/'' \<notin> set a \<Longrightarrow> slash_or_end R \<Longrightarrow> dropWhile (\<lambda>c. c \<noteq> CHR ''/'') (a @ R) = R"
  by (induction a) (auto simp: slash_or_end_def dropWhile_eq_self_iff)

lemma match_param:
  assumes "CHR ''/'' \<notin> set n" "part_wf b" "slash_or_end R" "slash_or_end S"
  shows "match_route (CHR '':'' # n @ R) (b @ S) \<longleftrightarrow> match_route R S"
  using assms by (subst match_route.simps) (simp add: part_wf_def dropWhile_part)

lemma match_seg:
  assumes "seg_wf p" "part_wf b" "slash_or_end R" "slash_or_end S"
  shows "match_route (seg_text p @ R) (b @ S) \<longleftrightarrow> seg_match p b \<and> match_route R S"
  using assms match_literal [OF _ _ assms(3,4)] by (cases p) (simp_all add: match_param part_wf_def)

lemma match_slash: "match_route (CHR ''/'' # a) (CHR ''/'' # b) \<longleftrightarrow> match_route a b"
  by (subst match_route.simps) simp

lemma slash_path: "slash_or_end (path_text qs)" "slash_or_end (path_text qs @ ''/'')"
  by (cases qs; simp add: path_text_def slash_or_end_def)+

lemma match_segments:
  assumes "list_all seg_wf ps" "list_all part_wf qs" "e = [] \<or> e = ''/''"
  shows "match_route (path_text (map seg_text ps)) (path_text qs @ e) \<longleftrightarrow> list_all2 seg_match ps qs"
  using assms(1,2)
proof (induction ps qs rule: list_induct2')
  case 1
  then show ?case using assms(3) by (subst match_route.simps) (auto simp: path_text_def)
next
  case (2 p ps)
  have "seg_text p \<noteq> []" using 2 by (cases p) auto
  moreover have "\<not> match_route (seg_text p @ path_text (map seg_text ps)) []"
    using 2 \<open>seg_text p \<noteq> []\<close> by (subst match_route.simps) (cases p, auto simp: Let_def neq_Nil_conv)
  ultimately show ?case using assms(3) match_slash [of "seg_text p @ path_text (map seg_text ps)" "[]"]
    by (auto simp: path_text_def match_route.simps [of "CHR ''/'' # _" "[]"])
next
  case (3 q qs)
  then show ?case by (subst match_route.simps) (auto simp: path_text_def part_wf_def)
next
  case (4 p ps q qs)
  have s: "slash_or_end (path_text (map seg_text ps))" "slash_or_end (path_text qs @ e)" using assms(3) slash_path by auto
  have "match_route (path_text (map seg_text (p # ps))) (path_text (q # qs) @ e) \<longleftrightarrow>
      match_route (seg_text p @ path_text (map seg_text ps)) (q @ path_text qs @ e)"
    by (simp add: path_text_def match_slash)
  also have "\<dots> \<longleftrightarrow> seg_match p q \<and> match_route (path_text (map seg_text ps)) (path_text qs @ e)"
    using 4 s by (intro match_seg) simp_all
  finally show ?case using 4 by simp
qed

text \<open>C38: A route matches a path exactly when they have the same number of segments and every segment of the route is the
  segment of the path or a parameter. A slash at the end of the path makes no difference.\<close>

theorem match_route_segments:
  assumes "list_all seg_wf ps" "list_all part_wf qs" "e = [] \<or> e = ''/''"
  shows "match_route (path_text (map seg_text ps)) (path_text qs @ e) \<longleftrightarrow> list_all2 seg_match ps qs"
  using assms by (rule match_segments)

theorem match_route_segments_witness:
  "match_route ''/users/:id/roles'' ''/users/42/roles/''"
  using match_route_segments [of "[Lit ''users'', Par ''id'', Lit ''roles'']" "[''users'', ''42'', ''roles'']" "''/''"]
  by (simp add: path_text_def part_wf_def)

section \<open>Text scanners after the parser\<close>

lemma strstr_two_quotes:
  assumes "count_list t (CHR 0x22) \<le> 1"
  shows "strstr t (dquote k) = None"
proof (rule ccontr)
  assume "strstr t (dquote k) \<noteq> None"
  then have "sublist (dquote k) t" unfolding strstr_contains .
  then obtain p s where "t = p @ dquote k @ s" by (auto simp: sublist_def)
  then show False using assms by (simp add: dquote_def)
qed

text \<open>Once the body of a request has been parsed as JSON, looking for an integer in its text finds nothing, whatever the
  key: the parser has cut the text at the end of its first string. The one exception is a first string with an escaped
  quote.\<close>

theorem insitu_hides_integers:
  assumes "req_get_json J req = (Some d, req')" "rq_json_doc req = None" "rq_body req = Some b"
    "dropWhile (\<lambda>c. c \<noteq> CHR 0x22) (take (rq_body_len req) b) = CHR 0x22 # r" "read_chars r = Some (s, r')"
    "CHR 0x22 \<notin> set s" "length key < 125"
  shows "json_int_value (rq_body req') key def = def"
proof -
  let ?dat = "take (rq_body_len req) b"
  have v: "rq_body req' = Some (insitu_view ?dat)"
    using assms(1-3) by (auto simp: req_get_json_def Let_def split: if_splits option.splits)
  have "CHR 0x22 \<notin> set (takeWhile (\<lambda>c. c \<noteq> CHR 0x22) ?dat)" by (auto dest: set_takeWhileD)
  then have "count_list (insitu_view ?dat) (CHR 0x22) \<le> 1"
    using assms(4-6) by (simp add: insitu_view_def count_list_0_iff)
  moreover have "count_list (cstr t) c \<le> count_list t c" for t c
    by (induction t) (simp_all add: cstr_def)
  ultimately have "count_list (cstr (insitu_view ?dat)) (CHR 0x22) \<le> 1" using le_trans by blast
  moreover have "snprintf 128 (dquote key) = dquote key" using assms(7) by (simp add: snprintf_def dquote_def)
  ultimately show ?thesis using v by (simp add: json_int_value_def after_key_def Let_def strstr_two_quotes)
qed

definition sample_body :: string where
  "sample_body = CHR ''{'' # dquote ''user_id'' @ '':5}''"

definition sample_json :: json_env where
  "sample_json = \<lparr>js_num = (\<lambda>s. Some (Fin (of_nat (digits_val s)))), js_spoil = (\<lambda>s. s)\<rparr>"

lemma sample_body_read:
  "yyjson_read_opts (js_num sample_json) sample_body = Some (JObj [(''user_id'', JNum (Fin 5))])"
proof -
  have "yyjson_mut_write (JwObj [(''user_id'', JwUint 5)]) = Some sample_body"
    by (simp add: yyjson_mut_write_def write_str_plain plain_text_def plain_char_def sample_body_def dquote_def
      dec.simps [of 5] char_of_eq_iff)
  then show ?thesis
    using read_written [of "js_num sample_json" "\<lambda>n. Fin (of_nat n)" "JwObj [(''user_id'', JwUint 5)]" sample_body]
    by (simp add: sample_json_def)
qed

abbreviation sample_request :: http_request where
  "sample_request \<equiv> zero_request\<lparr>rq_body := Some sample_body, rq_body_len := length sample_body\<rparr>"

lemma sample_request_read:
  "req_get_json sample_json sample_request =
     (Some (JObj [(''user_id'', JNum (Fin 5))]),
      sample_request\<lparr>rq_json_doc := Some (JObj [(''user_id'', JNum (Fin 5))]), rq_body := Some (insitu_view sample_body)\<rparr>)"
  by (simp add: req_get_json_def zero_request_def sample_body_read Let_def) (simp add: sample_body_def dquote_def)

theorem insitu_hides_integers_witness:
  "json_int_value (rq_body sample_request) ''user_id'' 0 = 5 \<and>
   json_int_value (rq_body (snd (req_get_json sample_json sample_request))) ''user_id'' 0 = 0"
proof
  show "json_int_value (rq_body sample_request) ''user_id'' 0 = 5"
    by (simp add: json_int_value_def after_key_def sample_body_def dquote_def snprintf_def cstr_def Let_def atol_def
      scan_number_def is_space_def is_digit_def digits_val_def digit_val_def)
  have q: "dropWhile (\<lambda>c. c \<noteq> CHR 0x22) (take (rq_body_len sample_request) sample_body) = CHR 0x22 # ''user_id'' @ CHR 0x22 # '':5}''"
    by (simp add: zero_request_def) (simp add: sample_body_def dquote_def)
  have r: "read_chars (''user_id'' @ CHR 0x22 # '':5}'') = Some (''user_id'', '':5}'')"
    by (intro read_chars_written write_bytes_plain) (simp add: plain_text_def plain_char_def)
  show "json_int_value (rq_body (snd (req_get_json sample_json sample_request))) ''user_id'' 0 = 0"
    unfolding sample_request_read snd_conv
    by (rule insitu_hides_integers [OF sample_request_read _ _ q r]) (simp_all add: zero_request_def)
qed

end
