(* ===== verification/Token_Claims.thy ===== *)
theory Token_Claims
  imports Token_Manager
begin

text \<open>
  What the scanner reads of the text the JSON writer makes of a token's claims. Plain members, with
  text that needs no escape, are read back one by one.
\<close>

section \<open>The written text\<close>

fun commas :: "string list \<Rightarrow> string" where
  "commas [] = []"
| "commas [x] = x"
| "commas (x # y # xs) = x @ CHR '','' # commas (y # xs)"

lemma commas_Cons: "commas (x # xs) = x @ (if xs = [] then [] else CHR '','' # commas xs)"
  by (cases xs) auto

fun jw_text :: "jw \<Rightarrow> string" where
  "jw_text (JwStr s) = QUOTE # s @ [QUOTE]"
| "jw_text (JwUint n) = dec (unat n)"
| "jw_text (JwArr vs) = CHR ''['' # commas (map jw_text vs) @ '']''"
| "jw_text (JwObj ms) = CHR ''{'' # commas (map (\<lambda>(k, v). QUOTE # k @ QUOTE # CHR '':'' # jw_text v) ms) @ ''}''"

definition member_text :: "string \<times> jw \<Rightarrow> string" where
  "member_text m = QUOTE # fst m @ QUOTE # CHR '':'' # jw_text (snd m)"

fun jw_plain :: "jw \<Rightarrow> bool" where
  "jw_plain (JwStr s) \<longleftrightarrow> plain_text s"
| "jw_plain (JwUint n) \<longleftrightarrow> True"
| "jw_plain (JwArr vs) \<longleftrightarrow> list_all jw_plain vs"
| "jw_plain (JwObj ms) \<longleftrightarrow> list_all (\<lambda>(k, v). plain_text k \<and> jw_plain v) ms"

lemma butlast_commas: "butlast (concat (map (\<lambda>x. x @ '','') xs)) = commas xs"
proof (induction xs)
  case (Cons x xs)
  then show ?case by (cases xs) (auto simp: butlast_append)
qed simp

lemma write_plain:
  "jw_plain v \<Longrightarrow> write_val v = Some (jw_text v)"
  "list_all jw_plain vs \<Longrightarrow> write_elems vs = Some (concat (map (\<lambda>x. x @ '','') (map jw_text vs)))"
  "list_all (\<lambda>(k, v). plain_text k \<and> jw_plain v) ms \<Longrightarrow>
     write_members ms = Some (concat (map (\<lambda>x. x @ '','') (map member_text ms)))"
proof (induction v and vs and ms rule: write_val_write_elems_write_members.induct)
  case (3 vs)
  then show ?case using butlast_commas [of "map jw_text vs"] by simp
next
  case (4 ms)
  then have "write_members ms = Some (concat (map (\<lambda>x. x @ '','') (map member_text ms)))" by simp
  then show ?case
    using butlast_commas [of "map member_text ms"] by (simp add: member_text_def [abs_def] case_prod_unfold)
qed (auto simp: write_str_plain butlast_commas member_text_def)

lemma write_object:
  "list_all (\<lambda>(k, v). plain_text k \<and> jw_plain v) ms \<Longrightarrow>
   yyjson_mut_write (JwObj ms) = Some (CHR ''{'' # commas (map member_text ms) @ ''}'')"
  using write_plain(1) [of "JwObj ms"] by (simp add: yyjson_mut_write_def member_text_def [abs_def] case_prod_unfold)

section \<open>Steps of the scanner\<close>

lemma upto_quote:
  "QUOTE \<notin> set v \<Longrightarrow> takeWhile (\<lambda>c. c \<noteq> QUOTE) (v @ QUOTE # r) = v"
  "QUOTE \<notin> set v \<Longrightarrow> dropWhile (\<lambda>c. c \<noteq> QUOTE) (v @ QUOTE # r) = QUOTE # r"
  by (induction v) auto

lemma key_at_skip [simp]: "c \<noteq> QUOTE \<Longrightarrow> key_at (c # p) = key_at p"
  by (simp add: key_at_def)

lemma key_at_none: "QUOTE \<notin> set p \<Longrightarrow> key_at p = None"
  by (simp add: key_at_def Let_def)

lemma key_at_quoted: "QUOTE \<notin> set k \<Longrightarrow> rest \<noteq> [] \<Longrightarrow> key_at (QUOTE # k @ QUOTE # rest) = Some (k, rest)"
  by (simp add: key_at_def upto_quote)

lemma scan_skip: "c \<noteq> QUOTE \<Longrightarrow> scan_loop (c # p) st = scan_loop p st"
  by (subst (1 2) scan_loop.simps) simp

lemma scan_end: "QUOTE \<notin> set p \<Longrightarrow> scan_loop p st = Some st"
  by (subst scan_loop.simps) (simp add: key_at_none)

lemma scan_member:
  assumes "QUOTE \<notin> set k" "v \<noteq> []" "\<not> is_blank (hd v)"
  shows "scan_loop (QUOTE # k @ QUOTE # CHR '':'' # v) st =
    (case scan_value k v st of None \<Rightarrow> None | Some (st1, q) \<Rightarrow> scan_loop q st1)"
proof -
  have "dropWhile is_blank v = v" using assms(2,3) by (cases v) auto
  then show ?thesis using assms
    by (subst scan_loop.simps) (simp add: key_at_quoted is_at_def is_blank_def)
qed

definition sep_char :: "char \<Rightarrow> bool" where
  "sep_char c \<longleftrightarrow> c = CHR '','' \<or> c = CHR ''}''"

lemma sep_char_props: "sep_char c \<Longrightarrow> c \<noteq> QUOTE \<and> c \<noteq> CHR '':'' \<and> \<not> is_blank c \<and> \<not> is_digit c"
  by (auto simp: sep_char_def is_blank_def is_digit_def)

lemma scan_text: "QUOTE \<notin> set s \<Longrightarrow> sep_char c \<Longrightarrow> scan_loop (QUOTE # s @ QUOTE # c # rest) st = scan_loop (c # rest) st"
  using sep_char_props [of c] by (subst scan_loop.simps) (simp add: key_at_quoted is_at_def)

lemma dec_head: "dec n = hd (dec n) # tl (dec n)" "is_digit (hd (dec n))"
  using dec_digits [of n] by (auto simp: hd_in_set)

lemma digit_head: "at_digit (dec n @ rest)" "\<not> is_at c (dec n @ rest) \<or> is_digit c" "\<not> is_blank (hd (dec n @ rest))"
proof -
  have "is_digit (hd (dec n @ rest))" using dec_head(2) by simp
  then show "at_digit (dec n @ rest)" "\<not> is_at c (dec n @ rest) \<or> is_digit c" "\<not> is_blank (hd (dec n @ rest))"
    by (auto simp: at_digit_def is_at_def is_blank_def is_digit_def)
qed

lemma strtoull_sep: "\<not> is_digit c \<Longrightarrow> strtoull (dec (unat w) @ c # rest) = (w, c # rest)"
  by (rule strtoull_dec) simp

section \<open>Arrays of ids\<close>

abbreviation id_text :: "sso_id \<Rightarrow> string" where
  "id_text w \<equiv> dec (unat w)"

lemma dropWhile_digit: "is_digit c \<Longrightarrow> dropWhile (\<lambda>c. is_blank c \<or> c = CHR '','') (c # p) = c # p"
  by (auto simp: is_digit_def is_blank_def)

lemma ids_loop_read:
  "length ids \<le> n \<Longrightarrow>
   ids_loop n (commas (map id_text ids) @ CHR '']'' # rest) acc = (acc @ ids, CHR '']'' # rest) \<and>
   (ids \<noteq> [] \<longrightarrow> ids_loop n (CHR '','' # commas (map id_text ids) @ CHR '']'' # rest) acc = (acc @ ids, CHR '']'' # rest))"
proof (induction ids arbitrary: n acc)
  case Nil
  then show ?case by (cases n) auto
next
  case (Cons i ids)
  then obtain m where m: "n = Suc m" "length ids \<le> m" by (cases n) auto
  let ?tail = "if ids = [] then CHR '']'' # rest else CHR '','' # commas (map id_text ids) @ CHR '']'' # rest"
  have text_eq: "commas (map id_text (i # ids)) @ CHR '']'' # rest = id_text i @ ?tail" by (simp add: commas_Cons)
  obtain c cs where c: "id_text i = c # cs" "is_digit c" using dec_head [of "unat i"] by metis
  have "c \<noteq> CHR '']''" using c(2) by (auto simp: is_digit_def)
  moreover have "strtoull (id_text i @ ?tail) = (i, ?tail)"
    by (rule strtoull_dec) (auto simp: is_digit_def)
  moreover have "ids_loop m ?tail (acc @ [i]) = (acc @ i # ids, CHR '']'' # rest)"
    using Cons.IH [OF m(2), of "acc @ [i]"] m(2) by (cases m) auto
  ultimately show ?case
    unfolding text_eq m(1) using c dropWhile_digit [OF c(2)] by (simp add: at_digit_def Let_def)
qed

lemma scan_ids_read:
  "length ids \<le> 64 \<Longrightarrow> scan_ids (commas (map id_text ids) @ CHR '']'' # rest) = (ids, rest)"
  using ids_loop_read [of ids 64 rest "[]"] by (simp add: scan_ids_def)

section \<open>Members\<close>

text \<open>What reading back a member of the claims does to the state.\<close>

fun claim_step :: "string \<times> jw \<Rightarrow> scan_state \<Rightarrow> scan_state" where
  "claim_step (k, JwStr s) (tok, fsub, fexp) =
     (if k = ''jti'' then tok\<lparr>tk_jti := s\<rparr> else if k = ''scope'' then tok\<lparr>tk_scope := s\<rparr>
      else if k = ''nonce'' then tok\<lparr>tk_oauth_nonce := s\<rparr> else tok, fsub, fexp)"
| "claim_step (k, JwUint n) (tok, fsub, fexp) =
     (if k = ''sub'' then (tok\<lparr>tk_user_id := n\<rparr>, True, fexp)
      else if k = ''iat'' then (tok\<lparr>tk_issued_at := sint n\<rparr>, fsub, fexp)
      else if k = ''exp'' then (tok\<lparr>tk_expires_at := sint n\<rparr>, fsub, True)
      else (tok\<lparr>tk_nonce := n\<rparr>, fsub, fexp))"
| "claim_step (k, JwArr vs) (tok, fsub, fexp) =
     (let ids = map (\<lambda>v. case v of JwUint n \<Rightarrow> n | _ \<Rightarrow> 0) vs
      in (if ids = [] then tok else if k = ''roles'' then tok\<lparr>tk_role_ids := ids\<rparr> else tok\<lparr>tk_group_ids := ids\<rparr>, fsub, fexp))"
| "claim_step (k, JwObj ms) (tok, fsub, fexp) =
     (case ms of [(_, JwStr s)] \<Rightarrow> tok\<lparr>tk_jkt := s\<rparr> | _ \<Rightarrow> tok, fsub, fexp)"

inductive claim_ok :: "string \<times> jw \<Rightarrow> bool" where
  str_ok: "QUOTE \<notin> set k \<Longrightarrow> QUOTE \<notin> set s \<Longrightarrow> (k = ''jti'' \<longrightarrow> length s < 64) \<Longrightarrow> (k = ''scope'' \<longrightarrow> length s < 256) \<Longrightarrow>
     (k = ''nonce'' \<longrightarrow> length s < 128) \<Longrightarrow> claim_ok (k, JwStr s)"
| num_ok: "k \<in> {''sub'', ''iat'', ''exp'', ''tnc''} \<Longrightarrow> claim_ok (k, JwUint n)"
| ids_ok: "k \<in> {''roles'', ''groups''} \<Longrightarrow> length is \<le> 64 \<Longrightarrow> claim_ok (k, JwArr (map JwUint is))"
| cnf_ok: "QUOTE \<notin> set s \<Longrightarrow> length s < 64 \<Longrightarrow> claim_ok (''cnf'', JwObj [(''jkt'', JwStr s)])"

lemma scan_text_member:
  assumes "QUOTE \<notin> set k" "QUOTE \<notin> set s" "k = ''jti'' \<longrightarrow> length s < 64" "k = ''scope'' \<longrightarrow> length s < 256"
    "k = ''nonce'' \<longrightarrow> length s < 128" "sep_char c"
  shows "scan_loop (QUOTE # k @ QUOTE # CHR '':'' # QUOTE # s @ QUOTE # c # rest) st =
    scan_loop (c # rest) (claim_step (k, JwStr s) st)"
proof -
  obtain tok a b where st: "st = (tok, a, b)" by (cases st)
  have nb: "\<not> is_blank QUOTE" "\<not> at_digit (QUOTE # x)" for x by (simp_all add: is_blank_def at_digit_def is_digit_def)
  show ?thesis
    unfolding st using assms nb
    by (subst scan_member) (auto simp: scan_value_def is_at_def quoted_eq scan_text Let_def)
qed

lemma scan_num_member:
  assumes "k \<in> {''sub'', ''iat'', ''exp'', ''tnc''}" "sep_char c"
  shows "scan_loop (QUOTE # k @ QUOTE # CHR '':'' # dec (unat n) @ c # rest) st =
    scan_loop (c # rest) (claim_step (k, JwUint n) st)"
proof -
  obtain tok a b where st: "st = (tok, a, b)" by (cases st)
  have d: "\<not> is_digit c" "\<not> is_digit QUOTE" using sep_char_props [OF assms(2)] by (auto simp: is_digit_def)
  show ?thesis
    unfolding st using assms(1) digit_head [where n = "unat n" and rest = "c # rest"] d strtoull_sep [OF d(1), of n rest]
    by (subst scan_member) (auto simp: scan_value_def)
qed

lemma scan_ids_member:
  assumes "k \<in> {''roles'', ''groups''}" "length is \<le> 64" "sep_char c"
  shows "scan_loop (QUOTE # k @ QUOTE # CHR '':'' # CHR ''['' # commas (map id_text is) @ CHR '']'' # c # rest) st =
    scan_loop (c # rest) (claim_step (k, JwArr (map JwUint is)) st)"
proof -
  obtain tok a b where st: "st = (tok, a, b)" by (cases st)
  have nb: "\<not> is_blank (CHR ''['')" by (simp add: is_blank_def)
  have r: "scan_ids (commas (map id_text is) @ CHR '']'' # c # rest) = (is, c # rest)" by (rule scan_ids_read [OF assms(2)])
  have id: "map (\<lambda>v. case v of JwUint n \<Rightarrow> n | _ \<Rightarrow> 0) (map JwUint is) = is" by (simp add: comp_def)
  consider "k = ''roles''" | "k = ''groups''" using assms(1) by auto
  then show ?thesis
  proof cases
    case 1
    show ?thesis unfolding st 1 claim_step.simps id
      by (subst scan_member) (simp_all add: nb scan_value_def is_at_def r)
  next
    case 2
    show ?thesis unfolding st 2 claim_step.simps id
      by (subst scan_member) (simp_all add: nb scan_value_def is_at_def r)
  qed
qed

lemma cnf_read:
  assumes "QUOTE \<notin> set s" "length s < 64"
  shows "cnf_loop (QUOTE # ''jkt'' @ QUOTE # CHR '':'' # QUOTE # s @ QUOTE # CHR ''}'' # rest) tok =
    Some (tok\<lparr>tk_jkt := s\<rparr>, CHR ''}'' # rest)"
proof -
  have q: "quoted (''jkt'' @ QUOTE # r) = (''jkt'', r)" for r by (rule quoted_eq) simp
  have e: "cnf_loop (CHR ''}'' # rest) t = Some (t, CHR ''}'' # rest)" for t by (simp add: cnf_loop.simps)
  show ?thesis
    using quoted_eq [OF assms(1), of "CHR ''}'' # rest"] q [of "CHR '':'' # QUOTE # s @ QUOTE # CHR ''}'' # rest"] assms(2) e
    by (subst cnf_loop.simps) (simp add: is_at_def Let_def)
qed

lemma scan_cnf_member:
  assumes "QUOTE \<notin> set s" "length s < 64" "sep_char c"
  shows "scan_loop (QUOTE # ''cnf'' @ QUOTE # CHR '':'' # CHR ''{'' # QUOTE # ''jkt'' @ QUOTE # CHR '':'' # QUOTE # s @ QUOTE #
      CHR ''}'' # c # rest) st = scan_loop (c # rest) (claim_step (''cnf'', JwObj [(''jkt'', JwStr s)]) st)"
proof -
  obtain tok a b where st: "st = (tok, a, b)" by (cases st)
  have nb: "\<not> is_blank (CHR ''{'')" "\<not> at_digit (CHR ''{'' # x)" for x by (simp_all add: is_blank_def at_digit_def is_digit_def)
  show ?thesis
    unfolding st using nb cnf_read [OF assms(1,2), of "c # rest" tok]
    by (subst scan_member) (auto simp: scan_value_def is_at_def)
qed

lemma scan_claim:
  assumes "claim_ok m" "sep_char c"
  shows "scan_loop (member_text m @ c # rest) st = scan_loop (c # rest) (claim_step m st)"
  using assms
proof cases
  case (str_ok k s)
  then show ?thesis using scan_text_member assms(2) by (simp add: member_text_def)
next
  case (num_ok k n)
  then show ?thesis using scan_num_member assms(2) by (simp add: member_text_def)
next
  case (ids_ok k "is")
  then show ?thesis using scan_ids_member [of k "is" c rest st] assms(2) by (simp add: member_text_def comp_def)
next
  case (cnf_ok s)
  then show ?thesis using scan_cnf_member [of s c rest st] assms(2) by (simp add: member_text_def)
qed

lemma scan_claims:
  "ms \<noteq> [] \<Longrightarrow> \<forall>m \<in> set ms. claim_ok m \<Longrightarrow>
   scan_loop (commas (map member_text ms) @ ''}'') st = Some (fold claim_step ms st)"
proof (induction ms arbitrary: st)
  case (Cons m ms)
  show ?case
  proof (cases "ms = []")
    case True
    then show ?thesis using Cons.prems scan_claim [of m "CHR ''}''" "[]" st] by (simp add: sep_char_def scan_end)
  next
    case False
    then have "scan_loop (member_text m @ CHR '','' # commas (map member_text ms) @ ''}'') st =
        scan_loop (commas (map member_text ms) @ ''}'') (claim_step m st)"
      using Cons.prems scan_claim [of m "CHR '',''"] by (simp add: sep_char_def scan_skip)
    then show ?thesis using Cons False by (simp add: commas_Cons)
  qed
qed simp

end
