(* ===== verification/Token_Signing.thy ===== *)
theory Token_Signing
  imports Token_Claims
begin

text \<open>
  Issue and verification together: what is signed is what is read back, what is accepted was signed,
  and how long a token outlives a rotation of the keys. The theorems are about the HS256 mode, with
  any function for the HMAC.
\<close>

section \<open>Plain text and texts of documents\<close>

lemma plain_char_props: "plain_char c \<Longrightarrow> c \<noteq> NUL \<and> c \<noteq> QUOTE"
  by (auto simp: plain_char_def)

lemma plain_text_props: "plain_text s \<Longrightarrow> nul_free s" "plain_text s \<Longrightarrow> QUOTE \<notin> set s"
  using plain_char_props by (auto simp: plain_text_def nul_free_def)

lemma plain_text_append [simp]: "plain_text (a @ b) \<longleftrightarrow> plain_text a \<and> plain_text b"
  by (auto simp: plain_text_def)

lemma digit_plain: "is_digit c \<Longrightarrow> plain_char c"
  by (auto simp: is_digit_def plain_char_def)

lemma dec_plain: "plain_text (dec n)"
  using dec_digits [of n] digit_plain by (auto simp: plain_text_def)

lemma nul_free_commas: "\<forall>x \<in> set xs. nul_free x \<Longrightarrow> nul_free (commas xs)"
  by (induction xs rule: commas.induct) auto

lemma nul_free_jw: "jw_plain v \<Longrightarrow> nul_free (jw_text v)"
proof (induction v rule: jw_text.induct)
  case (3 vs)
  then show ?case by (auto simp: list_all_iff intro!: nul_free_commas)
next
  case (4 ms)
  have "nul_free (QUOTE # k @ QUOTE # CHR '':'' # jw_text v)" if "(k, v) \<in> set ms" for k v
    using 4 that by (fastforce simp: list_all_iff plain_text_props)
  then show ?case by (auto intro!: nul_free_commas)
qed (auto simp: plain_text_props dec_plain)

section \<open>The key id\<close>

lemma kid_member:
  assumes "QUOTE \<notin> set k" "v \<noteq> []" "\<not> is_blank (hd v)"
  shows "kid_loop (QUOTE # k @ QUOTE # CHR '':'' # v) n =
    (if k = ''kid'' \<and> is_at QUOTE v then let w = fst (quoted (tl v)) in if length w < n then w else []
     else kid_loop (skip_value v) n)"
proof -
  have "dropWhile is_blank v = v" using assms(2,3) by (cases v) auto
  then show ?thesis using assms
    by (subst kid_loop.simps) (simp add: key_at_quoted is_at_def is_blank_def)
qed

lemma kid_skip: "c \<noteq> QUOTE \<Longrightarrow> kid_loop (c # p) n = kid_loop p n"
  by (subst (1 2) kid_loop.simps) simp

lemma skip_text: "QUOTE \<notin> set s \<Longrightarrow> skip_value (QUOTE # s @ QUOTE # CHR '','' # QUOTE # rest) = QUOTE # rest"
  by (simp add: skip_value_def is_at_def quoted_eq is_blank_def)

lemma kid_loop_header:
  assumes "QUOTE \<notin> set a" "QUOTE \<notin> set k" "length k < 32"
  shows "kid_loop (CHR ''{'' # commas (map member_text [(''alg'', JwStr a), (''typ'', JwStr ''JWT''), (''kid'', JwStr k)]) @ ''}'') 32 = k"
proof -
  have q: "fst (quoted (k @ QUOTE # r)) = k" for r using quoted_eq [OF assms(2)] by simp
  have nb: "\<not> is_blank QUOTE" by (simp add: is_blank_def)
  let ?rest2 = "''kid'' @ QUOTE # CHR '':'' # QUOTE # k @ QUOTE # ''}''"
  let ?rest1 = "''typ'' @ QUOTE # CHR '':'' # QUOTE # ''JWT'' @ QUOTE # CHR '','' # QUOTE # ?rest2"
  have "kid_loop (QUOTE # ?rest2) 32 = k"
    using kid_member [of "''kid''" "QUOTE # k @ QUOTE # ''}''" 32] q [of "''}''"] nb assms(3) by (simp add: is_at_def)
  moreover have "kid_loop (QUOTE # ?rest1) 32 = kid_loop (QUOTE # ?rest2) 32"
    using kid_member [of "''typ''" "QUOTE # ''JWT'' @ QUOTE # CHR '','' # QUOTE # ?rest2" 32]
      skip_text [of "''JWT''" ?rest2] nb by simp
  moreover have "kid_loop (QUOTE # ''alg'' @ QUOTE # CHR '':'' # QUOTE # a @ QUOTE # CHR '','' # QUOTE # ?rest1) 32 =
      kid_loop (QUOTE # ?rest1) 32"
    using kid_member [of "''alg''" "QUOTE # a @ QUOTE # CHR '','' # QUOTE # ?rest1" 32]
      skip_text [OF assms(1), of ?rest1] nb by simp
  ultimately show ?thesis by (simp add: kid_skip member_text_def)
qed

abbreviation header_text :: "string \<Rightarrow> string" where
  "header_text k \<equiv> jw_text (jwt_header SSO_TOKEN_MODE_HS256 k)"

lemma header_plain: "plain_text k \<Longrightarrow> jw_plain (jwt_header SSO_TOKEN_MODE_HS256 k)"
  by (simp add: jwt_header_def alg_str_def plain_text_def plain_char_def)

lemma length_header_text: "length (header_text k) = length k + 36"
  by (simp add: jwt_header_def alg_str_def)

lemma header_kid_encode:
  assumes "plain_text k" "length k < 32"
  shows "header_kid (base64url_encode (header_text k) 256) = k"
proof -
  have t: "header_text k = CHR ''{'' # commas (map member_text [(''alg'', JwStr ''HS256''), (''typ'', JwStr ''JWT''), (''kid'', JwStr k)]) @ ''}''"
    by (simp add: jwt_header_def alg_str_def member_text_def)
  have "base64url_decode (base64url_encode (header_text k) 256) 511 = header_text k"
    using assms(2) length_header_text [of k] by (intro base64url_inverse) simp_all
  moreover have "cstr (header_text k) = header_text k" using nul_free_jw [OF header_plain [OF assms(1)]] by (rule cstr_nul_free)
  moreover have "kid_loop (header_text k) 32 = k"
    unfolding t using plain_text_props(2) [OF assms(1)] assms(2) by (intro kid_loop_header) simp_all
  ultimately show ?thesis by (simp add: header_kid_def scan_header_kid_def jwt_header_def)
qed

section \<open>The slots\<close>

text \<open>The invariant of the slots in HS256 mode: the active slot is in use, a slot in use holds a secret of 32
  bytes and an id made from a number up to the counter, and two slots in use have different ids.\<close>

definition slot_wf :: "32 word \<Rightarrow> key_slot \<Rightarrow> bool" where
  "slot_wf n s \<longleftrightarrow>
     (populated s \<longrightarrow> (\<exists>m. kid s = kid_name m \<and> m \<le> n) \<and> (\<exists>x. ks_key s = Secret x \<and> length x = 32))"

definition hs_wf :: "token_manager \<Rightarrow> bool" where
  "hs_wf mgr \<longleftrightarrow>
     tm_mode mgr = SSO_TOKEN_MODE_HS256 \<and> length (slots mgr) = 2 \<and> active_slot mgr < 2 \<and>
     populated (slots mgr ! active_slot mgr) \<and> (\<forall>s \<in> set (slots mgr). slot_wf (rotation_counter mgr) s) \<and>
     (populated (slots mgr ! 0) \<longrightarrow> populated (slots mgr ! 1) \<longrightarrow> kid (slots mgr ! 0) \<noteq> kid (slots mgr ! 1))"

lemma dec_inj: "dec a = dec b \<longleftrightarrow> a = b"
  using digits_val_dec by metis

lemma kid_name_inj [simp]: "kid_name a = kid_name b \<longleftrightarrow> a = b"
  by (simp add: kid_name_def dec_inj word_unat_eq_iff)

lemma kid_name_plain: "plain_text (kid_name n)" "kid_name n \<noteq> []" "length (kid_name n) < 32"
proof -
  have "unat n < 10 ^ 10" using unsigned_less [of n, where 'a = nat] by simp
  then have "length (dec (unat n)) \<le> 10" by (intro length_dec) simp_all
  then show "length (kid_name n) < 32" by (simp add: kid_name_def)
  have "plain_text ''sso-key-''" by (simp add: plain_text_def plain_char_def)
  then show "plain_text (kid_name n)" unfolding kid_name_def by (simp only: plain_text_append dec_plain)
qed (simp add: kid_name_def)

lemma less_two: "i < 2 \<longleftrightarrow> i = 0 \<or> i = (1 :: nat)"
  by auto

lemma two_slots: "length xs = 2 \<Longrightarrow> \<exists>a b. xs = [a, b]"
  by (cases xs; cases "tl xs") auto

lemma secret_slot_simps [simp]:
  "kid (secret_slot k s) = k" "populated (secret_slot k s)" "ks_key (secret_slot k s) = Secret (take 32 (s @ replicate 32 NUL))"
  by (simp_all add: secret_slot_def)

lemma slot_wf_secret: "m \<le> n \<Longrightarrow> slot_wf n (secret_slot (kid_name m) s)"
  by (auto simp: slot_wf_def)

lemma slot_wf_mono: "slot_wf n s \<Longrightarrow> n \<le> n' \<Longrightarrow> slot_wf n' s"
  by (auto simp: slot_wf_def intro: order_trans)

lemma init_wf:
  assumes "token_manager_init secret ttl m0 = (SSO_OK, mgr)"
  shows "hs_wf mgr"
proof -
  have k: "''sso-key-1'' = kid_name 1" by code_simp
  have "\<not> populated zero_slot" by (simp add: zero_slot_def)
  then show ?thesis using assms slot_wf_secret [of 1 1]
    by (auto simp: token_manager_init_def hs_wf_def zero_manager_def k slot_wf_def split: option.splits if_splits)
qed

lemma word_less_next: "n \<noteq> - 1 \<Longrightarrow> n < n + (1 :: 'a :: len word)"
proof -
  assume "n \<noteq> - 1"
  then have "1 + n \<noteq> 0" by (metis add_eq_0_iff)
  then show ?thesis using unatSuc [of n] by (simp add: word_less_nat_alt add.commute)
qed

lemma next_kid:
  assumes "n \<noteq> - 1" "slot_wf n s" "populated s"
  shows "kid s \<noteq> kid_name (n + 1)"
  using assms word_less_next [OF assms(1)] by (auto simp: slot_wf_def)

lemma standby_wf:
  assumes "hs_wf mgr" "active_slot mgr = 0" "rotation_counter mgr \<noteq> - 1"
    and "token_manager_init_standby mgr secret = (SSO_OK, mgr')"
  shows "hs_wf mgr'"
proof -
  obtain a b where ab: "slots mgr = [a, b]" using assms(1) two_slots [of "slots mgr"] by (auto simp: hs_wf_def)
  let ?n = "rotation_counter mgr"
  have "?n < ?n + 1" by (rule word_less_next [OF assms(3)])
  moreover have "slot_wf ?n a" "populated a" using assms(1,2) ab by (auto simp: hs_wf_def)
  ultimately show ?thesis
    using assms(1,2,4) ab next_kid [OF assms(3)] slot_wf_mono [of ?n a "?n + 1"]
    by (auto simp: token_manager_init_standby_def hs_wf_def Let_def slot_wf_secret split: option.splits if_splits)
qed

text \<open>A rotation writes the other slot and makes it active; the slot that was active stays as it is.\<close>

lemma rotate_slots:
  assumes "hs_wf mgr" "token_manager_rotate_key mgr secret = (SSO_OK, mgr')"
  obtains s where "secret = Some s" "active_slot mgr' = 1 - active_slot mgr" "rotation_counter mgr' = rotation_counter mgr + 1"
    "slots mgr' ! active_slot mgr = slots mgr ! active_slot mgr" "tm_mode mgr' = tm_mode mgr" "length (slots mgr') = 2"
    "slots mgr' ! active_slot mgr' = secret_slot (kid_name (rotation_counter mgr + 1)) s"
  using assms by (auto simp: token_manager_rotate_key_def hs_wf_def Let_def less_two split: option.splits if_splits)

lemma rotate_wf:
  assumes "hs_wf mgr" "rotation_counter mgr \<noteq> - 1" "token_manager_rotate_key mgr secret = (SSO_OK, mgr')"
  shows "hs_wf mgr'"
proof -
  let ?n = "rotation_counter mgr" and ?i = "active_slot mgr"
  obtain s where r: "active_slot mgr' = 1 - ?i" "rotation_counter mgr' = ?n + 1" "slots mgr' ! ?i = slots mgr ! ?i"
    "tm_mode mgr' = tm_mode mgr" "length (slots mgr') = 2" "slots mgr' ! (1 - ?i) = secret_slot (kid_name (?n + 1)) s"
    using rotate_slots [OF assms(1,3)] by metis
  have old: "slot_wf ?n (slots mgr ! ?i)" "populated (slots mgr ! ?i)" using assms(1) by (auto simp: hs_wf_def)
  have lt: "?n \<le> ?n + 1" using word_less_next [OF assms(2)] by (rule order_less_imp_le)
  obtain a b where ab: "slots mgr' = [a, b]" using r(5) two_slots by blast
  have "?i = 0 \<or> ?i = 1" using assms(1) by (auto simp: hs_wf_def)
  then show ?thesis
    using assms(1) r ab old next_kid [OF assms(2) old] slot_wf_mono [OF old(1) lt] slot_wf_secret [of "?n + 1" "?n + 1" s]
    by (elim disjE) (auto simp: hs_wf_def)
qed

lemma index_slot:
  assumes "hs_wf mgr" "i < 2" "populated (slots mgr ! i)"
  shows "slot_index_by_kid mgr (kid (slots mgr ! i)) = Some i"
  using assms by (auto simp: slot_index_by_kid_def hs_wf_def less_two)

lemma key_slot_content:
  assumes "hs_wf mgr" "i < 2" "populated (slots mgr ! i)"
  obtains m x where "kid (slots mgr ! i) = kid_name m" "m \<le> rotation_counter mgr" "ks_key (slots mgr ! i) = Secret x"
    "length x = 32"
proof -
  have "slots mgr ! i \<in> set (slots mgr)" using assms by (simp add: hs_wf_def)
  then show ?thesis using assms that by (fastforce simp: hs_wf_def slot_wf_def)
qed

section \<open>Claims read back\<close>

text \<open>A token whose claims survive the trip through the text: no character that the writer escapes, texts
  and id lists within the scanner's buffers, times of 64 bits.\<close>

definition int64 :: "int \<Rightarrow> bool" where
  "int64 t \<longleftrightarrow> - (2 ^ 63) \<le> t \<and> t < 2 ^ 63"

definition claims_plain :: "token \<Rightarrow> bool" where
  "claims_plain t \<longleftrightarrow>
     plain_text (tk_jti t) \<and> length (tk_jti t) < 64 \<and> plain_text (tk_scope t) \<and> length (tk_scope t) < 256 \<and>
     plain_text (tk_jkt t) \<and> length (tk_jkt t) < 64 \<and> tk_oauth_nonce t = [] \<and> tk_claims t = [] \<and>
     length (tk_role_ids t) \<le> 64 \<and> length (tk_group_ids t) \<le> 64 \<and> int64 (tk_issued_at t) \<and> int64 (tk_expires_at t)"

definition payload_text :: "token \<Rightarrow> string" where
  "payload_text t = jw_text (JwObj (jwt_claims t))"

lemma sint_uint64: "int64 t \<Longrightarrow> sint (uint64 t) = t"
  by (simp add: int64_def uint64_def signed_of_int signed_take_bit_int_eq_self)

lemma claims_ok: "claims_plain t \<Longrightarrow> \<forall>m \<in> set (jwt_claims t). claim_ok m"
  using plain_text_props(2) by (auto simp: claims_plain_def jwt_claims_def intro!: claim_ok.intros)

lemma claims_jw_plain: "claims_plain t \<Longrightarrow> jw_plain (JwObj (jwt_claims t))"
proof -
  have "list_all jw_plain (map JwUint is)" for "is" by (simp add: list_all_iff)
  moreover have "plain_text k" if "k \<in> {''jti'', ''sub'', ''iat'', ''exp'', ''tnc'', ''iss'', ''aud'', ''scope'', ''nonce'', ''roles'',
      ''groups'', ''cnf'', ''jkt'', ''sso-server'', ''sso-api''}" for k
    using that by (auto simp: plain_text_def plain_char_def)
  ultimately show "claims_plain t \<Longrightarrow> ?thesis" by (auto simp: claims_plain_def jwt_claims_def)
qed

lemma claims_fold:
  assumes "claims_plain t"
  shows "fold claim_step (jwt_claims t) (zero_token\<lparr>tk_str := s\<rparr>, False, False) =
    (t\<lparr>tk_str := s, tk_raw_refresh := []\<rparr>, True, True)"
proof -
  have "map (\<lambda>v. case v of JwUint n \<Rightarrow> n | _ \<Rightarrow> 0) (map JwUint is) = is" for "is" by (simp add: comp_def)
  then show ?thesis
    using assms by (cases t) (auto simp: claims_plain_def jwt_claims_def zero_token_def sint_uint64)
qed

lemma scan_payload:
  assumes "claims_plain t"
  shows "scan_jwt_payload (payload_text t) (zero_token\<lparr>tk_str := s\<rparr>) = Some (SSO_OK, t\<lparr>tk_str := s, tk_raw_refresh := []\<rparr>)"
proof -
  have "payload_text t = CHR ''{'' # commas (map member_text (jwt_claims t)) @ ''}''"
    by (simp add: payload_text_def member_text_def [abs_def] case_prod_unfold)
  moreover have "jwt_claims t \<noteq> []" by (simp add: jwt_claims_def)
  ultimately show ?thesis
    using scan_claims [OF _ claims_ok [OF assms]] claims_fold [OF assms] by (simp add: scan_jwt_payload_def scan_skip)
qed

section \<open>What is issued is what is read\<close>

lemma hex_digit_plain: "n < 16 \<Longrightarrow> plain_char (hex_digit n)"
proof -
  have "list_all (\<lambda>n. plain_char (hex_digit n)) [0..<16]" by (simp add: hex_digit_def plain_char_def upt_rec char_of_eq_iff)
  then show "n < 16 \<Longrightarrow> ?thesis" by (simp add: list_all_iff)
qed

lemma hex_plain: "plain_text (hex n)"
proof (induction n rule: hex.induct)
  case (1 n)
  then show ?case by (subst hex.simps) (simp add: plain_text_def hex_digit_plain)
qed

lemma jti_plain: "plain_text (token_jti now rnd)" "length (token_jti now rnd) < 64"
proof -
  have "plain_text (hex_byte c)" for c
    using nat_of_char_less_256 [of c] by (simp add: hex_byte_def plain_text_def hex_digit_plain less_mult_imp_div_less)
  then have "plain_text (hex (unat (uint64 now)) @ concat (map hex_byte rnd))"
    using hex_plain by (auto simp: plain_text_def)
  then show "plain_text (token_jti now rnd)"
    by (auto simp: token_jti_def snprintf_def plain_text_def dest!: in_set_takeD)
qed (simp add: token_jti_def snprintf_def)

lemma snprintf_fits: "length s < n \<Longrightarrow> snprintf n s = s"
  by (simp add: snprintf_def)

lemma split_parts:
  assumes "CHR ''.'' \<notin> set h" "CHR ''.'' \<notin> set p"
  shows "split_token (h @ CHR ''.'' # p @ CHR ''.'' # s) = Some (h, p, s)"
proof -
  have "dropWhile (\<lambda>c. c \<noteq> CHR ''.'') (x @ CHR ''.'' # r) = CHR ''.'' # r"
    "takeWhile (\<lambda>c. c \<noteq> CHR ''.'') (x @ CHR ''.'' # r) = x" if "CHR ''.'' \<notin> set x" for x r
    using that by (induction x) auto
  then show ?thesis using assms by (simp add: split_token_def)
qed

text \<open>The text of a token: the header with the key id, the payload with the claims, the signature.\<close>

abbreviation b64_head :: "string \<Rightarrow> string" where
  "b64_head k \<equiv> base64url_encode (header_text k) 256"

abbreviation b64_body :: "token \<Rightarrow> string" where
  "b64_body t \<equiv> base64url_encode (payload_text t) 2048"

abbreviation signed_text :: "string \<Rightarrow> token \<Rightarrow> string" where
  "signed_text k t \<equiv> b64_head k @ CHR ''.'' # b64_body t"

abbreviation signature :: "crypto \<Rightarrow> char list \<Rightarrow> string \<Rightarrow> token \<Rightarrow> string" where
  "signature cr x k t \<equiv> base64url_encode (cr_hmac cr x (signed_text k t)) 129"

definition token_text :: "crypto \<Rightarrow> char list \<Rightarrow> string \<Rightarrow> token \<Rightarrow> string" where
  "token_text cr x k t = signed_text k t @ CHR ''.'' # signature cr x k t"

lemma length_head: "length k < 32 \<Longrightarrow> length (b64_head k) < 128"
  using length_encode(2) [of 256 "header_text k"] length_header_text [of k] by simp

lemma length_parts: "length (b64_body t) < 2048" "length (signature cr x k t) < 129"
  using length_encode(1) by simp_all

lemma length_token_text: "length k < 32 \<Longrightarrow> length (token_text cr x k t) < 8192" "length k < 32 \<Longrightarrow> length (signed_text k t) < 2560"
  using length_head [of k] length_parts(1) [of t] length_parts(2) [of cr x k t] by (simp_all add: token_text_def)

lemma nul_free_token_text: "nul_free (token_text cr x k t)"
  using encode_nul_free by (simp add: token_text_def base64url_encode_def)

lemma issue_text:
  assumes "tm_mode mgr = SSO_TOKEN_MODE_HS256" "slots mgr ! active_slot mgr = sl" "ks_key sl = Secret x"
    and "plain_text (kid sl)" "length (kid sl) < 32"
    and "t = token_fields mgr uid roles groups scp ttl jkt now rnd8 rnd32" "claims_plain t"
  shows "token_issue cr mgr uid roles groups scp ttl jkt now rnd8 rnd32 = Some (SSO_OK, t\<lparr>tk_str := token_text cr x (kid sl) t\<rparr>)"
proof -
  have "yyjson_mut_write (jwt_header SSO_TOKEN_MODE_HS256 (kid sl)) = Some (header_text (kid sl))"
    using header_plain [OF assms(4)] write_object by (simp add: jwt_header_def member_text_def [abs_def] case_prod_unfold)
  moreover have "yyjson_mut_write (JwObj (jwt_claims t)) = Some (payload_text t)"
    using claims_jw_plain [OF assms(7)] write_object by (simp add: payload_text_def member_text_def [abs_def] case_prod_unfold)
  moreover have "snprintf 2560 (b64_head (kid sl) @ ''.'' @ b64_body t) = signed_text (kid sl) t"
    "snprintf 8192 (signed_text (kid sl) t @ ''.'' @ signature cr x (kid sl) t) = token_text cr x (kid sl) t"
    using length_token_text(1) [OF assms(5), of cr x t] length_token_text(2) [OF assms(5), of t]
    by (simp_all add: snprintf_fits token_text_def)
  ultimately show ?thesis
    using assms(1-3) by (simp add: token_issue_def sign_input_def assms(6) [symmetric] Let_def del: append.simps)
qed

text \<open>The payload is written in full when its base64 fits the buffer.\<close>

abbreviation payload_fits :: "token \<Rightarrow> bool" where
  "payload_fits t \<equiv> 4 * ((length (payload_text t) + 2) div 3) < 2048"

lemma read_back:
  assumes "claims_plain t" "payload_fits t"
  shows "read_claims now (b64_body t) (zero_token\<lparr>tk_str := s\<rparr>) =
    (if now > tk_expires_at t then Some (SSO_ERR_TOKEN_EXPIRED, token_destroy (t\<lparr>tk_str := s, tk_raw_refresh := []\<rparr>))
     else Some (SSO_OK, t\<lparr>tk_str := s, tk_raw_refresh := []\<rparr>))"
proof -
  have "base64url_decode (b64_body t) 4095 = payload_text t" using assms(2) by (intro base64url_inverse) auto
  moreover have "cstr (payload_text t) = payload_text t"
    unfolding payload_text_def using nul_free_jw [OF claims_jw_plain [OF assms(1)]] by (rule cstr_nul_free)
  moreover have "payload_text t \<noteq> []" by (simp add: payload_text_def)
  ultimately show ?thesis using scan_payload [OF assms(1)] by (simp add: read_claims_def)
qed

lemma verify_text:
  assumes "plain_text k" "length k < 32" "claims_plain t" "payload_fits t"
  shows "token_verify cr now mgr (token_text cr x k t) =
    do {
      err \<leftarrow> verify_signature cr mgr k (signed_text k t) (signature cr x k t);
      let out = t\<lparr>tk_str := token_text cr x k t, tk_raw_refresh := []\<rparr>;
      if err \<noteq> SSO_OK then Some (err, zero_token\<lparr>tk_str := token_text cr x k t\<rparr>)
      else if now > tk_expires_at t then Some (SSO_ERR_TOKEN_EXPIRED, token_destroy out)
      else Some (SSO_OK, out)
    }"
proof -
  have "split_token (token_text cr x k t) = Some (b64_head k, b64_body t, signature cr x k t)"
    using split_parts [OF encode_no_dot encode_no_dot] by (simp add: token_text_def)
  moreover have "strlcpy (token_text cr x k t) 8192 = token_text cr x k t"
    using length_token_text(1) [OF assms(2)] nul_free_token_text by (intro strlcpy_id)
  moreover have "snprintf 2560 (b64_head k @ ''.'' @ b64_body t) = signed_text k t"
    using length_token_text(2) [OF assms(2), of t] by (simp add: snprintf_fits)
  ultimately show ?thesis
    using length_head [OF assms(2)] length_parts(1) [of t] header_kid_encode [OF assms(1,2)] read_back [OF assms(3,4)]
    by (cases "verify_signature cr mgr k (signed_text k t) (signature cr x k t)")
      (simp_all add: token_verify_def Let_def del: append.simps)
qed

text \<open>A signature in base64 that happens to consist of hexadecimal digits only is compared with the MAC in
  hexadecimal, which is twice as long.\<close>

abbreviation sig_b64 :: "crypto \<Rightarrow> char list \<Rightarrow> string \<Rightarrow> token \<Rightarrow> bool" where
  "sig_b64 cr x k t \<equiv> \<not> is_hex_str (signature cr x k t)"

lemma verify_known:
  assumes "tm_mode mgr = SSO_TOKEN_MODE_HS256" "k \<noteq> []" "slot_index_by_kid mgr k = Some i" "populated (slots mgr ! i)"
    and "ks_key (slots mgr ! i) = Secret x" "sig_b64 cr x k t"
  shows "verify_signature cr mgr k (signed_text k t) (signature cr x k t) = Some SSO_OK"
  using assms by (simp add: verify_signature_def verify_hs256_def candidates_def)

lemma verify_unknown:
  assumes "tm_mode mgr = SSO_TOKEN_MODE_HS256" "k \<noteq> []" "slot_index_by_kid mgr k = None"
  shows "verify_signature cr mgr k inp sig = Some SSO_ERR_TOKEN_INVALID"
  using assms by (simp add: verify_signature_def verify_hs256_def candidates_def)

lemma verify_slot:
  assumes "hs_wf mgr" "i < 2" "populated (slots mgr ! i)" "kid (slots mgr ! i) = k" "ks_key (slots mgr ! i) = Secret x"
    and "claims_plain t" "payload_fits t" "sig_b64 cr x k t"
  shows "token_verify cr now mgr (token_text cr x k t) =
    (let out = t\<lparr>tk_str := token_text cr x k t, tk_raw_refresh := []\<rparr>
     in if now > tk_expires_at t then Some (SSO_ERR_TOKEN_EXPIRED, token_destroy out) else Some (SSO_OK, out))"
proof -
  obtain m where m: "k = kid_name m" using key_slot_content [OF assms(1-3)] assms(4) by metis
  have "verify_signature cr mgr k (signed_text k t) (signature cr x k t) = Some SSO_OK"
    using assms(1,3,5,8) index_slot [OF assms(1-3)] assms(4) kid_name_plain(2) m
    by (intro verify_known) (auto simp: hs_wf_def)
  then show ?thesis using verify_text [OF _ _ assms(6,7), of k cr now mgr x] kid_name_plain m by (simp add: Let_def)
qed

lemma active_slot_content:
  assumes "hs_wf mgr"
  obtains m x where "kid (slots mgr ! active_slot mgr) = kid_name m" "m \<le> rotation_counter mgr"
    "ks_key (slots mgr ! active_slot mgr) = Secret x" "populated (slots mgr ! active_slot mgr)" "active_slot mgr < 2"
proof -
  have "active_slot mgr < 2" "populated (slots mgr ! active_slot mgr)" using assms by (auto simp: hs_wf_def)
  then show ?thesis using key_slot_content [OF assms] that by metis
qed

text \<open>The conditions under which the claims of a new token come back: they are plain and fit the buffers,
  and the signature in base64 is not one that is taken for hexadecimal.\<close>

definition issuable :: "crypto \<Rightarrow> token_manager \<Rightarrow> token \<Rightarrow> bool" where
  "issuable cr mgr t \<longleftrightarrow>
     claims_plain t \<and> payload_fits t \<and>
     (case ks_key (slots mgr ! active_slot mgr) of
        Secret x \<Rightarrow> sig_b64 cr x (kid (slots mgr ! active_slot mgr)) t
      | _ \<Rightarrow> False)"


text \<open>A manager, a MAC and a token to evaluate the theorems on.\<close>

definition sample_crypto :: crypto where
  "sample_crypto =
     \<lparr>cr_hmac = (\<lambda>x s. replicate 32 (CHR 0xAA)), cr_read_priv = (\<lambda>_. None), cr_read_pub = (\<lambda>_. None), cr_derive_pub = (\<lambda>_. None), cr_write_pub = (\<lambda>_. None),
      cr_sign = (\<lambda>_ _. None), cr_verify_init = (\<lambda>_. False), cr_verify = (\<lambda>_ _ _. False)\<rparr>"

definition sample_manager :: token_manager where
  "sample_manager = snd (token_manager_init (Some ''secret'') 1000 zero_manager)"

definition sample_token :: token where
  "sample_token = token_fields sample_manager 7 [1, 2] [3] (Some ''read'') 60 (Jkt ''abc'') 5 ''xy'' ''r''"

lemma sample_wf: "hs_wf sample_manager"
  unfolding sample_manager_def by (rule init_wf [of "Some ''secret''" 1000 zero_manager]) (simp add: token_manager_init_def)

lemma sample_mac: "\<not> is_hex_str (base64url_encode (replicate 32 (CHR 0xAA)) 129)"
  by code_simp

lemma sample_claims: "claims_plain sample_token"
  using jti_plain [of 5 "''xy''"]
  by (simp add: claims_plain_def sample_token_def token_fields_def zero_token_def int64_def sso_strlcpy_def cstr_def
     plain_text_def plain_char_def read_jkt_def)

lemma sample_fits: "payload_fits sample_token"
  by code_simp

lemma sample_issuable: "issuable sample_crypto sample_manager sample_token"
  using sample_claims sample_fits sample_mac
  by (simp add: issuable_def sample_manager_def token_manager_init_def zero_manager_def sample_crypto_def)


section \<open>Rotation of the keys\<close>

lemma rotate_keeps:
  assumes "hs_wf mgr" "rotation_counter mgr \<noteq> - 1" "token_manager_rotate_key mgr secret = (SSO_OK, mgr')"
  shows "hs_wf mgr'" "slots mgr' ! active_slot mgr = slots mgr ! active_slot mgr" "active_slot mgr' = 1 - active_slot mgr"
    "rotation_counter mgr' = rotation_counter mgr + 1" "kid (slots mgr' ! active_slot mgr') = kid_name (rotation_counter mgr + 1)"
  using rotate_wf [OF assms] rotate_slots [OF assms(1,3)] by (metis secret_slot_simps(1))+

lemma counter_room:
  fixes n :: "'a :: len word"
  assumes "n < - 2"
  shows "n \<noteq> - 1" "n + 1 \<noteq> - 1"
proof -
  show "n \<noteq> - 1" using assms word_order.extremum [of "- 2 :: 'a word"] by (auto simp: not_less [symmetric])
  have "n = - 2" if "n + 1 = - 1" using that by (simp add: eq_diff_eq [symmetric])
  then show "n + 1 \<noteq> - 1" using assms by auto
qed

lemma two_rotations_forget:
  assumes "hs_wf mgr" "rotation_counter mgr < - 2" "token_manager_rotate_key mgr s1 = (SSO_OK, mgr1)"
    and "token_manager_rotate_key mgr1 s2 = (SSO_OK, mgr2)" "m \<le> rotation_counter mgr"
  shows "hs_wf mgr2" "slot_index_by_kid mgr2 (kid_name m) = None"
proof -
  let ?n = "rotation_counter mgr"
  note n = counter_room [OF assms(2)]
  note r1 = rotate_keeps [OF assms(1) n(1) assms(3)]
  have n2: "rotation_counter mgr1 \<noteq> - 1" using r1(4) n(2) by simp
  note r2 = rotate_keeps [OF r1(1) n2 assms(4)]
  have "m < ?n + 1" "?n + 1 < ?n + 1 + 1" using word_less_next [OF n(1)] word_less_next [OF n(2)] assms(5) by auto
  then have "m \<noteq> ?n + 1" "m \<noteq> ?n + 1 + 1" by auto
  moreover have "kid (slots mgr2 ! active_slot mgr1) = kid_name (?n + 1)" "kid (slots mgr2 ! active_slot mgr2) = kid_name (?n + 1 + 1)"
    using r2(2,5) r1(4,5) by simp_all
  moreover have "active_slot mgr1 = 0 \<and> active_slot mgr2 = 1 \<or> active_slot mgr1 = 1 \<and> active_slot mgr2 = 0"
    using r1(1) r2(3) by (auto simp: hs_wf_def)
  ultimately show "slot_index_by_kid mgr2 (kid_name m) = None" by (auto simp: slot_index_by_kid_def)
  show "hs_wf mgr2" by (rule r2(1))
qed

text \<open>C28: a token survives one rotation of the key and not two. After one rotation the key it was signed with
  is in the standby slot, found by the id in the header, and the token verifies as before; after the second
  that slot holds another key, the id is unknown and the token is refused.\<close>

theorem token_rotation:
  assumes "hs_wf mgr" "t = token_fields mgr uid roles groups scp ttl jkt now rnd8 rnd32" "issuable cr mgr t"
    and "token_issue cr mgr uid roles groups scp ttl jkt now rnd8 rnd32 = Some (SSO_OK, t')"
    and "rotation_counter mgr < - 2" "token_manager_rotate_key mgr s1 = (SSO_OK, mgr1)"
    and "token_manager_rotate_key mgr1 s2 = (SSO_OK, mgr2)" "now' \<le> tk_expires_at t"
  shows "token_verify cr now' mgr1 (tk_str t') = Some (SSO_OK, t'\<lparr>tk_raw_refresh := []\<rparr>) \<and>
    token_verify cr now' mgr2 (tk_str t') = Some (SSO_ERR_TOKEN_INVALID, zero_token\<lparr>tk_str := tk_str t'\<rparr>)"
proof -
  obtain m x where c: "kid (slots mgr ! active_slot mgr) = kid_name m" "ks_key (slots mgr ! active_slot mgr) = Secret x"
    "populated (slots mgr ! active_slot mgr)" "active_slot mgr < 2" and m: "m \<le> rotation_counter mgr"
    using active_slot_content [OF assms(1)] by metis
  have i: "claims_plain t" "payload_fits t" "sig_b64 cr x (kid_name m) t" using assms(3) c by (simp_all add: issuable_def)
  have t': "t' = t\<lparr>tk_str := token_text cr x (kid_name m) t\<rparr>"
    using issue_text [OF _ refl c(2) _ _ assms(2) i(1)] assms(1,4) c(1) kid_name_plain by (simp add: hs_wf_def)
  note r1 = rotate_keeps [OF assms(1) counter_room(1) [OF assms(5)] assms(6)]
  have "token_verify cr now' mgr1 (token_text cr x (kid_name m) t) =
      Some (SSO_OK, t\<lparr>tk_str := token_text cr x (kid_name m) t, tk_raw_refresh := []\<rparr>)"
    using verify_slot [OF r1(1) c(4) _ _ _ i] r1(2) c(1-3) assms(8) by (simp add: Let_def)
  moreover have "tm_mode mgr2 = SSO_TOKEN_MODE_HS256"
    using two_rotations_forget(1) [OF assms(1,5-7) m] by (simp add: hs_wf_def)
  moreover note two_rotations_forget(2) [OF assms(1,5-7) m]
  ultimately show ?thesis
    using verify_text [OF kid_name_plain(1,3) [of m] i(1,2), of cr now' mgr2 x] verify_unknown kid_name_plain(2) t' by simp
qed

definition sample_rotated :: token_manager where
  "sample_rotated = snd (token_manager_rotate_key sample_manager (Some ''second''))"

theorem token_rotation_witness:
  "\<exists>t'. token_issue sample_crypto sample_manager 7 [1, 2] [3] (Some ''read'') 60 (Jkt ''abc'') 5 ''xy'' ''r'' = Some (SSO_OK, t') \<and>
        token_verify sample_crypto 65 sample_rotated (tk_str t') = Some (SSO_OK, t'\<lparr>tk_raw_refresh := []\<rparr>) \<and>
        fst (the (token_verify sample_crypto 65 (snd (token_manager_rotate_key sample_rotated (Some ''third''))) (tk_str t'))) =
          SSO_ERR_TOKEN_INVALID"
proof -
  obtain x where x: "ks_key (slots sample_manager ! active_slot sample_manager) = Secret x"
    using active_slot_content [OF sample_wf] by metis
  obtain m where m: "kid (slots sample_manager ! active_slot sample_manager) = kid_name m"
    using active_slot_content [OF sample_wf] by metis
  have i: "token_issue sample_crypto sample_manager 7 [1, 2] [3] (Some ''read'') 60 (Jkt ''abc'') 5 ''xy'' ''r'' =
      Some (SSO_OK, sample_token\<lparr>tk_str := token_text sample_crypto x (kid_name m) sample_token\<rparr>)"
    using issue_text [OF _ refl x _ _ sample_token_def sample_claims] sample_wf m kid_name_plain by (simp add: hs_wf_def)
  have r: "token_manager_rotate_key sample_manager (Some ''second'') = (SSO_OK, sample_rotated)"
    "token_manager_rotate_key sample_rotated (Some ''third'') = (SSO_OK, snd (token_manager_rotate_key sample_rotated (Some ''third'')))"
    by (simp_all add: token_manager_rotate_key_def sample_rotated_def Let_def)
  have "rotation_counter sample_manager < - 2" by (simp add: sample_manager_def token_manager_init_def word_less_nat_alt)
  moreover have "65 \<le> tk_expires_at sample_token" by (simp add: sample_token_def token_fields_def)
  ultimately show ?thesis using token_rotation [OF sample_wf sample_token_def sample_issuable i _ r] i by simp
qed

section \<open>What is accepted was signed\<close>

lemma try_slots_sound:
  "try_slots cr mgr is inp sig = Some True \<Longrightarrow>
   \<exists>i \<in> set is. \<exists>x. populated (slots mgr ! i) \<and> ks_key (slots mgr ! i) = Secret x \<and>
     (sig = base64url_encode (cr_hmac cr x inp) 129 \<or> sig = to_hex (cr_hmac cr x inp) 129 0)"
  by (induction "is") (auto simp: Let_def split: if_splits slot_key.splits)

lemma read_claims_time: "read_claims now p out = Some (SSO_OK, t) \<Longrightarrow> now \<le> tk_expires_at t"
  by (auto simp: read_claims_def Let_def bind_eq_Some_conv split: if_splits option.splits)

lemma candidates_kid:
  "candidates mgr k = Some is \<Longrightarrow> i \<in> set is \<Longrightarrow> active_slot mgr < 2 \<Longrightarrow> i < 2 \<and> (k = [] \<or> kid (slots mgr ! i) = k)"
  by (auto simp: candidates_def slot_index_by_kid_def split: if_splits)

text \<open>C29: what HS256 verification accepts was signed under one of the keys. The text has three parts, the third is
  the MAC of the first two under the secret of a slot in use, written in base64 or in hexadecimal; a key id in the header
  names that slot; and the time is not after the expiry the payload states.\<close>

theorem token_verify_sound:
  assumes "hs_wf mgr" "token_verify cr now mgr s = Some (SSO_OK, t)"
  shows "\<exists>h p sig i x. split_token s = Some (h, p, sig) \<and> i < 2 \<and> populated (slots mgr ! i) \<and>
    ks_key (slots mgr ! i) = Secret x \<and> (header_kid h = [] \<or> kid (slots mgr ! i) = header_kid h) \<and>
    (sig = base64url_encode (cr_hmac cr x (h @ ''.'' @ p)) 129 \<or> sig = to_hex (cr_hmac cr x (h @ ''.'' @ p)) 129 0) \<and>
    now \<le> tk_expires_at t"
proof -
  obtain h p sig where sp: "split_token s = Some (h, p, sig)" and l: "length h < 128" "length p < 2048"
    and v: "verify_signature cr mgr (header_kid h) (snprintf 2560 (h @ ''.'' @ p)) sig = Some SSO_OK"
    and r: "read_claims now p (zero_token\<lparr>tk_str := strlcpy s 8192\<rparr>) = Some (SSO_OK, t)"
    using assms(2) by (auto simp: token_verify_def Let_def bind_eq_Some_conv split: option.splits if_splits)
  have "snprintf 2560 (h @ ''.'' @ p) = h @ ''.'' @ p" using l by (intro snprintf_fits) simp
  then obtain "is" where c: "candidates mgr (header_kid h) = Some is" "try_slots cr mgr is (h @ ''.'' @ p) sig = Some True"
    using v assms(1) by (auto simp: verify_signature_def verify_hs256_def hs_wf_def split: option.splits if_splits)
  obtain i x where i: "i \<in> set is" "populated (slots mgr ! i)" "ks_key (slots mgr ! i) = Secret x"
      "sig = base64url_encode (cr_hmac cr x (h @ ''.'' @ p)) 129 \<or> sig = to_hex (cr_hmac cr x (h @ ''.'' @ p)) 129 0"
    using try_slots_sound [OF c(2)] by blast
  then have "i < 2 \<and> (header_kid h = [] \<or> kid (slots mgr ! i) = header_kid h)"
    using candidates_kid [OF c(1)] assms(1) by (simp add: hs_wf_def)
  then show ?thesis using sp i read_claims_time [OF r] by blast
qed

theorem token_verify_sound_witness:
  "\<exists>s t h p sig i x. token_verify sample_crypto 65 sample_manager s = Some (SSO_OK, t) \<and> split_token s = Some (h, p, sig) \<and>
     i < 2 \<and> ks_key (slots sample_manager ! i) = Secret x \<and>
     (sig = base64url_encode (cr_hmac sample_crypto x (h @ ''.'' @ p)) 129 \<or>
      sig = to_hex (cr_hmac sample_crypto x (h @ ''.'' @ p)) 129 0) \<and> 65 \<le> tk_expires_at t"
proof -
  obtain m x where c: "kid (slots sample_manager ! active_slot sample_manager) = kid_name m"
    "ks_key (slots sample_manager ! active_slot sample_manager) = Secret x"
    "populated (slots sample_manager ! active_slot sample_manager)" "active_slot sample_manager < 2"
    using active_slot_content [OF sample_wf] by metis
  have "sig_b64 sample_crypto x (kid_name m) sample_token" using sample_issuable c by (simp add: issuable_def)
  from verify_slot [OF sample_wf c(4,3,1,2) sample_claims sample_fits this, of 65]
  have "token_verify sample_crypto 65 sample_manager (token_text sample_crypto x (kid_name m) sample_token) =
      Some (SSO_OK, sample_token\<lparr>tk_str := token_text sample_crypto x (kid_name m) sample_token, tk_raw_refresh := []\<rparr>)"
    by (simp add: Let_def sample_token_def token_fields_def)
  from this token_verify_sound [OF sample_wf this] show ?thesis by metis
qed

section \<open>Refreshing\<close>

text \<open>A refreshed token keeps the user, roles, groups and scope of the old one and lives from the time of the
  refresh, and it is bound to no key: whatever proof of possession the old token demanded, the new one demands none.\<close>

theorem token_refresh_unbound:
  assumes "token_refresh cr mgr old ttl now rnd8 rnd32 = Some (SSO_OK, t)"
  shows "tk_jkt t = [] \<and> tk_user_id t = tk_user_id old \<and> tk_role_ids t = tk_role_ids old \<and>
    tk_group_ids t = tk_group_ids old \<and> tk_scope t = strlcpy (tk_scope old) 256 \<and> tk_issued_at t = now"
  using assms
  by (auto simp: token_refresh_def token_issue_def token_fields_def read_jkt_def token_destroy_def Let_def bind_eq_Some_conv
    split: option.splits)

lemma sample_unbound: "claims_plain (token_fields sample_manager 7 [1, 2] [3] (Some ''read'') 60 OutJkt 5 ''xy'' ''r'')"
  using sample_claims by (simp add: sample_token_def claims_plain_def token_fields_def plain_text_def read_jkt_def)

theorem token_refresh_unbound_witness:
  "\<exists>t. token_refresh sample_crypto sample_manager sample_token 60 5 ''xy'' ''r'' = Some (SSO_OK, t) \<and>
       tk_jkt sample_token = ''abc'' \<and> tk_jkt t = [] \<and> tk_role_ids t = [1, 2]"
proof -
  have f: "tk_jkt sample_token = ''abc''" "tk_user_id sample_token = 7" "tk_role_ids sample_token = [1, 2]"
    "tk_group_ids sample_token = [3]" "tk_scope sample_token = ''read''"
    by (simp_all add: sample_token_def token_fields_def read_jkt_def sso_strlcpy_def cstr_def)
  obtain m x where c: "kid (slots sample_manager ! active_slot sample_manager) = kid_name m"
    "ks_key (slots sample_manager ! active_slot sample_manager) = Secret x"
    using active_slot_content [OF sample_wf] by metis
  have "\<exists>t. token_refresh sample_crypto sample_manager sample_token 60 5 ''xy'' ''r'' = Some (SSO_OK, t)"
    using issue_text [OF _ refl c(2) _ _ refl sample_unbound] sample_wf c(1) kid_name_plain f
    by (simp add: token_refresh_def hs_wf_def)
  then obtain t where "token_refresh sample_crypto sample_manager sample_token 60 5 ''xy'' ''r'' = Some (SSO_OK, t)" ..
  from this token_refresh_unbound [OF this] show ?thesis using f by simp
qed

end
