(* ===== verification/Dpop.thy ===== *)
theory Dpop
  imports Token_Signing Json_Reader
begin

text \<open>
  Proofs of possession, \<^verbatim>\<open>src/dpop.c\<close>: the checks on the header, the claims and the signature of a DPoP
  proof, and the thumbprint of its key. SHA-256 and the RSA signature of OpenSSL are the fields of a
  record, reading numbers and rounding doubles are arguments, and so is the clock. \<open>None\<close> is undefined
  behaviour: a write behind a block of size zero, or a number that is no 64-bit integer.
\<close>

record dpop_lib =
  dp_sha256 :: "string \<Rightarrow> char list"
  dp_verify_init :: "char list \<Rightarrow> char list \<Rightarrow> bool"
  dp_verify :: "char list \<Rightarrow> char list \<Rightarrow> string \<Rightarrow> char list \<Rightarrow> bool"
  dp_num :: "string \<Rightarrow> dbl option"
  dp_rnd :: "rat \<Rightarrow> rat"

fun str_case_equals :: "string \<Rightarrow> string \<Rightarrow> bool" where
  "str_case_equals (a # as) (b # bs) \<longleftrightarrow> tolower a = tolower b \<and> str_case_equals as bs"
| "str_case_equals as bs \<longleftrightarrow> as = bs"

definition str_field :: "json option \<Rightarrow> string \<Rightarrow> string option" where
  "str_field v k = yyjson_get_str (yyjson_obj_get v k)"

text \<open>\<^verbatim>\<open>(sso_timestamp_t)(d * 1000.0)\<close>.\<close>

definition to_ms :: "dpop_lib \<Rightarrow> dbl \<Rightarrow> timestamp option" where
  "to_ms L d =
     (case d of
        Fin q \<Rightarrow> (let x = dp_rnd L (q * 1000); i = (if x \<ge> 0 then floor x else - floor (- x))
                  in if - (2 ^ 63) \<le> i \<and> i < 2 ^ 63 then Some i else None)
      | _ \<Rightarrow> None)"

definition dpop_thumbprint :: "dpop_lib \<Rightarrow> string \<Rightarrow> string \<Rightarrow> string" where
  "dpop_thumbprint L e n =
     base64url_encode (dp_sha256 L (snprintf 2048
       (''{'' @ [CHR 0x22] @ ''e'' @ [CHR 0x22] @ '':'' @ [CHR 0x22] @ e @ [CHR 0x22] @ '','' @ [CHR 0x22] @ ''kty'' @ [CHR 0x22] @ '':'' @
        [CHR 0x22] @ ''RSA'' @ [CHR 0x22] @ '','' @ [CHR 0x22] @ ''n'' @ [CHR 0x22] @ '':'' @ [CHR 0x22] @ n @ [CHR 0x22] @ ''}''))) 64"

text \<open>Header and key: the exponent and the modulus as the proof writes them.\<close>

definition dpop_key :: "json option \<Rightarrow> (string \<times> string) option" where
  "dpop_key hdr = do {
     typ \<leftarrow> str_field hdr ''typ'';
     if \<not> str_case_equals typ ''dpop+jwt'' then None
     else do {
       alg \<leftarrow> str_field hdr ''alg'';
       if alg \<noteq> ''RS256'' then None
       else let jwk = yyjson_obj_get hdr ''jwk''
            in if \<not> yyjson_is_obj jwk then None
               else do {
                 kty \<leftarrow> str_field jwk ''kty'';
                 n \<leftarrow> str_field jwk ''n'';
                 e \<leftarrow> str_field jwk ''e'';
                 if kty \<noteq> ''RSA'' then None else Some (e, n)
               }
     }
   }"

definition dpop_claims :: "dpop_lib \<Rightarrow> timestamp \<Rightarrow> json option \<Rightarrow> string \<Rightarrow> string \<Rightarrow> bool option" where
  "dpop_claims L now pld meth url =
     (case (str_field pld ''htm'', str_field pld ''htu'', yyjson_obj_get pld ''iat'') of
        (Some htm, Some htu, Some (JNum d)) \<Rightarrow>
          if \<not> str_case_equals htm meth \<or> take (length url) htu \<noteq> url then Some False
          else map_option (\<lambda>iat_ms. \<not> (iat_ms > now + 300000 \<or> iat_ms < now - 300000)) (to_ms L d)
      | _ \<Rightarrow> Some False)"

text \<open>The result and the text in \<^verbatim>\<open>out_jkt\<close>.\<close>

definition dpop_verify_proof ::
  "dpop_lib \<Rightarrow> timestamp \<Rightarrow> string \<Rightarrow> string \<Rightarrow> string \<Rightarrow> string option \<Rightarrow> (sso_error \<times> string) option" where
  "dpop_verify_proof L now dpop_proof meth url expected_jkt =
     (case split_token dpop_proof of
        None \<Rightarrow> Some (SSO_ERR_TOKEN_INVALID, [])
      | Some (hdr_b64, pld_b64, sg_b64) \<Rightarrow>
          if hdr_b64 = [] \<or> pld_b64 = [] then None
          else
            let hdr = yyjson_read_opts (dp_num L) (base64url_decode hdr_b64 (length hdr_b64));
                pld = yyjson_read_opts (dp_num L) (base64url_decode pld_b64 (length pld_b64))
            in case (hdr, pld, dpop_key hdr) of
                 (Some _, Some _, Some (e, n)) \<Rightarrow>
                   (let jkt = dpop_thumbprint L e n
                    in if expected_jkt \<noteq> None \<and> expected_jkt \<noteq> Some jkt then Some (SSO_ERR_TOKEN_INVALID, jkt)
                       else do {
                         ok \<leftarrow> dpop_claims L now pld meth url;
                         if \<not> ok then Some (SSO_ERR_TOKEN_INVALID, jkt)
                         else
                           let n_bin = base64url_decode n (length n); e_bin = base64url_decode e (length e);
                               sig = base64url_decode sg_b64 (length sg_b64)
                           in if dp_verify_init L n_bin e_bin \<and>
                                 dp_verify L n_bin e_bin (snprintf 8192 (hdr_b64 @ ''.'' @ pld_b64)) sig
                              then Some (SSO_OK, jkt) else Some (SSO_ERR_TOKEN_INVALID, jkt)
                       })
               | _ \<Rightarrow> Some (SSO_ERR_TOKEN_INVALID, []))"

section \<open>What an accepted proof shows\<close>

lemma str_case_equals_iff: "str_case_equals a b \<longleftrightarrow> strcaseeq a b"
  by (induction a b rule: str_case_equals.induct) (auto simp: strcaseeq_def)

lemma thumbprint_no_dot: "CHR ''.'' \<notin> set (dpop_thumbprint L e n)"
  by (simp add: dpop_thumbprint_def encode_no_dot)

lemma expected_dot_refused:
  assumes "CHR ''.'' \<in> set x"
  shows "dpop_verify_proof L now p meth url (Some x) \<noteq> Some (SSO_OK, jkt)"
proof -
  have "x \<noteq> dpop_thumbprint L e n" for e n using assms thumbprint_no_dot by metis
  then show ?thesis by (auto simp: dpop_verify_proof_def Let_def split: option.splits prod.splits)
qed


text \<open>A proof over given documents, with a library that accepts every signature.\<close>

definition sample_dpop :: dpop_lib where
  "sample_dpop = \<lparr>dp_sha256 = (\<lambda>_. replicate 32 NUL), dp_verify_init = (\<lambda>_ _. True), dp_verify = (\<lambda>_ _ _ _. True),
     dp_num = (\<lambda>s. Some (Fin (of_nat (digits_val s)))), dp_rnd = (\<lambda>x. x)\<rparr>"

definition sample_header :: jw where
  "sample_header = JwObj [(''typ'', JwStr ''dpop+jwt''), (''alg'', JwStr ''RS256''),
     (''jwk'', JwObj [(''kty'', JwStr ''RSA''), (''n'', JwStr ''AQ''), (''e'', JwStr ''AQ'')])]"

definition sample_claims :: jw where
  "sample_claims = JwObj [(''htm'', JwStr ''POST''), (''htu'', JwStr ''http://h/x''), (''iat'', JwUint 1)]"

definition written :: "jw \<Rightarrow> string" where
  "written v = base64url_encode (the (yyjson_mut_write v)) 1000"

definition sample_proof :: string where
  "sample_proof = written sample_header @ CHR ''.'' # written sample_claims @ CHR ''.'' # []"

lemma encode_longer: "out + 4 * ((length bs + 2) div 3) < n \<Longrightarrow> length bs \<le> length (base64url_loop bs n out)"
proof (induction bs n out rule: base64url_loop.induct)
  case (4 a b c rest n out)
  have "length (a # b # c # rest) + 2 = 3 + (length rest + 2)" by simp
  then have "(length (a # b # c # rest) + 2) div 3 = 1 + (length rest + 2) div 3" by (simp only: div_add_self1)
  then show ?case using 4 by (simp add: char_sextets)
qed (auto simp: char_sextets)

lemma written_read:
  assumes "yyjson_mut_write v = Some t" "t \<noteq> []" "length t < 700"
  shows "yyjson_read_opts (dp_num sample_dpop) (base64url_decode (written v) (length (written v))) =
      Some (json_of (\<lambda>n. Fin (of_nat n)) v)"
    and "written v \<noteq> []" "CHR ''.'' \<notin> set (written v)"
proof -
  have l: "4 * ((length t + 2) div 3) < 1000" using assms(3) by simp
  then have "length t \<le> length (written v)" using assms(1) encode_longer [of 0 t 1000] by (simp add: written_def base64url_encode_def)
  then have "base64url_decode (written v) (length (written v)) = t" using assms(1) base64url_inverse [OF l] by (simp add: written_def)
  then show "yyjson_read_opts (dp_num sample_dpop) (base64url_decode (written v) (length (written v))) =
      Some (json_of (\<lambda>n. Fin (of_nat n)) v)"
    using read_written [of "dp_num sample_dpop" "\<lambda>n. Fin (of_nat n)" v t] assms(1) by (simp add: sample_dpop_def)
  show "written v \<noteq> []" using \<open>length t \<le> length (written v)\<close> assms(2) by auto
  show "CHR ''.'' \<notin> set (written v)" by (simp add: written_def encode_no_dot)
qed

lemma sample_documents:
  "\<exists>t. yyjson_mut_write sample_header = Some t \<and> t \<noteq> [] \<and> length t < 700"
  "\<exists>t. yyjson_mut_write sample_claims = Some t \<and> t \<noteq> [] \<and> length t < 700"
  by (simp_all add: yyjson_mut_write_def sample_header_def sample_claims_def write_str_plain plain_text_def plain_char_def
    dec.simps [of "Suc 0"])

lemma sample_proof_accepted:
  "dpop_verify_proof sample_dpop 5 sample_proof ''post'' ''http://h/x'' None = Some (SSO_OK, dpop_thumbprint sample_dpop ''AQ'' ''AQ'')"
proof -
  obtain th tc where t: "yyjson_mut_write sample_header = Some th" "th \<noteq> []" "length th < 700"
      "yyjson_mut_write sample_claims = Some tc" "tc \<noteq> []" "length tc < 700"
    using sample_documents by blast
  note h = written_read [OF t(1-3)] and c = written_read [OF t(4-6)]
  have "split_token sample_proof = Some (written sample_header, written sample_claims, [])"
    unfolding sample_proof_def by (rule split_parts [OF h(3) c(3)])
  moreover have "dpop_key (Some (json_of (\<lambda>n. Fin (of_nat n)) sample_header)) = Some (''AQ'', ''AQ'')"
    by (simp add: sample_header_def dpop_key_def str_field_def cstr_nul_free str_case_equals_iff strcaseeq_def Let_def)
  moreover have "dpop_claims sample_dpop 5 (Some (json_of (\<lambda>n. Fin (of_nat n)) sample_claims)) ''post'' ''http://h/x'' = Some True"
    by (simp add: sample_claims_def dpop_claims_def str_field_def cstr_nul_free str_case_equals_iff strcaseeq_def tolower_def
      char_of_eq_iff to_ms_def sample_dpop_def)
  ultimately show ?thesis using h(1,2) c(1,2) by (simp add: dpop_verify_proof_def Let_def) (simp add: sample_dpop_def)
qed


end
