(* ===== verification/Mfa.thy ===== *)
theory Mfa
  imports Libc_Numbers
begin

text \<open>
  Time-based one-time passwords, \<^verbatim>\<open>src/mfa.c\<close>: the base32 form of a secret, the six digit code of a
  time step and its verification over three steps. HMAC-SHA1 of OpenSSL is an argument, as are the
  random bytes of a new secret and the clock in seconds. The 32-bit accumulators are naturals
  reduced modulo \<open>2 ^ 32\<close>.
\<close>

section \<open>Base32\<close>

definition base32_chars :: string where
  "base32_chars = ''ABCDEFGHIJKLMNOPQRSTUVWXYZ234567''"

text \<open>The inner loop: characters while five bits are there. \<open>None\<close> is a full buffer.\<close>

fun b32_flush :: "nat \<Rightarrow> nat \<Rightarrow> nat \<Rightarrow> string \<Rightarrow> (nat \<times> string) option" where
  "b32_flush max_len buffer bits_left out =
     (if bits_left \<ge> 5 then
        (if length out + 1 \<ge> max_len then None
         else b32_flush max_len buffer (bits_left - 5)
                (out @ [base32_chars ! (drop_bit (bits_left - 5) buffer AND 0x1F)]))
      else Some (bits_left, out))"

declare b32_flush.simps [simp del]

fun b32_encode_loop :: "nat \<Rightarrow> char list \<Rightarrow> nat \<Rightarrow> nat \<Rightarrow> string \<Rightarrow> (nat \<times> nat \<times> string) option" where
  "b32_encode_loop max_len [] buffer bits_left out = Some (buffer, bits_left, out)"
| "b32_encode_loop max_len (c # cs) buffer bits_left out =
     (let b = push_bit 8 buffer mod 2 ^ 32 OR of_char c
      in case b32_flush max_len b (bits_left + 8) out of
           None \<Rightarrow> None
         | Some (bl, out') \<Rightarrow> b32_encode_loop max_len cs (b AND (2 ^ bl - 1)) bl out')"

definition base32_encode :: "char list \<Rightarrow> nat \<Rightarrow> string option" where
  "base32_encode data max_len =
     (case b32_encode_loop max_len data 0 0 [] of
        None \<Rightarrow> None
      | Some (buffer, bits_left, out) \<Rightarrow>
          if bits_left > 0 then
            (if length out + 1 \<ge> max_len then None
             else Some (out @ [base32_chars ! (push_bit (5 - bits_left) buffer mod 2 ^ 32 AND 0x1F)]))
          else Some out)"

definition base32_val :: "char \<Rightarrow> nat option" where
  "base32_val ch =
     (let c = of_char ch
      in if 65 \<le> c \<and> c \<le> 90 then Some (c - 65)
         else if 97 \<le> c \<and> c \<le> 122 then Some (c - 97)
         else if 50 \<le> c \<and> c \<le> 55 then Some (c - 50 + 26)
         else None)"

text \<open>More bytes than the buffer holds make the length 0: no bytes.\<close>

fun b32_decode_loop :: "nat \<Rightarrow> string \<Rightarrow> nat \<Rightarrow> nat \<Rightarrow> char list \<Rightarrow> char list" where
  "b32_decode_loop max_len [] buffer bits_left res = res"
| "b32_decode_loop max_len (c # cs) buffer bits_left res =
     (case base32_val c of
        None \<Rightarrow> b32_decode_loop max_len cs buffer bits_left res
      | Some v \<Rightarrow>
          (let b = push_bit 5 buffer mod 2 ^ 32 OR v; bl = bits_left + 5
           in if bl \<ge> 8 then
                (if length res \<ge> max_len then []
                 else b32_decode_loop max_len cs (b AND (2 ^ (bl - 8) - 1)) (bl - 8)
                        (res @ [char_of (drop_bit (bl - 8) b AND 0xFF)]))
              else b32_decode_loop max_len cs (b AND (2 ^ bl - 1)) bl res))"

definition base32_decode :: "string \<Rightarrow> nat \<Rightarrow> char list" where
  "base32_decode encoded max_len = b32_decode_loop max_len encoded 0 0 []"

definition mfa_generate_secret :: "char list \<Rightarrow> nat \<Rightarrow> string" where
  "mfa_generate_secret raw out_len = (case base32_encode raw out_len of Some s \<Rightarrow> s | None \<Rightarrow> [])"

section \<open>One-time passwords\<close>

type_synonym hmac_sha1 = "char list \<Rightarrow> char list \<Rightarrow> char list option"

definition be_bytes :: "64 word \<Rightarrow> char list" where
  "be_bytes w = map (\<lambda>i. char_of (unat (drop_bit (8 * (7 - i)) w) mod 256)) [0..<8]"

definition byte_at :: "char list \<Rightarrow> nat \<Rightarrow> nat" where
  "byte_at h i = of_char (h ! i)"

definition generate_totp :: "hmac_sha1 \<Rightarrow> char list \<Rightarrow> 64 word \<Rightarrow> nat" where
  "generate_totp mac key time_step =
     (case mac key (be_bytes time_step) of
        None \<Rightarrow> 0
      | Some h \<Rightarrow>
          (let off = byte_at h 19 AND 0x0F
           in (push_bit 24 (byte_at h off AND 0x7F) OR push_bit 16 (byte_at h (off + 1)) OR
               push_bit 8 (byte_at h (off + 2)) OR byte_at h (off + 3)) mod 1000000))"

text \<open>\<^verbatim>\<open>%06u\<close> of a number below a million.\<close>

definition six_digits :: "nat \<Rightarrow> string" where
  "six_digits n = replicate (6 - length (dec n)) (CHR ''0'') @ dec n"

definition mfa_verify_totp :: "hmac_sha1 \<Rightarrow> 64 word \<Rightarrow> string option \<Rightarrow> string option \<Rightarrow> bool" where
  "mfa_verify_totp mac now_s base32_secret code =
     (case (base32_secret, code) of
        (Some s, Some c) \<Rightarrow>
          if length c \<noteq> 6 then False
          else let key = base32_decode s 64; step = now_s div 30
               in key \<noteq> [] \<and>
                  list_ex (\<lambda>i. take 6 (six_digits (generate_totp mac key (step + i))) = c) [-1, 0, 1]
      | _ \<Rightarrow> False)"

section \<open>Bit strings\<close>

text \<open>The \<open>n\<close> low bits of a number, the highest first.\<close>

definition bits :: "nat \<Rightarrow> nat \<Rightarrow> bool list" where
  "bits n x = map (bit x) (rev [0..<n])"

lemma length_bits [simp]: "length (bits n x) = n"
  by (simp add: bits_def)

lemma bits_0 [simp]: "bits 0 x = []"
  by (simp add: bits_def)

lemma bits_cong: "(\<And>i. i < n \<Longrightarrow> bit x i = bit y i) \<Longrightarrow> bits n x = bits n y"
  by (simp add: bits_def)

lemma bits_add: "bits (m + n) x = bits m (drop_bit n x) @ bits n x"
proof -
  have "[0..<m + n] = [0..<n] @ map (\<lambda>i. i + n) [0..<m]"
    by (metis add.commute map_add_upt le0 upt_add_eq_append add_0)
  then show ?thesis by (simp add: bits_def rev_map bit_drop_bit_eq add.commute comp_def)
qed

lemma bits_mask [simp]: "bits n (x AND (2 ^ n - 1)) = bits n x"
  unfolding mask_eq_exp_minus_1 [symmetric] by (rule bits_cong) (simp add: bit_and_iff bit_mask_iff)

lemma bits_mask_Suc [simp]: "bits n (x AND (2 ^ n - Suc 0)) = bits n x"
  using bits_mask [of n x] by simp

lemma bit_small: "c < 2 ^ n \<Longrightarrow> n \<le> i \<Longrightarrow> \<not> bit (c :: nat) i"
  by (metis bit_take_bit_iff leD take_bit_nat_eq_self)

lemma bits_push:
  assumes "c < 2 ^ n" "k + n \<le> 32"
  shows "bits (k + n) (push_bit n b mod 2 ^ 32 OR c) = bits k b @ bits n c"
proof -
  let ?x = "push_bit n b mod 2 ^ 32 OR c"
  have "bits k (drop_bit n ?x) = bits k b"
    using assms unfolding take_bit_eq_mod [symmetric]
    by (intro bits_cong) (simp add: bit_drop_bit_eq bit_or_iff bit_small bit_push_bit_iff bit_take_bit_iff)
  moreover have "bits n ?x = bits n c"
    unfolding take_bit_eq_mod [symmetric] by (intro bits_cong) (simp add: bit_or_iff bit_push_bit_iff bit_take_bit_iff)
  ultimately show ?thesis by (simp add: bits_add)
qed

lemma bits_inj:
  assumes "bits n x = bits n y" "x < 2 ^ n" "y < 2 ^ n"
  shows "x = y"
proof (rule bit_eqI)
  fix i
  have "\<forall>i < n. bit x i = bit y i" using assms(1) by (auto simp: bits_def)
  then show "bit x i = bit y i" using assms(2,3) bit_small by (cases "i < n") auto
qed

definition byte_bits :: "char list \<Rightarrow> bool list" where
  "byte_bits cs = concat (map (\<lambda>c. bits 8 (of_char c)) cs)"

lemma length_byte_bits [simp]: "length (byte_bits cs) = 8 * length cs"
  by (induction cs) (simp_all add: byte_bits_def)

lemma of_char_byte: "(of_char c :: nat) < 2 ^ 8"
  by simp

lemma byte_bits_inj: "byte_bits cs = byte_bits ds \<Longrightarrow> length cs = length ds \<Longrightarrow> cs = ds"
proof (induction cs ds rule: list_induct2')
  case (4 c cs d ds)
  then have "bits 8 (of_char c) = bits 8 (of_char d)" "byte_bits cs = byte_bits ds" by (simp_all add: byte_bits_def)
  with 4 show ?case using bits_inj [of 8 "of_char c" "of_char d"] by simp
qed simp_all

definition valid32 :: "string \<Rightarrow> bool" where
  "valid32 s \<longleftrightarrow> (\<forall>c \<in> set s. base32_val c \<noteq> None)"

definition code_bits :: "string \<Rightarrow> bool list" where
  "code_bits s = concat (map (\<lambda>c. bits 5 (the (base32_val c))) s)"

lemma length_code_bits [simp]: "length (code_bits s) = 5 * length s"
  by (induction s) (simp_all add: code_bits_def)

lemma base32_chars_alt: "map (\<lambda>v. char_of (if v < 26 then 65 + v else 24 + v)) [0..<32 :: nat] = base32_chars"
  by (simp add: base32_chars_def upt_rec char_of_eq_iff)

lemma base32_val_char: "v < 32 \<Longrightarrow> base32_val (base32_chars ! v) = Some v"
  by (auto simp: base32_val_def of_char_of simp flip: base32_chars_alt)

lemma base32_val_less: "base32_val c = Some v \<Longrightarrow> v < 2 ^ 5"
  by (auto simp: base32_val_def Let_def split: if_splits)

lemma and_1F_less: "x AND 0x1F < (32 :: nat)"
  using take_bit_nat_less_exp [of 5 x] by (simp add: take_bit_eq_mask mask_eq_exp_minus_1)

lemma code_char:
  "valid32 (s @ [base32_chars ! (x AND 0x1F)]) = valid32 s"
  "code_bits (s @ [base32_chars ! (x AND 0x1F)]) = code_bits s @ bits 5 x"
  using base32_val_char [OF and_1F_less [of x]] bits_mask [of 5 x] by (simp_all add: valid32_def code_bits_def)

section \<open>Correctness\<close>

lemma div_mod_add:
  assumes "0 < (c :: nat)"
  shows "(a + b) div c = a div c + (a mod c + b) div c" "(a + b) mod c = (a mod c + b) mod c"
proof -
  have "(a mod c + b + a div c * c) div c = a div c + (a mod c + b) div c" using assms by (subst div_mult_self1) simp_all
  moreover have "a mod c + b + a div c * c = a + b" using div_mult_mod_eq [of a c] by linarith
  ultimately show "(a + b) div c = a div c + (a mod c + b) div c" by simp
qed (simp add: mod_add_left_eq)

lemma div_5_up: "(n + 4) div 5 = (if n mod 5 = 0 then n div 5 else n div 5 + 1)" for n :: nat
proof -
  have "(n mod 5 + 4) div 5 = (if n mod 5 = 0 then 0 else 1)"
    using mod_less_divisor [of 5 n] by (auto intro!: div_nat_eqI)
  then show ?thesis by (simp add: div_mod_add(1) [of 5 n 4])
qed

lemma b32_flush_bits:
  "valid32 out \<Longrightarrow> length out + bl div 5 < m \<Longrightarrow>
   \<exists>out'. b32_flush m b bl out = Some (bl mod 5, out') \<and> valid32 out' \<and> length out' = length out + bl div 5 \<and>
     code_bits out' @ bits (bl mod 5) b = code_bits out @ bits bl b"
proof (induction m b bl out rule: b32_flush.induct)
  case (1 m b bl out)
  show ?case
  proof (cases "bl \<ge> 5")
    case True
    let ?out = "out @ [base32_chars ! (drop_bit (bl - 5) b AND 0x1F)]"
    have k: "bl div 5 = Suc ((bl - 5) div 5)" "bl mod 5 = (bl - 5) mod 5" "bl = 5 + (bl - 5)"
      using True by (simp_all add: le_div_geq le_mod_geq)
    have "valid32 ?out" "length ?out + (bl - 5) div 5 < m" "\<not> m \<le> length out + 1"
      using 1(2,3) k(1) by (simp_all add: code_char)
    then obtain out' where "b32_flush m b (bl - 5) ?out = Some ((bl - 5) mod 5, out')" "valid32 out'"
        "length out' = length ?out + (bl - 5) div 5"
        "code_bits out' @ bits ((bl - 5) mod 5) b = code_bits ?out @ bits (bl - 5) b"
      using 1(1) [OF True] by auto
    moreover have "bits bl b = bits 5 (drop_bit (bl - 5) b) @ bits (bl - 5) b" using bits_add [of 5 "bl - 5" b] k(3) by simp
    ultimately show ?thesis using True k \<open>\<not> m \<le> length out + 1\<close> by (subst b32_flush.simps) (auto simp: code_char)
  qed (use 1(2) in \<open>simp add: b32_flush.simps\<close>)
qed

lemma b32_encode_loop_bits:
  "valid32 out \<Longrightarrow> bl < 5 \<Longrightarrow> length out + (bl + 8 * length cs) div 5 < m \<Longrightarrow>
   \<exists>b' out'. b32_encode_loop m cs b bl out = Some (b', (bl + 8 * length cs) mod 5, out') \<and> valid32 out' \<and>
     length out' = length out + (bl + 8 * length cs) div 5 \<and>
     code_bits out' @ bits ((bl + 8 * length cs) mod 5) b' = code_bits out @ bits bl b @ byte_bits cs"
proof (induction cs arbitrary: b bl out)
  case (Cons c cs)
  let ?b = "push_bit 8 b mod 2 ^ 32 OR of_char c"
  have l: "bl + 8 * length (c # cs) = bl + 8 + 8 * length cs" by simp
  have n: "(bl + 8 * length (c # cs)) div 5 = (bl + 8) div 5 + ((bl + 8) mod 5 + 8 * length cs) div 5"
    "(bl + 8 * length (c # cs)) mod 5 = ((bl + 8) mod 5 + 8 * length cs) mod 5"
    unfolding l by (rule div_mod_add; simp)+
  have m1: "length out + (bl + 8) div 5 < m" using Cons.prems(3) n(1) by linarith
  obtain out1 where 1: "b32_flush m ?b (bl + 8) out = Some ((bl + 8) mod 5, out1)" "valid32 out1"
      "length out1 = length out + (bl + 8) div 5" "code_bits out1 @ bits ((bl + 8) mod 5) ?b = code_bits out @ bits (bl + 8) ?b"
    using b32_flush_bits [OF Cons.prems(1) m1] by blast
  have m2: "length out1 + ((bl + 8) mod 5 + 8 * length cs) div 5 < m" using Cons.prems(3) n(1) 1(3) by linarith
  obtain b' out' where 2: "b32_encode_loop m cs (?b AND (2 ^ ((bl + 8) mod 5) - 1)) ((bl + 8) mod 5) out1 =
        Some (b', ((bl + 8) mod 5 + 8 * length cs) mod 5, out')" "valid32 out'"
      "length out' = length out1 + ((bl + 8) mod 5 + 8 * length cs) div 5"
      "code_bits out' @ bits (((bl + 8) mod 5 + 8 * length cs) mod 5) b' =
       code_bits out1 @ bits ((bl + 8) mod 5) (?b AND (2 ^ ((bl + 8) mod 5) - 1)) @ byte_bits cs"
    using Cons.IH [OF 1(2) _ m2] by fastforce
  have "bits (bl + 8) ?b = bits bl b @ bits 8 (of_char c)" using Cons.prems(2) by (intro bits_push) auto
  then have "code_bits out' @ bits (((bl + 8) mod 5 + 8 * length cs) mod 5) b' = code_bits out @ bits bl b @ byte_bits (c # cs)"
    unfolding 2(4) bits_mask append_assoc [symmetric] 1(4) by (simp add: byte_bits_def)
  then show ?case using 1(1,3) 2(1-3) n by (simp add: Let_def)
qed (auto simp: byte_bits_def)

lemma bits_pad: "p \<le> n \<Longrightarrow> n \<le> 32 \<Longrightarrow> bits n (push_bit p b mod 2 ^ 32) = bits (n - p) b @ replicate p False"
proof -
  assume p: "p \<le> n" "n \<le> 32"
  have "bits p 0 = replicate p False" by (rule nth_equalityI) (simp_all add: bits_def)
  then show ?thesis using bits_push [of 0 p "n - p" b] p by simp
qed

lemma base32_encode_bits:
  assumes "(8 * length data + 4) div 5 < m"
  shows "\<exists>s p. base32_encode data m = Some s \<and> valid32 s \<and> p < 5 \<and> code_bits s = byte_bits data @ replicate p False"
proof -
  let ?n = "8 * length data"
  note n = div_5_up [of ?n]
  have "valid32 []" "length ([] :: string) + (0 + ?n) div 5 < m" using assms n by (auto simp: valid32_def split: if_splits)
  from b32_encode_loop_bits [OF this(1) _ this(2), of 0]
  obtain b out where 1: "b32_encode_loop m data 0 0 [] = Some (b, ?n mod 5, out)" "valid32 out" "length out = ?n div 5"
      "code_bits out @ bits (?n mod 5) b = byte_bits data"
    by (auto simp: code_bits_def)
  show ?thesis
  proof (cases "?n mod 5 = 0")
    case True
    then show ?thesis using 1 by (intro exI [of _ out] exI [of _ 0]) (simp add: base32_encode_def)
  next
    case False
    let ?p = "5 - ?n mod 5"
    have "bits 5 (push_bit ?p b mod 2 ^ 32) = bits (?n mod 5) b @ replicate ?p False"
      using bits_pad [of ?p 5 b] mod_less_divisor [of 5 ?n] by simp
    then show ?thesis using 1 False n assms
      by (intro exI [of _ "out @ [base32_chars ! (push_bit ?p b mod 2 ^ 32 AND 0x1F)]"] exI [of _ ?p])
        (auto simp: base32_encode_def code_char 1(4) [symmetric])
  qed
qed

lemma b32_decode_loop_bits:
  "valid32 s \<Longrightarrow> bl < 8 \<Longrightarrow> length res + (bl + 5 * length s) div 8 \<le> m \<Longrightarrow>
   \<exists>b'. byte_bits (b32_decode_loop m s b bl res) @ bits ((bl + 5 * length s) mod 8) b' =
     byte_bits res @ bits bl b @ code_bits s"
proof (induction s arbitrary: b bl res)
  case (Cons c s)
  obtain v where v: "base32_val c = Some v" "v < 2 ^ 5" using Cons.prems(1) base32_val_less by (auto simp: valid32_def)
  have s: "valid32 s" using Cons.prems(1) by (simp add: valid32_def)
  let ?b = "push_bit 5 b mod 2 ^ 32 OR v"
  have b: "bits (bl + 5) ?b = bits bl b @ bits 5 v" using v(2) Cons.prems(2) by (intro bits_push) auto
  have l: "bl + 5 * length (c # s) = bl + 5 + 5 * length s" by simp
  show ?case
  proof (cases "bl + 5 \<ge> 8")
    case True
    define k where "k = bl + 5 - 8"
    have k: "bl + 5 = 8 + k" "k < 8" using True Cons.prems(2) by (auto simp: k_def)
    let ?res = "res @ [char_of (drop_bit k ?b AND 0xFF)]"
    have n: "(bl + 5 * length (c # s)) div 8 = 1 + (k + 5 * length s) div 8"
      "(bl + 5 * length (c # s)) mod 8 = (k + 5 * length s) mod 8"
      unfolding l k(1) by (simp_all add: add.assoc)
    have m: "length ?res + (k + 5 * length s) div 8 \<le> m" "\<not> m \<le> length res" using Cons.prems(3) n(1) by simp_all
    have "bits (8 + k) ?b = bits 8 (drop_bit k ?b) @ bits k ?b" by (rule bits_add)
    moreover have "byte_bits ?res = byte_bits res @ bits 8 (drop_bit k ?b)"
      using bits_mask [of 8 "drop_bit k ?b"] take_bit_nat_less_exp [of 8 "drop_bit k ?b"]
      by (simp add: byte_bits_def of_char_of take_bit_eq_mask mask_eq_exp_minus_1 flip: take_bit_eq_mod)
    moreover obtain b' where "byte_bits (b32_decode_loop m s (?b AND (2 ^ k - 1)) k ?res) @ bits ((k + 5 * length s) mod 8) b' =
        byte_bits ?res @ bits k (?b AND (2 ^ k - 1)) @ code_bits s"
      using Cons.IH [OF s k(2) m(1)] by blast
    ultimately show ?thesis using b k m(2) n v(1) by (intro exI [of _ b']) (simp add: Let_def code_bits_def)
  next
    case False
    then have "bl + 5 < 8" "length res + (bl + 5 + 5 * length s) div 8 \<le> m" using Cons.prems(3) l by simp_all
    then obtain b' where "byte_bits (b32_decode_loop m s (?b AND (2 ^ (bl + 5) - 1)) (bl + 5) res) @
        bits ((bl + 5 + 5 * length s) mod 8) b' = byte_bits res @ bits (bl + 5) (?b AND (2 ^ (bl + 5) - 1)) @ code_bits s"
      using Cons.IH [OF s] by blast
    then show ?thesis using False b v(1) l unfolding bits_mask l by (intro exI [of _ b']) (simp add: Let_def code_bits_def)
  qed
qed (auto simp: code_bits_def)

lemma base32_decode_encode:
  assumes "(8 * length data + 4) div 5 < n" "length data \<le> m"
  shows "\<exists>s. base32_encode data n = Some s \<and> base32_decode s m = data"
proof -
  obtain s p where s: "base32_encode data n = Some s" "valid32 s" "p < 5" "code_bits s = byte_bits data @ replicate p False"
    using base32_encode_bits [OF assms(1)] by blast
  have l: "5 * length s = 8 * length data + p" using arg_cong [OF s(4), of length] by simp
  have d: "(8 * length data + p) div 8 = length data" "(8 * length data + p) mod 8 = p" using s(3) by simp_all
  let ?r = "base32_decode s m"
  obtain b' where "byte_bits ?r @ bits p b' = byte_bits data @ replicate p False"
    using b32_decode_loop_bits [OF s(2), of 0 "[]" m 0] assms(2) l d s(4) by (auto simp: base32_decode_def byte_bits_def)
  then have e: "byte_bits ?r = byte_bits data" by (simp add: append_eq_append_conv)
  then have "8 * length ?r = 8 * length data" using arg_cong [OF e, of length] unfolding length_byte_bits by blast
  then have "length ?r = length data" by simp
  then show ?thesis using s(1) byte_bits_inj [OF e] by blast
qed

lemma six_digits_length: "n < 1000000 \<Longrightarrow> length (six_digits n) = 6"
  using length_dec [of 6 n] by (simp add: six_digits_def)

lemma generate_totp_less: "generate_totp mac key t < 1000000"
  by (auto simp: generate_totp_def Let_def split: option.split)

text \<open>C35: A code verifies against a generated secret exactly when it is the one-time password of the secret's twenty
  bytes for the current, the previous or the next half minute.\<close>

theorem mfa_totp_window:
  assumes "length raw = 20"
  shows "mfa_verify_totp mac now_s (Some (mfa_generate_secret raw 64)) (Some c) \<longleftrightarrow>
    (\<exists>i \<in> {-1, 0, 1}. c = six_digits (generate_totp mac raw (now_s div 30 + i)))"
proof -
  obtain s where s: "base32_encode raw 64 = Some s" "base32_decode s 64 = raw"
    using base32_decode_encode [of raw 64 64] assms by auto
  have "raw \<noteq> []" using assms by auto
  moreover have "length c = 6" if "c = six_digits (generate_totp mac raw t)" for t
    using that six_digits_length generate_totp_less by blast
  moreover have "take 6 (six_digits (generate_totp mac raw t)) = six_digits (generate_totp mac raw t)" for t
    using six_digits_length [OF generate_totp_less] by simp
  ultimately show ?thesis using s by (auto simp: mfa_verify_totp_def mfa_generate_secret_def)
qed

lemma replicate_5: "replicate 5 c = [c, c, c, c, c]"
  by (simp add: eval_nat_numeral)

theorem mfa_totp_window_witness:
  "mfa_verify_totp (\<lambda>_ _. Some [NUL, NUL, NUL, CHR 0x07, NUL, NUL, NUL, NUL, NUL, NUL, NUL, NUL, NUL, NUL, NUL, NUL, NUL, NUL, NUL, NUL])
     90 (Some (mfa_generate_secret (replicate 20 CHR ''k'') 64)) (Some ''000007'')"
  by (subst mfa_totp_window)
    (auto simp: generate_totp_def byte_at_def six_digits_def dec.simps [of 7] char_of_eq_iff eq_commute [of "CHR ''7''"]
      replicate_5)

end
