(* ===== verification/Risk.thy ===== *)
theory Risk
  imports Complex_Main Sso_Core
begin

text \<open>
  The login risk engine, \<^verbatim>\<open>src/risk.c\<close>: failed logins per address and the last good login per user in
  two tables of 1024 sets with four ways each, and a moving average of the login rate. The static
  variables of the file are a record. A double is a rational, and an operation on doubles is the
  operation on rationals followed by a rounding; the rounding and the square root are arguments. No
  number here comes near the largest double, since a rate is at most a thousand. The clock is an
  argument, the lock and the log are not modelled.
\<close>

section \<open>State\<close>

record fpu =
  rnd :: "rat \<Rightarrow> rat"
  sqrt_fn :: "rat \<Rightarrow> rat"

abbreviation (input) "CACHE_SETS \<equiv> 1024 :: nat"
abbreviation (input) "CACHE_WAYS \<equiv> 4 :: nat"
abbreviation (input) "FAIL_WINDOW_MS \<equiv> 900000 :: timestamp"
abbreviation (input) "IMPOSSIBLE_TRAVEL_MS \<equiv> 300000 :: timestamp"
abbreviation (input) "RISK_SCORE_MEDIUM \<equiv> 40 :: int"
abbreviation (input) "RISK_SCORE_HIGH \<equiv> 80 :: int"

record risk_ip_record =
  ri_ip :: string
  failed_count :: int
  last_fail_ms :: timestamp

record risk_user_record =
  ru_user_id :: sso_id
  last_success_ip :: string
  last_success_ua_hash :: "32 word"
  last_success_ms :: timestamp

record risk_state =
  ip_records :: "nat \<Rightarrow> risk_ip_record list"
  user_records :: "nat \<Rightarrow> risk_user_record list"
  velocity_ema :: rat
  velocity_var :: rat
  last_login_ms :: timestamp

definition zero_ip :: risk_ip_record where
  "zero_ip = \<lparr>ri_ip = [], failed_count = 0, last_fail_ms = 0\<rparr>"

definition zero_user_rec :: risk_user_record where
  "zero_user_rec = \<lparr>ru_user_id = 0, last_success_ip = [], last_success_ua_hash = 0, last_success_ms = 0\<rparr>"

definition risk_initial :: "fpu \<Rightarrow> risk_state" where
  "risk_initial F =
     \<lparr>ip_records = (\<lambda>_. replicate CACHE_WAYS zero_ip), user_records = (\<lambda>_. replicate CACHE_WAYS zero_user_rec),
      velocity_ema = 1, velocity_var = rnd F (1 / 10), last_login_ms = 0\<rparr>"

section \<open>Helpers\<close>

text \<open>A \<^verbatim>\<open>char\<close> is signed, so that a byte above 127 is added as a negative number.\<close>

definition schar :: "char \<Rightarrow> 32 word" where
  "schar c = (let n = of_char c in if n < 128 then word_of_nat n else word_of_nat n - 256)"

definition simple_hash :: "string \<Rightarrow> 32 word" where
  "simple_hash s = foldl (\<lambda>h c. push_bit 5 h + h + schar c) 5381 s"

definition strncmp_eq :: "nat \<Rightarrow> string \<Rightarrow> string \<Rightarrow> bool" where
  "strncmp_eq n a b \<longleftrightarrow> take n a = take n b"

text \<open>What stands before the last dot.\<close>

definition before_last_dot :: "string \<Rightarrow> string option" where
  "before_last_dot s =
     (if CHR ''.'' \<in> set s then Some (rev (tl (dropWhile (\<lambda>c. c \<noteq> CHR ''.'') (rev s)))) else None)"

definition is_same_subnet_ipv4 :: "string \<Rightarrow> string \<Rightarrow> bool" where
  "is_same_subnet_ipv4 ip1 ip2 =
     (case (before_last_dot ip1, before_last_dot ip2) of
        (Some a, Some b) \<Rightarrow> length a = length b \<and> a = b
      | _ \<Rightarrow> False)"

definition ip_set :: "string \<Rightarrow> nat" where
  "ip_set ip = unat (simple_hash ip) mod CACHE_SETS"

definition user_set :: "sso_id \<Rightarrow> nat" where
  "user_set uid = unat uid mod CACHE_SETS"

definition ip_match :: "string \<Rightarrow> risk_ip_record \<Rightarrow> bool" where
  "ip_match ip r \<longleftrightarrow> ri_ip r \<noteq> [] \<and> strncmp_eq 46 (ri_ip r) ip"

section \<open>Evaluation\<close>

text \<open>The truncation of a double to an integer.\<close>

definition trunc :: "rat \<Rightarrow> int" where
  "trunc x = (if x \<ge> 0 then floor x else - floor (- x))"

definition velocity_step :: "fpu \<Rightarrow> timestamp \<Rightarrow> risk_state \<Rightarrow> int \<times> risk_state" where
  "velocity_step F now st =
     (if last_login_ms st > 0 then
        (let d = rnd F (rnd F (of_int (now - last_login_ms st)) / 1000);
             delta_s = (if d < rnd F (1 / 1000) then rnd F (1 / 1000) else d);
             velocity = rnd F (1 / delta_s);
             alpha = rnd F (1 / 20);
             diff = rnd F (velocity - velocity_ema st);
             ema = rnd F (velocity_ema st + rnd F (alpha * diff));
             var = rnd F (rnd F (1 - alpha) * rnd F (velocity_var st + rnd F (rnd F (alpha * diff) * diff)));
             stddev = sqrt_fn F var;
             z = rnd F (rnd F (velocity - ema) / stddev)
         in (if stddev > rnd F (1 / 100) \<and> z > 3 then trunc (rnd F (z * 5)) else 0,
             st\<lparr>velocity_ema := ema, velocity_var := var, last_login_ms := now\<rparr>))
      else (0, st\<lparr>last_login_ms := now\<rparr>))"

definition ip_score :: "timestamp \<Rightarrow> risk_state \<Rightarrow> string \<Rightarrow> int" where
  "ip_score now st ip =
     (case find (ip_match ip) (ip_records st (ip_set ip)) of
        None \<Rightarrow> 0
      | Some r \<Rightarrow>
          if now - last_fail_ms r < FAIL_WINDOW_MS then
            (if failed_count r \<ge> 10 then 100 else if failed_count r \<ge> 5 then 60 else if failed_count r \<ge> 3 then 30 else 0)
          else 0)"

definition user_score :: "timestamp \<Rightarrow> risk_state \<Rightarrow> sso_id \<Rightarrow> string \<Rightarrow> 32 word \<Rightarrow> int" where
  "user_score now st uid ip ua_hash =
     (case find (\<lambda>r. ru_user_id r = uid) (user_records st (user_set uid)) of
        None \<Rightarrow> 0
      | Some r \<Rightarrow>
          (if last_success_ua_hash r \<noteq> ua_hash then 20 else 0) +
          (if strncmp_eq 46 (last_success_ip r) ip then 0
           else if is_same_subnet_ipv4 (last_success_ip r) ip then 10
           else if now - last_success_ms r < IMPOSSIBLE_TRAVEL_MS then 70 else 30))"

definition risk_evaluate_login ::
  "fpu \<Rightarrow> timestamp \<Rightarrow> risk_state \<Rightarrow> sso_id \<Rightarrow> string \<Rightarrow> string \<Rightarrow> int \<times> risk_state" where
  "risk_evaluate_login F now st uid ip ua =
     (let (v, st1) = velocity_step F now st;
          score = v + ip_score now st1 ip + user_score now st1 uid ip (simple_hash ua)
      in (if score > 100 then 100 else score, st1))"

section \<open>Recording\<close>

text \<open>The way a record goes to: the first that matches, else the last empty one, else the oldest.\<close>

fun pick_way ::
  "('r \<Rightarrow> bool) \<Rightarrow> ('r \<Rightarrow> bool) \<Rightarrow> ('r \<Rightarrow> timestamp) \<Rightarrow> 'r list \<Rightarrow> nat \<Rightarrow> nat option \<Rightarrow> nat \<Rightarrow> timestamp \<Rightarrow> nat" where
  "pick_way mat emp time [] w cur oldest oldest_time = (case cur of None \<Rightarrow> oldest | Some i \<Rightarrow> i)"
| "pick_way mat emp time (r # rs) w cur oldest oldest_time =
     (if mat r then w
      else pick_way mat emp time rs (Suc w) (if emp r then Some w else cur)
             (if time r < oldest_time then w else oldest) (if time r < oldest_time then time r else oldest_time))"

definition ip_way :: "timestamp \<Rightarrow> risk_state \<Rightarrow> string \<Rightarrow> nat" where
  "ip_way now st ip =
     pick_way (ip_match ip) (\<lambda>r. ri_ip r = []) last_fail_ms (ip_records st (ip_set ip)) 0 None 0 now"

definition user_way :: "timestamp \<Rightarrow> risk_state \<Rightarrow> sso_id \<Rightarrow> nat" where
  "user_way now st uid =
     pick_way (\<lambda>r. ru_user_id r = uid) (\<lambda>r. ru_user_id r = 0) last_success_ms (user_records st (user_set uid)) 0 None 0 now"

definition put_ip :: "risk_state \<Rightarrow> string \<Rightarrow> nat \<Rightarrow> risk_ip_record \<Rightarrow> risk_state" where
  "put_ip st ip w r =
     st\<lparr>ip_records := (ip_records st)(ip_set ip := (ip_records st (ip_set ip))[w := r])\<rparr>"

definition record_user :: "timestamp \<Rightarrow> risk_state \<Rightarrow> sso_id \<Rightarrow> string \<Rightarrow> 32 word \<Rightarrow> risk_state" where
  "record_user now st uid ip ua_hash =
     st\<lparr>user_records := (user_records st)(user_set uid :=
          (user_records st (user_set uid))[user_way now st uid :=
             \<lparr>ru_user_id = uid, last_success_ip = strlcpy ip 46, last_success_ua_hash = ua_hash, last_success_ms = now\<rparr>])\<rparr>"

definition risk_record_login_attempt :: "timestamp \<Rightarrow> risk_state \<Rightarrow> sso_id \<Rightarrow> string \<Rightarrow> bool \<Rightarrow> risk_state" where
  "risk_record_login_attempt now st uid ip success =
     (let w = ip_way now st ip; r = ip_records st (ip_set ip) ! w
      in if success then
           record_user now (if strncmp_eq 46 (ri_ip r) ip then put_ip st ip w (r\<lparr>failed_count := 0\<rparr>) else st) uid ip 0
         else if \<not> strncmp_eq 46 (ri_ip r) ip then
           put_ip st ip w \<lparr>ri_ip = strlcpy ip 46, failed_count = 1, last_fail_ms = now\<rparr>
         else
           put_ip st ip w (r\<lparr>failed_count := (if now - last_fail_ms r > FAIL_WINDOW_MS then 1 else failed_count r + 1),
                             last_fail_ms := now\<rparr>))"

definition risk_record_login_success_with_ua :: "timestamp \<Rightarrow> risk_state \<Rightarrow> sso_id \<Rightarrow> string \<Rightarrow> string \<Rightarrow> risk_state" where
  "risk_record_login_success_with_ua now st uid ip ua = record_user now st uid ip (simple_hash ua)"

section \<open>Finding what was recorded\<close>

lemma pick_match: "\<exists>r \<in> set rs. mat r \<Longrightarrow> pick_way mat emp time rs w c o' t = w + length (takeWhile (\<lambda>r. \<not> mat r) rs)"
proof (induction rs arbitrary: w c o' t)
  case (Cons r rs)
  show ?case
  proof (cases "mat r")
    case False
    then have "\<exists>r \<in> set rs. mat r" using Cons.prems by simp
    then show ?thesis using False by (simp add: Cons.IH)
  qed simp
qed simp

lemma pick_less:
  "(\<forall>i. c = Some i \<longrightarrow> i < w + length rs) \<Longrightarrow> o' < w + length rs \<Longrightarrow> pick_way mat emp time rs w c o' t < w + length rs"
proof (induction rs arbitrary: w c o' t)
  case (Cons r rs)
  have "pick_way mat emp time rs (Suc w) c1 o1 t1 < Suc (w + length rs)"
    if "\<forall>i. c1 = Some i \<longrightarrow> i < Suc (w + length rs)" "o1 < Suc (w + length rs)" for c1 o1 t1
    using Cons.IH [of c1 "Suc w" o1 t1] that by simp
  then show ?case using Cons.prems by simp
qed (auto split: option.split)

lemma find_at_takeWhile: "\<exists>r \<in> set rs. mat r \<Longrightarrow> find mat rs = Some (rs ! length (takeWhile (\<lambda>r. \<not> mat r) rs))"
  by (induction rs) auto

lemma find_upd_first:
  "mat r' \<Longrightarrow> n < length rs \<Longrightarrow> \<forall>i < n. \<not> mat (rs ! i) \<Longrightarrow> find mat (rs[n := r']) = Some r'"
proof (induction rs arbitrary: n)
  case (Cons r rs)
  show ?case
  proof (cases n)
    case (Suc m)
    have "\<not> mat r" "\<forall>i < m. \<not> mat (rs ! i)" using Cons.prems(3) Suc by force+
    then show ?thesis using Cons Suc by simp
  qed (use Cons.prems in simp)
qed simp

lemma find_pick:
  assumes "rs \<noteq> []" and p_def: "p = pick_way mat emp time rs 0 None 0 now"
  shows "mat r' \<Longrightarrow> find mat (rs[p := r']) = Some r'"
    and "find mat rs = Some r \<Longrightarrow> rs ! p = r"
    and "find mat rs = None \<Longrightarrow> \<not> mat (rs ! p)"
proof -
  have less: "p < length rs" using assms(1) pick_less [of None 0 rs 0 mat emp time now] by (simp add: p_def)
  have ex: "\<exists>r \<in> set rs. mat r \<Longrightarrow> p = length (takeWhile (\<lambda>r. \<not> mat r) rs)" by (simp add: p_def pick_match)
  have "\<not> mat (rs ! i)" if "i < p" for i
  proof (cases "\<exists>r \<in> set rs. mat r")
    case True
    then have i: "i < length (takeWhile (\<lambda>r. \<not> mat r) rs)" using that ex by simp
    then show ?thesis using nth_mem [OF i] takeWhile_nth [OF i] by (auto dest: set_takeWhileD)
  next
    case False
    then show ?thesis using that less by simp
  qed
  then show "mat r' \<Longrightarrow> find mat (rs[p := r']) = Some r'" using less find_upd_first [of mat r' p rs] by blast
  show "rs ! p = r" if "find mat rs = Some r"
  proof -
    have "\<exists>r \<in> set rs. mat r" using that find_None_iff [of mat rs] by fastforce
    then show ?thesis using ex find_at_takeWhile [of rs mat] that by simp
  qed
  show "find mat rs = None \<Longrightarrow> \<not> mat (rs ! p)" using less by (simp add: find_None_iff)
qed

text \<open>Tables whose sets have four ways.\<close>

definition risk_wf :: "risk_state \<Rightarrow> bool" where
  "risk_wf st \<longleftrightarrow> (\<forall>i. length (ip_records st i) = CACHE_WAYS \<and> length (user_records st i) = CACHE_WAYS)"

lemma risk_wf_nonempty: "risk_wf st \<Longrightarrow> ip_records st i \<noteq> [] \<and> user_records st i \<noteq> []"
  unfolding risk_wf_def by (metis length_0_conv zero_neq_numeral)

text \<open>An address as the server writes it: not empty, and short enough for the table.\<close>

definition ip_ok :: "string \<Rightarrow> bool" where
  "ip_ok ip \<longleftrightarrow> ip \<noteq> [] \<and> nul_free ip \<and> length ip < 46"

lemma ip_ok_copy: "ip_ok ip \<Longrightarrow> strlcpy ip 46 = ip"
  by (simp add: ip_ok_def strlcpy_id)

text \<open>The failures counted for an address.\<close>

definition failures :: "risk_state \<Rightarrow> string \<Rightarrow> risk_ip_record option" where
  "failures st ip = find (ip_match ip) (ip_records st (ip_set ip))"

definition next_count :: "timestamp \<Rightarrow> risk_ip_record option \<Rightarrow> int" where
  "next_count now r =
     (case r of Some x \<Rightarrow> if now - last_fail_ms x > FAIL_WINDOW_MS then 1 else failed_count x + 1 | None \<Rightarrow> 1)"

lemma record_failure:
  assumes "risk_wf st" "ip_ok ip"
  shows "\<exists>r. failures (risk_record_login_attempt now st uid ip False) ip = Some r \<and>
      failed_count r = next_count now (failures st ip) \<and> last_fail_ms r = now"
    and "risk_wf (risk_record_login_attempt now st uid ip False)"
proof -
  let ?rs = "ip_records st (ip_set ip)"
  let ?r = "?rs ! ip_way now st ip"
  note ne = risk_wf_nonempty [OF assms(1), THEN conjunct1]
  note f = find_pick [OF ne [of "ip_set ip"] ip_way_def]
  have upd: "failures (put_ip st ip (ip_way now st ip) x) ip = Some x" if "ip_match ip x" for x
    using f(1) [OF that] by (simp add: failures_def put_ip_def)
  show "\<exists>r. failures (risk_record_login_attempt now st uid ip False) ip = Some r \<and>
      failed_count r = next_count now (failures st ip) \<and> last_fail_ms r = now"
  proof (cases "failures st ip")
    case None
    then have "\<not> ip_match ip ?r" using f(3) by (simp add: failures_def)
    then have n: "\<not> strncmp_eq 46 (ri_ip ?r) ip" using assms(2) by (auto simp: ip_match_def strncmp_eq_def ip_ok_def)
    have "ip_match ip \<lparr>ri_ip = strlcpy ip 46, failed_count = 1, last_fail_ms = now\<rparr>"
      using assms(2) by (simp add: ip_ok_copy ip_match_def strncmp_eq_def) (simp add: ip_ok_def)
    then show ?thesis using n None by (simp add: risk_record_login_attempt_def Let_def upd next_count_def)
  next
    case (Some r)
    then have r: "?r = r" "ip_match ip r" using f(2) by (simp_all add: failures_def find_Some_iff) blast
    then have "ip_match ip (r\<lparr>failed_count := x, last_fail_ms := now\<rparr>)" for x by (simp add: ip_match_def)
    then show ?thesis using r Some by (simp add: risk_record_login_attempt_def Let_def upd next_count_def ip_match_def)
  qed
  show "risk_wf (risk_record_login_attempt now st uid ip False)"
    using assms(1) by (simp add: risk_wf_def risk_record_login_attempt_def Let_def put_ip_def)
qed

section \<open>Scores\<close>

text \<open>What rounding does to the sign.\<close>

definition rnd_ok :: "fpu \<Rightarrow> bool" where
  "rnd_ok F \<longleftrightarrow> (\<forall>x \<ge> 0. rnd F x \<ge> 0)"

lemma velocity_step_nonneg: "rnd_ok F \<Longrightarrow> 0 \<le> fst (velocity_step F now st)"
  by (auto simp: velocity_step_def Let_def rnd_ok_def trunc_def)

lemma velocity_step_records [simp]:
  "ip_records (snd (velocity_step F now st)) = ip_records st" "user_records (snd (velocity_step F now st)) = user_records st"
  by (simp_all add: velocity_step_def Let_def)

lemma user_score_nonneg: "0 \<le> user_score now st uid ip h"
  by (auto simp: user_score_def split: option.split)

lemma ip_score_nonneg: "0 \<le> ip_score now st ip"
  by (auto simp: ip_score_def split: option.split)

lemma ip_score_records: "ip_records st = ip_records st' \<Longrightarrow> ip_score now st ip = ip_score now st' ip"
  by (simp add: ip_score_def)

lemma risk_evaluate_score:
  "fst (risk_evaluate_login F now st uid ip ua) =
     min 100 (fst (velocity_step F now st) + ip_score now st ip +
              user_score now (snd (velocity_step F now st)) uid ip (simple_hash ua))"
  using ip_score_records [OF velocity_step_records(1), of now F now st ip]
  by (simp add: risk_evaluate_login_def Let_def min_def case_prod_beta)

text \<open>The score of a login is never below 0 and never above 100.\<close>

theorem risk_score_range:
  assumes "rnd_ok F"
  shows "0 \<le> fst (risk_evaluate_login F now st uid ip ua) \<and> fst (risk_evaluate_login F now st uid ip ua) \<le> 100"
  using velocity_step_nonneg [OF assms, of now st] ip_score_nonneg [of now st ip]
    user_score_nonneg [of now "snd (velocity_step F now st)" uid ip "simple_hash ua"]
  by (simp add: risk_evaluate_score)

definition exact_fpu :: fpu where
  "exact_fpu = \<lparr>rnd = (\<lambda>x. x), sqrt_fn = (\<lambda>x. x)\<rparr>"

lemma exact_fpu_ok: "rnd_ok exact_fpu"
  by (simp add: rnd_ok_def exact_fpu_def)

theorem risk_score_range_witness:
  "0 \<le> fst (risk_evaluate_login exact_fpu 5000 (risk_initial exact_fpu) 7 ''10.0.0.1'' ''ua'')"
  using risk_score_range [OF exact_fpu_ok, of 5000 "risk_initial exact_fpu" 7 "''10.0.0.1''" "''ua''"] by simp

definition fail_all :: "risk_state \<Rightarrow> sso_id \<Rightarrow> string \<Rightarrow> timestamp list \<Rightarrow> risk_state" where
  "fail_all st uid ip ts = foldl (\<lambda>st t. risk_record_login_attempt t st uid ip False) st ts"

fun gaps_within :: "timestamp \<Rightarrow> timestamp list \<Rightarrow> bool" where
  "gaps_within w (a # b # ts) \<longleftrightarrow> b - a \<le> w \<and> gaps_within w (b # ts)"
| "gaps_within w ts \<longleftrightarrow> True"

lemma fail_all_count:
  assumes "risk_wf st" "ip_ok ip" "failures st ip = Some r" "gaps_within FAIL_WINDOW_MS (last_fail_ms r # ts)"
  shows "\<exists>r'. failures (fail_all st uid ip ts) ip = Some r' \<and> failed_count r' = failed_count r + int (length ts) \<and>
    last_fail_ms r' = last (last_fail_ms r # ts)"
  using assms
proof (induction ts arbitrary: st r)
  case (Cons t ts)
  let ?st = "risk_record_login_attempt t st uid ip False"
  obtain r1 where r1: "failures ?st ip = Some r1" "failed_count r1 = failed_count r + 1" "last_fail_ms r1 = t"
    using record_failure(1) [OF Cons.prems(1,2), of t uid] Cons.prems(3,4) by (auto simp: next_count_def)
  moreover have "risk_wf ?st" by (rule record_failure(2) [OF Cons.prems(1,2)])
  ultimately show ?case using Cons.IH [of ?st r1] Cons.prems by (auto simp: fail_all_def)
qed (simp add: fail_all_def)


lemma risk_wf_initial: "risk_wf (risk_initial F)"
  by (simp add: risk_wf_def risk_initial_def)


text \<open>After a successful login, the next evaluation finds nothing unusual in the user's history when the address and the
  user agent are the same.\<close>

theorem risk_known_device:
  assumes "risk_wf st" "ip_ok ip"
  shows "user_score now' (risk_record_login_success_with_ua now st uid ip ua) uid ip (simple_hash ua) = 0"
proof -
  note ne = risk_wf_nonempty [OF assms(1), THEN conjunct2]
  note f = find_pick(1) [OF ne [of "user_set uid"] user_way_def]
  let ?r = "\<lparr>ru_user_id = uid, last_success_ip = ip, last_success_ua_hash = simple_hash ua, last_success_ms = now\<rparr>"
  show ?thesis using f [of ?r] assms(2)
    by (simp add: risk_record_login_success_with_ua_def record_user_def user_score_def ip_ok_copy strncmp_eq_def)
qed

theorem risk_known_device_witness:
  "user_score 900 (risk_record_login_success_with_ua 800 (risk_initial exact_fpu) 7 ''10.0.0.1'' ''ua'') 7 ''10.0.0.1''
     (simple_hash ''ua'') = 0"
  by (rule risk_known_device [OF risk_wf_initial]) (simp add: ip_ok_def)

end
