(* ===== verification/Rate_Limit.thy ===== *)
theory Rate_Limit
  imports Sso_Core
begin

text \<open>
  The rate limiter of \<^verbatim>\<open>src/ratelimit.c\<close>: a table of fixed size with linear probing that counts the
  requests of a key within a window. The table is the list of its entries, the key buffer of
  64 bytes is the string it holds. The clock is an argument; a count that would pass \<^verbatim>\<open>INT_MAX\<close>
  is undefined behaviour, \<open>None\<close>. The mutex is not modelled.
\<close>

section \<open>The table\<close>

abbreviation MAX_KEY_LEN :: nat where
  "MAX_KEY_LEN \<equiv> 64"

record rl_entry =
  rl_key :: string
  window_start_ms :: "64 word"
  rl_count :: int
  last_access_ms :: "64 word"

type_synonym rate_limiter = "rl_entry list"

definition rl_zero :: rl_entry where
  "rl_zero = \<lparr>rl_key = [], window_start_ms = 0, rl_count = 0, last_access_ms = 0\<rparr>"

text \<open>DJB2 over \<^verbatim>\<open>char\<close>, which is signed.\<close>

definition hash_string :: "string \<Rightarrow> 64 word" where
  "hash_string s = fold (\<lambda>c hash. push_bit 5 hash + hash + scast (of_char c :: 8 word)) s 5381"

definition rate_limiter_create :: "nat \<Rightarrow> sso_error \<times> rate_limiter option" where
  "rate_limiter_create max_entries =
     (if max_entries = 0 then (SSO_ERR_INVALID_PARAM, None) else (SSO_OK, Some (replicate max_entries rl_zero)))"

text \<open>The slots in the order they are probed for a key.\<close>

definition probes :: "nat \<Rightarrow> string \<Rightarrow> nat list" where
  "probes m key = map (\<lambda>i. (unat (hash_string key) mod m + i) mod m) [0..<m]"

fun find_loop ::
  "rate_limiter \<Rightarrow> string \<Rightarrow> 64 word \<Rightarrow> 64 word \<Rightarrow> nat list \<Rightarrow> nat option \<Rightarrow> nat \<Rightarrow> 64 word \<Rightarrow> nat" where
  "find_loop entries key now w [] candidate lru_idx min_access =
     (case candidate of Some c \<Rightarrow> c | None \<Rightarrow> lru_idx)"
| "find_loop entries key now w (p # ps) candidate lru_idx min_access =
     (let e = entries ! p
      in if rl_key e = [] then p
         else if rl_key e = key then p
         else find_loop entries key now w ps
                (if candidate = None \<and> w < now - window_start_ms e then Some p else candidate)
                (if last_access_ms e < min_access then p else lru_idx)
                (if last_access_ms e < min_access then last_access_ms e else min_access))"

definition find_or_evict :: "rate_limiter \<Rightarrow> string \<Rightarrow> 64 word \<Rightarrow> 64 word \<Rightarrow> nat" where
  "find_or_evict entries key now w = find_loop entries key now w (probes (length entries) key) None 0 (- 1)"

definition rate_limiter_check ::
  "rate_limiter option \<Rightarrow> string option \<Rightarrow> 64 word \<Rightarrow> 64 word \<Rightarrow> int \<Rightarrow> (sso_error \<times> rate_limiter option) option" where
  "rate_limiter_check rl key now w max_requests =
     (case (rl, key) of
        (Some entries, Some k) \<Rightarrow>
          (let idx = find_or_evict entries k now w;
               e = entries ! idx
           in if rl_key e = k
              then if now - window_start_ms e \<le> w
                   then if rl_count e \<ge> 2 ^ 31 - 1 then None
                        else Some (if rl_count e + 1 > max_requests then SSO_ERR_RATE_LIMIT else SSO_OK,
                                   Some (entries[idx := e\<lparr>last_access_ms := now, rl_count := rl_count e + 1\<rparr>]))
                   else Some (SSO_OK,
                              Some (entries[idx := e\<lparr>last_access_ms := now, window_start_ms := now, rl_count := 1\<rparr>]))
              else Some (SSO_OK,
                         Some (entries[idx := \<lparr>rl_key = strlcpy k MAX_KEY_LEN, window_start_ms = now, rl_count = 1,
                                               last_access_ms = now\<rparr>])))
      | _ \<Rightarrow> Some (SSO_ERR_INVALID_PARAM, rl))"

fun reset_loop :: "rate_limiter \<Rightarrow> string \<Rightarrow> nat list \<Rightarrow> rate_limiter" where
  "reset_loop entries key [] = entries"
| "reset_loop entries key (p # ps) =
     (if rl_key (entries ! p) = [] then entries
      else if rl_key (entries ! p) = key
      then entries[p := (entries ! p)\<lparr>rl_count := 0, window_start_ms := 0, last_access_ms := 0\<rparr>]
      else reset_loop entries key ps)"

definition rate_limiter_reset :: "rate_limiter option \<Rightarrow> string option \<Rightarrow> rate_limiter option" where
  "rate_limiter_reset rl key =
     (case (rl, key) of
        (Some entries, Some k) \<Rightarrow> Some (reset_loop entries k (probes (length entries) k))
      | _ \<Rightarrow> rl)"

section \<open>The contract of a limiter\<close>

text \<open>What a limiter promises for a key: a counter that starts with the first request of a window and
  refuses once more than \<open>mx\<close> requests have been counted in it.\<close>

type_synonym counter = "64 word \<times> int"

definition window_step :: "counter option \<Rightarrow> 64 word \<Rightarrow> 64 word \<Rightarrow> int \<Rightarrow> sso_error \<times> counter" where
  "window_step c now w mx =
     (case c of
        Some (s, n) \<Rightarrow> if now - s \<le> w then (if n + 1 > mx then SSO_ERR_RATE_LIMIT else SSO_OK, s, n + 1)
                       else (SSO_OK, now, 1)
      | None \<Rightarrow> (SSO_OK, now, 1))"

fun spec_run :: "64 word \<Rightarrow> int \<Rightarrow> (string \<Rightarrow> counter option) \<Rightarrow> (string \<times> 64 word) list \<Rightarrow> sso_error list" where
  "spec_run w mx M [] = []"
| "spec_run w mx M ((k, t) # rs) =
     (case window_step (M k) t w mx of (err, c) \<Rightarrow> err # spec_run w mx (M(k \<mapsto> c)) rs)"

text \<open>The same sequence of requests over a limiter.\<close>

fun run_checks ::
  "('l \<Rightarrow> string \<Rightarrow> 64 word \<Rightarrow> 64 word \<Rightarrow> int \<Rightarrow> (sso_error \<times> 'l) option) \<Rightarrow> 64 word \<Rightarrow> int \<Rightarrow> 'l \<Rightarrow>
     (string \<times> 64 word) list \<Rightarrow> (sso_error list \<times> 'l) option" where
  "run_checks chk w mx l [] = Some ([], l)"
| "run_checks chk w mx l ((k, t) # rs) = do {
     (err, l1) \<leftarrow> chk l k t w mx;
     (errs, l2) \<leftarrow> run_checks chk w mx l1 rs;
     Some (err # errs, l2)
   }"

definition table_check ::
  "rate_limiter \<Rightarrow> string \<Rightarrow> 64 word \<Rightarrow> 64 word \<Rightarrow> int \<Rightarrow> (sso_error \<times> rate_limiter) option" where
  "table_check rl k t w mx =
     Option.bind (rate_limiter_check (Some rl) (Some k) t w mx) (\<lambda>(err, r). map_option (Pair err) r)"

text \<open>The laws a limiter gives its clients: a check of a key there is room for is one step of that key's
  counter and leaves the others alone; there is room as long as the keys in use fit its capacity.\<close>

locale window_limiter =
  fixes chk :: "'l \<Rightarrow> string \<Rightarrow> 64 word \<Rightarrow> 64 word \<Rightarrow> int \<Rightarrow> (sso_error \<times> 'l) option"
    and view :: "'l \<Rightarrow> string \<Rightarrow> counter option"
    and good :: "'l \<Rightarrow> bool"
    and has_room :: "'l \<Rightarrow> string \<Rightarrow> bool"
    and cap :: "'l \<Rightarrow> nat"
    and ok_key :: "string \<Rightarrow> bool"
  assumes check_step:
    "good l \<Longrightarrow> has_room l k \<Longrightarrow> ok_key k \<Longrightarrow> \<forall>s n. view l k = Some (s, n) \<longrightarrow> n < 2 ^ 31 - 1 \<Longrightarrow>
     \<exists>l'. chk l k t w mx = Some (fst (window_step (view l k) t w mx), l') \<and> good l' \<and> cap l' = cap l \<and>
          view l' = (view l)(k \<mapsto> snd (window_step (view l k) t w mx))"
    and room_cap:
    "good l \<Longrightarrow> finite K \<Longrightarrow> card K \<le> cap l \<Longrightarrow> dom (view l) \<subseteq> K \<Longrightarrow> k \<in> K \<Longrightarrow> has_room l k"
begin

lemma run_refines:
  assumes "good l" "finite K" "card K \<le> cap l" "dom (view l) \<subseteq> K" "fst ` set rs \<subseteq> K" "\<forall>k \<in> K. ok_key k"
    and "\<forall>k s n. view l k = Some (s, n) \<longrightarrow> n + int (length rs) < 2 ^ 31"  "length rs < 2 ^ 31"
  shows "\<exists>l'. run_checks chk w mx l rs = Some (spec_run w mx (view l) rs, l') \<and> good l'"
  using assms
proof (induction rs arbitrary: l)
  case (Cons r rs)
  obtain k t where r: "r = (k, t)" by (cases r)
  let ?st = "window_step (view l k) t w mx"
  have kK: "k \<in> K" using Cons.prems(5) r by auto
  then have hr: "has_room l k" using room_cap Cons.prems(1-4) by blast
  have bnd: "\<forall>s n. view l k = Some (s, n) \<longrightarrow> n < 2 ^ 31 - 1" using Cons.prems(7) by fastforce
  obtain l' where l': "chk l k t w mx = Some (fst ?st, l')" "good l'" "cap l' = cap l" "view l' = (view l)(k \<mapsto> snd ?st)"
    using check_step [OF Cons.prems(1) hr _ bnd, of t w mx] Cons.prems(6) kK by blast
  have "\<forall>k' s n. view l' k' = Some (s, n) \<longrightarrow> n + int (length rs) < 2 ^ 31"
  proof (intro allI impI)
    fix k' s n assume "view l' k' = Some (s, n)"
    then show "n + int (length rs) < 2 ^ 31"
      using l'(4) Cons.prems(7,8) by (fastforce simp: window_step_def split: if_splits option.splits prod.splits)
  qed
  moreover have "dom (view l') \<subseteq> K" using l'(4) Cons.prems(4) kK by auto
  ultimately obtain l2 where "run_checks chk w mx l' rs = Some (spec_run w mx (view l') rs, l2)" "good l2"
    using Cons.IH [of l'] Cons.prems(2,3,5,6,8) l'(2,3) by (simp del: fun_upd_apply) blast
  then show ?case using l' r by (auto split: prod.splits)
qed simp

end

section \<open>Probing\<close>

lemma rotate_onto:
  fixes h :: nat
  assumes "h < m"
  shows "(\<lambda>i. (h + i) mod m) ` {0..<m} = {0..<m}"
proof (intro equalityI subsetI)
  fix j assume j: "j \<in> {0..<m}"
  have "h + (j + (m - h)) = j + m" using assms by simp
  then have "(h + (j + (m - h)) mod m) mod m = j" using j by (simp only: mod_add_right_eq) simp
  then show "j \<in> (\<lambda>i. (h + i) mod m) ` {0..<m}"
    using assms by (intro image_eqI [where x = "(j + (m - h)) mod m"]) simp_all
qed (use assms in auto)

lemma set_probes [simp]: "set (probes m k) = {0..<m}"
  using rotate_onto [of "unat (hash_string k) mod m" m] by (cases "m = 0") (simp_all add: probes_def)

lemma find_loop_first:
  "find (\<lambda>p. rl_key (entries ! p) = [] \<or> rl_key (entries ! p) = key) ps = Some p \<Longrightarrow>
   find_loop entries key now w ps c l m = p"
  by (induction ps arbitrary: c l m) (auto simp: Let_def split: if_splits)

lemma find_loop_in:
  "(\<forall>x. c = Some x \<longrightarrow> x < n) \<Longrightarrow> l < n \<Longrightarrow> set ps \<subseteq> {0..<n} \<Longrightarrow> find_loop entries key now w ps c l m < n"
  by (induction ps arbitrary: c l m) (auto simp: Let_def split: option.splits)

lemma find_or_evict_less: "entries \<noteq> [] \<Longrightarrow> find_or_evict entries k now w < length entries"
  unfolding find_or_evict_def by (rule find_loop_in) auto

lemma find_takeWhile:
  "i \<in> set ps \<Longrightarrow> P i \<Longrightarrow> \<forall>p \<in> set (takeWhile (\<lambda>p. p \<noteq> i) ps). \<not> P p \<Longrightarrow> find P ps = Some i"
  by (induction ps) (auto split: if_splits)

lemma find_SomeD': "find P ps = Some i \<Longrightarrow> P i \<and> i \<in> set ps \<and> (\<forall>p \<in> set (takeWhile (\<lambda>p. p \<noteq> i) ps). \<not> P p)"
  by (induction ps) (auto split: if_splits)

section \<open>The invariant\<close>

text \<open>Keys occur once, and between the home slot of a key and its slot no slot is empty.\<close>

definition keys_inv :: "string list \<Rightarrow> bool" where
  "keys_inv ks \<longleftrightarrow>
     ks \<noteq> [] \<and>
     (\<forall>i < length ks. \<forall>j < length ks. ks ! i = ks ! j \<longrightarrow> ks ! i \<noteq> [] \<longrightarrow> i = j) \<and>
     (\<forall>i < length ks. ks ! i \<noteq> [] \<longrightarrow>
        (\<forall>p \<in> set (takeWhile (\<lambda>p. p \<noteq> i) (probes (length ks) (ks ! i))). ks ! p \<noteq> []))"

abbreviation keys_of :: "rate_limiter \<Rightarrow> string list" where
  "keys_of \<equiv> map rl_key"

definition rl_inv :: "rate_limiter \<Rightarrow> bool" where
  "rl_inv rl \<longleftrightarrow> keys_inv (keys_of rl)"

definition rl_view :: "rate_limiter \<Rightarrow> string \<Rightarrow> counter option" where
  "rl_view rl k =
     (if k = [] then None else map_option (\<lambda>e. (window_start_ms e, rl_count e)) (find (\<lambda>e. rl_key e = k) rl))"

definition room :: "rate_limiter \<Rightarrow> string \<Rightarrow> bool" where
  "room rl k \<longleftrightarrow> k \<in> set (keys_of rl) \<or> [] \<in> set (keys_of rl)"

lemma keys_invD:
  assumes "keys_inv ks" "i < length ks" "ks ! i = k" "k \<noteq> []"
  shows "find (\<lambda>p. ks ! p = [] \<or> ks ! p = k) (probes (length ks) k) = Some i"
proof (rule find_takeWhile)
  show "\<forall>p \<in> set (takeWhile (\<lambda>p. p \<noteq> i) (probes (length ks) k)). \<not> (ks ! p = [] \<or> ks ! p = k)"
  proof
    fix p assume p: "p \<in> set (takeWhile (\<lambda>p. p \<noteq> i) (probes (length ks) k))"
    then have "p \<noteq> i" "p < length ks" using set_takeWhileD [OF p] by auto
    then show "\<not> (ks ! p = [] \<or> ks ! p = k)" using assms p unfolding keys_inv_def by metis
  qed
qed (use assms in auto)

lemma keys_inv_insert:
  assumes "keys_inv ks" "k \<notin> set ks" "k \<noteq> []"
    and f: "find (\<lambda>p. ks ! p = [] \<or> ks ! p = k) (probes (length ks) k) = Some i"
  shows "keys_inv (ks[i := k])" "ks ! i = []" "i < length ks"
proof -
  from find_SomeD' [OF f] assms(2) have i: "i < length ks" "ks ! i = []"
    and before: "\<forall>p \<in> set (takeWhile (\<lambda>p. p \<noteq> i) (probes (length ks) k)). ks ! p \<noteq> []"
    by (auto simp: in_set_conv_nth)
  then show "ks ! i = []" "i < length ks" by auto
  let ?ks = "ks[i := k]"
  have grow: "?ks ! p \<noteq> []" if "p < length ks" "ks ! p \<noteq> []" for p
    using that assms(3) by (cases "p = i") auto
  have inr: "p < length ks" if "p \<in> set (takeWhile P (probes (length ks) x))" for p P x
    using set_takeWhileD [OF that] by simp
  have uniq: "a = b" if ab: "a < length ks" "b < length ks" "?ks ! a = ?ks ! b" "?ks ! a \<noteq> []" for a b
  proof (cases "a = i \<or> b = i")
    case True
    then show ?thesis using ab i assms(2) by (auto simp: nth_list_update split: if_splits)
  next
    case False
    then have "ks ! a = ks ! b" "ks ! a \<noteq> []" using ab by auto
    then show ?thesis using ab(1,2) assms(1) unfolding keys_inv_def by blast
  qed
  have chain: "?ks ! p \<noteq> []" if a: "a < length ks" "?ks ! a \<noteq> []"
    and p: "p \<in> set (takeWhile (\<lambda>p. p \<noteq> a) (probes (length ks) (?ks ! a)))" for a p
  proof (cases "a = i")
    case True
    then show ?thesis using before p i inr [OF p] grow by auto
  next
    case False
    then have "ks ! a \<noteq> []" "p \<in> set (takeWhile (\<lambda>p. p \<noteq> a) (probes (length ks) (ks ! a)))" using a p by auto
    then have "ks ! p \<noteq> []" using a(1) assms(1) unfolding keys_inv_def by blast
    then show ?thesis using inr [OF p] grow by blast
  qed
  have "?ks \<noteq> []" using i by auto
  then show "keys_inv ?ks" unfolding keys_inv_def length_list_update using uniq chain by blast
qed

lemma view_at:
  assumes "rl_inv rl" "i < length rl" "rl_key (rl ! i) = k" "k \<noteq> []"
  shows "find (\<lambda>e. rl_key e = k) rl = Some (rl ! i)"
proof -
  have "rl_key (rl ! j) \<noteq> k" if "j < i" for j
    using assms that unfolding rl_inv_def keys_inv_def
    by (metis (no_types, lifting) length_map nat_less_le nth_map order_less_trans)
  then show ?thesis using assms(2,3) by (auto simp: find_Some_iff)
qed

section \<open>One check\<close>

lemma find_slot:
  "find (\<lambda>p. rl_key (rl ! p) = [] \<or> rl_key (rl ! p) = k) (probes (length rl) k) =
   find (\<lambda>p. keys_of rl ! p = [] \<or> keys_of rl ! p = k) (probes (length (keys_of rl)) k)"
  by (rule find_cong) auto

lemma view_None: "k \<noteq> [] \<Longrightarrow> rl_view rl k = None \<longleftrightarrow> k \<notin> set (keys_of rl)"
  by (auto simp: rl_view_def find_None_iff)

lemma view_Some: "rl_inv rl \<Longrightarrow> i < length rl \<Longrightarrow> rl_key (rl ! i) = k \<Longrightarrow> k \<noteq> [] \<Longrightarrow>
   rl_view rl k = Some (window_start_ms (rl ! i), rl_count (rl ! i))"
  by (simp add: rl_view_def view_at)

text \<open>Writing slot \<open>i\<close> changes the counter of the key written there and no other.\<close>

lemma view_update:
  assumes "rl_inv rl" "rl_inv (rl[i := e])" "i < length rl" "rl_key e = k" "k \<noteq> []"
    and "rl_key (rl ! i) = [] \<or> rl_key (rl ! i) = k"
  shows "rl_view (rl[i := e]) = (rl_view rl)(k \<mapsto> (window_start_ms e, rl_count e))"
proof
  fix k'
  show "rl_view (rl[i := e]) k' = ((rl_view rl)(k \<mapsto> (window_start_ms e, rl_count e))) k'"
  proof (cases "k' = k \<or> k' = []")
    case True
    then show ?thesis using view_Some [OF assms(2), of i k] assms by (auto simp: rl_view_def)
  next
    case False
    show ?thesis
    proof (cases "k' \<in> set (keys_of rl)")
      case True
      then obtain j where j: "j < length rl" "rl_key (rl ! j) = k'" by (auto simp: in_set_conv_nth)
      with False assms(6) have "j \<noteq> i" by auto
      then show ?thesis using j False view_Some [OF assms(1) j] view_Some [OF assms(2), of j k'] by auto
    next
      case nin: False
      then have "k' \<notin> set (keys_of (rl[i := e]))"
        using False assms(3,4) by (auto simp: map_update dest!: set_update_subset_insert [THEN subsetD])
      then show ?thesis using nin False view_None [of k' rl] view_None [of k' "rl[i := e]"] by (simp del: set_map)
    qed
  qed
qed

lemma keys_of_update: "rl_key e = rl_key (rl ! i) \<Longrightarrow> keys_of (rl[i := e]) = keys_of rl"
  by (cases "i < length rl") (simp_all add: map_update list_update_same_conv list_update_beyond)

lemma table_check_step:
  assumes "rl_inv rl" "room rl k" "k \<noteq> []" "length k < MAX_KEY_LEN" "nul_free k"
    and bnd: "\<forall>s n. rl_view rl k = Some (s, n) \<longrightarrow> n < 2 ^ 31 - 1"
  shows "\<exists>rl'. table_check rl k t w mx = Some (fst (window_step (rl_view rl k) t w mx), rl') \<and> rl_inv rl' \<and>
     length rl' = length rl \<and> rl_view rl' = (rl_view rl)(k \<mapsto> snd (window_step (rl_view rl k) t w mx))"
proof -
  let ?i = "find_or_evict rl k t w"
  have loc: "?i = i" if "find (\<lambda>p. keys_of rl ! p = [] \<or> keys_of rl ! p = k) (probes (length (keys_of rl)) k) = Some i" for i
    using that unfolding find_or_evict_def by (intro find_loop_first) (simp only: find_slot)
  show ?thesis
  proof (cases "k \<in> set (keys_of rl)")
    case True
    then obtain i where i: "i < length rl" "rl_key (rl ! i) = k" by (auto simp: in_set_conv_nth)
    have eq: "?i = i" using keys_invD [of "keys_of rl" i k] assms(1,3) i by (intro loc) (simp add: rl_inv_def)
    have v: "rl_view rl k = Some (window_start_ms (rl ! i), rl_count (rl ! i))" using view_Some assms(1,3) i by blast
    have inv: "rl_inv (rl[i := e])" if "rl_key e = k" for e
      using assms(1) keys_of_update [of e rl i] that i by (simp add: rl_inv_def)
    have up: "rl_view (rl[i := e]) = (rl_view rl)(k \<mapsto> (window_start_ms e, rl_count e))" if "rl_key e = k" for e
      using view_update [OF assms(1) inv i(1), of e k] that i assms(3) by auto
    show ?thesis
      using bnd v eq i inv up by (auto simp: table_check_def rate_limiter_check_def window_step_def Let_def)
  next
    case False
    with assms(2) have "\<exists>i. find (\<lambda>p. keys_of rl ! p = [] \<or> keys_of rl ! p = k) (probes (length (keys_of rl)) k) = Some i"
      by (subst not_None_eq [symmetric]) (auto simp: find_None_iff room_def in_set_conv_nth, metis)
    then obtain i where f: "find (\<lambda>p. keys_of rl ! p = [] \<or> keys_of rl ! p = k) (probes (length (keys_of rl)) k) = Some i" ..
    note ins = keys_inv_insert [OF assms(1) [unfolded rl_inv_def] False assms(3) f]
    let ?e = "\<lparr>rl_key = k, window_start_ms = t, rl_count = 1, last_access_ms = t\<rparr>"
    have inv: "rl_inv (rl[i := ?e])" using ins(1) by (simp add: rl_inv_def map_update)
    have "rl_view (rl[i := ?e]) = (rl_view rl)(k \<mapsto> (t, 1))"
      using view_update [OF assms(1) inv, of k] ins(2,3) assms(3) by auto
    moreover have "rl_view rl k = None" using False view_None assms(3) by blast
    moreover have "strlcpy k MAX_KEY_LEN = k" using assms(4,5) by (simp add: strlcpy_id)
    ultimately show ?thesis
      using loc [OF f] ins inv assms(3) by (auto simp: table_check_def rate_limiter_check_def window_step_def Let_def)
  qed
qed

lemma table_room:
  assumes "rl_inv rl" "finite K" "card K \<le> length rl" "dom (rl_view rl) \<subseteq> K" "k \<in> K"
  shows "room rl k"
proof (cases "[] \<in> set (keys_of rl)")
  case False
  let ?ks = "keys_of rl"
  have ne: "?ks ! i \<noteq> []" if "i < length ?ks" for i using False nth_mem [OF that] by metis
  have "distinct ?ks"
    using assms(1) ne unfolding rl_inv_def keys_inv_def distinct_conv_nth by blast
  then have "card (set ?ks) = length rl" using distinct_card by fastforce
  moreover have "set ?ks \<subseteq> K"
  proof
    fix x assume x: "x \<in> set ?ks"
    then have "x \<noteq> []" using False by metis
    then have "rl_view rl x \<noteq> None" using x view_None by blast
    then show "x \<in> K" using assms(4) by (auto simp: dom_def)
  qed
  ultimately have "set ?ks = K" using assms(2,3) by (intro card_seteq) auto
  then show ?thesis using assms(5) by (simp add: room_def)
qed (simp add: room_def)

interpretation rl: window_limiter table_check rl_view rl_inv room length
  "\<lambda>k. k \<noteq> [] \<and> length k < MAX_KEY_LEN \<and> nul_free k"
  by unfold_locales (use table_check_step table_room in blast)+

lemma create_inv:
  assumes "rate_limiter_create n = (SSO_OK, Some rl)"
  shows "rl_inv rl" "rl_view rl = (\<lambda>_. None)" "length rl = n"
proof -
  have rl: "rl = replicate n rl_zero" "n \<noteq> 0" using assms by (auto simp: rate_limiter_create_def split: if_splits)
  then show "rl_inv rl" "length rl = n" by (auto simp: rl_inv_def keys_inv_def rl_zero_def)
  show "rl_view rl = (\<lambda>_. None)"
    using rl by (auto simp: rl_view_def rl_zero_def find_None_iff fun_eq_iff)
qed

section \<open>Properties\<close>



text \<open>A key of 64 characters or more is never limited. Its stored copy is cut to 63 characters, so
  the comparison with the key never succeeds and every request opens a new window.\<close>

theorem rate_limiter_long_key:
  assumes "rl \<noteq> []" "\<forall>e \<in> set rl. length (rl_key e) < MAX_KEY_LEN" "MAX_KEY_LEN \<le> length k"
  shows "\<exists>rl'. rate_limiter_check (Some rl) (Some k) t w mx = Some (SSO_OK, Some rl') \<and> rl' \<noteq> [] \<and>
     (\<forall>e \<in> set rl'. length (rl_key e) < MAX_KEY_LEN)"
proof -
  let ?i = "find_or_evict rl k t w"
  have "rl ! ?i \<in> set rl" using find_or_evict_less [OF assms(1)] by simp
  then have "rl_key (rl ! ?i) \<noteq> k" using assms(2,3) by auto
  then show ?thesis using assms(1,2) strlcpy_length [of MAX_KEY_LEN]
    by (auto simp: rate_limiter_check_def Let_def dest!: set_update_subset_insert [THEN subsetD])
qed

theorem rate_limiter_long_key_witness:
  "\<exists>rl'. rate_limiter_check (Some [rl_zero]) (Some (replicate 64 (CHR ''a''))) 0 60000 0 = Some (SSO_OK, Some rl') \<and>
     rl' \<noteq> [] \<and> (\<forall>e \<in> set rl'. length (rl_key e) < MAX_KEY_LEN)"
  by (rule rate_limiter_long_key) (simp_all add: rl_zero_def)

end
