(* ===== verification/Token_Sessions.thy ===== *)
theory Token_Sessions
  imports Token_Signing Storage_Memory
begin

text \<open>
  The tables of the token manager: the list of revoked ids with its lazy sort and binary search, the ring of the
  sessions of a user, the nonces. The list is an instance of a contract for sets with queries that may reorder
  their store; the ring refines a queue of three; and every state the manager reaches satisfies one invariant.
\<close>

section \<open>The list of revoked ids\<close>

text \<open>The contract of a store of keys: a client sees a set, although a query may change the store.\<close>

datatype 'k query = Add 'k | Ask 'k

fun set_answers :: "('k \<Rightarrow> 'k) \<Rightarrow> 'k set \<Rightarrow> 'k query list \<Rightarrow> bool list" where
  "set_answers norm S [] = []"
| "set_answers norm S (Add k # qs) = set_answers norm (insert (norm k) S) qs"
| "set_answers norm S (Ask k # qs) = (k \<in> S) # set_answers norm S qs"

fun answers :: "('m \<Rightarrow> 'k \<Rightarrow> 'm) \<Rightarrow> ('m \<Rightarrow> 'k \<Rightarrow> bool \<times> 'm) \<Rightarrow> 'm \<Rightarrow> 'k query list \<Rightarrow> bool list" where
  "answers add ask m [] = []"
| "answers add ask m (Add k # qs) = answers add ask (add m k) qs"
| "answers add ask m (Ask k # qs) = fst (ask m k) # answers add ask (snd (ask m k)) qs"

locale key_store =
  fixes inv :: "'m \<Rightarrow> bool" and keys :: "'m \<Rightarrow> 'k set" and norm :: "'k \<Rightarrow> 'k"
    and add :: "'m \<Rightarrow> 'k \<Rightarrow> 'm" and ask :: "'m \<Rightarrow> 'k \<Rightarrow> bool \<times> 'm"
  assumes inv_add: "inv m \<Longrightarrow> inv (add m k)"
    and keys_add: "inv m \<Longrightarrow> keys (add m k) = insert (norm k) (keys m)"
    and inv_ask: "inv m \<Longrightarrow> inv (snd (ask m k))"
    and keys_ask: "inv m \<Longrightarrow> keys (snd (ask m k)) = keys m"
    and ask_keys: "inv m \<Longrightarrow> fst (ask m k) \<longleftrightarrow> k \<in> keys m"
begin

lemma answers_of_set: "inv m \<Longrightarrow> answers add ask m qs = set_answers norm (keys m) qs"
proof (induction qs arbitrary: m)
  case (Cons q qs)
  then show ?case by (cases q) (simp_all add: inv_add keys_add inv_ask keys_ask ask_keys)
qed simp

end

lemma bsearch_from_iff:
  assumes "sorted xs" "u \<le> length xs"
  shows "bsearch_from key xs l u \<longleftrightarrow> (\<exists>i. l \<le> i \<and> i < u \<and> xs ! i = key)"
  using assms
proof (induction key xs l u rule: bsearch_from.induct)
  case (1 key xs l u)
  let ?m = "(l + u) div 2"
  show ?case
  proof (cases "u \<le> l")
    case False
    then have m: "l \<le> ?m" "?m < u" by auto
    have le: "xs ! i \<le> xs ! ?m" if "i \<le> ?m" for i using that m "1.prems" by (intro sorted_nth_mono) auto
    have ge: "xs ! ?m \<le> xs ! i" if "?m \<le> i" "i < u" for i using that m "1.prems" by (intro sorted_nth_mono) auto
    consider "key < xs ! ?m" | "xs ! ?m < key" | "key = xs ! ?m" by (rule linorder_cases)
    then show ?thesis
    proof cases
      case 1
      then have "bsearch_from key xs l u = bsearch_from key xs l ?m" using False by (subst bsearch_from.simps) (simp add: Let_def)
      moreover have "i < ?m" if "i < u" "xs ! i = key" for i using ge [of i] that 1 by (auto simp: not_less [symmetric])
      ultimately show ?thesis using "1.IH"(1) [OF False refl 1] "1.prems" m by auto
    next
      case 2
      then have "bsearch_from key xs l u = bsearch_from key xs (?m + 1) u"
        using False by (subst bsearch_from.simps) (auto simp: Let_def)
      moreover have "?m + 1 \<le> i" if "xs ! i = key" for i using le [of i] that 2 by (cases "i \<le> ?m") auto
      then have "(\<exists>i. l \<le> i \<and> i < u \<and> xs ! i = key) \<longleftrightarrow> (\<exists>i. ?m + 1 \<le> i \<and> i < u \<and> xs ! i = key)"
        using m(1) by (metis add_leD1 order_trans)
      moreover have "\<not> key < xs ! ?m" using 2 by simp
      ultimately show ?thesis using "1.IH"(2) [OF False refl _ 2] "1.prems" by simp
    next
      case 3
      then have "bsearch_from key xs l u" using False by (subst bsearch_from.simps) (simp add: Let_def)
      then show ?thesis using 3 m by auto
    qed
  qed (simp add: bsearch_from.simps)
qed

lemma bsearch_sorted: "sorted xs \<Longrightarrow> bsearch_from key xs 0 (length xs) \<longleftrightarrow> key \<in> set xs"
  by (simp add: bsearch_from_iff in_set_conv_nth conj_commute)

text \<open>The flag is set only over a sorted list.\<close>

definition list_ok :: "token_manager \<Rightarrow> bool" where
  "list_ok mgr \<longleftrightarrow> (rev_sorted mgr \<longrightarrow> sorted (jtis mgr))"

definition backend_revoked :: "timestamp \<Rightarrow> 's storage_backend option \<Rightarrow> 's \<Rightarrow> token_manager \<Rightarrow> string \<Rightarrow> bool" where
  "backend_revoked now sb st mgr jti =
     (case (if tm_storage mgr then Option.bind sb sb_jti_is_revoked else None) of Some f \<Rightarrow> f now st jti | None \<Rightarrow> False)"

lemma is_revoked_iff:
  assumes "list_ok mgr"
  shows "fst (token_is_revoked now sb st mgr jti) \<longleftrightarrow> jti \<in> set (jtis mgr) \<or> backend_revoked now sb st mgr jti"
  using assms bsearch_sorted [of "sort (jtis mgr)"] bsearch_sorted [of "jtis mgr"]
  by (auto simp: token_is_revoked_def list_ok_def backend_revoked_def Let_def split: option.splits)

lemma is_revoked_state:
  "\<exists>js f. snd (token_is_revoked now sb st mgr jti) = mgr\<lparr>jtis := js, rev_sorted := f\<rparr> \<and> set js = set (jtis mgr) \<and>
    (list_ok mgr \<longrightarrow> f \<longrightarrow> sorted js)"
proof (cases "jtis mgr = []")
  case True
  then have "snd (token_is_revoked now sb st mgr jti) = mgr\<lparr>jtis := jtis mgr, rev_sorted := rev_sorted mgr\<rparr>"
    by (auto simp: token_is_revoked_def Let_def split: option.splits)
  then show ?thesis unfolding list_ok_def by blast
next
  case False
  let ?js = "if rev_sorted mgr then jtis mgr else sort (jtis mgr)"
  have "snd (token_is_revoked now sb st mgr jti) = mgr\<lparr>jtis := ?js, rev_sorted := True\<rparr>"
    using False by (auto simp: token_is_revoked_def Let_def split: option.splits)
  moreover have "set ?js = set (jtis mgr)" "list_ok mgr \<longrightarrow> sorted ?js" by (simp_all add: list_ok_def)
  ultimately show ?thesis by blast
qed

text \<open>The list of a manager without a storage backend, as the operations \<^verbatim>\<open>token_revoke\<close> and
  \<^verbatim>\<open>token_is_revoked\<close> present it.\<close>

definition list_revoke :: "token_manager \<Rightarrow> string \<Rightarrow> token_manager" where
  "list_revoke mgr jti = fst (snd (token_revoke (None :: unit storage_backend option) () mgr jti 0))"

definition list_query :: "token_manager \<Rightarrow> string \<Rightarrow> bool \<times> token_manager" where
  "list_query mgr jti = token_is_revoked 0 (None :: unit storage_backend option) () mgr jti"

interpretation bl: key_store list_ok "\<lambda>mgr. set (jtis mgr)" "\<lambda>k. strlcpy k TOKEN_REVOCATION_STR_LEN" list_revoke list_query
proof
  fix m k
  obtain js f where q: "snd (list_query m k) = m\<lparr>jtis := js, rev_sorted := f\<rparr>" "set js = set (jtis m)"
      "list_ok m \<longrightarrow> f \<longrightarrow> sorted js"
    using is_revoked_state unfolding list_query_def by metis
  then show "list_ok m \<Longrightarrow> list_ok (snd (list_query m k))" "set (jtis (snd (list_query m k))) = set (jtis m)"
    by (simp_all add: list_ok_def)
  show "list_ok m \<Longrightarrow> fst (list_query m k) = (k \<in> set (jtis m))"
    by (simp add: list_query_def is_revoked_iff backend_revoked_def)
qed (auto simp: list_revoke_def token_revoke_def list_ok_def)

text \<open>C30: whatever the sequence of revocations and queries, the list answers as the set of the revoked ids does,
  each cut to the 63 characters an entry holds. The sort on the first query after a revocation and the binary search
  are invisible.\<close>

theorem revocation_list_refines:
  "list_ok mgr \<Longrightarrow> answers list_revoke list_query mgr qs = set_answers (\<lambda>k. strlcpy k TOKEN_REVOCATION_STR_LEN) (set (jtis mgr)) qs"
  by (rule bl.answers_of_set)

theorem revocation_list_refines_witness:
  "answers list_revoke list_query zero_manager [Add ''b'', Ask ''a'', Add ''a'', Ask ''a'', Ask ''b'', Ask ''c''] =
     [False, True, True, False]"
proof -
  have z: "list_ok zero_manager" "jtis zero_manager = []" by (simp_all add: list_ok_def zero_manager_def)
  show ?thesis unfolding revocation_list_refines [OF z(1)] using z(2) by (simp add: sso_strlcpy_def cstr_def)
qed

section \<open>The sessions of a user\<close>

text \<open>The contract of a bounded history: adding to a full one drops the oldest item and hands it out.\<close>

definition lastn :: "nat \<Rightarrow> 'a list \<Rightarrow> 'a list" where
  "lastn n xs = drop (length xs - n) xs"

definition butlastn :: "nat \<Rightarrow> 'a list \<Rightarrow> 'a list" where
  "butlastn n xs = take (length xs - n) xs"

lemma lastn_snoc: "lastn n (xs @ [x]) = (if length (lastn n xs) < n then lastn n xs @ [x] else if n = 0 then [] else tl (lastn n xs) @ [x])"
  by (auto simp: lastn_def Suc_diff_le drop_Suc tl_drop not_less)

lemma butlastn_snoc: "butlastn n (xs @ [x]) = (if length (lastn n xs) < n then butlastn n xs
   else butlastn n xs @ [if n = 0 then x else hd (lastn n xs)])"
proof (cases "length xs < n")
  case False
  then have "length xs - n < length xs \<or> n = 0" by auto
  then show ?thesis using False by (auto simp: butlastn_def lastn_def Suc_diff_le take_Suc_conv_app_nth hd_drop_conv_nth)
qed (auto simp: butlastn_def lastn_def)

locale history =
  fixes cap :: nat and norm :: "'a \<Rightarrow> 'a" and inv :: "'t \<Rightarrow> bool" and items :: "'t \<Rightarrow> 'a list"
    and put :: "'t \<Rightarrow> 'a \<Rightarrow> 't \<times> 'a option"
  assumes cap_pos: "0 < cap"
    and inv_put: "inv t \<Longrightarrow> inv (fst (put t x))"
    and put_room: "inv t \<Longrightarrow> length (items t) < cap \<Longrightarrow> items (fst (put t x)) = items t @ [norm x] \<and> snd (put t x) = None"
    and put_full: "inv t \<Longrightarrow> length (items t) \<ge> cap \<Longrightarrow>
      items (fst (put t x)) = tl (items t) @ [norm x] \<and> snd (put t x) = Some (hd (items t))"
begin

lemma put_lastn:
  assumes "inv t" "items t = lastn cap xs"
  shows "inv (fst (put t x))" "items (fst (put t x)) = lastn cap (xs @ [norm x])"
    "butlastn cap (xs @ [norm x]) = butlastn cap xs @ (case snd (put t x) of None \<Rightarrow> [] | Some y \<Rightarrow> [y])"
  using assms inv_put put_room [of t x] put_full [of t x] cap_pos by (auto simp: lastn_snoc butlastn_snoc not_less)

end

text \<open>The ring of a tracker, read from its oldest entry. Registered ids are cut to 63 characters.\<close>

definition track_ok :: "session_track \<Rightarrow> bool" where
  "track_ok t \<longleftrightarrow>
     length (se_jtis t) = 3 \<and> active_count t \<le> 3 \<and> oldest_idx t < 3 \<and> (active_count t < 3 \<longrightarrow> oldest_idx t = 0)"

definition ring :: "session_track \<Rightarrow> string list" where
  "ring t = (if active_count t < 3 then take (active_count t) (se_jtis t)
             else drop (oldest_idx t) (se_jtis t) @ take (oldest_idx t) (se_jtis t))"

lemma three_items: "length xs = 3 \<Longrightarrow> \<exists>a b c. xs = [a, b, c]"
  by (auto simp: numeral_3_eq_3 length_Suc_conv)

lemma less_three: "i < 3 \<longleftrightarrow> i = 0 \<or> i = 1 \<or> i = (2 :: nat)"
  by auto

definition session_id :: "string \<Rightarrow> string" where
  "session_id jti = strlcpy jti TOKEN_REVOCATION_STR_LEN"

lemma session_id_idem [simp]: "session_id (session_id j) = session_id j"
  unfolding session_id_def by (intro strlcpy_id) (simp_all add: strlcpy_length)

lemma track_add_ring:
  assumes "track_ok t"
  shows "track_ok (fst (track_add t j))"
    and "length (ring t) < 3 \<Longrightarrow> ring (fst (track_add t j)) = ring t @ [session_id j] \<and> snd (track_add t j) = None"
    and "length (ring t) \<ge> 3 \<Longrightarrow>
      ring (fst (track_add t j)) = tl (ring t) @ [session_id j] \<and> snd (track_add t j) = Some (hd (ring t))"
proof -
  obtain a b c where abc: "se_jtis t = [a, b, c]" using assms three_items [of "se_jtis t"] by (auto simp: track_ok_def)
  have n: "active_count t = 0 \<or> active_count t = 1 \<or> active_count t = 2 \<or> active_count t = 3"
    and o: "oldest_idx t = 0 \<or> oldest_idx t = 1 \<or> oldest_idx t = 2"
    using assms by (auto simp: track_ok_def)
  show "track_ok (fst (track_add t j))" using assms by (auto simp: track_ok_def track_add_def Let_def)
  show "length (ring t) < 3 \<Longrightarrow> ring (fst (track_add t j)) = ring t @ [session_id j] \<and> snd (track_add t j) = None"
    using n abc assms by (elim disjE) (auto simp: ring_def track_add_def Let_def session_id_def track_ok_def numeral_2_eq_2)
  show "length (ring t) \<ge> 3 \<Longrightarrow> ring (fst (track_add t j)) = tl (ring t) @ [session_id j] \<and> snd (track_add t j) = Some (hd (ring t))"
    using n o abc by (auto simp: ring_def track_add_def Let_def session_id_def)
qed

text \<open>The tracker of a user, by a search for the first entry with the user's id.\<close>

definition track_of :: "session_track list \<Rightarrow> sso_id \<Rightarrow> session_track" where
  "track_of ss u = (case find (\<lambda>t. se_user_id t = u) ss of Some t \<Rightarrow> t | None \<Rightarrow> new_track u)"

lemma track_add_user [simp]: "se_user_id (fst (track_add t j)) = se_user_id t"
  by (simp add: track_add_def Let_def)

lemma track_of_user [simp]: "se_user_id (track_of ss u) = u"
proof (cases "find (\<lambda>t. se_user_id t = u) ss")
  case (Some t)
  then have "se_user_id t = u" by (auto simp: find_Some_iff)
  then show ?thesis using Some by (simp add: track_of_def)
qed (simp add: track_of_def new_track_def)

lemma sessions_add_track:
  "track_of (fst (sessions_add ss u j)) v = (if v = u then fst (track_add (track_of ss u) j) else track_of ss v)"
  "snd (sessions_add ss u j) = snd (track_add (track_of ss u) j)"
  by (induction ss) (auto simp: track_of_def new_track_def case_prod_unfold)

interpretation sr: history 3 session_id track_ok ring track_add
  by unfold_locales (simp_all add: track_add_ring)

text \<open>The logins of a user in a sequence of registrations, and the state after the sequence. \<open>revoke_total\<close> is a
  backend that records every revocation, or none at all.\<close>

definition logins :: "sso_id \<Rightarrow> (sso_id \<times> string) list \<Rightarrow> string list" where
  "logins u rs = map (session_id \<circ> snd) (filter (\<lambda>r. fst r = u) rs)"

definition register_all ::
  "'s storage_backend option \<Rightarrow> (sso_id \<times> string) list \<Rightarrow> token_manager \<times> 's \<Rightarrow> token_manager \<times> 's" where
  "register_all sb rs = fold (\<lambda>(u, j) (mgr, st). token_register_session sb st mgr u j) rs"

definition revoke_total :: "'s storage_backend option \<Rightarrow> token_manager \<Rightarrow> bool" where
  "revoke_total sb mgr \<longleftrightarrow>
     (case (if tm_storage mgr then Option.bind sb sb_jti_revoke else None) of
        Some f \<Rightarrow> \<forall>st j e. fst (f st j e) = SSO_OK | None \<Rightarrow> True)"

lemma revoke_total_ok:
  assumes "revoke_total sb mgr"
  shows "\<exists>st'. token_revoke sb st mgr j e = (SSO_OK, mgr\<lparr>jtis := jtis mgr @ [session_id j], rev_sorted := False\<rparr>, st')"
  using assms by (auto simp: token_revoke_def revoke_total_def session_id_def Let_def case_prod_unfold split: option.splits)

lemma register_step:
  assumes "revoke_total sb mgr" "token_register_session sb st mgr u j = (mgr', st')"
  shows "sessions mgr' = fst (sessions_add (sessions mgr) u j) \<and>
    jtis mgr' = jtis mgr @ (case snd (sessions_add (sessions mgr) u j) of None \<Rightarrow> [] | Some e \<Rightarrow> [session_id e]) \<and>
    revoke_total sb mgr'"
proof -
  obtain ss e where a: "sessions_add (sessions mgr) u j = (ss, e)" by fastforce
  have t: "revoke_total sb (mgr\<lparr>sessions := ss\<rparr>)" using assms(1) by (simp add: revoke_total_def)
  show ?thesis
  proof (cases e)
    case None
    then show ?thesis using assms a t by (auto simp: token_register_session_def)
  next
    case (Some old)
    obtain st2 where "token_revoke sb st (mgr\<lparr>sessions := ss\<rparr>) old 0 =
        (SSO_OK, mgr\<lparr>sessions := ss, jtis := jtis mgr @ [session_id old], rev_sorted := False\<rparr>, st2)"
      using revoke_total_ok [OF t, of st old 0] by auto
    then show ?thesis using assms a Some by (auto simp: token_register_session_def revoke_total_def)
  qed
qed

definition follows :: "string set \<Rightarrow> (sso_id \<times> string) list \<Rightarrow> token_manager \<Rightarrow> bool" where
  "follows J rs m \<longleftrightarrow>
     (\<forall>u. track_ok (track_of (sessions m) u) \<and> ring (track_of (sessions m) u) = lastn 3 (logins u rs)) \<and>
     set (jtis m) = J \<union> (\<Union>v. set (butlastn 3 (logins v rs)))"

lemma logins_snoc: "logins u (rs @ [(v, j)]) = logins u rs @ (if u = v then [session_id j] else [])"
  by (simp add: logins_def)

lemma follows_step:
  assumes "follows J rs m" "revoke_total sb m" "token_register_session sb st m v j = (m', st')"
  shows "follows J (rs @ [(v, j)]) m'"
proof -
  let ?e = "snd (track_add (track_of (sessions m) v) j)"
  have ok: "track_ok (track_of (sessions m) u)" "ring (track_of (sessions m) u) = lastn 3 (logins u rs)" for u
    using assms(1) by (simp_all add: follows_def)
  note put = sr.put_lastn [OF ok, of v j]
  have m': "sessions m' = fst (sessions_add (sessions m) v j)"
    "jtis m' = jtis m @ (case ?e of None \<Rightarrow> [] | Some e \<Rightarrow> [session_id e])"
    using register_step [OF assms(2,3)] by (simp_all add: sessions_add_track)
  have "session_id e = e" if "?e = Some e" for e
  proof -
    have "e \<in> set (butlastn 3 (logins v rs @ [session_id j]))" unfolding put(3) that by simp
    then show ?thesis by (auto simp: butlastn_def logins_def dest!: in_set_takeD)
  qed
  then have e: "(case ?e of None \<Rightarrow> [] | Some e \<Rightarrow> [session_id e]) = (case ?e of None \<Rightarrow> [] | Some e \<Rightarrow> [e])"
    by (auto split: option.splits)
  have "(\<Union>u. set (butlastn 3 (logins u (rs @ [(v, j)])))) =
      (\<Union>u. set (butlastn 3 (logins u rs))) \<union> set (case ?e of None \<Rightarrow> [] | Some e \<Rightarrow> [e])"
    by (auto simp: logins_snoc put(3) split: if_splits)
  then show ?thesis
    using assms(1) ok put m' e by (auto simp: follows_def sessions_add_track logins_snoc)
qed

text \<open>C31: the session limit. However the logins of the users are interleaved, each user's tracker holds the last three
  ids registered for that user, in order, and the ids that are revoked on top of those revoked before are exactly the
  earlier ones.\<close>

theorem session_limit:
  assumes "sessions mgr = []" "revoke_total sb mgr" "register_all sb rs (mgr, st) = (mgr', st')"
  shows "ring (track_of (sessions mgr') u) = lastn 3 (logins u rs) \<and>
    set (jtis mgr') = set (jtis mgr) \<union> (\<Union>v. set (butlastn 3 (logins v rs)))"
proof -
  have "follows (set (jtis mgr)) rs mgr' \<and> revoke_total sb mgr'" using assms(3)
  proof (induction rs arbitrary: mgr' st' rule: rev_induct)
    case Nil
    have "track_ok (new_track u)" "ring (new_track u) = []" for u by (simp_all add: new_track_def track_ok_def ring_def)
    with Nil show ?case using assms(1,2)
      by (simp add: register_all_def follows_def track_of_def logins_def lastn_def butlastn_def)
  next
    case (snoc r rs)
    obtain v j m s where m: "r = (v, j)" "register_all sb rs (mgr, st) = (m, s)" by fastforce
    then have r: "token_register_session sb s m v j = (mgr', st')" using snoc.prems by (simp add: register_all_def)
    have f: "follows (set (jtis mgr)) rs m" "revoke_total sb m" using snoc.IH [OF m(2)] by simp_all
    show ?case using follows_step [OF f r] register_step [OF f(2) r] by (simp add: m(1))
  qed
  then show ?thesis by (simp add: follows_def)
qed

definition memory_manager :: token_manager where
  "memory_manager = zero_manager\<lparr>tm_storage := True\<rparr>"

theorem session_limit_witness:
  "\<exists>mgr st. register_all (Some storage_memory) [(1, ''a''), (1, ''b''), (2, ''x''), (1, ''c''), (1, ''d''), (1, ''e'')]
       (memory_manager, mem_open) = (mgr, st) \<and>
     ring (track_of (sessions mgr) 1) = [''c'', ''d'', ''e''] \<and> ''a'' \<in> set (jtis mgr)"
proof -
  let ?rs = "[(1, ''a''), (1, ''b''), (2, ''x''), (1, ''c''), (1, ''d''), (1, ''e'')]"
  obtain mgr st where r: "register_all (Some storage_memory) ?rs (memory_manager, mem_open) = (mgr, st)" by fastforce
  have "revoke_total (Some storage_memory) memory_manager"
    by (simp add: revoke_total_def memory_manager_def mem_jti_revoke_def split: option.splits)
  moreover have "sessions memory_manager = []" by (simp add: memory_manager_def zero_manager_def)
  moreover have "logins 1 ?rs = [''a'', ''b'', ''c'', ''d'', ''e'']"
    by (simp add: logins_def session_id_def sso_strlcpy_def cstr_def)
  ultimately have "ring (track_of (sessions mgr) 1) = [''c'', ''d'', ''e'']" "butlastn 3 (logins 1 ?rs) = [''a'', ''b'']"
    and "set (jtis mgr) = set (jtis memory_manager) \<union> (\<Union>v. set (butlastn 3 (logins v ?rs)))"
    using session_limit [OF _ _ r, of 1] by (simp_all add: lastn_def butlastn_def)
  moreover from this(2) have "''a'' \<in> set (butlastn 3 (logins 1 ?rs))" by simp
  ultimately show ?thesis using r by blast
qed

section \<open>Nonces\<close>

lemma nonce_set_map:
  "(nonce_set ns u n = None \<longleftrightarrow> u \<notin> fst ` set ns)"
  "nonce_set ns u n = Some ns' \<Longrightarrow> map fst ns' = map fst ns \<and> map_of ns' = (map_of ns)(u \<mapsto> n)"
  by (induction ns arbitrary: ns') (auto simp: fun_upd_twist split: if_splits)

lemma set_nonce_get:
  assumes "token_set_nonce alloc mgr u n = (SSO_OK, mgr')"
  shows "token_get_nonce mgr' v = (if v = u then n else token_get_nonce mgr v)"
proof (cases "nonce_set (nonces mgr) u n")
  case None
  then have "map_of (nonces mgr) u = None" by (simp add: nonce_set_map(1) map_of_eq_None_iff)
  then show ?thesis using assms None
    by (auto simp: token_set_nonce_def token_get_nonce_def Let_def map_add_def split: if_splits option.splits)
next
  case (Some ns)
  then show ?thesis using assms nonce_set_map(2) [OF Some] by (auto simp: token_set_nonce_def token_get_nonce_def)
qed

text \<open>Raising the nonce of a user, the way all of the user's tokens are withdrawn, adds one to that user's nonce and
  leaves every other user's alone; when it fails the manager is unchanged.\<close>

theorem token_bump_nonce_get:
  "case token_bump_nonce alloc mgr u of
     (SSO_OK, mgr') \<Rightarrow> token_get_nonce mgr' v = (if v = u then token_get_nonce mgr u + 1 else token_get_nonce mgr v)
   | (err, mgr') \<Rightarrow> err = SSO_ERR_OUT_OF_MEMORY \<and> mgr' = mgr"
proof (cases "token_bump_nonce alloc mgr u")
  case (Pair err mgr')
  then consider "err = SSO_OK" | "err = SSO_ERR_OUT_OF_MEMORY" "mgr' = mgr"
    by (auto simp: token_bump_nonce_def token_set_nonce_def Let_def split: option.splits if_splits)
  then show ?thesis using Pair set_nonce_get by cases (auto simp: token_bump_nonce_def)
qed

section \<open>Every manager that is reached\<close>

text \<open>The states of a manager in HS256 mode: initialisation, perhaps with a standby key, and then any sequence of
  rotations, revocations, registrations of sessions, changes of nonces and checks. The counter of rotations has 32 bits;
  the states are those before it wraps.\<close>

inductive hs_reach :: "'s storage_backend option \<Rightarrow> token_manager \<Rightarrow> bool" for sb where
  reach_init: "token_manager_init secret ttl m0 = (SSO_OK, mgr) \<Longrightarrow> hs_reach sb mgr"
| reach_standby: "token_manager_init (Some s) ttl m0 = (SSO_OK, m1) \<Longrightarrow> token_manager_init_standby m1 secret = (e, mgr) \<Longrightarrow>
    hs_reach sb mgr"
| reach_storage: "hs_reach sb mgr \<Longrightarrow> hs_reach sb (mgr\<lparr>tm_storage := b\<rparr>)"
| reach_rotate: "hs_reach sb mgr \<Longrightarrow> rotation_counter mgr \<noteq> - 1 \<Longrightarrow> token_manager_rotate_key mgr secret = (e, mgr') \<Longrightarrow>
    hs_reach sb mgr'"
| reach_set_nonce: "hs_reach sb mgr \<Longrightarrow> token_set_nonce alloc mgr uid n = (e, mgr') \<Longrightarrow> hs_reach sb mgr'"
| reach_revoke: "hs_reach sb mgr \<Longrightarrow> token_revoke sb st mgr jti x = (e, mgr', st') \<Longrightarrow> hs_reach sb mgr'"
| reach_is_revoked: "hs_reach sb mgr \<Longrightarrow> token_is_revoked now sb st mgr jti = (b, mgr') \<Longrightarrow> hs_reach sb mgr'"
| reach_session: "hs_reach sb mgr \<Longrightarrow> token_register_session sb st mgr uid jti = (mgr', st') \<Longrightarrow> hs_reach sb mgr'"

definition nonces_ok :: "token_manager \<Rightarrow> bool" where
  "nonces_ok mgr \<longleftrightarrow>
     distinct (map fst (nonces mgr)) \<and> nonce_cap mgr = (if nonces mgr = [] then 0 else 8 * 2 ^ length (nonces mgr))"

definition sessions_ok :: "session_track list \<Rightarrow> bool" where
  "sessions_ok ss \<longleftrightarrow> distinct (map se_user_id ss) \<and> (\<forall>t \<in> set ss. track_ok t)"

definition tm_wf :: "token_manager \<Rightarrow> bool" where
  "tm_wf mgr \<longleftrightarrow> hs_wf mgr \<and> list_ok mgr \<and> nonces_ok mgr \<and> sessions_ok (sessions mgr)"

lemma wf_init: "token_manager_init secret ttl m0 = (SSO_OK, mgr) \<Longrightarrow> tm_wf mgr"
  using init_wf [of secret ttl m0 mgr]
  by (auto simp: tm_wf_def token_manager_init_def zero_manager_def list_ok_def nonces_ok_def sessions_ok_def
    split: option.splits if_splits)

lemma hs_wf_cong:
  "tm_mode a = tm_mode b \<Longrightarrow> slots a = slots b \<Longrightarrow> active_slot a = active_slot b \<Longrightarrow> rotation_counter a = rotation_counter b \<Longrightarrow>
   hs_wf a \<longleftrightarrow> hs_wf b"
  by (simp add: hs_wf_def)

lemma wf_keys:
  assumes "tm_wf mgr" "hs_wf mgr'" "jtis mgr' = jtis mgr" "rev_sorted mgr' = rev_sorted mgr" "nonces mgr' = nonces mgr"
    "nonce_cap mgr' = nonce_cap mgr" "sessions mgr' = sessions mgr"
  shows "tm_wf mgr'"
  using assms by (simp add: tm_wf_def list_ok_def nonces_ok_def)

lemma wf_standby:
  assumes "token_manager_init (Some s) ttl m0 = (SSO_OK, m1)" "token_manager_init_standby m1 secret = (e, mgr)"
  shows "tm_wf mgr"
proof -
  have m1: "tm_wf m1" by (rule wf_init [OF assms(1)])
  have c: "active_slot m1 = 0" "rotation_counter m1 \<noteq> - 1"
    using assms(1) by (auto simp: token_manager_init_def zero_manager_def split: if_splits)
  show ?thesis
  proof (cases "e = SSO_OK")
    case True
    then have "hs_wf mgr" using standby_wf [OF _ c] m1 assms(2) by (simp add: tm_wf_def)
    then show ?thesis using assms(2) by (auto intro!: wf_keys [OF m1] simp: token_manager_init_standby_def Let_def split: option.splits if_splits)
  next
    case False
    then have "mgr = m1" using assms(2) by (auto simp: token_manager_init_standby_def Let_def split: option.splits if_splits)
    then show ?thesis using m1 by simp
  qed
qed

lemma wf_rotate:
  assumes "tm_wf mgr" "rotation_counter mgr \<noteq> - 1" "token_manager_rotate_key mgr secret = (e, mgr')"
  shows "tm_wf mgr'"
proof (cases "e = SSO_OK")
  case True
  then have "hs_wf mgr'" using rotate_wf [OF _ assms(2)] assms(1,3) by (simp add: tm_wf_def)
  then show ?thesis using assms(3)
    by (auto intro!: wf_keys [OF assms(1)] simp: token_manager_rotate_key_def Let_def split: option.splits if_splits)
next
  case False
  then have "mgr' = mgr" using assms(3) by (auto simp: token_manager_rotate_key_def Let_def split: option.splits if_splits)
  then show ?thesis using assms(1) by simp
qed

lemma set_nonce_ok:
  assumes "token_set_nonce alloc mgr u n = (e, mgr')" "nonces_ok mgr"
  shows "nonces_ok mgr'"
proof (cases "nonce_set (nonces mgr) u n")
  case None
  then have "u \<notin> fst ` set (nonces mgr)" by (simp add: nonce_set_map(1))
  then show ?thesis using assms None
    by (auto simp: token_set_nonce_def nonces_ok_def Let_def split: if_splits)
next
  case (Some ns)
  then have "map fst ns = map fst (nonces mgr)" using nonce_set_map(2) by blast
  moreover from this have "length ns = length (nonces mgr)" by (metis length_map)
  ultimately show ?thesis using assms Some by (auto simp: token_set_nonce_def nonces_ok_def)
qed

lemma wf_set_nonce:
  assumes "tm_wf mgr" "token_set_nonce alloc mgr u n = (e, mgr')"
  shows "tm_wf mgr'"
proof -
  have "hs_wf mgr' = hs_wf mgr" "list_ok mgr' = list_ok mgr" "sessions mgr' = sessions mgr"
    using assms(2) by (auto simp: token_set_nonce_def hs_wf_def list_ok_def Let_def split: option.splits if_splits)
  then show ?thesis using assms(1) set_nonce_ok [OF assms(2)] by (simp add: tm_wf_def)
qed

lemma wf_revoke:
  assumes "tm_wf mgr" "token_revoke sb st mgr jti x = (e, mgr', st')"
  shows "tm_wf mgr'"
proof -
  have "mgr' = mgr \<or> mgr' = mgr\<lparr>jtis := jtis mgr @ [strlcpy jti TOKEN_REVOCATION_STR_LEN], rev_sorted := False\<rparr>"
    using assms(2) by (auto simp: token_revoke_def Let_def split: prod.splits if_splits)
  then show ?thesis using assms(1) by (auto simp: tm_wf_def list_ok_def nonces_ok_def hs_wf_def)
qed

lemma wf_is_revoked:
  assumes "tm_wf mgr" "token_is_revoked now sb st mgr jti = (b, mgr')"
  shows "tm_wf mgr'"
  using is_revoked_state [of now sb st mgr jti] assms by (auto simp: tm_wf_def list_ok_def nonces_ok_def hs_wf_def)

lemma wf_sessions_add: "sessions_ok ss \<Longrightarrow> sessions_ok (fst (sessions_add ss u j)) \<and>
    se_user_id ` set (fst (sessions_add ss u j)) = insert u (se_user_id ` set ss)"
proof (induction ss)
  case Nil
  have "track_ok (new_track u)" by (simp add: new_track_def track_ok_def)
  then show ?case using track_add_ring(1) [of "new_track u" j] by (simp add: sessions_ok_def case_prod_unfold new_track_def)
next
  case (Cons t ss)
  then show ?case using track_add_ring(1) [of t j] by (auto simp: sessions_ok_def case_prod_unfold)
qed

lemma wf_session:
  assumes "tm_wf mgr" "token_register_session sb st mgr u j = (mgr', st')"
  shows "tm_wf mgr'"
proof -
  obtain ss e where a: "sessions_add (sessions mgr) u j = (ss, e)" by fastforce
  have w: "tm_wf (mgr\<lparr>sessions := ss\<rparr>)"
    using assms(1) wf_sessions_add [of "sessions mgr" u j] a by (auto simp: tm_wf_def list_ok_def nonces_ok_def hs_wf_def)
  show ?thesis
  proof (cases e)
    case None
    then show ?thesis using assms(2) a w by (auto simp: token_register_session_def)
  next
    case (Some old)
    then have "token_revoke sb st (mgr\<lparr>sessions := ss\<rparr>) old 0 =
        (fst (token_revoke sb st (mgr\<lparr>sessions := ss\<rparr>) old 0), mgr', st')"
      using assms(2) a by (simp add: token_register_session_def prod_eq_iff)
    then show ?thesis by (rule wf_revoke [OF w])
  qed
qed

lemma wf_reached: "hs_reach sb mgr \<Longrightarrow> tm_wf mgr"
proof (induction rule: hs_reach.induct)
  case (reach_storage mgr b)
  then show ?case by (simp add: tm_wf_def hs_wf_def list_ok_def nonces_ok_def)
next
  case reach_init
  show ?case by (rule wf_init [OF reach_init])
next
  case reach_standby
  show ?case by (rule wf_standby [OF reach_standby])
next
  case reach_rotate
  show ?case by (rule wf_rotate [OF reach_rotate.IH reach_rotate.hyps(2,3)])
next
  case reach_set_nonce
  show ?case by (rule wf_set_nonce [OF reach_set_nonce.IH reach_set_nonce.hyps(2)])
next
  case reach_revoke
  show ?case by (rule wf_revoke [OF reach_revoke.IH reach_revoke.hyps(2)])
next
  case reach_is_revoked
  show ?case by (rule wf_is_revoked [OF reach_is_revoked.IH reach_is_revoked.hyps(2)])
next
  case reach_session
  show ?case by (rule wf_session [OF reach_session.IH reach_session.hyps(2)])
qed

text \<open>C32: the invariant of the token manager. In every state that is reached, both slots in use hold a 32-byte secret
  under different ids, the active one is in use, a list marked sorted is sorted, each user has at most one nonce and one
  tracker, and each tracker is a ring of three.\<close>

theorem token_manager_wf: "hs_reach sb mgr \<Longrightarrow> tm_wf mgr"
  by (rule wf_reached)

theorem token_manager_wf_witness:
  "hs_reach (None :: unit storage_backend option) sample_rotated \<and> tm_wf sample_rotated"
proof -
  have "hs_reach (None :: unit storage_backend option) sample_manager"
    by (rule reach_init [of "Some ''secret''" 1000 zero_manager]) (simp add: sample_manager_def token_manager_init_def)
  moreover have "token_manager_rotate_key sample_manager (Some ''second'') = (SSO_OK, sample_rotated)"
    by (simp add: sample_rotated_def token_manager_rotate_key_def Let_def)
  moreover have "rotation_counter sample_manager \<noteq> - 1" by (simp add: sample_manager_def token_manager_init_def)
  ultimately have "hs_reach (None :: unit storage_backend option) sample_rotated" using reach_rotate by blast
  then show ?thesis using token_manager_wf by blast
qed

text \<open>C33: the table of nonces doubles for every user, not when it is full, so a process runs out of memory after some
  tens of users. If no allocation of more than \<open>B\<close> bytes succeeds, then with \<open>k\<close> users in the table and
  \<open>B < 2 ^ (k + 8)\<close> the nonce of a further user cannot be raised: the call fails and leaves the user's tokens valid.\<close>

theorem token_nonce_exhausted:
  assumes "hs_reach sb mgr" "\<forall>n. alloc n \<longrightarrow> n \<le> B" "B < 2 ^ (length (nonces mgr) + 8)" "u \<notin> fst ` set (nonces mgr)"
  shows "token_bump_nonce alloc mgr u = (SSO_ERR_OUT_OF_MEMORY, mgr)"
proof -
  let ?bytes = "(if nonce_cap mgr \<noteq> 0 then nonce_cap mgr * 2 else 16) * 16"
  have "nonces_ok mgr" using wf_reached [OF assms(1)] by (simp add: tm_wf_def)
  then have b: "?bytes = 2 ^ (length (nonces mgr) + 8)" by (simp add: nonces_ok_def power_add)
  have "\<not> alloc ?bytes" unfolding b using assms(2,3) not_le by blast
  moreover have "nonce_set (nonces mgr) u n = None" for n using assms(4) by (simp add: nonce_set_map(1))
  ultimately show ?thesis
    by (simp only: token_bump_nonce_def token_set_nonce_def Let_def option.case not_False_eq_True if_True)
qed

theorem token_nonce_exhausted_witness:
  "token_bump_nonce (\<lambda>n. n \<le> 300) (sample_manager\<lparr>nonces := [(1, 5)], nonce_cap := 16\<rparr>) 2 =
     (SSO_ERR_OUT_OF_MEMORY, sample_manager\<lparr>nonces := [(1, 5)], nonce_cap := 16\<rparr>)"
proof -
  have "hs_reach (None :: unit storage_backend option) sample_manager"
    by (rule reach_init [of "Some ''secret''" 1000 zero_manager]) (simp add: sample_manager_def token_manager_init_def)
  moreover have "token_set_nonce (\<lambda>_. True) sample_manager 1 5 = (SSO_OK, sample_manager\<lparr>nonces := [(1, 5)], nonce_cap := 16\<rparr>)"
    by (simp add: token_set_nonce_def sample_manager_def token_manager_init_def zero_manager_def)
  ultimately have "hs_reach (None :: unit storage_backend option) (sample_manager\<lparr>nonces := [(1, 5)], nonce_cap := 16\<rparr>)"
    by (rule reach_set_nonce)
  then show ?thesis by (rule token_nonce_exhausted [where B = 300]) simp_all
qed

end
