(* ===== verification/Service.thy ===== *)
theory Service
  imports Http_Common Dpop Mfa Risk Rate_Limit Token_Sessions Perm_Engine
begin

text \<open>
  What a request handler works on: the root object with its token manager and rate limiter, the
  risk engine's tables, the audit log and the heap of the permission checks, in one record; what it takes from outside (libraries, clocks, random numbers,
  the environment) in another. A clock is read several times while a request is handled; \<open>ev_now E k\<close> is
  the reading at the \<open>k\<close>-th place of a function, and likewise for random bytes; \<open>ev_stale E\<close> is the text that fresh arena
  memory happens to hold, \<open>ev_counters E\<close> the values of the global counters of the server, \<open>ev_fixed E a b\<close> the text of \<open>a / b\<close> seconds from microseconds, \<open>ev_files E\<close> the files it serves. Then the middleware of
  \<^verbatim>\<open>src/handlers_common.c\<close> that authenticates a request. \<open>None\<close> is undefined behaviour.
\<close>

record 's service =
  sv_ctx :: "'s sso_context"
  sv_tokens :: token_manager
  sv_limiter :: "rate_limiter option"
  sv_risk :: risk_state
  sv_heap :: heap
  sv_audit :: audit_state

record counters =
  active_connections :: int
  mfa_success :: nat
  mfa_failure :: nat
  jwt_issue :: nat
  jwt_revoke :: nat
  db_read_count :: nat
  db_read_duration_us :: nat
  db_write_count :: nat
  db_write_duration_us :: nat
  arena_blocks :: nat

record env =
  ev_crypto :: crypto
  ev_pwhash :: pwhash
  ev_json :: json_env
  ev_dpop :: dpop_lib
  ev_fpu :: fpu
  ev_mac :: hmac_sha1
  ev_curl :: curl
  ev_libs :: libs
  ev_hmac :: hmac_fn
  ev_os :: os_view
  ev_getenv :: "string \<Rightarrow> string option"
  ev_alloc :: "nat \<Rightarrow> bool"
  ev_now :: "nat \<Rightarrow> timestamp"
  ev_mono :: "nat \<Rightarrow> 64 word"
  ev_time :: "64 word"
  ev_rnd8 :: "nat \<Rightarrow> char list"
  ev_rnd32 :: "nat \<Rightarrow> char list"
  ev_rnd16 :: "char list"
  ev_rnd20 :: "char list"
  ev_rand :: nat
  ev_stale :: string
  ev_counters :: counters
  ev_fixed :: "nat \<Rightarrow> nat \<Rightarrow> string"
  ev_rsa_public :: "pkey \<Rightarrow> (char list \<times> char list) option"
  ev_ec_pem :: "char list \<Rightarrow> char list \<Rightarrow> string"
  ev_num_text :: "dbl \<Rightarrow> string"
  ev_files :: "string \<Rightarrow> string option"

type_synonym 's handled = "(sso_error \<times> http_response \<times> 's service) option"

type_synonym 's handler = "env \<Rightarrow> 's service \<Rightarrow> http_request \<Rightarrow> http_response \<Rightarrow> 's handled"

abbreviation sv_backend :: "'s service \<Rightarrow> 's storage_backend option" where
  "sv_backend sv \<equiv> storage_backend (sv_ctx sv)"

abbreviation sv_store :: "'s service \<Rightarrow> 's" where
  "sv_store sv \<equiv> store (sv_ctx sv)"

abbreviation sv_users :: "'s service \<Rightarrow> user_manager option" where
  "sv_users sv \<equiv> user_mgr (sv_ctx sv)"

definition set_sv_store :: "'s service \<Rightarrow> 's \<Rightarrow> 's service" where
  "set_sv_store sv st = sv\<lparr>sv_ctx := (sv_ctx sv)\<lparr>store := st\<rparr>\<rparr>"

text \<open>The manager's functions at the service.\<close>

definition sv_is_revoked :: "env \<Rightarrow> nat \<Rightarrow> 's service \<Rightarrow> string \<Rightarrow> bool \<times> 's service" where
  "sv_is_revoked E k sv jti =
     (let (b, mgr) = token_is_revoked (ev_now E k) (sv_backend sv) (sv_store sv) (sv_tokens sv) jti
      in (b, sv\<lparr>sv_tokens := mgr\<rparr>))"

definition sv_revoke :: "'s service \<Rightarrow> string \<Rightarrow> timestamp \<Rightarrow> sso_error \<times> 's service" where
  "sv_revoke sv jti expires_at =
     (let (err, mgr, st) = token_revoke (sv_backend sv) (sv_store sv) (sv_tokens sv) jti expires_at
      in (err, set_sv_store (sv\<lparr>sv_tokens := mgr\<rparr>) st))"

definition sv_register_session :: "'s service \<Rightarrow> sso_id \<Rightarrow> string \<Rightarrow> 's service" where
  "sv_register_session sv uid jti =
     (let (mgr, st) = token_register_session (sv_backend sv) (sv_store sv) (sv_tokens sv) uid jti
      in set_sv_store (sv\<lparr>sv_tokens := mgr\<rparr>) st)"

definition sv_issue ::
  "env \<Rightarrow> nat \<Rightarrow> 's service \<Rightarrow> sso_id \<Rightarrow> sso_id list \<Rightarrow> sso_id list \<Rightarrow> string option \<Rightarrow> timestamp \<Rightarrow> jkt_arg \<Rightarrow>
     (sso_error \<times> token) option" where
  "sv_issue E k sv uid rs gs scp ttl jkt =
     token_issue (ev_crypto E) (sv_tokens sv) uid rs gs scp ttl jkt (ev_now E k) (ev_rnd8 E k) (ev_rnd32 E k)"

text \<open>A limit that applies when there is a limiter.\<close>

definition sv_limit :: "env \<Rightarrow> nat \<Rightarrow> 's service \<Rightarrow> string \<Rightarrow> int \<Rightarrow> (sso_error \<times> 's service) option" where
  "sv_limit E k sv key mx =
     (case sv_limiter sv of
        None \<Rightarrow> Some (SSO_OK, sv)
      | Some rl \<Rightarrow> map_option (\<lambda>(err, rl'). (err, sv\<lparr>sv_limiter := rl'\<rparr>))
                    (rate_limiter_check (Some rl) (Some key) (ev_mono E k) 60000 mx))"

definition full_url :: "http_request \<Rightarrow> string" where
  "full_url req = snprintf 2048 (''http://'' @ (if rq_host req \<noteq> [] then rq_host req else ''localhost'') @ rq_path req)"

definition authenticate_request ::
  "env \<Rightarrow> 's service \<Rightarrow> http_request \<Rightarrow> (sso_error \<times> user option \<times> token \<times> 's service) option" where
  "authenticate_request E sv req =
     (if rq_auth_token req = [] then Some (SSO_ERR_AUTH_FAILED, None, zero_token, sv)
      else do {
        (err, tok) \<leftarrow> token_verify (ev_crypto E) (ev_now E 0) (sv_tokens sv) (rq_auth_token req);
        if err \<noteq> SSO_OK then Some (err, None, tok, sv)
        else let (revoked, sv1) = sv_is_revoked E 1 sv (tk_jti tok)
             in if revoked then Some (SSO_ERR_TOKEN_INVALID, None, tok, sv1)
                else do {
                  bound \<leftarrow>
                    (if tk_jkt tok = [] then Some True
                     else if rq_dpop_proof req = [] then Some False
                     else map_option (\<lambda>(derr, derived). derr = SSO_OK \<and> derived = tk_jkt tok)
                            (dpop_verify_proof (ev_dpop E) (ev_now E 2) (rq_dpop_proof req) (rq_method_str req) (full_url req)
                               (Some (rq_auth_token req))));
                  if \<not> bound then Some (SSO_ERR_AUTH_FAILED, None, tok, sv1)
                  else let (uerr, u) = user_get_by_id (sv_ctx sv1) (sv_users sv1) (tk_user_id tok)
                       in if uerr \<noteq> SSO_OK \<or> u = None then Some (uerr, u, tok, sv1)
                          else Some (if tk_nonce tok < token_get_nonce (sv_tokens sv1) (u_id (the u))
                                     then SSO_ERR_TOKEN_INVALID else SSO_OK, u, tok, sv1)
                }
      })"

section \<open>Replies\<close>

definition reply :: "'s service \<Rightarrow> http_response \<Rightarrow> int \<Rightarrow> string \<Rightarrow> 's handled" where
  "reply sv resp code msg = Some (SSO_OK, sso_response_error resp code msg, sv)"

definition reply_ok :: "'s service \<Rightarrow> http_response \<Rightarrow> string \<Rightarrow> 's handled" where
  "reply_ok sv resp body = Some (SSO_OK, sso_response_ok resp body, sv)"

text \<open>The text of an object whose values are printed already.\<close>

fun jmembers :: "(string \<times> string) list \<Rightarrow> string" where
  "jmembers [] = []"
| "jmembers [(k, v)] = dquote k @ CHR '':'' # v"
| "jmembers ((k, v) # ms) = dquote k @ CHR '':'' # v @ CHR '','' # jmembers ms"

definition jobj :: "(string \<times> string) list \<Rightarrow> string" where
  "jobj ms = CHR ''{'' # jmembers ms @ ''}''"

abbreviation jid :: "sso_id \<Rightarrow> string" where
  "jid i \<equiv> dec (unat i)"

abbreviation (input) crlf :: string where
  "crlf \<equiv> [CHR 0x0D, CHR 0x0A]"

text \<open>Text put together in a buffer of \<open>n\<close> bytes: \<^verbatim>\<open>strcat\<close>, and \<^verbatim>\<open>off += snprintf(buf + off, n - off, \<dots>)\<close>, whose offset
  runs ahead of the text once something was cut. Writing past the end is undefined.\<close>

definition strcat_buf :: "nat \<Rightarrow> string \<Rightarrow> string \<Rightarrow> string option" where
  "strcat_buf n b s = (if length b + length s < n then Some (b @ s) else None)"

definition snprintf_at :: "nat \<Rightarrow> nat \<times> string \<Rightarrow> string \<Rightarrow> (nat \<times> string) option" where
  "snprintf_at n ob s = (if fst ob > n then None else Some (fst ob + length s, take (n - 1) (snd ob @ s)))"

fun fold_opt :: "('a \<Rightarrow> 'b \<Rightarrow> 'b option) \<Rightarrow> 'a list \<Rightarrow> 'b \<Rightarrow> 'b option" where
  "fold_opt f [] b = Some b"
| "fold_opt f (x # xs) b = Option.bind (f x b) (fold_opt f xs)"

definition jbool :: "bool \<Rightarrow> string" where
  "jbool b = (if b then ''true'' else ''false'')"

section \<open>What authentication establishes\<close>

lemma token_verify_dots: "token_verify cr now mgr s = Some (SSO_OK, t) \<Longrightarrow> CHR ''.'' \<in> set s"
proof -
  assume "token_verify cr now mgr s = Some (SSO_OK, t)"
  then have "split_token s \<noteq> None" by (auto simp: token_verify_def Let_def split: option.splits)
  then have "dropWhile (\<lambda>c. c \<noteq> CHR ''.'') s \<noteq> []" by (auto simp: split_token_def Let_def split: if_splits)
  then show ?thesis by simp
qed

lemma authenticate_ok:
  assumes "authenticate_request E sv req = Some (SSO_OK, u, tok, sv')"
  shows "token_verify (ev_crypto E) (ev_now E 0) (sv_tokens sv) (rq_auth_token req) = Some (SSO_OK, tok)"
    and "sv_is_revoked E 1 sv (tk_jti tok) = (False, sv')"
    and "tk_jkt tok = []"
    and "user_get_by_id (sv_ctx sv) (sv_users sv) (tk_user_id tok) = (SSO_OK, u)"
    and "u \<noteq> None \<Longrightarrow> token_get_nonce (sv_tokens sv) (u_id (the u)) \<le> tk_nonce tok"
proof -
  let ?v = "token_verify (ev_crypto E) (ev_now E 0) (sv_tokens sv) (rq_auth_token req)"
  have ne: "rq_auth_token req \<noteq> []" using assms by (auto simp: authenticate_request_def)
  obtain err t where tv: "?v = Some (err, t)" using assms ne by (cases ?v) (auto simp: authenticate_request_def)
  have ok: "err = SSO_OK" using assms ne tv by (cases "err = SSO_OK") (simp_all add: authenticate_request_def)
  obtain b sv1 where rv: "sv_is_revoked E 1 sv (tk_jti t) = (b, sv1)" by fastforce
  have nb: "\<not> b" using assms ne tv rv ok by (cases b) (simp_all add: authenticate_request_def)
  define B where "B = (if tk_jkt t = [] then Some True
    else if rq_dpop_proof req = [] then Some False
    else map_option (\<lambda>(derr, derived). derr = SSO_OK \<and> derived = tk_jkt t)
           (dpop_verify_proof (ev_dpop E) (ev_now E 2) (rq_dpop_proof req) (rq_method_str req) (full_url req)
              (Some (rq_auth_token req))))"
  obtain bd where bd: "B = Some bd" using assms ne tv rv ok nb by (cases B) (simp_all add: authenticate_request_def B_def)
  have bt: "bd" using assms ne tv rv ok nb bd by (cases bd) (simp_all add: authenticate_request_def B_def)
  obtain ue x where ux: "user_get_by_id (sv_ctx sv1) (sv_users sv1) (tk_user_id t) = (ue, x)" by fastforce
  have all: "(if ue \<noteq> SSO_OK \<or> x = None then Some (ue, x, t, sv1)
     else Some (if tk_nonce t < token_get_nonce (sv_tokens sv1) (u_id (the x)) then SSO_ERR_TOKEN_INVALID else SSO_OK, x, t, sv1)) =
     Some (SSO_OK, u, tok, sv')"
    using assms ne tv rv ok nb bd bt ux by (simp add: authenticate_request_def B_def)
  then have t: "t = tok" "sv1 = sv'" "ue = SSO_OK" "x = u" by (auto split: if_splits)
  have v: "?v = Some (SSO_OK, tok)" and r: "sv_is_revoked E 1 sv (tk_jti tok) = (False, sv')" using tv ok rv nb t by simp_all
  then show "?v = Some (SSO_OK, tok)" "sv_is_revoked E 1 sv (tk_jti tok) = (False, sv')" .
  obtain js f where "snd (token_is_revoked (ev_now E 1) (sv_backend sv) (sv_store sv) (sv_tokens sv) (tk_jti tok)) =
      (sv_tokens sv)\<lparr>jtis := js, rev_sorted := f\<rparr>"
    using is_revoked_state by metis
  then have c: "sv_ctx sv' = sv_ctx sv" "nonces (sv_tokens sv') = nonces (sv_tokens sv)"
    using r by (auto simp: sv_is_revoked_def split: prod.splits)
  have d: "dpop_verify_proof L n p m url (Some (rq_auth_token req)) \<noteq> Some (SSO_OK, j)" for L n p m url j
    using expected_dot_refused token_verify_dots [OF v] by blast
  have "\<not> bd" if "tk_jkt t \<noteq> []" using that bd d by (auto simp: B_def split: if_splits)
  then show "tk_jkt tok = []" using bt t by blast
  show "user_get_by_id (sv_ctx sv) (sv_users sv) (tk_user_id tok) = (SSO_OK, u)" using ux t c by simp
  show "u \<noteq> None \<Longrightarrow> token_get_nonce (sv_tokens sv) (u_id (the u)) \<le> tk_nonce tok"
    using all t c by (auto simp: token_get_nonce_def split: if_splits)
qed

end
