(* ===== verification/Handlers_Auth.thy ===== *)
theory Handlers_Auth
  imports Service Role_Manager
begin

text \<open>
  The handlers of \<^verbatim>\<open>src/handlers_auth.c\<close>: login with password or text message, the second factor,
  registration, verification, refresh, logout and the endpoints about the caller. A handler takes the
  service and the request and gives back the result, the response and the service. Tracing spans,
  metrics and log lines are not modelled.
\<close>

section \<open>What the replies carry\<close>

definition access_header :: "token \<Rightarrow> string" where
  "access_header t = ''X-SSO-Access-Token: '' @ tk_str t @ crlf"

definition refresh_header :: "token \<Rightarrow> string" where
  "refresh_header t = ''X-SSO-Refresh-Token: '' @ tk_str t @ crlf"

definition session_body :: "token \<Rightarrow> user \<Rightarrow> string" where
  "session_body t u =
     snprintf 32768 (jobj [(''expires_in'', sdec (tk_expires_at t)), (''user_id'', jid (u_id u)),
       (''username'', dquote (username u)), (''display_name'', dquote (display_name u))])"

definition role_ids_of :: "'s service \<Rightarrow> sso_id \<Rightarrow> sso_id list" where
  "role_ids_of sv uid = snd (user_get_roles (sv_ctx sv) (sv_users sv) uid 16)"

definition group_ids_of :: "'s service \<Rightarrow> sso_id \<Rightarrow> sso_id list" where
  "group_ids_of sv uid = snd (user_get_groups (sv_ctx sv) (sv_users sv) uid 16)"

definition sv_record_risk :: "env \<Rightarrow> nat \<Rightarrow> 's service \<Rightarrow> sso_id \<Rightarrow> string \<Rightarrow> 's service" where
  "sv_record_risk E k sv uid ip = sv\<lparr>sv_risk := risk_record_login_attempt (ev_now E k) (sv_risk sv) uid ip False\<rparr>"

section \<open>Login with a password\<close>

text \<open>The thumbprint of the proof that came with the request, empty without one; \<open>Some None\<close> is a bad proof.\<close>

definition login_dpop :: "env \<Rightarrow> http_request \<Rightarrow> string option option" where
  "login_dpop E req =
     (if rq_dpop_proof req = [] then Some (Some [])
      else map_option (\<lambda>(derr, jkt). if derr = SSO_OK then Some jkt else None)
             (dpop_verify_proof (ev_dpop E) (ev_now E 3) (rq_dpop_proof req) (rq_method_str req) (full_url req) None))"

text \<open>After the password and the risk have been found good.\<close>

definition login_issue :: "env \<Rightarrow> 's service \<Rightarrow> http_response \<Rightarrow> user \<Rightarrow> bool \<Rightarrow> string \<Rightarrow> 's handled" where
  "login_issue E sv resp u force_mfa jkt =
     (if mfa_enabled u \<noteq> 0 \<or> force_mfa then do {
        (_, t) \<leftarrow> sv_issue E 5 sv (u_id u) [] [] (Some ''mfa'') 300000 NoJkt;
        reply_ok sv resp (snprintf 32768 (jobj [(''mfa_required'', ''true''), (''mfa_token'', dquote (tk_str t))]))
      } else do {
        let rs = role_ids_of sv (u_id u);
        let gs = group_ids_of sv (u_id u);
        (err, access) \<leftarrow> sv_issue E 6 sv (u_id u) rs gs None 900000 (Jkt jkt);
        if err \<noteq> SSO_OK then reply sv resp 500 ''Failed to issue access token''
        else do {
          (err2, refresh) \<leftarrow> sv_issue E 7 sv (u_id u) rs gs None 604800000 (Jkt jkt);
          if err2 \<noteq> SSO_OK then reply sv resp 500 ''Failed to issue refresh token''
          else reply_ok (sv_register_session sv (u_id u) (tk_jti access))
                 (resp\<lparr>rs_extra_headers := snprintf 32768
                    (''Set-Cookie: sso_token='' @ tk_str access @ ''; Path=/; HttpOnly; SameSite=Lax'' @ crlf @
                     access_header access @ refresh_header refresh)\<rparr>)
                 (session_body access u)
        }
      })"

definition login_user :: "env \<Rightarrow> 's service \<Rightarrow> http_request \<Rightarrow> http_response \<Rightarrow> user \<Rightarrow> 's handled" where
  "login_user E sv req resp u =
     (let ip = rq_client_ip req;
          (score, rk) = risk_evaluate_login (ev_fpu E) (ev_now E 1) (sv_risk sv) (u_id u) ip (rq_user_agent req);
          sv1 = sv\<lparr>sv_risk := rk\<rparr>
      in if score \<ge> RISK_SCORE_HIGH then reply (sv_record_risk E 2 sv1 (u_id u) ip) resp 401 ''High risk login blocked''
         else if score \<ge> RISK_SCORE_MEDIUM \<and> mfa_enabled u = 0
         then reply (sv_record_risk E 2 sv1 (u_id u) ip) resp 401
                ''Medium risk login requires MFA, but MFA is not configured. Access blocked.''
         else do {
           proof_jkt \<leftarrow> login_dpop E req;
           (case proof_jkt of
              None \<Rightarrow> reply sv1 resp 401 ''Invalid DPoP Proof''
            | Some jkt \<Rightarrow>
                login_issue E
                  (sv1\<lparr>sv_limiter := rate_limiter_reset (sv_limiter sv1) (Some ip),
                       sv_risk := risk_record_login_success_with_ua (ev_now E 4) (sv_risk sv1) (u_id u) ip (rq_user_agent req)\<rparr>)
                  resp u (score \<ge> RISK_SCORE_MEDIUM) jkt)
         })"

definition handle_login :: "'s handler" where
  "handle_login E sv req resp =
     (if rq_body req = None then reply sv resp 400 ''Request body required''
      else do {
        (rerr, sv1) \<leftarrow> sv_limit E 0 sv (rq_client_ip req) 5;
        if rerr \<noteq> SSO_OK then reply sv1 resp 429 ''Too many login attempts. Please wait.''
        else let (uname, req1) = req_json_str_value (ev_json E) req ''username'';
                 (pw, req2) = req_json_str_value (ev_json E) req1 ''password''
             in if uname = None \<or> pw = None then reply sv1 resp 400 ''username and password required''
                else let (err, u) = user_authenticate (ev_pwhash E) (ev_now E 0) (sv_ctx sv1) (sv_users sv1) uname pw
                     in if err \<noteq> SSO_OK \<or> u = None
                        then reply (sv_record_risk E 8 sv1 0 (rq_client_ip req)) resp 401 ''Invalid credentials''
                        else login_user E sv1 req2 resp (the u)
      })"

section \<open>The second factor\<close>

definition handle_mfa_setup :: "'s handler" where
  "handle_mfa_setup E sv req resp =
     (if rq_userdata req = None then reply sv resp 401 ''Authentication required''
      else reply_ok sv resp (snprintf 128 (jobj [(''secret'', dquote (mfa_generate_secret (ev_rnd20 E) 64))])))"

definition handle_mfa_enable :: "'s handler" where
  "handle_mfa_enable E sv req resp =
     (case rq_userdata req of
        None \<Rightarrow> reply sv resp 401 ''Authentication required''
      | Some auth \<Rightarrow>
          if rq_body req = None then reply sv resp 400 ''Request body required''
          else let (secret, req1) = req_json_str_value (ev_json E) req ''secret'';
                   (code, req2) = req_json_str_value (ev_json E) req1 ''code''
               in if secret = None \<or> code = None then reply sv resp 400 ''secret and code required''
                  else if \<not> mfa_verify_totp (ev_mac E) (ev_time E) secret code then reply sv resp 400 ''Invalid TOTP code''
                  else let u = (au_user auth)\<lparr>mfa_enabled := 1, mfa_secret := strlcpy (the secret) 64\<rparr>;
                           (err, ctx) = user_update (ev_now E 0) (sv_ctx sv) (sv_users sv) (Some u);
                           sv1 = sv\<lparr>sv_ctx := ctx\<rparr>
                       in if err \<noteq> SSO_OK then reply sv1 resp 500 ''Failed to update user''
                          else reply_ok sv1 resp (jobj [(''enabled'', ''true'')]))"

text \<open>Access and refresh token in the headers, as the second factor and a refresh hand them out.\<close>

definition issue_pair ::
  "env \<Rightarrow> 's service \<Rightarrow> sso_id \<Rightarrow> sso_id list \<Rightarrow> sso_id list \<Rightarrow> (sso_error \<times> token \<times> token) option" where
  "issue_pair E sv uid rs gs = do {
     (err, access) \<leftarrow> sv_issue E 1 sv uid rs gs None 900000 NoJkt;
     if err \<noteq> SSO_OK then Some (err, access, zero_token)
     else do {
       (err2, refresh) \<leftarrow> sv_issue E 2 sv uid rs gs None 604800000 NoJkt;
       Some (err2, access, refresh)
     }
   }"

definition handle_mfa_verify :: "'s handler" where
  "handle_mfa_verify E sv req resp =
     (if rq_body req = None then reply sv resp 400 ''Request body required''
      else let (tok, req1) = req_json_str_value (ev_json E) req ''mfa_token'';
               (code, req2) = req_json_str_value (ev_json E) req1 ''code''
           in if tok = None \<or> code = None then reply sv resp 400 ''mfa_token and code required''
              else do {
                (err, t) \<leftarrow> token_verify (ev_crypto E) (ev_now E 0) (sv_tokens sv) (the tok);
                if err \<noteq> SSO_OK then reply sv resp 401 ''Invalid or expired MFA token''
                else let (uerr, u) = user_get_by_id (sv_ctx sv) (sv_users sv) (tk_user_id t)
                     in if uerr \<noteq> SSO_OK \<or> u = None then reply sv resp 401 ''User not found''
                        else if \<not> mfa_verify_totp (ev_mac E) (ev_time E) (Some (mfa_secret (the u))) code
                        then reply sv resp 401 ''Invalid TOTP code''
                        else do {
                          (perr, access, refresh) \<leftarrow>
                            issue_pair E sv (u_id (the u)) (role_ids_of sv (u_id (the u))) (group_ids_of sv (u_id (the u)));
                          if perr \<noteq> SSO_OK then reply sv resp 500 ''Failed to issue final tokens''
                          else reply_ok sv (resp\<lparr>rs_extra_headers := snprintf 32768 (access_header access @ refresh_header refresh)\<rparr>)
                                 (session_body access (the u))
                        }
              })"

section \<open>Text messages\<close>

definition handle_send_sms :: "'s handler" where
  "handle_send_sms E sv req resp =
     (if rq_body req = None then reply sv resp 400 ''Request body required''
      else let (ph, req1) = req_json_str_value (ev_json E) req ''phone''
           in if ph = None then reply sv resp 400 ''phone required''
              else do {
                (rerr, sv1) \<leftarrow> sv_limit E 0 sv (rq_client_ip req) 1;
                if rerr \<noteq> SSO_OK then reply sv1 resp 429 ''Too many SMS requests. Please wait 1 minute.''
                else let code = six_digits (ev_rand E mod 1000000);
                         (err, sv2) = (case Option.bind (sv_backend sv1) sb_save_sms_code of
                            None \<Rightarrow> (SSO_ERR_NOT_IMPLEMENTED, sv1)
                          | Some f \<Rightarrow> (let (e, st) = f (sv_store sv1) (the ph) code (ev_now E 0 + 300000)
                                       in (e, set_sv_store sv1 st)))
                     in if err \<noteq> SSO_OK then reply sv2 resp 500 ''Failed to generate SMS code''
                        else if send_real_sms (ev_curl E) (ev_getenv E) (the ph) code \<noteq> SSO_OK
                        then reply sv2 resp 500 ''SMS gateway error''
                        else reply_ok sv2 resp (jobj [(''status'', dquote ''sent'')])
              })"

text \<open>The user of a phone number, registered on the spot if there is none.\<close>

definition sms_user :: "env \<Rightarrow> 's service \<Rightarrow> string \<Rightarrow> sso_error \<times> user option \<times> 's service" where
  "sms_user E sv ph =
     (let (err, u) = user_get_by_phone (sv_ctx sv) (sv_users sv) (Some ph)
      in if err = SSO_ERR_NOT_FOUND
         then let (err', u', ctx) = user_create_by_phone (ev_now E 1) (sv_ctx sv) (sv_users sv) (Some ph)
              in (err', u', sv\<lparr>sv_ctx := ctx\<rparr>)
         else (err, u, sv))"

definition sms_issue :: "env \<Rightarrow> 's service \<Rightarrow> http_response \<Rightarrow> user \<Rightarrow> 's handled" where
  "sms_issue E sv resp u = do {
     (err, t) \<leftarrow> sv_issue E 2 sv (u_id u) (role_ids_of sv (u_id u)) (group_ids_of sv (u_id u)) None 3600000 NoJkt;
     if err \<noteq> SSO_OK then reply sv resp 500 ''Failed to issue token''
     else reply_ok sv resp (snprintf 32768 (jobj [(''token'', dquote (tk_str t)), (''user_id'', jid (u_id u)),
            (''username'', dquote (username u)), (''phone'', dquote (phone u))]))
   }"

text \<open>With the phone or the code missing nothing is written to the response.\<close>

definition handle_login_by_sms :: "'s handler" where
  "handle_login_by_sms E sv req resp =
     (if rq_body req = None then reply sv resp 400 ''Request body required''
      else do {
        (rerr, sv1) \<leftarrow> sv_limit E 0 sv (rq_client_ip req) 5;
        if rerr \<noteq> SSO_OK then reply sv1 resp 429 ''Too many SMS login attempts. Please wait.''
        else let (ph, req1) = req_json_str_value (ev_json E) req ''phone'';
                 (code, req2) = req_json_str_value (ev_json E) req1 ''code''
             in if ph = None \<or> code = None then Some (SSO_OK, resp, sv1)
                else do {
                  (perr, sv2) \<leftarrow> sv_limit E 1 sv1 (snprintf 128 (''sms_login:'' @ the ph)) 3;
                  if perr \<noteq> SSO_OK then reply sv2 resp 429 ''Too many attempts for this phone number. Please wait.''
                  else case (Option.bind (sv_backend sv2) sb_get_sms_code, Option.bind (sv_backend sv2) sb_delete_sms_code) of
                    (Some get, Some del) \<Rightarrow>
                      if get (ev_now E 0) (sv_store sv2) (the ph) \<noteq> (SSO_OK, code)
                      then reply sv2 resp 401 ''Invalid or expired verification code''
                      else let sv3 = set_sv_store sv2 (snd (del (sv_store sv2) (the ph)));
                               (err, u, sv4) = sms_user E sv3 (the ph)
                           in if err \<noteq> SSO_OK \<or> u = None \<or> u_status (the u) \<noteq> USER_STATUS_ACTIVE
                              then reply sv4 resp 403 ''Account disabled or error''
                              else sms_issue E sv4 resp (the u)
                  | _ \<Rightarrow> reply sv2 resp 500 ''SMS feature not enabled in storage backend''
                }
      })"

section \<open>Registration\<close>

definition assign_default_role :: "env \<Rightarrow> 's sso_context \<Rightarrow> sso_id \<Rightarrow> 's sso_context" where
  "assign_default_role E ctx uid =
     (let (err, r) = role_get_by_name ctx (role_mgr ctx) (Some ''user'')
      in if err = SSO_OK \<and> r \<noteq> None then snd (role_assign_to_user ctx (role_mgr ctx) (r_id (the r)) uid)
         else let (cerr, c, ctx1) =
                    role_create (ev_now E 1) ctx (role_mgr ctx) (Some ''user'') (Some ''Regular member'') SSO_ID_NONE
              in if cerr = SSO_OK \<and> c \<noteq> None then snd (role_assign_to_user ctx1 (role_mgr ctx1) (r_id (the c)) uid)
                 else ctx1)"

definition handle_register :: "'s handler" where
  "handle_register E sv req resp =
     (if rq_body req = None then reply sv resp 400 ''Request body required''
      else let (uname, req1) = req_json_str_value (ev_json E) req ''username'';
               (pw, req2) = req_json_str_value (ev_json E) req1 ''password'';
               (mail, req3) = req_json_str_value (ev_json E) req2 ''email'';
               (disp, req4) = req_json_str_value (ev_json E) req3 ''display_name''
           in if uname = None \<or> pw = None then reply sv resp 400 ''username and password required''
              else case validate_password pw None of
                     Some pw_err \<Rightarrow> reply sv resp 400 pw_err
                   | None \<Rightarrow>
                       (let (err, u, ctx) = user_create (ev_pwhash E) (ev_now E 0) (sv_ctx sv) (sv_users sv) uname pw
                              (Some (case mail of Some m \<Rightarrow> m | None \<Rightarrow> [])) (if disp = None then uname else disp);
                            sv1 = sv\<lparr>sv_ctx := (if err = SSO_OK then assign_default_role E ctx (u_id (the u)) else ctx)\<rparr>
                        in if err = SSO_ERR_ALREADY_EXISTS then reply sv1 resp 409 ''Username already exists''
                           else if err \<noteq> SSO_OK then reply sv1 resp 500 ''Failed to create user''
                           else reply_ok sv1 resp (snprintf 512 (jobj [(''user_id'', jid (u_id (the u))),
                                  (''username'', dquote (username (the u))), (''created'', ''true'')]))))"

section \<open>Verification and refresh\<close>

text \<open>The header with a fresh token once more than half of the time to live has passed.\<close>

definition rotation_header :: "env \<Rightarrow> 's service \<Rightarrow> token \<Rightarrow> user \<Rightarrow> string option" where
  "rotation_header E sv t u =
     (let now = ev_now E 3; ttl = tk_expires_at t - tk_issued_at t
      in if ttl > 0 \<and> now \<ge> tk_issued_at t \<and> now - tk_issued_at t > ttl div 2
         then map_option (\<lambda>(err, new). if err = SSO_OK then snprintf 8320 (access_header new) else [])
                (sv_issue E 4 sv (u_id u) (tk_role_ids t) (tk_group_ids t) (Some (tk_scope t)) ttl NoJkt)
         else Some [])"

definition verify_user :: "env \<Rightarrow> 's service \<Rightarrow> http_response \<Rightarrow> token \<Rightarrow> 's handled" where
  "verify_user E sv resp t =
     (let (uerr, u) = user_get_by_id (sv_ctx sv) (sv_users sv) (tk_user_id t)
      in if uerr \<noteq> SSO_OK \<or> u = None then reply sv resp 401 ''User not found''
         else do {
           rot \<leftarrow> rotation_header E sv t (the u);
           reply_ok sv (resp\<lparr>rs_extra_headers := snprintf 32768 (''X-SSO-User: '' @ username (the u) @ crlf @
                               ''X-SSO-Email: '' @ email (the u) @ crlf @ rot)\<rparr>)
             (snprintf 32768 (jobj [(''valid'', ''true''), (''user_id'', jid (u_id (the u))),
                (''username'', dquote (username (the u))), (''email'', dquote (email (the u))),
                (''display_name'', dquote (display_name (the u))), (''expires_at'', sdec (tk_expires_at t))]))
         })"

definition verify_token_str :: "env \<Rightarrow> http_request \<Rightarrow> string option" where
  "verify_token_str E req =
     (case (if rq_body req = None then None else fst (req_json_str_value (ev_json E) req ''token'')) of
        Some t \<Rightarrow> Some t
      | None \<Rightarrow> if rq_auth_token req \<noteq> [] then Some (rq_auth_token req) else None)"

definition handle_verify :: "'s handler" where
  "handle_verify E sv req resp =
     (case verify_token_str E req of
        None \<Rightarrow> reply sv resp 401 ''Token required''
      | Some token_str \<Rightarrow> do {
          (err, t) \<leftarrow> token_verify (ev_crypto E) (ev_now E 0) (sv_tokens sv) token_str;
          if err \<noteq> SSO_OK then reply sv resp 401 (sso_strerror err)
          else let (revoked, sv1) = sv_is_revoked E 1 sv (tk_jti t)
               in if revoked then reply sv1 resp 401 ''Token revoked''
                  else if tk_jkt t = [] then verify_user E sv1 resp t
                  else if rq_dpop_proof req = [] then reply sv1 resp 401 ''DPoP Proof Required''
                  else do {
                    (derr, _) \<leftarrow> dpop_verify_proof (ev_dpop E) (ev_now E 2) (rq_dpop_proof req) (rq_method_str req)
                                   (full_url req) (Some (tk_jkt t));
                    if derr \<noteq> SSO_OK then reply sv1 resp 401 ''Invalid DPoP Proof'' else verify_user E sv1 resp t
                  }
        })"

definition handle_refresh :: "'s handler" where
  "handle_refresh E sv req resp =
     (if rq_body req = None then reply sv resp 400 ''Request body required''
      else case fst (req_json_str_value (ev_json E) req ''refresh_token'') of
             None \<Rightarrow> reply sv resp 400 ''refresh_token required''
           | Some str \<Rightarrow> do {
               (err, old) \<leftarrow> token_verify (ev_crypto E) (ev_now E 0) (sv_tokens sv) str;
               if err \<noteq> SSO_OK
               then reply sv resp 401 (if err = SSO_ERR_TOKEN_EXPIRED then ''Refresh token expired'' else ''Invalid refresh token'')
               else let (revoked, sv1) = sv_is_revoked E 3 sv (tk_jti old)
                    in if revoked then reply sv1 resp 401 ''Refresh token revoked''
                       else let (uerr, u) = user_get_by_id (sv_ctx sv1) (sv_users sv1) (tk_user_id old)
                            in if uerr \<noteq> SSO_OK \<or> u = None then reply sv1 resp 401 ''User not found''
                               else do {
                                 (perr, access, refresh) \<leftarrow>
                                   issue_pair E sv1 (u_id (the u)) (tk_role_ids old) (tk_group_ids old);
                                 if perr \<noteq> SSO_OK then reply sv1 resp 500 ''Failed to issue tokens''
                                 else reply_ok sv1
                                        (resp\<lparr>rs_extra_headers := snprintf 32768 (access_header access @ refresh_header refresh)\<rparr>)
                                        (jobj [(''status'', dquote ''refreshed'')])
                               }
             })"

section \<open>Logout and the caller's own data\<close>

definition handle_logout :: "'s handler" where
  "handle_logout E sv req resp =
     (case rq_userdata req of
        None \<Rightarrow> reply sv resp 401 ''Authentication required''
      | Some auth \<Rightarrow>
          (let (err, sv1) = sv_revoke sv (tk_jti (au_token auth)) (tk_expires_at (au_token auth))
           in if err \<noteq> SSO_OK then reply sv1 resp 500 ''Failed to revoke token''
              else reply_ok sv1 resp (jobj [(''logged_out'', ''true'')])))"

definition handle_logout_all :: "'s handler" where
  "handle_logout_all E sv req resp =
     (case rq_userdata req of
        None \<Rightarrow> reply sv resp 401 ''Authentication required''
      | Some auth \<Rightarrow>
          (let (err, mgr) = token_bump_nonce (ev_alloc E) (sv_tokens sv) (u_id (au_user auth));
               sv1 = sv\<lparr>sv_tokens := mgr\<rparr>
           in if err \<noteq> SSO_OK then reply sv1 resp 500 ''Failed to revoke all sessions''
              else reply_ok sv1 resp (jobj [(''logged_out_all'', ''true'')])))"

text \<open>Without a password in the body nothing is written to the response.\<close>

definition handle_change_password :: "'s handler" where
  "handle_change_password E sv req resp =
     (case rq_userdata req of
        None \<Rightarrow> reply sv resp 401 ''Authentication required''
      | Some auth \<Rightarrow>
          if rq_body req = None then reply sv resp 400 ''Request body required''
          else let pw = fst (req_json_str_value (ev_json E) req ''password'')
               in case validate_password pw None of
                    Some pw_err \<Rightarrow> if pw \<noteq> None then reply sv resp 400 pw_err else Some (SSO_OK, resp, sv)
                  | None \<Rightarrow>
                      (let (err, ctx) = user_set_password (ev_pwhash E) (ev_now E 0) (sv_ctx sv) (sv_users sv)
                             (u_id (au_user auth)) pw;
                           sv1 = sv\<lparr>sv_ctx := ctx\<rparr>
                       in if err \<noteq> SSO_OK then reply sv1 resp 500 ''Failed to update password''
                          else reply_ok sv1 resp (jobj [(''updated'', ''true'')])))"

definition handle_me :: "'s handler" where
  "handle_me E sv req resp =
     (case rq_userdata req of
        None \<Rightarrow> reply sv resp 401 ''Authentication required''
      | Some auth \<Rightarrow>
          (let u = au_user auth
           in reply_ok sv (resp\<lparr>rs_extra_headers := snprintf 32768 (''X-SSO-User: '' @ username u @ crlf)\<rparr>)
                (snprintf 4096 (jobj [(''id'', jid (u_id u)), (''username'', dquote (username u)), (''email'', dquote (email u)),
                   (''display_name'', dquote (display_name u)), (''token_jti'', dquote (tk_jti (au_token auth)))]))))"

definition handle_certs :: "'s handler" where
  "handle_certs E sv req resp =
     (if tm_mode (sv_tokens sv) \<noteq> SSO_TOKEN_MODE_RS256 then reply sv resp 404 ''Server not in RS256 mode''
      else case token_manager_get_public_key_pem (ev_crypto E) (sv_tokens sv) of
             None \<Rightarrow> reply sv resp 500 ''Failed to export public key''
           | Some pem \<Rightarrow>
               (case yyjson_mut_write (JwObj [(''public_key'', JwStr pem), (''alg'', JwStr ''RS256'')]) of
                  None \<Rightarrow> None
                | Some json \<Rightarrow> reply_ok sv resp json))"

definition handle_session_check :: "'s handler" where
  "handle_session_check E sv req resp =
     (if rq_auth_token req = [] then reply sv resp 401 ''No token''
      else do {
        (err, t) \<leftarrow> token_verify (ev_crypto E) (ev_now E 0) (sv_tokens sv) (rq_auth_token req);
        if err \<noteq> SSO_OK then reply sv resp 401 (sso_strerror err)
        else let (revoked, sv1) = sv_is_revoked E 1 sv (tk_jti t)
             in if revoked then reply sv1 resp 401 ''Token revoked''
                else let (uerr, u) = user_get_by_id (sv_ctx sv1) (sv_users sv1) (tk_user_id t)
                     in if uerr \<noteq> SSO_OK \<or> u = None \<or> u_status (the u) \<noteq> USER_STATUS_ACTIVE
                        then reply sv1 resp 401 ''User not found or inactive''
                        else reply_ok sv1
                               (resp\<lparr>rs_extra_headers := snprintf 32768 (''X-SSO-User: '' @ username (the u) @ crlf @
                                  ''X-SSO-Email: '' @ email (the u) @ crlf @ ''X-SSO-User-Id: '' @ jid (u_id (the u)) @ crlf)\<rparr>)
                               (snprintf 512 (jobj [(''active'', ''true''), (''user_id'', jid (u_id (the u))),
                                  (''username'', dquote (username (the u))), (''email'', dquote (email (the u)))]))
      })"

end
