(* ===== verification/Handlers_Admin.thy ===== *)
theory Handlers_Admin
  imports Service
begin

text \<open>
  The management endpoints of \<^verbatim>\<open>src/handlers_admin.c\<close>: users, roles, groups, policies, OAuth clients and the signing
  keys. A handler that ends well writes a line to the audit log, for which it takes the caller from the request:
  without a caller that is a NULL pointer, \<open>None\<close> here. Lists are put together in buffers of fixed size.
\<close>

section \<open>Shared steps\<close>

definition found :: "sso_error \<times> 'a option \<Rightarrow> 'a option" where
  "found r = (if fst r = SSO_OK then snd r else None)"

definition set_sv_ctx :: "'s service \<Rightarrow> 's sso_context \<Rightarrow> 's service" where
  "set_sv_ctx sv ctx = sv\<lparr>sv_ctx := ctx\<rparr>"

definition sv_admin_log ::
  "env \<Rightarrow> 's service \<Rightarrow> sso_id \<Rightarrow> string \<Rightarrow> http_request \<Rightarrow> string \<Rightarrow> string \<Rightarrow> sso_id \<Rightarrow> string \<Rightarrow> 's service" where
  "sv_admin_log E sv uid uname req operation resource rid details =
     (let (ctx, A) = admin_audit_log (ev_hmac E) (ev_os E) uid (Some uname) (Some (rq_client_ip req)) (Some operation)
            (Some resource) rid (Some ''success'') (Some details) (sv_ctx sv, sv_audit sv)
      in sv\<lparr>sv_ctx := ctx, sv_audit := A\<rparr>)"

definition reply_logged ::
  "env \<Rightarrow> 's service \<Rightarrow> http_request \<Rightarrow> http_response \<Rightarrow> string \<Rightarrow> string \<Rightarrow> string \<Rightarrow> sso_id \<Rightarrow> string \<Rightarrow> 's handled" where
  "reply_logged E sv req resp body operation resource rid details =
     (case rq_userdata req of
        None \<Rightarrow> None
      | Some a \<Rightarrow>
          reply_ok (sv_admin_log E sv (u_id (au_user a)) (username (au_user a)) req operation resource rid (snprintf 256 details))
            resp body)"

text \<open>Most writes end alike: an error becomes a reply with status 500, success a fixed text and a line in the log.\<close>

definition finish_write ::
  "env \<Rightarrow> 's service \<Rightarrow> http_request \<Rightarrow> http_response \<Rightarrow> sso_error \<times> 's sso_context \<Rightarrow> string \<Rightarrow> string \<Rightarrow> string \<Rightarrow> sso_id \<Rightarrow>
     string \<Rightarrow> 's handled" where
  "finish_write E sv req resp r done operation resource rid details =
     (let (err, ctx) = r; sv1 = set_sv_ctx sv ctx
      in if err \<noteq> SSO_OK then reply sv1 resp 500 (sso_strerror err)
         else reply_logged E sv1 req resp (jobj [(done, ''true'')]) operation resource rid details)"

text \<open>A create reports the new entity; its text is also what the log gets.\<close>

definition finish_create ::
  "env \<Rightarrow> 's service \<Rightarrow> http_request \<Rightarrow> http_response \<Rightarrow> sso_error \<Rightarrow> string \<Rightarrow> string \<Rightarrow> string \<Rightarrow> string \<Rightarrow> sso_id \<Rightarrow> string \<Rightarrow>
     's handled" where
  "finish_create E sv req resp err exists failed operation resource rid body =
     (if err = SSO_ERR_ALREADY_EXISTS then reply sv resp 409 exists
      else if err \<noteq> SSO_OK then reply sv resp 500 failed
      else case rq_userdata req of
             None \<Rightarrow> None
           | Some a \<Rightarrow>
               reply_ok (sv_admin_log E sv (u_id (au_user a)) (username (au_user a)) req operation resource rid body) resp body)"

definition body_int :: "http_request \<Rightarrow> string \<Rightarrow> int \<Rightarrow> int" where
  "body_int req key def = to_int32 (json_int_value (rq_body req) key def)"

definition body_id :: "http_request \<Rightarrow> string \<Rightarrow> int \<Rightarrow> sso_id" where
  "body_id req key def = word_of_int (json_int_value (rq_body req) key def)"

definition set_str :: "nat \<Rightarrow> string option \<Rightarrow> string \<Rightarrow> string" where
  "set_str n v old = (case v of Some t \<Rightarrow> strlcpy t n | None \<Rightarrow> old)"

section \<open>Users\<close>

definition handle_create_user :: "'s handler" where
  "handle_create_user E sv req resp =
     (if rq_body req = None then reply sv resp 400 ''Request body required''
      else let (uname, req1) = req_json_str_value (ev_json E) req ''username'';
               (pw, req2) = req_json_str_value (ev_json E) req1 ''password'';
               (mail, req3) = req_json_str_value (ev_json E) req2 ''email'';
               (disp, req4) = req_json_str_value (ev_json E) req3 ''display_name''
           in if uname = None \<or> pw = None then reply sv resp 400 ''username and password required''
              else let (err, u, ctx) = user_create (ev_pwhash E) (ev_now E 0) (sv_ctx sv) (sv_users sv) uname pw
                         (Some (case mail of Some m \<Rightarrow> m | None \<Rightarrow> [])) (if disp = None then uname else disp);
                       sv1 = set_sv_ctx sv ctx;
                       body = snprintf 512 (jobj [(''user_id'', jid (u_id (the u))), (''username'', dquote (username (the u))),
                                (''created'', ''true'')])
                   in if err = SSO_ERR_ALREADY_EXISTS then reply sv1 resp 409 ''Username already exists''
                      else if err \<noteq> SSO_OK then reply sv1 resp 500 ''Failed to create user''
                      else let (aid, aname) = (case rq_userdata req of
                                 Some a \<Rightarrow> (u_id (au_user a), username (au_user a)) | None \<Rightarrow> (0, ''system''))
                           in reply_ok (sv_admin_log E sv1 aid aname req ''create_user'' ''users'' (u_id (the u)) body) resp body)"

text \<open>Items of a list: \<open>item\<close> gives the text of an entry, \<open>Some None\<close> for one that is skipped. A comma goes in front of every
  entry but the one at index 0.\<close>

definition cat_items :: "nat \<Rightarrow> nat \<Rightarrow> ('a \<Rightarrow> string option option) \<Rightarrow> 'a list \<Rightarrow> string \<Rightarrow> string option" where
  "cat_items cap n item xs =
     fold_opt (\<lambda>(i, x) b. do {
         t \<leftarrow> item x;
         (case t of
            None \<Rightarrow> Some b
          | Some s \<Rightarrow> strcat_buf cap b (snprintf n ((if i > 0 then '','' else []) @ s)))
       }) (enumerate 0 xs)"

definition names_json :: "(sso_id \<Rightarrow> (sso_id \<times> string) option) \<Rightarrow> sso_id list \<Rightarrow> string option" where
  "names_json get ids = do {
     b \<leftarrow> cat_items 1024 128 (\<lambda>i. Some (map_option (\<lambda>(j, nm). jobj [(''id'', jid j), (''name'', dquote nm)]) (get i))) ids ''['';
     strcat_buf 1024 b '']''
   }"

definition user_roles_json :: "'s service \<Rightarrow> user \<Rightarrow> string option" where
  "user_roles_json sv u =
     names_json (\<lambda>i. map_option (\<lambda>r. (r_id r, r_name r)) (found (role_get_by_id (sv_ctx sv) (role_mgr (sv_ctx sv)) i)))
       (snd (user_get_roles (sv_ctx sv) (sv_users sv) (u_id u) 16))"

definition user_groups_json :: "'s service \<Rightarrow> user \<Rightarrow> string option" where
  "user_groups_json sv u =
     names_json (\<lambda>i. map_option (\<lambda>g. (g_id g, g_name g)) (found (group_get_by_id (sv_ctx sv) (group_mgr (sv_ctx sv)) i)))
       (snd (user_get_groups (sv_ctx sv) (sv_users sv) (u_id u) 16))"

definition user_json :: "'s service \<Rightarrow> user \<Rightarrow> string option" where
  "user_json sv u = do {
     rs \<leftarrow> user_roles_json sv u;
     gs \<leftarrow> user_groups_json sv u;
     Some (jobj [(''id'', jid (u_id u)), (''username'', dquote (username u)), (''email'', dquote (email u)),
       (''display_name'', dquote (display_name u)), (''phone'', dquote (phone u)), (''status'', sdec (user_status_int (u_status u))),
       (''roles'', rs), (''groups'', gs), (''created_at'', sdec (u_created_at u))])
   }"

text \<open>A page: the offset is an \<^verbatim>\<open>int\<close> product, undefined when it overflows; every entry adds \<open>per\<close> bytes to the buffer.\<close>

definition page_offset :: "page_query \<Rightarrow> int option" where
  "page_offset Q = (let o' = (qy_page Q - 1) * qy_limit Q in if o' < 2 ^ 31 then Some o' else None)"

definition page_json :: "nat \<Rightarrow> nat \<Rightarrow> page_query \<Rightarrow> nat \<Rightarrow> ('a \<Rightarrow> string option option) \<Rightarrow> 'a list \<Rightarrow> string option" where
  "page_json per n Q tot item xs = do {
     let len = 1024 + length xs * per;
     b \<leftarrow> cat_items (len + 1) n item xs
            (snprintf len (''{\"total\":'' @ dec tot @ '',\"page\":'' @ sdec (qy_page Q) @ '',\"limit\":'' @ sdec (qy_limit Q) @
               '',\"items\":[''));
     strcat_buf (len + 1) b '']}''
   }"

definition list_page ::
  "'s service \<Rightarrow> http_request \<Rightarrow> http_response \<Rightarrow> (string option \<Rightarrow> int \<Rightarrow> int \<Rightarrow> int \<Rightarrow> sso_error \<times> sso_id list \<times> nat) \<Rightarrow> string \<Rightarrow>
     nat \<Rightarrow> nat \<Rightarrow> (sso_id \<Rightarrow> string option option) \<Rightarrow> 's handled" where
  "list_page sv req resp list failed per n item = do {
     let Q = parse_query_params req;
     offset \<leftarrow> page_offset Q;
     let (err, ids, tot) = list (Some (qy_q Q)) (qy_status Q) offset (qy_limit Q);
     if err \<noteq> SSO_OK then reply sv resp 500 failed
     else do {
       b \<leftarrow> page_json per n Q tot item ids;
       reply_ok sv resp b
     }
   }"

definition handle_list_users :: "'s handler" where
  "handle_list_users E sv req resp =
     list_page sv req resp (user_list (sv_ctx sv) (sv_users sv)) ''Failed to list users'' 3072 4096
       (\<lambda>i. case found (user_get_by_id (sv_ctx sv) (sv_users sv) i) of
              None \<Rightarrow> Some None | Some u \<Rightarrow> map_option Some (user_json sv u))"

definition handle_get_user :: "'s handler" where
  "handle_get_user E sv req resp =
     (let uid = extract_path_id (rq_path req) ''/api/v1/users/''
      in if uid = 0 then reply sv resp 400 ''Invalid user ID''
         else case found (user_get_by_id (sv_ctx sv) (sv_users sv) uid) of
                None \<Rightarrow> reply sv resp 404 ''User not found''
              | Some u \<Rightarrow> do {
                  t \<leftarrow> user_json sv u;
                  reply_ok sv resp (snprintf 4096 t)
                })"

definition handle_update_user :: "'s handler" where
  "handle_update_user E sv req resp =
     (let uid = extract_path_id (rq_path req) ''/users/''
      in if uid = 0 \<or> rq_body req = None then reply sv resp 400 ''user_id and body required''
         else case found (user_get_by_id (sv_ctx sv) (sv_users sv) uid) of
                None \<Rightarrow> reply sv resp 404 ''User not found''
              | Some u \<Rightarrow>
                  (let (mail, req1) = req_json_str_value (ev_json E) req ''email'';
                       (disp, req2) = req_json_str_value (ev_json E) req1 ''display_name'';
                       st = body_int req2 ''status'' (-1);
                       u1 = u\<lparr>email := set_str SSO_MAX_EMAIL mail (email u),
                              display_name := set_str SSO_MAX_DISPLAY_NAME disp (display_name u),
                              u_status := (if st \<ge> 0 then user_status_of st else u_status u)\<rparr>
                   in finish_write E sv req resp (user_update (ev_now E 0) (sv_ctx sv) (sv_users sv) (Some u1)) ''updated''
                        ''update_user'' ''users'' (u_id u1)
                        (''Updated user '' @ jid (u_id u1) @ '' ('' @ username u1 @ '')'')))"

definition handle_delete_user :: "'s handler" where
  "handle_delete_user E sv req resp =
     (let uid = extract_path_id (rq_path req) ''/users/''
      in if uid = 0 then reply sv resp 400 ''user_id required''
         else finish_write E sv req resp (user_delete (sv_ctx sv) (sv_users sv) uid) ''deleted'' ''delete_user'' ''users'' uid
                (''Deleted user '' @ jid uid))"

definition handle_get_user_policies :: "'s handler" where
  "handle_get_user_policies E sv req resp =
     (let uid = extract_path_id (rq_path req) ''/api/v1/users/''
      in if uid = 0 then reply sv resp 400 ''Invalid user ID''
         else let (err, ps) = policy_get_direct_policies (sv_ctx sv) (policy_mgr (sv_ctx sv)) POLICY_TARGET_USER uid 64
              in if err \<noteq> SSO_OK \<and> err \<noteq> SSO_ERR_NOT_FOUND then reply sv resp 500 (sso_strerror err)
                 else do {
                   b \<leftarrow> cat_items 3072 256 (\<lambda>p. Some (Some (jobj [(''id'', jid (p_id p)), (''name'', dquote (p_name p))]))) ps ''['';
                   arr \<leftarrow> strcat_buf 3072 b '']'';
                   reply_ok sv resp (snprintf 4096 (jobj [(''policies'', arr)]))
                 })"

section \<open>Roles\<close>

definition handle_create_role :: "'s handler" where
  "handle_create_role E sv req resp =
     (if rq_body req = None then reply sv resp 400 ''Request body required''
      else let (name, req1) = req_json_str_value (ev_json E) req ''name''
           in if name = None then reply sv resp 400 ''name required''
              else let (desc, req2) = req_json_str_value (ev_json E) req1 ''description'';
                       (err, r, ctx) = role_create (ev_now E 0) (sv_ctx sv) (role_mgr (sv_ctx sv)) name
                         (Some (case desc of Some d \<Rightarrow> d | None \<Rightarrow> [])) (body_id req2 ''parent_role_id'' 0);
                       st = body_int req2 ''status'' (-1);
                       ctx1 = (if err = SSO_OK \<and> st \<ge> 0
                               then snd (role_update (ev_now E 1) ctx (role_mgr ctx) (Some ((the r)\<lparr>r_status := role_status_of st\<rparr>)))
                               else ctx)
                   in finish_create E (set_sv_ctx sv ctx1) req resp err ''Role already exists'' ''Failed to create role''
                        ''create_role'' ''roles'' (r_id (the r))
                        (snprintf 512 (jobj [(''role_id'', jid (r_id (the r))), (''name'', dquote (r_name (the r))), (''created'', ''true'')])))"

definition handle_assign_role :: "'s handler" where
  "handle_assign_role E sv req resp =
     (let rid = extract_path_id (rq_path req) ''/roles/'';
          uid = body_id req ''user_id'' 0; gid = body_id req ''group_id'' 0;
          ctx = sv_ctx sv
      in if rid = 0 then reply sv resp 400 ''Invalid role ID in path''
         else if rq_body req = None then reply sv resp 400 ''Request body required''
         else if uid = 0 \<and> gid = 0 then reply sv resp 400 ''user_id or group_id required''
         else finish_write E sv req resp
                (if uid \<noteq> 0 then role_assign_to_user ctx (role_mgr ctx) rid uid else role_assign_to_group ctx (role_mgr ctx) rid gid)
                ''assigned'' ''assign_role'' ''roles'' rid
                (''Assigned role '' @ jid rid @ '' to '' @ (if uid \<noteq> 0 then ''user'' else ''group'') @ '' '' @
                 jid (if uid \<noteq> 0 then uid else gid)))"

definition handle_unassign_role :: "'s handler" where
  "handle_unassign_role E sv req resp =
     (let rid = extract_path_id (rq_path req) ''/roles/'';
          uid = body_id req ''user_id'' 0; gid = body_id req ''group_id'' 0;
          ctx = sv_ctx sv
      in if rid = 0 \<or> rq_body req = None then reply sv resp 400 ''role_id and body required''
         else if uid = 0 \<and> gid = 0 then reply sv resp 400 ''user_id or group_id required''
         else finish_write E sv req resp
                (if uid \<noteq> 0 then role_unassign_from_user ctx (role_mgr ctx) rid uid
                 else role_unassign_from_group ctx (role_mgr ctx) rid gid)
                ''unassigned'' ''unassign_role'' ''roles'' rid
                (''Unassigned role '' @ jid rid @ '' from '' @ (if uid \<noteq> 0 then ''user'' else ''group'') @ '' '' @
                 jid (if uid \<noteq> 0 then uid else gid)))"

definition handle_list_roles :: "'s handler" where
  "handle_list_roles E sv req resp =
     (let get = (\<lambda>i. found (role_get_by_id (sv_ctx sv) (role_mgr (sv_ctx sv)) i))
      in list_page sv req resp (role_list (sv_ctx sv) (role_mgr (sv_ctx sv))) ''Failed to list roles'' 2048 4096
           (\<lambda>i. Some (map_option (\<lambda>r.
              jobj [(''id'', jid (r_id r)), (''name'', dquote (r_name r)), (''description'', dquote (r_description r)),
                (''parent_role_id'', jid (parent_role_id r)),
                (''parent_name'', dquote (case (if parent_role_id r = 0 then None else get (parent_role_id r)) of
                                            Some p \<Rightarrow> snprintf 64 (r_name p) | None \<Rightarrow> [])),
                (''status'', sdec (role_status_int (r_status r))), (''created_at'', sdec (r_created_at r))]) (get i))))"

definition handle_update_role :: "'s handler" where
  "handle_update_role E sv req resp =
     (let rid = extract_path_id (rq_path req) ''/roles/''
      in if rid = 0 \<or> rq_body req = None then reply sv resp 400 ''role_id and body required''
         else case found (role_get_by_id (sv_ctx sv) (role_mgr (sv_ctx sv)) rid) of
                None \<Rightarrow> reply sv resp 404 ''Role not found''
              | Some r \<Rightarrow>
                  (let (name, req1) = req_json_str_value (ev_json E) req ''name'';
                       (desc, req2) = req_json_str_value (ev_json E) req1 ''description'';
                       parent = body_id req2 ''parent_role_id'' (-1);
                       st = body_int req2 ''status'' (-1);
                       r1 = r\<lparr>r_name := set_str SSO_MAX_ROLE_NAME name (r_name r),
                              r_description := set_str SSO_MAX_DESCRIPTION desc (r_description r),
                              parent_role_id := (if parent \<noteq> - 1 then parent else parent_role_id r),
                              r_status := (if st \<ge> 0 then role_status_of st else r_status r)\<rparr>
                   in finish_write E sv req resp (role_update (ev_now E 0) (sv_ctx sv) (role_mgr (sv_ctx sv)) (Some r1)) ''updated''
                        ''update_role'' ''roles'' (r_id r1) (''Updated role '' @ jid (r_id r1) @ '' ('' @ r_name r1 @ '')'')))"

definition handle_delete_role :: "'s handler" where
  "handle_delete_role E sv req resp =
     (let rid = extract_path_id (rq_path req) ''/roles/''
      in if rid = 0 then reply sv resp 400 ''role_id required''
         else finish_write E sv req resp (role_delete (sv_ctx sv) (role_mgr (sv_ctx sv)) rid) ''deleted'' ''delete_role'' ''roles'' rid
                (''Deleted role '' @ jid rid))"

section \<open>Groups\<close>

definition handle_create_group :: "'s handler" where
  "handle_create_group E sv req resp =
     (if rq_body req = None then reply sv resp 400 ''Request body required''
      else let (name, req1) = req_json_str_value (ev_json E) req ''name''
           in if name = None then reply sv resp 400 ''name required''
              else let (desc, req2) = req_json_str_value (ev_json E) req1 ''description'';
                       (err, g, ctx) = group_create (ev_now E 0) (sv_ctx sv) (group_mgr (sv_ctx sv)) name
                         (Some (case desc of Some d \<Rightarrow> d | None \<Rightarrow> [])) (body_id req2 ''parent_group_id'' 0);
                       st = body_int req2 ''status'' (-1);
                       ctx1 = (if err = SSO_OK \<and> st \<ge> 0
                               then snd (group_update (ev_now E 1) ctx (group_mgr ctx) (Some ((the g)\<lparr>g_status := group_status_of st\<rparr>)))
                               else ctx)
                   in finish_create E (set_sv_ctx sv ctx1) req resp err ''Group already exists'' ''Failed to create group''
                        ''create_group'' ''groups'' (g_id (the g))
                        (snprintf 512 (jobj [(''id'', jid (g_id (the g))), (''name'', dquote (g_name (the g))), (''created'', ''true'')])))"

definition handle_list_groups :: "'s handler" where
  "handle_list_groups E sv req resp =
     (let get = (\<lambda>i. found (group_get_by_id (sv_ctx sv) (group_mgr (sv_ctx sv)) i))
      in list_page sv req resp (group_list (sv_ctx sv) (group_mgr (sv_ctx sv))) ''Failed to list groups'' 2048 4096
           (\<lambda>i. Some (map_option (\<lambda>g.
              jobj [(''id'', jid (g_id g)), (''name'', dquote (g_name g)), (''description'', dquote (g_description g)),
                (''parent_group_id'', jid (parent_group_id g)),
                (''parent_name'', dquote (case (if parent_group_id g = 0 then None else get (parent_group_id g)) of
                                            Some p \<Rightarrow> snprintf 64 (g_name p) | None \<Rightarrow> [])),
                (''status'', sdec (group_status_int (g_status g))), (''created_at'', sdec (g_created_at g))]) (get i))))"

definition handle_update_group :: "'s handler" where
  "handle_update_group E sv req resp =
     (let gid = extract_path_id (rq_path req) ''/groups/''
      in if gid = 0 \<or> rq_body req = None then reply sv resp 400 ''group_id and body required''
         else case found (group_get_by_id (sv_ctx sv) (group_mgr (sv_ctx sv)) gid) of
                None \<Rightarrow> reply sv resp 404 ''Group not found''
              | Some g \<Rightarrow>
                  (let (name, req1) = req_json_str_value (ev_json E) req ''name'';
                       (desc, req2) = req_json_str_value (ev_json E) req1 ''description'';
                       parent = body_id req2 ''parent_group_id'' (-1);
                       st = body_int req2 ''status'' (-1);
                       g1 = g\<lparr>g_name := set_str SSO_MAX_GROUP_NAME name (g_name g),
                              g_description := set_str SSO_MAX_DESCRIPTION desc (g_description g),
                              parent_group_id := (if parent \<noteq> - 1 then parent else parent_group_id g),
                              g_status := (if st \<ge> 0 then group_status_of st else g_status g)\<rparr>
                   in finish_write E sv req resp (group_update (ev_now E 0) (sv_ctx sv) (group_mgr (sv_ctx sv)) (Some g1)) ''updated''
                        ''update_group'' ''groups'' (g_id g1) (''Updated group '' @ jid (g_id g1) @ '' ('' @ g_name g1 @ '')'')))"

definition handle_delete_group :: "'s handler" where
  "handle_delete_group E sv req resp =
     (let gid = extract_path_id (rq_path req) ''/groups/''
      in if gid = 0 then reply sv resp 400 ''group_id required''
         else finish_write E sv req resp (group_delete (sv_ctx sv) (group_mgr (sv_ctx sv)) gid) ''deleted'' ''delete_group'' ''groups'' gid
                (''Deleted group '' @ jid gid))"

definition handle_add_group_member :: "'s handler" where
  "handle_add_group_member E sv req resp =
     (let gid = extract_path_id (rq_path req) ''/groups/''; uid = body_id req ''user_id'' 0
      in if gid = 0 \<or> rq_body req = None then reply sv resp 400 ''group_id and body required''
         else if uid = 0 then reply sv resp 400 ''user_id required''
         else finish_write E sv req resp (group_add_user (sv_ctx sv) (group_mgr (sv_ctx sv)) gid uid) ''added'' ''add_group_member''
                ''groups'' gid (''Added user '' @ jid uid @ '' to group '' @ jid gid))"

definition after_last_slash :: "string \<Rightarrow> string option" where
  "after_last_slash s = (if CHR ''/'' \<in> set s then Some (rev (takeWhile (\<lambda>c. c \<noteq> CHR ''/'') (rev s))) else None)"

definition handle_remove_group_member :: "'s handler" where
  "handle_remove_group_member E sv req resp =
     (let gid = extract_path_id (rq_path req) ''/groups/''
      in case after_last_slash (rq_path req) of
           None \<Rightarrow> reply sv resp 400 ''invalid path''
         | Some t \<Rightarrow>
             if gid = 0 then reply sv resp 400 ''invalid path''
             else let uid = word_of_int (atol t)
                  in finish_write E sv req resp (group_remove_user (sv_ctx sv) (group_mgr (sv_ctx sv)) gid uid) ''removed''
                       ''remove_group_member'' ''groups'' gid (''Removed user '' @ jid uid @ '' from group '' @ jid gid))"

section \<open>Policies\<close>

definition handle_create_policy :: "'s handler" where
  "handle_create_policy E sv req resp =
     (if rq_body req = None then reply sv resp 400 ''Request body required''
      else let (name, req1) = req_json_str_value (ev_json E) req ''name''
           in if name = None then reply sv resp 400 ''name required''
              else let (rules, req2) = req_json_str_value (ev_json E) req1 ''rules'';
                       (err, p, ctx) = policy_create (ev_now E 0) (sv_ctx sv) (policy_mgr (sv_ctx sv)) name
                         (perm_strategy_of (body_int req1 ''strategy_type'' 1)) (policy_effect_of (body_int req1 ''effect'' 1))
                         (body_int req1 ''priority'' 50) (Some (case rules of Some r \<Rightarrow> r | None \<Rightarrow> ''{}''))
                   in finish_create E (set_sv_ctx sv ctx) req resp err ''Policy already exists'' ''Failed to create policy''
                        ''create_policy'' ''policies'' (p_id (the p))
                        (snprintf 512 (jobj [(''policy_id'', jid (p_id (the p))), (''name'', dquote (p_name (the p))),
                           (''created'', ''true'')])))"

definition target_name :: "int \<Rightarrow> string" where
  "target_name t = (if t = 0 then ''user'' else if t = 1 then ''role'' else if t = 2 then ''group'' else ''?'')"

definition handle_assign_policy :: "'s handler" where
  "handle_assign_policy E sv req resp =
     (let pid = extract_path_id (rq_path req) ''/policies/'';
          tt = body_int req ''target_type'' 0; tid = body_id req ''target_id'' 0
      in if rq_body req = None then reply sv resp 400 ''Request body required''
         else if tid = 0 then reply sv resp 400 ''target_id required''
         else finish_write E sv req resp (policy_assign_to (sv_ctx sv) (policy_mgr (sv_ctx sv)) pid (policy_target_of tt) tid)
                ''assigned'' ''assign_policy'' ''policies'' pid
                (''Assigned policy '' @ jid pid @ '' to '' @ target_name tt @ '' '' @ jid tid))"

definition handle_unassign_policy :: "'s handler" where
  "handle_unassign_policy E sv req resp =
     (let pid = extract_path_id (rq_path req) ''/policies/'';
          tt = body_int req ''target_type'' (-1); tid = body_id req ''target_id'' 0
      in if pid = 0 \<or> rq_body req = None then reply sv resp 400 ''policy_id and body required''
         else if tid = 0 \<or> tt < 0 then reply sv resp 400 ''target_id and target_type required''
         else finish_write E sv req resp (policy_unassign_from (sv_ctx sv) (policy_mgr (sv_ctx sv)) pid (policy_target_of tt) tid)
                ''unassigned'' ''unassign_policy'' ''policies'' pid
                (''Unassigned policy '' @ jid pid @ '' from '' @ target_name tt @ '' '' @ jid tid))"

fun perm_strategy_int :: "perm_strategy_type \<Rightarrow> int" where
  "perm_strategy_int PERM_STRATEGY_FUNCTIONAL = 1"
| "perm_strategy_int PERM_STRATEGY_API = 2"
| "perm_strategy_int PERM_STRATEGY_DATA = 3"
| "perm_strategy_int PERM_STRATEGY_RBAC = 4"
| "perm_strategy_int PERM_STRATEGY_LOCATION = 5"
| "perm_strategy_int PERM_STRATEGY_ABAC = 6"
| "perm_strategy_int PERM_STRATEGY_LBAC = 7"
| "perm_strategy_int (PERM_STRATEGY_UNKNOWN i) = i"

fun policy_effect_int :: "policy_effect \<Rightarrow> int" where
  "policy_effect_int POLICY_EFFECT_DENY = 0"
| "policy_effect_int POLICY_EFFECT_ALLOW = 1"
| "policy_effect_int (POLICY_EFFECT_UNKNOWN i) = i"

definition policy_json :: "policy \<Rightarrow> string" where
  "policy_json p =
     jobj [(''id'', jid (p_id p)), (''name'', dquote (p_name p)), (''strategy_type'', sdec (perm_strategy_int (strategy_type p))),
       (''strategy_name'', dquote (perm_strategy_name (strategy_type p))), (''effect'', sdec (policy_effect_int (p_effect p))),
       (''priority'', sdec (priority p)), (''status'', sdec (policy_status_int (p_status p))), (''rules'', take 8000 (rules p)),
       (''created_at'', sdec (p_created_at p))]"

definition handle_list_policies :: "'s handler" where
  "handle_list_policies E sv req resp =
     list_page sv req resp (policy_list (sv_ctx sv) (policy_mgr (sv_ctx sv))) ''Failed to list policies'' 8192 10240
       (\<lambda>i. Some (map_option policy_json (found (policy_get_by_id (sv_ctx sv) (policy_mgr (sv_ctx sv)) i))))"

definition handle_update_policy :: "'s handler" where
  "handle_update_policy E sv req resp =
     (let pid = extract_path_id (rq_path req) ''/policies/''
      in if pid = 0 \<or> rq_body req = None then reply sv resp 400 ''policy_id and body required''
         else case found (policy_get_by_id (sv_ctx sv) (policy_mgr (sv_ctx sv)) pid) of
                None \<Rightarrow> reply sv resp 404 ''Policy not found''
              | Some p \<Rightarrow>
                  (let (name, req1) = req_json_str_value (ev_json E) req ''name'';
                       (rs, req2) = req_json_str_value (ev_json E) req1 ''rules'';
                       effect = body_int req2 ''effect'' (-1);
                       prio = body_int req2 ''priority'' (-1);
                       st = body_int req2 ''status'' (-1);
                       p1 = p\<lparr>p_name := set_str SSO_MAX_POLICY_NAME name (p_name p),
                              rules := set_str SSO_MAX_RULES_JSON rs (rules p),
                              p_effect := (if effect \<ge> 0 then policy_effect_of effect else p_effect p),
                              priority := (if prio \<ge> 0 then prio else priority p),
                              p_status := (if st \<ge> 0 then policy_status_of st else p_status p)\<rparr>
                   in finish_write E sv req resp (policy_update (ev_now E 0) (sv_ctx sv) (policy_mgr (sv_ctx sv)) (Some p1)) ''updated''
                        ''update_policy'' ''policies'' (p_id p1) (''Updated policy '' @ jid (p_id p1) @ '' ('' @ p_name p1 @ '')'')))"

definition handle_delete_policy :: "'s handler" where
  "handle_delete_policy E sv req resp =
     (let pid = extract_path_id (rq_path req) ''/policies/''
      in if pid = 0 then reply sv resp 400 ''policy_id required''
         else finish_write E sv req resp (policy_delete (sv_ctx sv) (policy_mgr (sv_ctx sv)) pid) ''deleted'' ''delete_policy''
                ''policies'' pid (''Deleted policy '' @ jid pid))"

definition ids_json :: "sso_id list \<Rightarrow> string option" where
  "ids_json ids = do {
     b \<leftarrow> cat_items 1024 64 (\<lambda>i. Some (Some (jid i))) ids ''['';
     strcat_buf 1024 b '']''
   }"

definition handle_get_policy_targets :: "'s handler" where
  "handle_get_policy_targets E sv req resp =
     (let pid = extract_path_id (rq_path req) ''/policies/'';
          targets = (\<lambda>tt. ids_json (snd (policy_get_targets (sv_ctx sv) (policy_mgr (sv_ctx sv)) pid tt 64)))
      in if pid = 0 then reply sv resp 400 ''policy_id required''
         else do {
           us \<leftarrow> targets POLICY_TARGET_USER;
           rs \<leftarrow> targets POLICY_TARGET_ROLE;
           gs \<leftarrow> targets POLICY_TARGET_GROUP;
           reply_ok sv resp (snprintf 4096 (jobj [(''user_ids'', us), (''role_ids'', rs), (''group_ids'', gs)]))
         })"

section \<open>OAuth clients\<close>

definition client_json :: "oauth_client \<Rightarrow> string" where
  "client_json c =
     jobj [(''id'', jid (cl_id c)), (''client_id'', dquote (client_id c)), (''redirect_uris'', dquote (redirect_uris c)),
       (''app_name'', dquote (app_name c)), (''app_description'', dquote (app_description c)),
       (''app_logo_url'', dquote (app_logo_url c)), (''allowed_scopes'', dquote (allowed_scopes c)),
       (''allowed_grant_types'', dquote (allowed_grant_types c)), (''token_ttl_ms'', sdec (token_ttl_ms c)),
       (''status'', sdec (cl_status c)), (''created_at'', jid (word_of_int (cl_created_at c))),
       (''updated_at'', jid (word_of_int (cl_updated_at c)))]"

text \<open>The buffer is not cleared before the first \<^verbatim>\<open>strcat\<close>: what the memory held stays in front of the list.\<close>

definition clients_json :: "string \<Rightarrow> int \<Rightarrow> page_query \<Rightarrow> oauth_client list \<Rightarrow> string option" where
  "clients_json stale offset Q cs = do {
     let cap = 2048 + length cs * 1536;
     let tot = to_int32 (offset + int (length cs) + (if int (length cs) = qy_limit Q then 1 else 0));
     h \<leftarrow> strcat_buf cap stale (''{\"total\":'' @ sdec tot @ '',\"page\":'' @ sdec (qy_page Q) @ '',\"limit\":'' @
            sdec (qy_limit Q) @ '',\"items\":['');
     b \<leftarrow> cat_items cap 1024 (\<lambda>c. Some (Some (client_json c))) cs h;
     strcat_buf cap b '']}''
   }"

definition handle_list_clients :: "'s handler" where
  "handle_list_clients E sv req resp = do {
     let Q = parse_query_params req;
     offset \<leftarrow> page_offset Q;
     (case Option.bind (sv_backend sv) sb_oauth_client_list of
        None \<Rightarrow> reply sv resp 500 ''OAuth client storage unavailable''
      | Some f \<Rightarrow>
          (let (err, cs) = f (sv_store sv) offset (qy_limit Q) 64
           in if err \<noteq> SSO_OK then reply sv resp 500 ''Failed to list OAuth clients''
              else do {
                b \<leftarrow> clients_json (ev_stale E) offset Q cs;
                reply_ok sv resp b
              }))
   }"

definition zero_client :: oauth_client where
  "zero_client = \<lparr>cl_id = 0, client_id = [], client_secret_hash = [], redirect_uris = [], app_name = [], app_description = [],
     app_logo_url = [], allowed_scopes = [], allowed_grant_types = [], token_ttl_ms = 0, cl_status = 0, cl_created_at = 0,
     cl_updated_at = 0\<rparr>"

definition hash_secret :: "env \<Rightarrow> string \<Rightarrow> string option" where
  "hash_secret E secret =
     pwhash_str (ev_pwhash E) secret (OPSLIMIT_MODERATE (ev_pwhash E)) (MEMLIMIT_MODERATE (ev_pwhash E))"

text \<open>\<^verbatim>\<open>get_time_ms\<close> reads the monotonic clock.\<close>

definition mono_ms :: "env \<Rightarrow> nat \<Rightarrow> timestamp" where
  "mono_ms E k = sint (ev_mono E k)"

definition handle_create_client :: "'s handler" where
  "handle_create_client E sv req resp =
     (if rq_body req = None then reply sv resp 400 ''Request body required''
      else let (cid, req1) = req_json_str_value (ev_json E) req ''client_id'';
               (secret, req2) = req_json_str_value (ev_json E) req1 ''client_secret'';
               (uris, req3) = req_json_str_value (ev_json E) req2 ''redirect_uris'';
               (name, req4) = req_json_str_value (ev_json E) req3 ''app_name'';
               (desc, req5) = req_json_str_value (ev_json E) req4 ''app_description'';
               (logo, req6) = req_json_str_value (ev_json E) req5 ''app_logo_url'';
               (scopes, req7) = req_json_str_value (ev_json E) req6 ''allowed_scopes'';
               (grants, req8) = req_json_str_value (ev_json E) req7 ''allowed_grant_types''
           in if cid = None \<or> secret = None \<or> uris = None
              then reply sv resp 400 ''client_id, client_secret, and redirect_uris required''
              else case Option.bind (sv_backend sv) sb_oauth_client_create of
                     None \<Rightarrow> reply sv resp 500 ''OAuth client storage unavailable''
                   | Some f \<Rightarrow>
                       (case hash_secret E (the secret) of
                          None \<Rightarrow> reply sv resp 500 ''Failed to hash client secret''
                        | Some h \<Rightarrow>
                            (let c = zero_client\<lparr>client_id := strlcpy (the cid) 64, client_secret_hash := h,
                                   redirect_uris := strlcpy (the uris) 512, app_name := set_str 128 name [],
                                   app_description := set_str 256 desc [], app_logo_url := set_str 256 logo [],
                                   allowed_scopes := set_str 256 scopes [], allowed_grant_types := set_str 128 grants [],
                                   token_ttl_ms := json_int_value (rq_body req8) ''token_ttl_ms'' 3600000,
                                   cl_status := body_int req8 ''status'' 1, cl_created_at := mono_ms E 0,
                                   cl_updated_at := mono_ms E 0\<rparr>;
                                 (err, c', st) = f (ev_now E 0) (sv_store sv) c
                             in finish_create E (set_sv_store sv st) req resp err ''Client ID already exists'' ''Failed to create client''
                                  ''create_client'' ''clients'' 0
                                  (snprintf 256 (jobj [(''client_id'', dquote (client_id c)), (''created'', ''true'')])))))"

definition path_client_id :: "http_request \<Rightarrow> string option" where
  "path_client_id req =
     map_option (\<lambda>p. takeWhile (\<lambda>c. c \<noteq> CHR ''/'') (strlcpy (drop 9 p) 64)) (strstr (rq_path req) ''/clients/'')"

definition update_client_fields :: "env \<Rightarrow> http_request \<Rightarrow> oauth_client \<Rightarrow> oauth_client option" where
  "update_client_fields E req c =
     (let (uris, req1) = req_json_str_value (ev_json E) req ''redirect_uris'';
          (name, req2) = req_json_str_value (ev_json E) req1 ''app_name'';
          (desc, req3) = req_json_str_value (ev_json E) req2 ''app_description'';
          (logo, req4) = req_json_str_value (ev_json E) req3 ''app_logo_url'';
          (scopes, req5) = req_json_str_value (ev_json E) req4 ''allowed_scopes'';
          (grants, req6) = req_json_str_value (ev_json E) req5 ''allowed_grant_types'';
          (secret, req7) = req_json_str_value (ev_json E) req6 ''client_secret'';
          st = body_int req7 ''status'' (-1);
          ttl = json_int_value (rq_body req7) ''token_ttl_ms'' (-1);
          c1 = c\<lparr>redirect_uris := set_str 512 uris (redirect_uris c), app_name := set_str 128 name (app_name c),
                 app_description := set_str 256 desc (app_description c), app_logo_url := set_str 256 logo (app_logo_url c),
                 allowed_scopes := set_str 256 scopes (allowed_scopes c),
                 allowed_grant_types := set_str 128 grants (allowed_grant_types c),
                 cl_status := (if st \<ge> 0 then st else cl_status c),
                 token_ttl_ms := (if ttl \<ge> 0 then ttl else token_ttl_ms c), cl_updated_at := mono_ms E 0\<rparr>
      in case secret of
           None \<Rightarrow> Some c1
         | Some s \<Rightarrow> if s = [] then Some c1
                     else map_option (\<lambda>h. c1\<lparr>client_secret_hash := h\<rparr>) (hash_secret E s))"

definition handle_update_client :: "'s handler" where
  "handle_update_client E sv req resp =
     (case path_client_id req of
        None \<Rightarrow> reply sv resp 400 ''client_id required in path''
      | Some cid \<Rightarrow>
          if cid = [] \<or> rq_body req = None then reply sv resp 400 ''client_id and body required''
          else case (Option.bind (sv_backend sv) sb_oauth_client_get, Option.bind (sv_backend sv) sb_oauth_client_update) of
                 (Some get, Some upd) \<Rightarrow>
                   (case found (get (sv_store sv) cid) of
                      None \<Rightarrow> reply sv resp 404 ''Client not found''
                    | Some c \<Rightarrow>
                        (case update_client_fields E req c of
                           None \<Rightarrow> reply sv resp 500 ''Failed to hash client secret''
                         | Some c1 \<Rightarrow>
                             (let (err, st) = upd (sv_store sv) c1
                              in finish_write E sv req resp (err, (sv_ctx sv)\<lparr>store := st\<rparr>) ''updated'' ''update_client'' ''clients''
                                   (cl_id c1) (''Updated client '' @ cid))))
               | _ \<Rightarrow> reply sv resp 500 ''OAuth client storage unavailable'')"

definition handle_delete_client :: "'s handler" where
  "handle_delete_client E sv req resp =
     (case path_client_id req of
        None \<Rightarrow> reply sv resp 400 ''client_id required in path''
      | Some cid \<Rightarrow>
          if cid = [] then reply sv resp 400 ''client_id required''
          else case Option.bind (sv_backend sv) sb_oauth_client_delete of
                 None \<Rightarrow> reply sv resp 500 ''OAuth client storage unavailable''
               | Some f \<Rightarrow>
                   (let (err, st) = f (sv_store sv) cid
                    in finish_write E sv req resp (err, (sv_ctx sv)\<lparr>store := st\<rparr>) ''deleted'' ''delete_client'' ''clients'' 0
                         (''Deleted client '' @ cid)))"

section \<open>Rotation of the signing key\<close>

text \<open>The key of HS256 is the text of the body cut or padded to 32 bytes.\<close>

definition rotate_hs256 :: "token_manager \<Rightarrow> string \<Rightarrow> sso_error \<times> token_manager" where
  "rotate_hs256 mgr secret = token_manager_rotate_key mgr (Some (take 32 (secret @ replicate 32 NUL)))"

definition kid_text :: "token_manager \<Rightarrow> string" where
  "kid_text mgr = (case token_manager_get_active_kid mgr of Some k \<Rightarrow> k | None \<Rightarrow> [])"

definition finish_rotation :: "'s service \<Rightarrow> http_response \<Rightarrow> sso_error \<times> token_manager \<Rightarrow> 's handled" where
  "finish_rotation sv resp r =
     (let (err, mgr) = r; sv1 = sv\<lparr>sv_tokens := mgr\<rparr>
      in if err \<noteq> SSO_OK then reply sv1 resp 500 (sso_strerror err)
         else reply_ok sv1 resp (snprintf 256 (jobj [(''status'', dquote ''ok''), (''active_kid'', dquote (kid_text mgr)),
                (''previous_kid'', dquote (kid_text (sv_tokens sv)))])))"

definition handle_rotate_keys :: "'s handler" where
  "handle_rotate_keys E sv req resp =
     (if rq_body req = None then reply sv resp 400 ''Request body required''
      else case tm_mode (sv_tokens sv) of
             SSO_TOKEN_MODE_HS256 \<Rightarrow>
               (case fst (req_json_str_value (ev_json E) req ''secret'') of
                  None \<Rightarrow> reply sv resp 400 (dquote ''secret'' @ '' required for HS256 rotation'')
                | Some s \<Rightarrow> finish_rotation sv resp (rotate_hs256 (sv_tokens sv) s))
           | SSO_TOKEN_MODE_RS256 \<Rightarrow>
               (let (priv, req1) = req_json_str_value (ev_json E) req ''private_key'';
                    (pub, req2) = req_json_str_value (ev_json E) req1 ''public_key''
                in if priv = None then reply sv resp 400 (dquote ''private_key'' @ '' required for RS256 rotation'')
                   else finish_rotation sv resp (token_manager_rotate_key_rs256 (ev_crypto E) (sv_tokens sv) priv pub))
           | _ \<Rightarrow> reply sv resp 400 ''Rotation not supported for current signing mode'')"

end
