(* ===== verification/Oauth.thy ===== *)
theory Oauth
  imports Handlers_Auth Handlers_Admin
begin

text \<open>
  The OAuth 2.0 and OpenID Connect endpoints of \<^verbatim>\<open>src/oauth.c\<close>: authorization codes with PKCE, the three grants of the
  token endpoint, introspection, revocation, discovery, the key set, user information and the end of a session.
\<close>

section \<open>Helpers\<close>

definition verify_pkce :: "env \<Rightarrow> string option \<Rightarrow> string \<Rightarrow> string \<Rightarrow> bool" where
  "verify_pkce E verifier challenge meth =
     (if challenge = [] then True
      else case verifier of
             None \<Rightarrow> False
           | Some v \<Rightarrow>
               if length v < 43 \<or> length v > 128 then False
               else if meth = ''plain'' then v = challenge
               else if meth = ''S256'' then base64url_encode (dp_sha256 (ev_dpop E) v) 128 = challenge
               else False)"

definition gen_auth_code :: "char list \<Rightarrow> string" where
  "gen_auth_code raw = concat (map hex_byte (take 16 raw))"

definition json_error_response :: "http_response \<Rightarrow> int \<Rightarrow> string \<Rightarrow> http_response" where
  "json_error_response resp status err =
     resp\<lparr>rs_status_code := status, rs_body := Some (snprintf 512 (jobj [(''error'', dquote err)])),
          rs_content_type := ''application/json''\<rparr>"

definition oauth_error :: "'s service \<Rightarrow> http_response \<Rightarrow> int \<Rightarrow> string \<Rightarrow> 's handled" where
  "oauth_error sv resp status err = Some (SSO_OK, json_error_response resp status err, sv)"

definition trim_spaces :: "string \<Rightarrow> string" where
  "trim_spaces s = rev (dropWhile (\<lambda>c. c = CHR '' '') (rev (dropWhile (\<lambda>c. c = CHR '' '') s)))"

definition is_redirect_uri_allowed :: "string \<Rightarrow> string \<Rightarrow> bool" where
  "is_redirect_uri_allowed allowed uri \<longleftrightarrow>
     allowed \<noteq> [] \<and> (\<exists>t \<in> set (strtok_fields (strlcpy allowed 512)). trim_spaces t = uri)"

definition token_sha256 :: "env \<Rightarrow> string \<Rightarrow> string" where
  "token_sha256 E t = concat (map hex_byte (take 32 (dp_sha256 (ev_dpop E) t)))"

definition store_refresh_token :: "env \<Rightarrow> nat \<Rightarrow> 's service \<Rightarrow> sso_id \<Rightarrow> string \<Rightarrow> string \<Rightarrow> 's service" where
  "store_refresh_token E k sv uid cid raw =
     (case Option.bind (sv_backend sv) sb_refresh_token_create of
        None \<Rightarrow> sv
      | Some f \<Rightarrow>
          set_sv_store sv (snd (f (sv_store sv)
            \<lparr>token_hash = token_sha256 E raw, rt_user_id = uid, rt_client_id = strlcpy cid 64,
             rt_expires_at = ev_now E k + 2592000000, rt_issued_at = ev_now E k, rt_revoked = 0\<rparr>)))"

definition get_client_token_ttl :: "'s service \<Rightarrow> sso_config \<Rightarrow> string \<Rightarrow> int" where
  "get_client_token_ttl sv cfg cid =
     (if cf_oauth_client_id cfg \<noteq> [] \<and> cid = cf_oauth_client_id cfg
      then if cf_token_ttl_ms cfg > 0 then cf_token_ttl_ms cfg else 3600000
      else case Option.bind (sv_backend sv) sb_oauth_client_get of
             None \<Rightarrow> 3600000
           | Some f \<Rightarrow> (case found (f (sv_store sv) cid) of
                          Some c \<Rightarrow> if token_ttl_ms c > 0 then token_ttl_ms c else 3600000
                        | None \<Rightarrow> 3600000))"

text \<open>Parameters of the query: the values of a key in order.\<close>

definition param_values :: "http_request \<Rightarrow> string \<Rightarrow> string list" where
  "param_values req key =
     (case rq_query_params req of
        None \<Rightarrow> []
      | Some ps \<Rightarrow> map (\<lambda>p. tl (dropWhile (\<lambda>c. c \<noteq> CHR ''='') p))
                     (filter (\<lambda>p. CHR ''='' \<in> set p \<and> takeWhile (\<lambda>c. c \<noteq> CHR ''='') p = key) ps))"

definition last_param :: "http_request \<Rightarrow> string \<Rightarrow> string option" where
  "last_param req key = (case param_values req key of [] \<Rightarrow> None | v # vs \<Rightarrow> Some (last (v # vs)))"

definition get_query_param :: "http_request \<Rightarrow> string \<Rightarrow> string option" where
  "get_query_param req key = (case param_values req key of [] \<Rightarrow> None | v # vs \<Rightarrow> Some v)"

section \<open>Authorization\<close>

text \<open>The registered redirect addresses of a client: the configured one, or an active one of the database.\<close>

definition client_redirects :: "'s service \<Rightarrow> sso_config \<Rightarrow> string \<Rightarrow> string option" where
  "client_redirects sv cfg cid =
     (if cid = cf_oauth_client_id cfg then Some (cf_oauth_redirect_uris cfg)
      else case Option.bind (sv_backend sv) sb_oauth_client_get of
             None \<Rightarrow> None
           | Some f \<Rightarrow> (case found (f (sv_store sv) cid) of
                          Some c \<Rightarrow> if cl_status c = 1 then Some (redirect_uris c) else None
                        | None \<Rightarrow> None))"

definition new_auth_code :: "env \<Rightarrow> sso_config \<Rightarrow> http_request \<Rightarrow> string \<Rightarrow> string \<Rightarrow> user \<Rightarrow> oauth_auth_code" where
  "new_auth_code E cfg req cid uri u =
     (let str = (\<lambda>key n. set_str n (last_param req key) [])
      in \<lparr>oc_code = gen_auth_code (ev_rnd16 E), oc_client_id = strlcpy cid 64, oc_user_id = u_id u, redirect_uri = strlcpy uri 512,
          scope = str ''scope'' 256, nonce = str ''nonce'' 128, code_challenge = str ''code_challenge'' 256,
          code_challenge_method = (case last_param req ''code_challenge_method'' of
             Some m \<Rightarrow> strlcpy m 16 | None \<Rightarrow> if last_param req ''code_challenge'' \<noteq> None then ''plain'' else []),
          oc_expires_at = ev_now E 0 + (if cf_oauth_auth_code_ttl_ms cfg > 0 then cf_oauth_auth_code_ttl_ms cfg else 60000), used = 0\<rparr>)"

definition authorize_redirect :: "http_request \<Rightarrow> http_response \<Rightarrow> string \<Rightarrow> string \<Rightarrow> http_response" where
  "authorize_redirect req resp uri code =
     (let location = snprintf 2048 (uri @ ''?code='' @ code @ (case last_param req ''state'' of Some s \<Rightarrow> ''&state='' @ s | None \<Rightarrow> []))
      in resp\<lparr>rs_status_code := 302, rs_body := Some location, rs_content_type := ''text/plain'',
              rs_extra_headers := snprintf 32768 (''Location: '' @ location @ crlf)\<rparr>)"

definition authorize_user ::
  "env \<Rightarrow> 's service \<Rightarrow> sso_config \<Rightarrow> http_request \<Rightarrow> http_response \<Rightarrow> string \<Rightarrow> string \<Rightarrow> 's handled" where
  "authorize_user E sv cfg req resp cid uri =
     (case rq_userdata req of
        None \<Rightarrow> oauth_error sv resp 401 ''authentication_required''
      | Some auth \<Rightarrow>
          if u_status (au_user auth) \<noteq> USER_STATUS_ACTIVE then oauth_error sv resp 403 ''user_inactive''
          else case Option.bind (sv_backend sv) sb_oauth_code_create of
                 None \<Rightarrow> oauth_error sv resp 500 ''server_error''
               | Some f \<Rightarrow>
                   (let ac = new_auth_code E cfg req cid uri (au_user auth);
                        (err, st) = f (sv_store sv) ac; sv1 = set_sv_store sv st
                    in if err \<noteq> SSO_OK then oauth_error sv1 resp 500 ''server_error''
                       else Some (SSO_OK, authorize_redirect req resp uri (oc_code ac), sv1)))"

definition handle_oauth_authorize :: "'s handler" where
  "handle_oauth_authorize E sv req resp =
     (case sso_config (sv_ctx sv) of
        None \<Rightarrow> oauth_error sv resp 400 ''oauth_not_configured''
      | Some cfg \<Rightarrow>
          if cf_oauth_client_id cfg = [] then oauth_error sv resp 400 ''oauth_not_configured''
          else let cid = last_param req ''client_id''; uri = last_param req ''redirect_uri'';
                   rtype = last_param req ''response_type''; meth = last_param req ''code_challenge_method''
               in if cid = None \<or> uri = None \<or> rtype = None then oauth_error sv resp 400 ''invalid_request''
                  else if meth \<noteq> None \<and> meth \<noteq> Some ''S256'' \<and> meth \<noteq> Some ''plain'' then oauth_error sv resp 400 ''invalid_request''
                  else case client_redirects sv cfg (the cid) of
                         None \<Rightarrow> oauth_error sv resp 400 ''unauthorized_client''
                       | Some uris \<Rightarrow>
                           if \<not> is_redirect_uri_allowed uris (the uri) then oauth_error sv resp 400 ''invalid_redirect_uri''
                           else if rtype \<noteq> Some ''code'' then oauth_error sv resp 400 ''unsupported_response_type''
                           else authorize_user E sv cfg req resp (the cid) (the uri))"

section \<open>The token endpoint\<close>

definition expires_in :: "token \<Rightarrow> string" where
  "expires_in t = sdec ((tk_expires_at t - tk_issued_at t) div 1000)"

definition code_tokens :: "env \<Rightarrow> 's service \<Rightarrow> sso_config \<Rightarrow> http_response \<Rightarrow> oauth_auth_code \<Rightarrow> user \<Rightarrow> string \<Rightarrow> 's handled" where
  "code_tokens E sv cfg resp ac u jkt = do {
     (err, t) \<leftarrow> sv_issue E 1 sv (u_id u) (role_ids_of sv (u_id u)) (group_ids_of sv (u_id u)) (Some (scope ac))
                   (get_client_token_ttl sv cfg (oc_client_id ac)) (Jkt jkt);
     if err \<noteq> SSO_OK then oauth_error sv resp 500 ''server_error''
     else reply_ok (store_refresh_token E 2 sv (u_id u) (oc_client_id ac) (tk_raw_refresh t)) resp
            (snprintf 32768 (jobj ([(''access_token'', dquote (tk_str t)), (''token_type'', dquote ''Bearer''),
               (''expires_in'', expires_in t), (''refresh_token'', dquote (tk_raw_refresh t))] @
               (if strstr (scope ac) ''openid'' \<noteq> None then [(''id_token'', dquote (tk_str t))] else []) @
               [(''user_id'', jid (u_id u))])))
   }"

definition active_user :: "'s service \<Rightarrow> sso_id \<Rightarrow> user option" where
  "active_user sv uid =
     (case found (user_get_by_id (sv_ctx sv) (sv_users sv) uid) of
        Some u \<Rightarrow> if u_status u = USER_STATUS_ACTIVE then Some u else None
      | None \<Rightarrow> None)"

definition grant_code ::
  "env \<Rightarrow> 's service \<Rightarrow> sso_config \<Rightarrow> http_request \<Rightarrow> http_response \<Rightarrow> string option \<Rightarrow> string option \<Rightarrow> string \<Rightarrow> 's handled" where
  "grant_code E sv cfg req resp code uri jkt =
     (if code = None \<or> uri = None then oauth_error sv resp 400 ''invalid_request''
      else case (Option.bind (sv_backend sv) sb_oauth_code_get, Option.bind (sv_backend sv) sb_oauth_code_mark_used) of
             (Some get, Some mark) \<Rightarrow>
               (case found (get (sv_store sv) (the code)) of
                  None \<Rightarrow> oauth_error sv resp 400 ''invalid_grant''
                | Some ac \<Rightarrow>
                    if used ac \<noteq> 0 \<or> ev_now E 0 > oc_expires_at ac \<or> redirect_uri ac \<noteq> the uri
                    then oauth_error sv resp 400 ''invalid_grant''
                    else if code_challenge ac \<noteq> [] \<and>
                            \<not> verify_pkce E (fst (req_json_str_value (ev_json E) req ''code_verifier'')) (code_challenge ac)
                                (code_challenge_method ac)
                    then oauth_error sv resp 400 ''invalid_grant''
                    else let sv1 = set_sv_store sv (snd (mark (sv_store sv) (oc_code ac)))
                         in case active_user sv1 (oc_user_id ac) of
                              None \<Rightarrow> oauth_error sv1 resp 403 ''user_inactive''
                            | Some u \<Rightarrow> code_tokens E sv1 cfg resp ac u jkt)
           | _ \<Rightarrow> oauth_error sv resp 500 ''server_error'')"

text \<open>The credentials of a client: \<open>None\<close> if they are good, otherwise the status and the error.\<close>

definition client_refused :: "env \<Rightarrow> 's service \<Rightarrow> sso_config \<Rightarrow> string \<Rightarrow> string \<Rightarrow> (int \<times> string) option" where
  "client_refused E sv cfg cid secret =
     (if cid = cf_oauth_client_id cfg
      then if secret \<noteq> cf_oauth_client_secret cfg then Some (401, ''invalid_client'') else None
      else case Option.bind (sv_backend sv) sb_oauth_client_get of
             None \<Rightarrow> Some (401, ''invalid_client'')
           | Some f \<Rightarrow>
               (case found (f (sv_store sv) cid) of
                  None \<Rightarrow> Some (401, ''invalid_client'')
                | Some c \<Rightarrow>
                    if cl_status c \<noteq> 1 \<or> \<not> pwhash_str_verify (ev_pwhash E) (client_secret_hash c) secret then Some (401, ''invalid_client'')
                    else if allowed_grant_types c \<noteq> [] \<and> strstr (allowed_grant_types c) ''client_credentials'' = None
                    then Some (400, ''unauthorized_client'')
                    else None))"

definition grant_client ::
  "env \<Rightarrow> 's service \<Rightarrow> sso_config \<Rightarrow> http_response \<Rightarrow> string option \<Rightarrow> string option \<Rightarrow> string option \<Rightarrow> string \<Rightarrow> 's handled" where
  "grant_client E sv cfg resp cid secret scp jkt =
     (if cid = None \<or> secret = None then oauth_error sv resp 400 ''invalid_request''
      else case client_refused E sv cfg (the cid) (the secret) of
             Some (status, err) \<Rightarrow> oauth_error sv resp status err
           | None \<Rightarrow> do {
               (err, t) \<leftarrow> sv_issue E 1 sv 0 [] [] scp (get_client_token_ttl sv cfg (the cid)) (Jkt jkt);
               if err \<noteq> SSO_OK then oauth_error sv resp 500 ''server_error''
               else reply_ok sv resp (snprintf 32768 (jobj [(''access_token'', dquote (tk_str t)), (''token_type'', dquote ''Bearer''),
                      (''expires_in'', expires_in t)]))
             })"

text \<open>A refresh token is good once: a second use revokes all the tokens of the user at that client.\<close>

definition refresh_tokens_for ::
  "env \<Rightarrow> 's service \<Rightarrow> sso_config \<Rightarrow> http_response \<Rightarrow> refresh_token \<Rightarrow> string \<Rightarrow> user \<Rightarrow> string \<Rightarrow> 's handled" where
  "refresh_tokens_for E sv cfg resp rt h u jkt = do {
     (err, t) \<leftarrow> sv_issue E 1 sv (u_id u) (role_ids_of sv (u_id u)) (group_ids_of sv (u_id u)) None
                   (get_client_token_ttl sv cfg (rt_client_id rt)) (Jkt jkt);
     if err \<noteq> SSO_OK then oauth_error sv resp 500 ''server_error''
     else do {
       revoke \<leftarrow> Option.bind (sv_backend sv) sb_refresh_token_revoke;
       let sv1 = set_sv_store sv (snd (revoke (sv_store sv) h));
       reply_ok (store_refresh_token E 2 sv1 (u_id u) (rt_client_id rt) (tk_raw_refresh t)) resp
         (snprintf 32768 (jobj [(''access_token'', dquote (tk_str t)), (''token_type'', dquote ''Bearer''),
            (''expires_in'', expires_in t), (''refresh_token'', dquote (tk_raw_refresh t))]))
     }
   }"

definition grant_refresh :: "env \<Rightarrow> 's service \<Rightarrow> sso_config \<Rightarrow> http_response \<Rightarrow> string option \<Rightarrow> string \<Rightarrow> 's handled" where
  "grant_refresh E sv cfg resp token jkt =
     (if token = None then oauth_error sv resp 400 ''invalid_request''
      else let h = token_sha256 E (the token)
           in case Option.bind (Option.bind (sv_backend sv) sb_refresh_token_get) (\<lambda>f. found (f (sv_store sv) h)) of
                None \<Rightarrow> oauth_error sv resp 400 ''invalid_grant''
              | Some rt \<Rightarrow>
                  if rt_revoked rt \<noteq> 0
                  then oauth_error
                         (case Option.bind (sv_backend sv) sb_refresh_token_revoke_family of
                            None \<Rightarrow> sv
                          | Some f \<Rightarrow> set_sv_store sv (snd (f (sv_store sv) (rt_user_id rt) (rt_client_id rt))))
                         resp 400 ''invalid_grant''
                  else if ev_now E 0 > rt_expires_at rt then oauth_error sv resp 400 ''invalid_grant''
                  else case active_user sv (rt_user_id rt) of
                         None \<Rightarrow> oauth_error sv resp 403 ''user_inactive''
                       | Some u \<Rightarrow> refresh_tokens_for E sv cfg resp rt h u jkt)"

definition handle_oauth_token :: "'s handler" where
  "handle_oauth_token E sv req resp =
     (case sso_config (sv_ctx sv) of
        None \<Rightarrow> oauth_error sv resp 400 ''oauth_not_configured''
      | Some cfg \<Rightarrow>
          if cf_oauth_client_id cfg = [] then oauth_error sv resp 400 ''oauth_not_configured''
          else if rq_body req = None then oauth_error sv resp 400 ''invalid_request''
          else let (gtype, req1) = req_json_str_value (ev_json E) req ''grant_type'';
                   (code, req2) = req_json_str_value (ev_json E) req1 ''code'';
                   (uri, req3) = req_json_str_value (ev_json E) req2 ''redirect_uri'';
                   (cid, req4) = req_json_str_value (ev_json E) req3 ''client_id'';
                   (secret, req5) = req_json_str_value (ev_json E) req4 ''client_secret'';
                   (rtoken, req6) = req_json_str_value (ev_json E) req5 ''refresh_token'';
                   (scp, req7) = req_json_str_value (ev_json E) req6 ''scope''
               in do {
                 pf \<leftarrow> login_dpop E req;
                 (case pf of
                    None \<Rightarrow> oauth_error sv resp 400 ''invalid_dpop_proof''
                  | Some jkt \<Rightarrow>
                      if gtype = None then oauth_error sv resp 400 ''invalid_request''
                      else if gtype = Some ''authorization_code'' then grant_code E sv cfg req7 resp code uri jkt
                      else if gtype = Some ''client_credentials'' then grant_client E sv cfg resp cid secret scp jkt
                      else if gtype = Some ''refresh_token'' then grant_refresh E sv cfg resp rtoken jkt
                      else oauth_error sv resp 400 ''unsupported_grant_type'')
               })"

section \<open>Introspection and revocation\<close>

definition handle_oauth_introspect :: "'s handler" where
  "handle_oauth_introspect E sv req resp =
     (if rq_body req = None then oauth_error sv resp 400 ''invalid_request''
      else case fst (req_json_str_value (ev_json E) req ''token'') of
             None \<Rightarrow> oauth_error sv resp 400 ''invalid_request''
           | Some s \<Rightarrow> do {
               (err, t) \<leftarrow> token_verify (ev_crypto E) (ev_now E 0) (sv_tokens sv) s;
               if err \<noteq> SSO_OK then reply_ok sv resp (jobj [(''active'', ''false'')])
               else let (revoked, sv1) = sv_is_revoked E 1 sv (tk_jti t)
                    in reply_ok sv1 resp (snprintf 4096 (jobj [(''active'', jbool (\<not> revoked)), (''jti'', dquote (tk_jti t)),
                         (''sub'', jid (tk_user_id t)), (''iat'', sdec (tk_issued_at t)), (''exp'', sdec (tk_expires_at t)),
                         (''token_type'', dquote ''Bearer''), (''scope'', dquote (tk_scope t))]))
             })"

definition handle_oauth_revoke :: "'s handler" where
  "handle_oauth_revoke E sv req resp =
     (if rq_body req = None then oauth_error sv resp 400 ''invalid_request''
      else case fst (req_json_str_value (ev_json E) req ''token'') of
             None \<Rightarrow> oauth_error sv resp 400 ''invalid_request''
           | Some s \<Rightarrow> do {
               (err, t) \<leftarrow> token_verify (ev_crypto E) (ev_now E 0) (sv_tokens sv) s;
               reply_ok (if err = SSO_OK then snd (sv_revoke sv (tk_jti t) (tk_expires_at t)) else sv) resp
                 (jobj [(''status'', dquote ''ok'')])
             })"

section \<open>Discovery, keys, user information\<close>

definition jlist :: "string list \<Rightarrow> string" where
  "jlist xs = CHR ''['' # (case xs of [] \<Rightarrow> [] | y # ys \<Rightarrow> y @ concat (map (\<lambda>z. '','' @ z) ys)) @ '']''"

definition handle_well_known_openid_config :: "'s handler" where
  "handle_well_known_openid_config E sv req resp =
     (let issuer = (case sso_config (sv_ctx sv) of
            Some cfg \<Rightarrow> if cf_oauth_issuer cfg \<noteq> [] then cf_oauth_issuer cfg else ''http://localhost:8080''
          | None \<Rightarrow> ''http://localhost:8080'')
      in reply_ok sv resp (snprintf 4096 (jobj
           [(''issuer'', dquote issuer),
            (''authorization_endpoint'', dquote (issuer @ ''/api/v1/oauth/authorize'')),
            (''token_endpoint'', dquote (issuer @ ''/api/v1/oauth/token'')),
            (''userinfo_endpoint'', dquote (issuer @ ''/api/v1/auth/userinfo'')),
            (''introspection_endpoint'', dquote (issuer @ ''/api/v1/oauth/introspect'')),
            (''revocation_endpoint'', dquote (issuer @ ''/api/v1/oauth/revoke'')),
            (''end_session_endpoint'', dquote (issuer @ ''/api/v1/oauth/end-session'')),
            (''jwks_uri'', dquote (issuer @ ''/api/v1/auth/jwks'')),
            (''scopes_supported'', jlist (map dquote [''openid'', ''profile''])),
            (''response_types_supported'', jlist [dquote ''code'']),
            (''grant_types_supported'', jlist (map dquote [''authorization_code'', ''client_credentials'', ''refresh_token''])),
            (''subject_types_supported'', jlist [dquote ''public'']),
            (''id_token_signing_alg_values_supported'', jlist (map dquote [''HS256'', ''RS256''])),
            (''token_endpoint_auth_methods_supported'', jlist [dquote ''client_secret_post''])])))"

text \<open>The entry of a slot, if it has a public key that can be read.\<close>

definition jwk_entry :: "env \<Rightarrow> key_slot \<Rightarrow> string option" where
  "jwk_entry E s =
     (case ks_key s of
        Rsa _ (Some pub) \<Rightarrow>
          if \<not> populated s \<or> ks_mode s \<noteq> SSO_TOKEN_MODE_RS256 then None
          else map_option (\<lambda>(n, e). jobj [(''kty'', dquote ''RSA''), (''alg'', dquote ''RS256''), (''use'', dquote ''sig''),
                 (''kid'', dquote (kid s)), (''n'', dquote (base64url_encode n (length n * 2 + 10))),
                 (''e'', dquote (base64url_encode e (length e * 2 + 10)))]) (ev_rsa_public E pub)
      | _ \<Rightarrow> None)"

text \<open>An entry that does not fit is cut from the text, but counts for the comma of the next.\<close>

fun jwk_list :: "bool \<Rightarrow> string list \<Rightarrow> string \<Rightarrow> string" where
  "jwk_list first [] b = b"
| "jwk_list first (e # es) b =
     (let t = (if first then [] else '','') @ e
      in jwk_list False es (if length t < 4096 - length b then b @ t else b))"

definition handle_jwks :: "'s handler" where
  "handle_jwks E sv req resp =
     (if tm_mode (sv_tokens sv) \<noteq> SSO_TOKEN_MODE_RS256 \<or> token_manager_get_slot_count (sv_tokens sv) = 0
      then reply_ok sv resp ''{\"keys\":[]}''
      else let b = jwk_list True (List.map_filter (\<lambda>i. Option.bind (token_manager_get_slot (sv_tokens sv) i) (jwk_entry E)) [0, 1]) ''{\"keys\":[''
           in if length b + 2 < 4096 then reply_ok sv resp (b @ '']}'') else None)"

definition handle_userinfo :: "'s handler" where
  "handle_userinfo E sv req resp =
     (case rq_userdata req of
        None \<Rightarrow> oauth_error sv resp 401 ''unauthorized''
      | Some auth \<Rightarrow>
          (let u = au_user auth
           in reply_ok sv resp (snprintf 4096 (jobj [(''sub'', jid (u_id u)), (''preferred_username'', dquote (username u)),
                (''email'', dquote (email u)), (''name'', dquote (display_name u))]))))"

section \<open>The end of a session\<close>

definition sv_end_token :: "env \<Rightarrow> 's service \<Rightarrow> token \<Rightarrow> sso_id \<Rightarrow> 's service" where
  "sv_end_token E sv t uid =
     (let sv1 = snd (sv_revoke sv (tk_jti t) (tk_expires_at t))
      in sv1\<lparr>sv_tokens := snd (token_bump_nonce (ev_alloc E) (sv_tokens sv1) uid)\<rparr>)"

definition logout_redirect_allowed :: "'s service \<Rightarrow> string \<Rightarrow> bool" where
  "logout_redirect_allowed sv uri \<longleftrightarrow>
     (case sso_config (sv_ctx sv) of
        Some cfg \<Rightarrow> cf_oauth_redirect_uris cfg \<noteq> [] \<and> is_redirect_uri_allowed (cf_oauth_redirect_uris cfg) uri
      | None \<Rightarrow> False) \<or>
     (case Option.bind (sv_backend sv) sb_oauth_client_list of
        None \<Rightarrow> False
      | Some f \<Rightarrow> (let (err, cs) = f (sv_store sv) 0 64 64
                   in err = SSO_OK \<and> (\<exists>c \<in> set cs. is_redirect_uri_allowed (redirect_uris c) uri)))"

definition handle_oauth_end_session :: "'s handler" where
  "handle_oauth_end_session E sv req resp = do {
     let uri = get_query_param req ''post_logout_redirect_uri'';
     sv1 \<leftarrow> (case get_query_param req ''id_token_hint'' of
               None \<Rightarrow> Some sv
             | Some s \<Rightarrow> map_option (\<lambda>(err, t). if err = SSO_OK then sv_end_token E sv t (tk_user_id t) else sv)
                          (token_verify (ev_crypto E) (ev_now E 0) (sv_tokens sv) s));
     let sv2 = (case rq_userdata req of Some auth \<Rightarrow> sv_end_token E sv1 (au_token auth) (u_id (au_user auth)) | None \<Rightarrow> sv1);
     if uri \<noteq> None \<and> logout_redirect_allowed sv2 (the uri)
     then let url = snprintf 1024 (the uri @ (case get_query_param req ''state'' of
                      Some s \<Rightarrow> (if CHR ''?'' \<in> set (the uri) then ''&'' else ''?'') @ ''state='' @ s | None \<Rightarrow> []))
          in Some (SSO_OK, resp\<lparr>rs_status_code := 302, rs_body := Some [],
                     rs_extra_headers := snprintf 32768 (''Location: '' @ url @ crlf)\<rparr>, sv2)
     else reply_ok sv2 resp (jobj [(''status'', dquote ''logged_out'')])
   }"

end
