(* ===== verification/Service_Steps.thy ===== *)
theory Service_Steps
  imports Service Handlers_Admin
begin

text \<open>
  How a request can change a service. The store changes only through the functions of the storage backend, each with the
  kind of data it writes; the context keeps its backend, managers and configuration; the token manager only adds to the
  list of revoked ids and stays well formed. The relation \<open>sv_step\<close> says this of two services and a set of kinds, and
  \<open>keeps\<close> of a handler's result. Rules for the control structures let the proof for a handler follow its text.
\<close>

named_theorems ctx_steps
named_theorems keep_rules

section \<open>Calls of the backend\<close>

datatype call_kind = K_User | K_Role | K_Group | K_Policy | K_Link | K_Assign | K_Sms | K_Code | K_Client | K_Refresh | K_Jti | K_Audit

inductive backend_call :: "'s storage_backend \<Rightarrow> call_kind \<Rightarrow> 's \<Rightarrow> 's \<Rightarrow> bool" for sb where
  "sb_user_create sb = Some f \<Longrightarrow> backend_call sb K_User s (snd (snd (f s u)))"
| "sb_user_update sb = Some f' \<Longrightarrow> backend_call sb K_User s (snd (f' s u))"
| "sb_user_delete sb = Some d \<Longrightarrow> backend_call sb K_User s (snd (d s i))"
| "sb_role_create sb = Some rf \<Longrightarrow> backend_call sb K_Role s (snd (snd (rf s r)))"
| "sb_role_update sb = Some rf' \<Longrightarrow> backend_call sb K_Role s (snd (rf' s r))"
| "sb_role_delete sb = Some d \<Longrightarrow> backend_call sb K_Role s (snd (d s i))"
| "sb_group_create sb = Some gf \<Longrightarrow> backend_call sb K_Group s (snd (snd (gf s g)))"
| "sb_group_update sb = Some gf' \<Longrightarrow> backend_call sb K_Group s (snd (gf' s g))"
| "sb_group_delete sb = Some d \<Longrightarrow> backend_call sb K_Group s (snd (d s i))"
| "sb_policy_create sb = Some pf \<Longrightarrow> backend_call sb K_Policy s (snd (snd (pf s p)))"
| "sb_policy_update sb = Some pf' \<Longrightarrow> backend_call sb K_Policy s (snd (pf' s p))"
| "sb_policy_delete sb = Some d \<Longrightarrow> backend_call sb K_Policy s (snd (d s i))"
| "sb_assign_role_to_user sb = Some l \<Longrightarrow> backend_call sb K_Link s (snd (l s i j))"
| "sb_unassign_role_from_user sb = Some l \<Longrightarrow> backend_call sb K_Link s (snd (l s i j))"
| "sb_assign_role_to_group sb = Some l \<Longrightarrow> backend_call sb K_Link s (snd (l s i j))"
| "sb_unassign_role_from_group sb = Some l \<Longrightarrow> backend_call sb K_Link s (snd (l s i j))"
| "sb_add_user_to_group sb = Some l \<Longrightarrow> backend_call sb K_Link s (snd (l s i j))"
| "sb_remove_user_from_group sb = Some l \<Longrightarrow> backend_call sb K_Link s (snd (l s i j))"
| "sb_assign_policy sb = Some a \<Longrightarrow> backend_call sb K_Assign s (snd (a s i tt j))"
| "sb_unassign_policy sb = Some a \<Longrightarrow> backend_call sb K_Assign s (snd (a s i tt j))"
| "sb_save_sms_code sb = Some m \<Longrightarrow> backend_call sb K_Sms s (snd (m s ph c t))"
| "sb_delete_sms_code sb = Some m' \<Longrightarrow> backend_call sb K_Sms s (snd (m' s ph))"
| "sb_oauth_code_create sb = Some cf \<Longrightarrow> backend_call sb K_Code s (snd (cf s ac))"
| "sb_oauth_code_mark_used sb = Some m' \<Longrightarrow> backend_call sb K_Code s (snd (m' s c))"
| "sb_oauth_code_cleanup sb = Some cl \<Longrightarrow> backend_call sb K_Code s (snd (cl t s))"
| "sb_oauth_client_create sb = Some oc1 \<Longrightarrow> backend_call sb K_Client s (snd (snd (oc1 t s oc)))"
| "sb_oauth_client_update sb = Some ou \<Longrightarrow> backend_call sb K_Client s (snd (ou s oc))"
| "sb_oauth_client_delete sb = Some m' \<Longrightarrow> backend_call sb K_Client s (snd (m' s c))"
| "sb_refresh_token_create sb = Some rc \<Longrightarrow> backend_call sb K_Refresh s (snd (rc s rt))"
| "sb_refresh_token_revoke sb = Some m' \<Longrightarrow> backend_call sb K_Refresh s (snd (m' s c))"
| "sb_refresh_token_revoke_family sb = Some rr \<Longrightarrow> backend_call sb K_Refresh s (snd (rr s i c))"
| "sb_jti_revoke sb = Some jr \<Longrightarrow> backend_call sb K_Jti s (snd (jr s c t))"
| "sb_audit_log_write sb = Some aw \<Longrightarrow> backend_call sb K_Audit s (snd (aw s ae))"

definition calls :: "'s storage_backend option \<Rightarrow> call_kind set \<Rightarrow> 's \<Rightarrow> 's \<Rightarrow> bool" where
  "calls sbo K = (\<lambda>s s'. \<exists>sb k. sbo = Some sb \<and> k \<in> K \<and> backend_call sb k s s')\<^sup>*\<^sup>*"

lemma calls_refl [simp]: "calls sbo K s s"
  by (simp add: calls_def)

lemma calls_trans: "calls sbo K s s' \<Longrightarrow> calls sbo K s' s'' \<Longrightarrow> calls sbo K s s''"
  by (simp add: calls_def)

lemma calls_mono: "calls sbo K s s' \<Longrightarrow> K \<subseteq> K' \<Longrightarrow> calls sbo K' s s'"
  unfolding calls_def by (rule rtranclp_mono [THEN predicate2D, rotated]) auto

lemma calls_one: "backend_call sb k s s' \<Longrightarrow> k \<in> K \<Longrightarrow> calls (Some sb) K s s'"
  unfolding calls_def by blast

section \<open>Contexts\<close>

definition ctx_step :: "call_kind set \<Rightarrow> 's sso_context \<Rightarrow> 's sso_context \<Rightarrow> bool" where
  "ctx_step K c c' \<longleftrightarrow>
     storage_backend c' = storage_backend c \<and> sso_config c' = sso_config c \<and> user_mgr c' = user_mgr c \<and>
     role_mgr c' = role_mgr c \<and> group_mgr c' = group_mgr c \<and> policy_mgr c' = policy_mgr c \<and>
     calls (storage_backend c) K (store c) (store c')"

lemma ctx_step_refl [simp]: "ctx_step K c c"
  by (simp add: ctx_step_def)

lemma ctx_step_trans: "ctx_step K c c' \<Longrightarrow> ctx_step K c' c'' \<Longrightarrow> ctx_step K c c''"
  unfolding ctx_step_def using calls_trans by metis

lemma ctx_step_mono: "ctx_step K c c' \<Longrightarrow> K \<subseteq> K' \<Longrightarrow> ctx_step K' c c'"
  unfolding ctx_step_def using calls_mono by metis

lemma ctx_step_engine [simp]: "ctx_step K c (c'\<lparr>perm_engine := E\<rparr>) = ctx_step K c c'"
  by (simp add: ctx_step_def)

lemma ctx_step_from_engine [simp]: "ctx_step K (c\<lparr>perm_engine := E\<rparr>) c' = ctx_step K c c'"
  by (simp add: ctx_step_def)

lemma ctx_step_call:
  "sb_fn sel c = Some f \<Longrightarrow> (\<And>sb. sel sb = Some f \<Longrightarrow> backend_call sb k (store c) s') \<Longrightarrow> k \<in> K \<Longrightarrow> ctx_step K c (c\<lparr>store := s'\<rparr>)"
  unfolding ctx_step_def sb_fn_def bind_eq_Some_conv by (auto intro!: calls_one [of _ k])

lemma ctx_step_store_then:
  "sb_fn sel c = Some f \<Longrightarrow> (\<And>sb. sel sb = Some f \<Longrightarrow> backend_call sb k (store c) (snd r)) \<Longrightarrow> k \<in> K \<Longrightarrow>
   store_then g c r = (e, c') \<Longrightarrow> ctx_step K c c'"
  using ctx_step_call [of sel c f k "snd r" K]
  by (auto simp: store_then_def set_store_def on_engine_def split: if_splits)

section \<open>Managers\<close>

text \<open>The two shapes of a write: a call whose result becomes the store, and one that also drops cached decisions.\<close>

lemma create_step:
  assumes "sb_fn sel c = Some f" "\<And>sb s x. sel sb = Some f \<Longrightarrow> backend_call sb k s (snd (snd (f s x)))"
    and "f (store c) x = (e, y, s')"
  shows "ctx_step {k} c (c\<lparr>store := s'\<rparr>)"
proof -
  have "backend_call sb k (store c) s'" if "sel sb = Some f" for sb using assms(2) [OF that, of "store c" x] assms(3) by simp
  then show ?thesis by (intro ctx_step_call [OF assms(1)]) auto
qed

lemma create_user_record_step [ctx_steps]: "create_user_record c u = (e, x, c') \<Longrightarrow> ctx_step {K_User} c c'"
  by (auto simp: create_user_record_def split: option.splits prod.splits
    elim!: create_step [of sb_user_create c _ K_User] intro: backend_call.intros)

lemma user_create_step [ctx_steps]: "user_create H now c m un pw ma di = (e, x, c') \<Longrightarrow> ctx_step {K_User} c c'"
  by (auto simp: user_create_def split: option.splits if_splits dest: create_user_record_step)

lemma user_create_by_phone_step [ctx_steps]: "user_create_by_phone now c m ph = (e, x, c') \<Longrightarrow> ctx_step {K_User} c c'"
  by (auto simp: user_create_by_phone_def split: option.splits if_splits dest: create_user_record_step)

lemma user_update_step [ctx_steps]: "user_update now c m u = (e, c') \<Longrightarrow> ctx_step {K_User} c c'"
  by (auto simp: user_update_def split: option.splits
    elim!: ctx_step_store_then [of sb_user_update c _ K_User, rotated 3] intro: backend_call.intros)

lemma user_delete_step [ctx_steps]: "user_delete c m i = (e, c') \<Longrightarrow> ctx_step {K_User} c c'"
  by (auto simp: user_delete_def split: option.splits
    elim!: ctx_step_store_then [of sb_user_delete c _ K_User, rotated 3] intro: backend_call.intros)

lemma user_set_password_step [ctx_steps]: "user_set_password H now c m i pw = (e, c') \<Longrightarrow> ctx_step {K_User} c c'"
  by (auto simp: user_set_password_def split: option.splits prod.splits sso_error.splits dest: user_update_step)

lemma role_create_step [ctx_steps]: "role_create now c m n d p = (e, x, c') \<Longrightarrow> ctx_step {K_Role} c c'"
  by (auto simp: role_create_def split: option.splits bool.splits prod.splits
    elim!: create_step [of sb_role_create c _ K_Role] intro: backend_call.intros)

lemma role_update_step [ctx_steps]: "role_update now c m r = (e, c') \<Longrightarrow> ctx_step {K_Role} c c'"
  by (auto simp: role_update_def split: option.splits bool.splits if_splits
    elim!: ctx_step_store_then [of sb_role_update c _ K_Role, rotated 3] intro: backend_call.intros)

lemma role_delete_step [ctx_steps]: "role_delete c m i = (e, c') \<Longrightarrow> ctx_step {K_Role} c c'"
  by (auto simp: role_delete_def split: option.splits if_splits
    elim!: ctx_step_store_then [of sb_role_delete c _ K_Role, rotated 3] intro: backend_call.intros)

lemma group_create_step [ctx_steps]: "group_create now c m n d p = (e, x, c') \<Longrightarrow> ctx_step {K_Group} c c'"
  by (auto simp: group_create_def split: option.splits bool.splits prod.splits
    elim!: create_step [of sb_group_create c _ K_Group] intro: backend_call.intros)

lemma group_update_step [ctx_steps]: "group_update now c m g = (e, c') \<Longrightarrow> ctx_step {K_Group} c c'"
  by (auto simp: group_update_def split: option.splits bool.splits if_splits
    elim!: ctx_step_store_then [of sb_group_update c _ K_Group, rotated 3] intro: backend_call.intros)

lemma group_delete_step [ctx_steps]: "group_delete c m i = (e, c') \<Longrightarrow> ctx_step {K_Group} c c'"
  by (auto simp: group_delete_def split: option.splits if_splits
    elim!: ctx_step_store_then [of sb_group_delete c _ K_Group, rotated 3] intro: backend_call.intros)

lemma policy_create_step [ctx_steps]: "policy_create now c m n st ef pr ru = (e, x, c') \<Longrightarrow> ctx_step {K_Policy} c c'"
  by (auto simp: policy_create_def split: option.splits bool.splits prod.splits
    elim!: create_step [of sb_policy_create c _ K_Policy] intro: backend_call.intros)

lemma policy_update_step [ctx_steps]: "policy_update now c m p = (e, c') \<Longrightarrow> ctx_step {K_Policy} c c'"
  by (auto simp: policy_update_def split: option.splits bool.splits if_splits
    elim!: ctx_step_store_then [of sb_policy_update c _ K_Policy, rotated 3] intro: backend_call.intros)

lemma policy_delete_step [ctx_steps]: "policy_delete c m i = (e, c') \<Longrightarrow> ctx_step {K_Policy} c c'"
  by (auto simp: policy_delete_def split: option.splits if_splits
    elim!: ctx_step_store_then [of sb_policy_delete c _ K_Policy, rotated 3] intro: backend_call.intros)

lemma role_assign_to_user_step [ctx_steps]: "role_assign_to_user c m i j = (e, c') \<Longrightarrow> ctx_step {K_Link} c c'"
  by (auto simp: role_assign_to_user_def split: option.splits if_splits
    elim!: ctx_step_store_then [of sb_assign_role_to_user c _ K_Link, rotated 3] intro: backend_call.intros)

lemma role_unassign_from_user_step [ctx_steps]: "role_unassign_from_user c m i j = (e, c') \<Longrightarrow> ctx_step {K_Link} c c'"
  by (auto simp: role_unassign_from_user_def split: option.splits if_splits
    elim!: ctx_step_store_then [of sb_unassign_role_from_user c _ K_Link, rotated 3] intro: backend_call.intros)

lemma role_assign_to_group_step [ctx_steps]: "role_assign_to_group c m i j = (e, c') \<Longrightarrow> ctx_step {K_Link} c c'"
  by (auto simp: role_assign_to_group_def split: option.splits if_splits
    elim!: ctx_step_store_then [of sb_assign_role_to_group c _ K_Link, rotated 3] intro: backend_call.intros)

lemma role_unassign_from_group_step [ctx_steps]: "role_unassign_from_group c m i j = (e, c') \<Longrightarrow> ctx_step {K_Link} c c'"
  by (auto simp: role_unassign_from_group_def split: option.splits if_splits
    elim!: ctx_step_store_then [of sb_unassign_role_from_group c _ K_Link, rotated 3] intro: backend_call.intros)

lemma group_add_user_step [ctx_steps]: "group_add_user c m i j = (e, c') \<Longrightarrow> ctx_step {K_Link} c c'"
  by (auto simp: group_add_user_def split: option.splits if_splits
    elim!: ctx_step_store_then [of sb_add_user_to_group c _ K_Link, rotated 3] intro: backend_call.intros)

lemma group_remove_user_step [ctx_steps]: "group_remove_user c m i j = (e, c') \<Longrightarrow> ctx_step {K_Link} c c'"
  by (auto simp: group_remove_user_def split: option.splits if_splits
    elim!: ctx_step_store_then [of sb_remove_user_from_group c _ K_Link, rotated 3] intro: backend_call.intros)

lemma policy_assign_to_step [ctx_steps]: "policy_assign_to c m i tt j = (e, c') \<Longrightarrow> ctx_step {K_Assign} c c'"
  by (auto simp: policy_assign_to_def split: option.splits if_splits
    elim!: ctx_step_store_then [of sb_assign_policy c _ K_Assign, rotated 3] intro: backend_call.intros)

lemma policy_unassign_from_step [ctx_steps]: "policy_unassign_from c m i tt j = (e, c') \<Longrightarrow> ctx_step {K_Assign} c c'"
  by (auto simp: policy_unassign_from_def split: option.splits if_splits
    elim!: ctx_step_store_then [of sb_unassign_policy c _ K_Assign, rotated 3] intro: backend_call.intros)

lemma audit_store_step: "ctx_step {K_Audit} c (audit_store c x)"
  by (auto simp: audit_store_def split: option.splits intro!: ctx_step_call [of sb_audit_log_write c _ K_Audit] backend_call.intros)

lemma admin_audit_log_step [ctx_steps]:
  "admin_audit_log hm os i un ip op re ri st de (c, A) = (c', A') \<Longrightarrow> ctx_step {K_Audit} c c'"
  using audit_store_step by (auto simp: admin_audit_log_def Let_def split: prod.splits)

section \<open>Permission checks\<close>

lemma audit_log_decision_step: "audit_log_decision hm os ec al tr du hi (c, A) = (c', A') \<Longrightarrow> ctx_step {K_Audit} c c'"
  using audit_store_step by (auto simp: audit_log_decision_def Let_def split: prod.splits)

lemma decide_policies_step:
  "decide_policies L hm os now later c E ec ps want h A = Some (e, r, t, ec', h', c', A') \<Longrightarrow> ctx_step {K_Audit} c c'"
  by (auto simp: decide_policies_def Let_def bind_eq_Some_conv split: prod.splits dest: audit_log_decision_step)

lemma perm_engine_evaluate_step [ctx_steps]:
  "perm_engine_evaluate L hm os now later c ec r want h A = Some (e, res, t, ec', h', c', A') \<Longrightarrow> ctx_step {K_Audit} c c'"
  by (auto simp: perm_engine_evaluate_def perm_engine_evaluate_internal_def Let_def
    split: option.splits prod.splits if_splits dest!: audit_log_decision_step decide_policies_step)

lemma check_params_step:
  "check_params L hm os now later c uid fill al h A = Some (e, r, h', c', A') \<Longrightarrow> ctx_step {K_Audit} c c'"
  by (auto simp: check_params_def bind_eq_Some_conv split: option.splits prod.splits sso_error.splits dest: perm_engine_evaluate_step)

lemma perm_check_function_step [ctx_steps]:
  "perm_check_function L hm os now later c uid x al h A = Some (e, r, h', c', A') \<Longrightarrow> ctx_step {K_Audit} c c'"
  by (auto simp: perm_check_function_def split: option.splits dest: check_params_step)

lemma perm_check_api_step [ctx_steps]:
  "perm_check_api L hm os now later c uid x y al h A = Some (e, r, h', c', A') \<Longrightarrow> ctx_step {K_Audit} c c'"
  by (auto simp: perm_check_api_def split: option.splits dest: check_params_step)

lemma perm_check_rbac_step [ctx_steps]:
  "perm_check_rbac L hm os now later c uid x al h A = Some (e, r, h', c', A') \<Longrightarrow> ctx_step {K_Audit} c c'"
  by (auto simp: perm_check_rbac_def split: option.splits dest: check_params_step)

lemma perm_check_location_step [ctx_steps]:
  "perm_check_location L hm os now later c uid x y al h A = Some (e, r, h', c', A') \<Longrightarrow> ctx_step {K_Audit} c c'"
  by (auto simp: perm_check_location_def split: option.splits dest: check_params_step)

lemma perm_check_lbac_step [ctx_steps]:
  "perm_check_lbac L hm os now later c uid x y al h A = Some (e, r, h', c', A') \<Longrightarrow> ctx_step {K_Audit} c c'"
  by (auto simp: perm_check_lbac_def split: option.splits dest: check_params_step)

lemma perm_check_abac_step [ctx_steps]:
  "perm_check_abac L hm os now later c uid x y z al h A = Some (e, r, h', c', A') \<Longrightarrow> ctx_step {K_Audit} c c'"
  by (auto simp: perm_check_abac_def split: option.splits dest: check_params_step)

lemma perm_check_data_step [ctx_steps]:
  "perm_check_data L hm os now later c uid x y al w h A = Some ((e, r, h', c', A'), f) \<Longrightarrow> ctx_step {K_Audit} c c'"
  by (cases y; cases "heap_strdup (the y) h")
    (auto simp: perm_check_data_def bind_eq_Some_conv Let_def
      split: option.splits prod.splits sso_error.splits if_splits dest: perm_engine_evaluate_step)

section \<open>Token managers\<close>

definition tokens_ok :: "token_manager \<Rightarrow> bool" where
  "tokens_ok m \<longleftrightarrow> list_ok m \<and> nonces_ok m \<and> sessions_ok (sessions m) \<and> length (slots m) = 2 \<and> active_slot m < 2"

definition tokens_step :: "token_manager \<Rightarrow> token_manager \<Rightarrow> bool" where
  "tokens_step m m' \<longleftrightarrow>
     set (jtis m) \<subseteq> set (jtis m') \<and> tm_mode m' = tm_mode m \<and> tm_storage m' = tm_storage m \<and> (tokens_ok m \<longrightarrow> tokens_ok m')"

lemma tokens_step_refl [simp]: "tokens_step m m"
  by (simp add: tokens_step_def)

lemma tokens_step_trans: "tokens_step m m' \<Longrightarrow> tokens_step m' m'' \<Longrightarrow> tokens_step m m''"
  by (auto simp: tokens_step_def)

lemma revoke_tokens: "token_revoke sb st m j x = (e, m', st') \<Longrightarrow> tokens_step m m'"
  by (auto simp: token_revoke_def tokens_step_def tokens_ok_def list_ok_def nonces_ok_def Let_def split: prod.splits if_splits)

lemma revoke_calls: "token_revoke sb st m j x = (e, m', st') \<Longrightarrow> calls sb {K_Jti} st st'"
  by (auto simp: token_revoke_def Let_def bind_eq_Some_conv split: prod.splits if_splits option.splits bind_splits
    intro!: calls_one [of _ K_Jti] dest: backend_call.intros(32) [of _ _ st j x])

lemma is_revoked_tokens: "token_is_revoked now sb st m j = (b, m') \<Longrightarrow> tokens_step m m'"
  using is_revoked_state [of now sb st m j] by (auto simp: tokens_step_def tokens_ok_def list_ok_def nonces_ok_def)

lemma set_nonce_tokens: "token_set_nonce al m u n = (e, m') \<Longrightarrow> tokens_step m m'"
  using set_nonce_ok [of al m u n e m']
  by (auto simp: token_set_nonce_def tokens_step_def tokens_ok_def list_ok_def Let_def split: option.splits if_splits)

lemma rotate_tokens: "token_manager_rotate_key m s = (e, m') \<Longrightarrow> tokens_step m m'"
  by (auto simp: token_manager_rotate_key_def tokens_step_def tokens_ok_def list_ok_def nonces_ok_def Let_def
    split: option.splits if_splits)

lemma rotate_rs256_tokens: "token_manager_rotate_key_rs256 cr m p q = (e, m') \<Longrightarrow> tokens_step m m'"
  by (auto simp: token_manager_rotate_key_rs256_def tokens_step_def tokens_ok_def list_ok_def nonces_ok_def Let_def
    split: option.splits if_splits prod.splits)

lemma bump_nonce_tokens: "token_bump_nonce al m u = (e, m') \<Longrightarrow> tokens_step m m'"
  unfolding token_bump_nonce_def by (rule set_nonce_tokens)

lemma session_tokens:
  assumes "token_register_session sb st m u j = (m', st')"
  shows "tokens_step m m' \<and> calls sb {K_Jti} st st'"
proof -
  obtain ss e where a: "sessions_add (sessions m) u j = (ss, e)" by fastforce
  have w: "tokens_step m (m\<lparr>sessions := ss\<rparr>)"
    using wf_sessions_add [of "sessions m" u j] a
    by (auto simp: tokens_step_def tokens_ok_def list_ok_def nonces_ok_def)
  show ?thesis
  proof (cases e)
    case None
    then show ?thesis using assms a w by (auto simp: token_register_session_def)
  next
    case (Some old)
    then have "token_revoke sb st (m\<lparr>sessions := ss\<rparr>) old 0 = (fst (token_revoke sb st (m\<lparr>sessions := ss\<rparr>) old 0), m', st')"
      using assms a by (simp add: token_register_session_def prod_eq_iff)
    then show ?thesis using revoke_tokens revoke_calls w tokens_step_trans by metis
  qed
qed

section \<open>Services\<close>

definition sv_step :: "call_kind set \<Rightarrow> 's service \<Rightarrow> 's service \<Rightarrow> bool" where
  "sv_step K sv sv' \<longleftrightarrow>
     ctx_step K (sv_ctx sv) (sv_ctx sv') \<and> tokens_step (sv_tokens sv) (sv_tokens sv') \<and>
     (risk_wf (sv_risk sv) \<longrightarrow> risk_wf (sv_risk sv'))"

lemma sv_step_refl [simp]: "sv_step K sv sv"
  by (simp add: sv_step_def)

lemma sv_step_trans: "sv_step K sv sv1 \<Longrightarrow> sv_step K sv1 sv2 \<Longrightarrow> sv_step K sv sv2"
  by (auto simp: sv_step_def intro: ctx_step_trans tokens_step_trans)

lemma sv_step_mono: "sv_step K sv sv1 \<Longrightarrow> K \<subseteq> K' \<Longrightarrow> sv_step K' sv sv1"
  by (auto simp: sv_step_def intro: ctx_step_mono)

lemma sv_step_frame [simp]:
  "sv_step K sv (sv1\<lparr>sv_limiter := rl\<rparr>) = sv_step K sv sv1"
  "sv_step K sv (sv1\<lparr>sv_heap := h\<rparr>) = sv_step K sv sv1"
  "sv_step K sv (sv1\<lparr>sv_audit := A\<rparr>) = sv_step K sv sv1"
  by (simp_all add: sv_step_def)

lemma sv_step_ctx: "sv_step K sv sv1 \<Longrightarrow> ctx_step K (sv_ctx sv1) c \<Longrightarrow> sv_step K sv (sv1\<lparr>sv_ctx := c\<rparr>)"
  by (auto simp: sv_step_def intro: ctx_step_trans)

lemma sv_step_tokens: "sv_step K sv sv1 \<Longrightarrow> tokens_step (sv_tokens sv1) m \<Longrightarrow> sv_step K sv (sv1\<lparr>sv_tokens := m\<rparr>)"
  by (auto simp: sv_step_def intro: tokens_step_trans)

lemma sv_step_risk: "sv_step K sv sv1 \<Longrightarrow> (risk_wf (sv_risk sv1) \<Longrightarrow> risk_wf r) \<Longrightarrow> sv_step K sv (sv1\<lparr>sv_risk := r\<rparr>)"
  by (auto simp: sv_step_def)

lemma sv_step_store:
  "sv_step K sv sv1 \<Longrightarrow> calls (sv_backend sv1) K (sv_store sv1) st \<Longrightarrow> sv_step K sv (set_sv_store sv1 st)"
  unfolding set_sv_store_def by (erule sv_step_ctx) (simp add: ctx_step_def)

lemma sv_is_revoked_step: "sv_is_revoked E k sv j = (b, sv') \<Longrightarrow> sv_step K sv sv'"
  by (auto simp: sv_is_revoked_def split: prod.splits intro!: sv_step_tokens dest: is_revoked_tokens)

lemma sv_revoke_step: "sv_revoke sv j x = (e, sv') \<Longrightarrow> sv_step {K_Jti} sv sv'"
  by (auto simp: sv_revoke_def split: prod.splits intro!: sv_step_store sv_step_tokens dest: revoke_tokens revoke_calls)

lemma sv_register_session_step: "sv_step {K_Jti} sv (sv_register_session sv u j)"
  by (auto simp: sv_register_session_def split: prod.splits intro!: sv_step_store sv_step_tokens dest!: session_tokens)

lemma sv_limit_step: "sv_limit E k sv key mx = Some (e, sv') \<Longrightarrow> sv_step K sv sv'"
  by (auto simp: sv_limit_def split: option.splits)

lemma authenticate_step: "authenticate_request E sv req = Some (e, u, t, sv') \<Longrightarrow> sv_step K sv sv'"
  by (auto simp: authenticate_request_def Let_def bind_eq_Some_conv split: prod.splits if_splits dest: sv_is_revoked_step)

section \<open>The risk engine\<close>

lemma put_ip_wf: "risk_wf st \<Longrightarrow> risk_wf (put_ip st ip w r)"
  by (simp add: risk_wf_def put_ip_def)

lemma record_user_wf: "risk_wf st \<Longrightarrow> risk_wf (record_user now st uid ip ua)"
  by (simp add: risk_wf_def record_user_def)

lemma risk_record_wf: "risk_wf st \<Longrightarrow> risk_wf (risk_record_login_attempt now st uid ip ok)"
  by (simp add: risk_record_login_attempt_def Let_def put_ip_wf record_user_wf)

lemma risk_success_wf: "risk_wf st \<Longrightarrow> risk_wf (risk_record_login_success_with_ua now st uid ip ua)"
  by (simp add: risk_record_login_success_with_ua_def record_user_wf)

lemma risk_evaluate_wf: "risk_evaluate_login F now st uid ip ua = (sc, st') \<Longrightarrow> risk_wf st \<Longrightarrow> risk_wf st'"
  by (auto simp: risk_evaluate_login_def velocity_step_def risk_wf_def Let_def split: prod.splits if_splits)

lemmas risk_wfs = risk_record_wf risk_success_wf risk_evaluate_wf

section \<open>Results of handlers\<close>

definition keeps :: "call_kind set \<Rightarrow> 's service \<Rightarrow> 's handled \<Rightarrow> bool" where
  "keeps K sv m \<longleftrightarrow> (\<forall>err resp sv'. m = Some (err, resp, sv') \<longrightarrow> sv_step K sv sv')"

lemma keeps_None [keep_rules]: "keeps K sv None"
  by (simp add: keeps_def)

lemma keeps_Some [keep_rules]: "sv_step K sv sv1 \<Longrightarrow> keeps K sv (Some (e, r, sv1))"
  by (simp add: keeps_def)

lemma keeps_reply [keep_rules]: "sv_step K sv sv1 \<Longrightarrow> keeps K sv (reply sv1 resp c msg)"
  by (simp add: keeps_def reply_def)

lemma keeps_reply_ok [keep_rules]: "sv_step K sv sv1 \<Longrightarrow> keeps K sv (reply_ok sv1 resp b)"
  by (simp add: keeps_def reply_ok_def)

lemma keeps_if [keep_rules]: "(b \<Longrightarrow> keeps K sv x) \<Longrightarrow> (\<not> b \<Longrightarrow> keeps K sv y) \<Longrightarrow> keeps K sv (if b then x else y)"
  by simp

lemma keeps_bind [keep_rules]: "(\<And>x. m = Some x \<Longrightarrow> keeps K sv (f x)) \<Longrightarrow> keeps K sv (Option.bind m f)"
  by (cases m) (auto simp: keeps_def)

lemma keeps_let [keep_rules]: "(\<And>y. x = y \<Longrightarrow> keeps K sv (f y)) \<Longrightarrow> keeps K sv (Let x f)"
  by simp

lemma keeps_option [keep_rules]:
  "(m = None \<Longrightarrow> keeps K sv x) \<Longrightarrow> (\<And>y. m = Some y \<Longrightarrow> keeps K sv (f y)) \<Longrightarrow> keeps K sv (case m of None \<Rightarrow> x | Some y \<Rightarrow> f y)"
  by (cases m) auto

lemma keeps_prod [keep_rules]: "(\<And>x y. p = (x, y) \<Longrightarrow> keeps K sv (f x y)) \<Longrightarrow> keeps K sv (case p of (x, y) \<Rightarrow> f x y)"
  by (cases p) auto

lemma keeps_prod_app [keep_rules]:
  "(\<And>x y. p = (x, y) \<Longrightarrow> keeps K sv (f x y z)) \<Longrightarrow> keeps K sv ((case p of (x, y) \<Rightarrow> f x y) z)"
  by (cases p) auto

lemma keeps_trans: "sv_step K sv sv1 \<Longrightarrow> keeps K sv1 m \<Longrightarrow> keeps K sv m"
  by (auto simp: keeps_def intro: sv_step_trans)

lemma keeps_mono: "keeps K sv m \<Longrightarrow> K \<subseteq> K' \<Longrightarrow> keeps K' sv m"
  by (auto simp: keeps_def intro: sv_step_mono)

lemma ctx_step_one: "ctx_step {k} c c' \<Longrightarrow> k \<in> K \<Longrightarrow> ctx_step K c c'"
  by (erule ctx_step_mono) simp

lemmas ctx_intros = ctx_steps [THEN ctx_step_one]

end
