(* ===== verification/Http_Parser.thy ===== *)
theory Http_Parser
  imports Http_Common
begin

text \<open>
  Reading a request from a connection, \<^verbatim>\<open>src/server.c\<close>: the buffered reader, the request line, the headers and the body.
  The connection is the list of what its successive reads return; an empty item is a read that fails. A specification
  reads the same request from one string of bytes, and the reader is shown to implement it however the bytes arrive.
\<close>

section \<open>The buffered reader\<close>

abbreviation BUF_READER_SIZE :: nat where
  "BUF_READER_SIZE \<equiv> 4096"

record buf_reader =
  br_buf :: "char list"
  br_conn :: "char list list"

definition conn_read :: "nat \<Rightarrow> char list list \<Rightarrow> char list \<times> char list list" where
  "conn_read n src =
     (case src of [] \<Rightarrow> ([], []) | c # cs \<Rightarrow> (take n c, if length c \<le> n then cs else drop n c # cs))"

definition br_init :: "char list list \<Rightarrow> buf_reader" where
  "br_init src = \<lparr>br_buf = [], br_conn = src\<rparr>"

definition br_bytes :: "buf_reader \<Rightarrow> char list" where
  "br_bytes br = br_buf br @ concat (br_conn br)"

definition br_fill :: "buf_reader \<Rightarrow> buf_reader" where
  "br_fill br =
     (if br_buf br \<noteq> [] then br
      else let (d, src) = conn_read BUF_READER_SIZE (br_conn br) in \<lparr>br_buf = d, br_conn = src\<rparr>)"

lemma br_fill_bytes [simp]: "br_bytes (br_fill br) = br_bytes br"
  by (cases br) (auto simp: br_bytes_def br_fill_def conn_read_def split: list.splits)

lemma br_fill_hd: "br_buf (br_fill br) = c # r \<Longrightarrow> br_bytes br = c # br_bytes ((br_fill br)\<lparr>br_buf := r\<rparr>)"
  using br_fill_bytes [of br] by (simp add: br_bytes_def)

text \<open>\<open>k\<close> is the room left in the caller's buffer.\<close>

function br_line_loop :: "nat \<Rightarrow> buf_reader \<Rightarrow> string \<times> buf_reader" where
  "br_line_loop k br =
     (if k = 0 then ([], br)
      else case br_buf (br_fill br) of
             [] \<Rightarrow> ([], br_fill br)
           | c # r \<Rightarrow>
               (let br1 = (br_fill br)\<lparr>br_buf := r\<rparr>
                in if c = CHR 0x0D then br_line_loop k br1
                   else if c = CHR 0x0A then ([], br1)
                   else let (l, br2) = br_line_loop (k - 1) br1 in (c # l, br2)))"
  by pat_completeness auto
termination
  by (relation "measure (\<lambda>(_, br). length (br_bytes br))") (auto dest: br_fill_hd)

declare br_line_loop.simps [simp del]

definition br_read_line :: "nat \<Rightarrow> buf_reader \<Rightarrow> string \<times> buf_reader" where
  "br_read_line mx br = br_line_loop (mx - 1) br"

text \<open>With an empty buffer the bytes go straight to the caller.\<close>

definition br_step :: "nat \<Rightarrow> buf_reader \<Rightarrow> char list \<times> buf_reader" where
  "br_step n br =
     (if br_buf br = [] then let (d, src) = conn_read n (br_conn br) in (d, br\<lparr>br_conn := src\<rparr>)
      else (take n (br_buf br), br\<lparr>br_buf := drop n (br_buf br)\<rparr>))"

lemma br_step_bytes: "br_step n br = (d, br') \<Longrightarrow> br_bytes br = d @ br_bytes br' \<and> length d \<le> n"
  by (auto simp: br_step_def br_bytes_def conn_read_def split: list.splits if_splits)

function br_read :: "nat \<Rightarrow> buf_reader \<Rightarrow> char list \<times> buf_reader" where
  "br_read n br =
     (if n = 0 then ([], br)
      else let (d, br1) = br_step n br
           in if d = [] then ([], br1) else let (ds, br2) = br_read (n - length d) br1 in (d @ ds, br2))"
  by pat_completeness auto
termination
  by (relation "measure fst") auto

declare br_read.simps [simp del]

section \<open>The request\<close>

text \<open>\<^verbatim>\<open>sscanf\<close> with \<^verbatim>\<open>%ns\<close>: a word of at most \<open>n\<close> characters and the rest.\<close>

definition scan_word :: "nat \<Rightarrow> string \<Rightarrow> string \<times> string" where
  "scan_word n s =
     (let s1 = dropWhile is_space s; w = takeWhile (\<lambda>c. \<not> is_space c) (take n s1) in (w, drop (length w) s1))"

definition method_of :: "string \<Rightarrow> http_method option" where
  "method_of m =
     (if m = ''GET'' then Some HTTP_GET
      else if m = ''POST'' then Some HTTP_POST
      else if m = ''PUT'' then Some HTTP_PUT
      else if m = ''DELETE'' then Some HTTP_DELETE
      else if m = ''PATCH'' then Some HTTP_PATCH
      else None)"

text \<open>The first line: method, path and the parameters after the question mark, without empty ones.\<close>

definition parse_target :: "string \<Rightarrow> string \<times> string list option" where
  "parse_target path =
     (if CHR ''?'' \<in> set path
      then (takeWhile (\<lambda>c. c \<noteq> CHR ''?'') path,
            Some (filter (\<lambda>p. p \<noteq> []) (split_on (CHR ''&'') (tl (dropWhile (\<lambda>c. c \<noteq> CHR ''?'') path)))))
      else (path, None))"

definition parse_request_line :: "string \<Rightarrow> http_request option" where
  "parse_request_line line =
     (let (m, r) = scan_word 15 (cstr line); (p, _) = scan_word 1023 r
      in if m = [] \<or> p = [] then None
         else case method_of m of
                None \<Rightarrow> None
              | Some mt \<Rightarrow>
                  (let (path, params) = parse_target p
                   in Some (zero_request\<lparr>rq_method := mt, rq_method_str := m, rq_path := path, rq_query_params := params\<rparr>)))"

definition has_prefix :: "string \<Rightarrow> string \<Rightarrow> bool" where
  "has_prefix p l \<longleftrightarrow> strcaseeq (take (length p) l) p"

definition skip_blanks :: "string \<Rightarrow> string" where
  "skip_blanks s = dropWhile (\<lambda>c. c = CHR '' '') s"

definition header_value :: "nat \<Rightarrow> string \<Rightarrow> string" where
  "header_value n v = rev (dropWhile (\<lambda>c. c = CHR '' '' \<or> c = CHR 0x0D) (rev (strlcpy (skip_blanks v) n)))"

text \<open>\<^verbatim>\<open>strtol\<close> of a length: nothing to convert and a negative number leave the old value.\<close>

definition content_length_of :: "string \<Rightarrow> int \<Rightarrow> int" where
  "content_length_of v old =
     (case scan_number v of (neg, ds, _) \<Rightarrow>
        if ds = [] then old
        else let n = (if neg then - int (digits_val ds) else int (digits_val ds))
             in if n < 0 then old else min n (2 ^ 63 - 1))"

definition auth_value :: "string \<Rightarrow> string \<Rightarrow> string" where
  "auth_value v old =
     (let t = skip_blanks v
      in if has_prefix ''Bearer '' t then strlcpy (drop 7 t) SSO_MAX_TOKEN_STR
         else if has_prefix ''DPoP '' t then strlcpy (drop 5 t) SSO_MAX_TOKEN_STR
         else old)"

definition parse_header :: "string \<Rightarrow> http_request \<times> int \<Rightarrow> http_request \<times> int" where
  "parse_header line st =
     (let l = cstr line; (req, len) = st
      in if has_prefix ''Content-Length:'' l then (req, content_length_of (drop 15 l) len)
         else if has_prefix ''Authorization:'' l then (req\<lparr>rq_auth_token := auth_value (drop 14 l) (rq_auth_token req)\<rparr>, len)
         else if has_prefix ''Origin:'' l then (req\<lparr>rq_origin := header_value 256 (drop 7 l)\<rparr>, len)
         else if has_prefix ''DPoP:'' l then (req\<lparr>rq_dpop_proof := header_value 8192 (drop 5 l)\<rparr>, len)
         else if has_prefix ''Host:'' l then (req\<lparr>rq_host := header_value 256 (drop 5 l)\<rparr>, len)
         else if has_prefix ''User-Agent:'' l then (req\<lparr>rq_user_agent := header_value 512 (drop 11 l)\<rparr>, len)
         else (req, len))"

text \<open>Up to the first empty line, or one that starts with a zero byte.\<close>

lemma br_line_shrinks: "br_line_loop k br = (l, br') \<Longrightarrow> length (br_bytes br') + length l \<le> length (br_bytes br)"
proof (induction k br arbitrary: l br' rule: br_line_loop.induct)
  case (1 k br)
  show ?case
  proof (cases "br_buf (br_fill br)")
    case Nil
    then show ?thesis using "1.prems" by (subst (asm) br_line_loop.simps) (auto split: if_splits)
  next
    case (Cons c r)
    note b = br_fill_hd [OF Cons]
    show ?thesis
    proof (cases "k = 0")
      case True
      then show ?thesis using "1.prems" by (subst (asm) br_line_loop.simps) simp
    next
      case False
      let ?br1 = "(br_fill br)\<lparr>br_buf := r\<rparr>"
      show ?thesis
      proof (cases "c = CHR 0x0D")
        case True
        then have "br_line_loop k ?br1 = (l, br')" using "1.prems" False Cons by (subst (asm) br_line_loop.simps) simp
        from "1.IH"(1) [OF False Cons refl True this] show ?thesis using b by simp
      next
        case nc: False
        show ?thesis
        proof (cases "c = CHR 0x0A")
          case True
          then show ?thesis using "1.prems" False Cons b by (subst (asm) br_line_loop.simps) simp
        next
          case nn: False
          obtain l2 br2 where r: "br_line_loop (k - 1) ?br1 = (l2, br2)" by (cases "br_line_loop (k - 1) ?br1")
          have "l = c # l2" "br' = br2" using "1.prems" False Cons nc nn r by (subst (asm) br_line_loop.simps, simp)+
          with "1.IH"(2) [OF False Cons refl nc nn r] show ?thesis using b by simp
        qed
      qed
    qed
  qed
qed

function read_headers :: "buf_reader \<Rightarrow> string list \<times> buf_reader" where
  "read_headers br =
     (let (l, br1) = br_read_line 4096 br
      in if l = [] \<or> hd l = NUL then ([], br1) else let (ls, br2) = read_headers br1 in (l # ls, br2))"
  by pat_completeness auto
termination
  by (relation "measure (\<lambda>br. length (br_bytes br))")
    (auto simp: br_read_line_def dest!: br_line_shrinks [OF sym] simp: neq_Nil_conv)

declare read_headers.simps [simp del]

text \<open>A body of which nothing arrives is whatever the fresh memory holds.\<close>

definition parse_body :: "string \<Rightarrow> int \<Rightarrow> http_request \<times> int \<Rightarrow> buf_reader \<Rightarrow> http_request option \<times> buf_reader" where
  "parse_body stale max_body st br =
     (let (req, len) = st
      in if len \<le> 0 then (Some req, br)
         else if max_body > 0 \<and> len > max_body then (None, br)
         else let (d, br1) = br_read (nat len) br
              in (Some (req\<lparr>rq_body := Some (if d = [] then stale else d), rq_body_len := length d\<rparr>), br1))"

definition parse_request :: "string \<Rightarrow> int \<Rightarrow> buf_reader \<Rightarrow> http_request option \<times> buf_reader" where
  "parse_request stale max_body br =
     (let (line, br1) = br_read_line 4096 br
      in if line = [] then (None, br1)
         else case parse_request_line line of
                None \<Rightarrow> (None, br1)
              | Some req \<Rightarrow>
                  (let (ls, br2) = read_headers br1
                   in parse_body stale max_body (fold parse_header ls (req, 0)) br2))"

section \<open>The same request from one string of bytes\<close>

fun take_line :: "nat \<Rightarrow> char list \<Rightarrow> string \<times> char list" where
  "take_line k [] = ([], [])"
| "take_line k (c # s) =
     (if k = 0 then ([], c # s)
      else if c = CHR 0x0D then take_line k s
      else if c = CHR 0x0A then ([], s)
      else let (l, r) = take_line (k - 1) s in (c # l, r))"

lemma take_line_shrinks: "take_line k s = (l, r) \<Longrightarrow> length r + length l \<le> length s"
  by (induction k s arbitrary: l r rule: take_line.induct) (auto split: if_splits prod.splits)

function stream_headers :: "char list \<Rightarrow> string list \<times> char list" where
  "stream_headers s =
     (let (l, r) = take_line 4095 s
      in if l = [] \<or> hd l = NUL then ([], r) else let (ls, r') = stream_headers r in (l # ls, r'))"
  by pat_completeness auto
termination
  by (relation "measure length") (auto dest!: take_line_shrinks [OF sym] simp: neq_Nil_conv)

declare stream_headers.simps [simp del]

definition stream_body :: "string \<Rightarrow> int \<Rightarrow> http_request \<times> int \<Rightarrow> char list \<Rightarrow> http_request option" where
  "stream_body stale max_body st s =
     (let (req, len) = st; d = take (nat len) s
      in if len \<le> 0 then Some req
         else if max_body > 0 \<and> len > max_body then None
         else Some (req\<lparr>rq_body := Some (if d = [] then stale else d), rq_body_len := length d\<rparr>))"

definition parse_stream :: "string \<Rightarrow> int \<Rightarrow> char list \<Rightarrow> http_request option" where
  "parse_stream stale max_body s =
     (let (line, s1) = take_line 4095 s
      in if line = [] then None
         else case parse_request_line line of
                None \<Rightarrow> None
              | Some req \<Rightarrow>
                  (let (ls, s2) = stream_headers s1 in stream_body stale max_body (fold parse_header ls (req, 0)) s2))"

text \<open>A connection on which no read fails before the end.\<close>

definition steady_conn :: "buf_reader \<Rightarrow> bool" where
  "steady_conn br \<longleftrightarrow> [] \<notin> set (br_conn br)"

lemma br_fill_steady: "steady_conn br \<Longrightarrow> steady_conn (br_fill br)"
  by (auto simp: steady_conn_def br_fill_def conn_read_def split: list.splits)

lemma br_fill_empty: "steady_conn br \<Longrightarrow> br_buf (br_fill br) = [] \<Longrightarrow> br_bytes br = []"
  by (auto simp: steady_conn_def br_fill_def br_bytes_def conn_read_def split: list.splits if_splits)

lemma br_line_refines:
  "steady_conn br \<Longrightarrow> br_line_loop k br = (l, br') \<Longrightarrow> take_line k (br_bytes br) = (l, br_bytes br') \<and> steady_conn br'"
proof (induction k br arbitrary: l br' rule: br_line_loop.induct)
  case (1 k br)
  note unf = br_line_loop.simps [of k br]
  show ?case
  proof (cases "k = 0")
    case True
    with "1.prems" unf show ?thesis by (cases "br_bytes br") auto
  next
    case k: False
    show ?thesis
    proof (cases "br_buf (br_fill br)")
      case Nil
      then have "l = []" "br' = br_fill br" using "1.prems"(2) k unf by auto
      then show ?thesis using br_fill_empty [OF "1.prems"(1) Nil] br_fill_steady [OF "1.prems"(1)] by simp
    next
      case (Cons c r)
      let ?br1 = "(br_fill br)\<lparr>br_buf := r\<rparr>"
      have st: "steady_conn ?br1" using br_fill_steady [OF "1.prems"(1)] by (simp add: steady_conn_def)
      note b = br_fill_hd [OF Cons]
      consider "c = CHR 0x0D" | "c \<noteq> CHR 0x0D" "c = CHR 0x0A" | "c \<noteq> CHR 0x0D" "c \<noteq> CHR 0x0A" by blast
      then show ?thesis
      proof cases
        case 1
        then have "br_line_loop k ?br1 = (l, br')" using "1.prems"(2) k Cons unf by simp
        from "1.IH"(1) [OF k Cons refl 1 st this] show ?thesis using b k 1 by simp
      next
        case 2
        then show ?thesis using "1.prems"(2) k Cons unf b st by simp
      next
        case 3
        obtain l2 br2 where r: "br_line_loop (k - 1) ?br1 = (l2, br2)" by (cases "br_line_loop (k - 1) ?br1")
        have "l = c # l2" "br' = br2" using "1.prems"(2) k Cons 3 r unf by simp_all
        with "1.IH"(2) [OF k Cons refl 3 st r] show ?thesis using b k 3 by simp
      qed
    qed
  qed
qed

lemma br_step_refines:
  assumes "steady_conn br" "br_step n br = (d, br')" "0 < n"
  shows "steady_conn br'" "d = [] \<Longrightarrow> br_bytes br = []"
  using assms by (auto simp: br_step_def steady_conn_def br_bytes_def conn_read_def split: list.splits if_splits)

lemma br_read_refines:
  "steady_conn br \<Longrightarrow> br_read n br = (d, br') \<Longrightarrow> d = take n (br_bytes br)"
proof (induction n br arbitrary: d br' rule: br_read.induct)
  case (1 n br)
  show ?case
  proof (cases "n = 0")
    case True
    then show ?thesis using "1.prems" br_read.simps [of n br] by simp
  next
    case n: False
    obtain e br1 where s: "br_step n br = (e, br1)" by (cases "br_step n br")
    note st = br_step_refines [OF "1.prems"(1) s] br_step_bytes [OF s]
    show ?thesis
    proof (cases "e = []")
      case True
      then show ?thesis using "1.prems"(2) n s st br_read.simps [of n br] by simp
    next
      case False
      obtain ds br2 where r: "br_read (n - length e) br1 = (ds, br2)" by (cases "br_read (n - length e) br1")
      have "d = e @ ds" using "1.prems"(2) n s False r br_read.simps [of n br] by simp
      then show ?thesis using "1.IH" [OF n s [symmetric] refl False st(1) r] st(3) n by simp
    qed
  qed
qed

lemma read_headers_refines:
  "steady_conn br \<Longrightarrow> read_headers br = (ls, br') \<Longrightarrow> stream_headers (br_bytes br) = (ls, br_bytes br') \<and> steady_conn br'"
proof (induction br arbitrary: ls br' rule: read_headers.induct)
  case (1 br)
  obtain l br1 where r: "br_read_line 4096 br = (l, br1)" by (cases "br_read_line 4096 br")
  then have t: "take_line 4095 (br_bytes br) = (l, br_bytes br1)" "steady_conn br1"
    using br_line_refines [OF "1.prems"(1)] by (simp_all add: br_read_line_def)
  show ?case
  proof (cases "l = [] \<or> hd l = NUL")
    case True
    then show ?thesis
      using "1.prems"(2) r t read_headers.simps [of br] stream_headers.simps [of "br_bytes br"] by auto
  next
    case False
    obtain ms br2 where h: "read_headers br1 = (ms, br2)" by (cases "read_headers br1")
    from "1.IH" [OF r [symmetric] refl False t(2) h] have "stream_headers (br_bytes br1) = (ms, br_bytes br2)" "steady_conn br2"
      by simp_all
    then show ?thesis
      using "1.prems"(2) r t(1) False h read_headers.simps [of br] stream_headers.simps [of "br_bytes br"] by auto
  qed
qed

lemma parse_body_refines:
  assumes "steady_conn br"
  shows "fst (parse_body stale max_body st br) = stream_body stale max_body st (br_bytes br)"
proof -
  have "fst (br_read n br) = take n (br_bytes br)" for n
    using br_read_refines [OF assms, of n "fst (br_read n br)" "snd (br_read n br)"] by simp
  then show ?thesis by (cases st) (simp add: parse_body_def stream_body_def case_prod_unfold Let_def)
qed

lemma parse_request_stream:
  assumes "\<forall>c \<in> set src. c \<noteq> []"
  shows "fst (parse_request stale max_body (br_init src)) = parse_stream stale max_body (concat src)"
proof -
  let ?br = "br_init src"
  have i: "steady_conn ?br" "br_bytes ?br = concat src" using assms by (auto simp: steady_conn_def br_init_def br_bytes_def)
  obtain line br1 where l: "br_read_line 4096 ?br = (line, br1)" by (cases "br_read_line 4096 ?br")
  then have "br_line_loop 4095 ?br = (line, br1)" by (simp add: br_read_line_def)
  from br_line_refines [OF i(1) this] have t: "take_line 4095 (concat src) = (line, br_bytes br1)" "steady_conn br1"
    by (simp_all only: i(2))
  obtain ls br2 where h: "read_headers br1 = (ls, br2)" by (cases "read_headers br1")
  note hs = read_headers_refines [OF t(2) h]
  show ?thesis
  proof (cases "line = [] \<or> parse_request_line line = None")
    case True
    then show ?thesis by (auto simp: parse_request_def parse_stream_def l t)
  next
    case False
    then obtain req where q: "line \<noteq> []" "parse_request_line line = Some req" by auto
    have "fst (parse_request stale max_body ?br) = fst (parse_body stale max_body (fold parse_header ls (req, 0)) br2)"
      by (simp only: parse_request_def l h q Let_def prod.case option.case if_False)
    also have "\<dots> = stream_body stale max_body (fold parse_header ls (req, 0)) (br_bytes br2)"
      using hs by (intro parse_body_refines) simp
    also have "\<dots> = parse_stream stale max_body (concat src)"
      by (simp only: parse_stream_def t(1) hs [THEN conjunct1] q Let_def prod.case option.case if_False)
    finally show ?thesis .
  qed
qed

text \<open>C39: how the network cuts a request into pieces does not matter. As long as no read fails, the buffered reader and the
  parser give the request that the specification reads from the bytes in one string: request line, headers with the
  last one winning, and exactly \<^verbatim>\<open>Content-Length\<close> bytes of body, fewer only if the connection ends.\<close>

theorem parse_request_chunks:
  assumes "\<forall>c \<in> set src. c \<noteq> []"
  shows "fst (parse_request stale max_body (br_init src)) = parse_stream stale max_body (concat src)"
  using assms by (rule parse_request_stream)

theorem parse_request_chunks_witness:
  "fst (parse_request [] 0 (br_init [''GE'', ''T /a?x=1'' @ [CHR 0x0D], CHR 0x0A # ''Content-Length: 2'' @ [CHR 0x0A, CHR 0x0A], ''o'', ''k!''])) =
     Some (zero_request\<lparr>rq_method := HTTP_GET, rq_method_str := ''GET'', rq_path := ''/a'', rq_query_params := Some [''x=1''],
       rq_body := Some ''ok'', rq_body_len := 2\<rparr>)"
  by (subst parse_request_chunks, simp)
    (simp add: parse_stream_def stream_headers.simps stream_body_def parse_request_line_def cstr_def scan_word_def is_space_def
      method_of_def parse_target_def parse_header_def has_prefix_def strcaseeq_def tolower_def content_length_of_def
      scan_number_def is_digit_def digits_val_def digit_val_def)

end
