(* ===== verification/Thread_Pool.thy ===== *)
theory Thread_Pool
  imports Sso_Prelude
begin

text \<open>
  The queue between the accepting thread and the workers, \<^verbatim>\<open>src/server.c\<close>: a ring of fixed size under one lock. Each
  critical section is one step of a transition system, so a run is any interleaving of the threads. A worker that waits
  takes no step; the start of a task is the moment a worker has taken it from the ring.
\<close>

record 'a thread_pool =
  tp_queue :: "'a list"
  tp_pool_size :: nat
  tp_queue_size :: nat
  tp_head :: nat
  tp_tail :: nat
  tp_count :: nat
  tp_stop :: bool

definition pool_init :: "'a \<Rightarrow> (int \<times> int) option \<Rightarrow> 'a thread_pool" where
  "pool_init zero cfg =
     (let (ps, qs) = (case cfg of Some c \<Rightarrow> c | None \<Rightarrow> (8, 1024));
          ps1 = (if ps < 1 then 1 else if ps > 256 then 256 else nat ps);
          qs1 = (if qs < 1 then 1 else nat qs)
      in \<lparr>tp_queue = replicate qs1 zero, tp_pool_size = ps1, tp_queue_size = qs1, tp_head = 0, tp_tail = 0, tp_count = 0,
          tp_stop = False\<rparr>)"

text \<open>The result says whether the task was queued; otherwise its connection is closed.\<close>

definition pool_submit :: "'a \<Rightarrow> 'a thread_pool \<Rightarrow> bool \<times> 'a thread_pool" where
  "pool_submit task p =
     (if tp_count p < tp_queue_size p
      then (True, p\<lparr>tp_queue := (tp_queue p)[tp_tail p := task], tp_tail := (tp_tail p + 1) mod tp_queue_size p,
                    tp_count := tp_count p + 1\<rparr>)
      else (False, p))"

definition pool_take :: "'a thread_pool \<Rightarrow> ('a \<times> 'a thread_pool) option" where
  "pool_take p =
     (if tp_count p = 0 then None
      else Some (tp_queue p ! tp_head p, p\<lparr>tp_head := (tp_head p + 1) mod tp_queue_size p, tp_count := tp_count p - 1\<rparr>))"

definition pool_stop :: "'a thread_pool \<Rightarrow> 'a thread_pool" where
  "pool_stop p = p\<lparr>tp_stop := True\<rparr>"

datatype 'a pool_event = Queued 'a | Refused 'a | Started 'a | Stopping | Worker_Exit

inductive pool_step :: "'a thread_pool \<Rightarrow> 'a pool_event \<Rightarrow> 'a thread_pool \<Rightarrow> bool" where
  step_queued: "pool_submit t p = (True, p') \<Longrightarrow> pool_step p (Queued t) p'"
| step_refused: "pool_submit t p = (False, p') \<Longrightarrow> pool_step p (Refused t) p'"
| step_started: "pool_take p = Some (t, p') \<Longrightarrow> pool_step p (Started t) p'"
| step_stopping: "pool_step p Stopping (pool_stop p)"
| step_exit: "tp_stop p \<Longrightarrow> tp_count p = 0 \<Longrightarrow> pool_step p Worker_Exit p"

inductive pool_run :: "'a thread_pool \<Rightarrow> 'a pool_event list \<Rightarrow> 'a thread_pool \<Rightarrow> bool" where
  run_start: "pool_run p [] p"
| run_step: "pool_run p es q \<Longrightarrow> pool_step q e q' \<Longrightarrow> pool_run p (es @ [e]) q'"

inductive_cases pool_step_elims: "pool_step p e p'"

section \<open>The ring as a bounded queue\<close>

text \<open>The contract of a queue of limited length: what is in it is a list, put at the end and taken at the front.\<close>

locale bounded_queue =
  fixes inv :: "'m \<Rightarrow> bool" and view :: "'m \<Rightarrow> 'a list" and room :: "'m \<Rightarrow> nat"
    and put :: "'a \<Rightarrow> 'm \<Rightarrow> bool \<times> 'm" and get :: "'m \<Rightarrow> ('a \<times> 'm) option"
  assumes put_inv: "inv m \<Longrightarrow> inv (snd (put x m))"
    and put_room: "room (snd (put x m)) = room m"
    and put_view: "inv m \<Longrightarrow> put x m = (b, m') \<Longrightarrow> b \<longleftrightarrow> length (view m) < room m"
    and put_adds: "inv m \<Longrightarrow> put x m = (True, m') \<Longrightarrow> view m' = view m @ [x]"
    and put_full: "put x m = (False, m') \<Longrightarrow> m' = m"
    and get_none: "inv m \<Longrightarrow> get m = None \<longleftrightarrow> view m = []"
    and get_some: "inv m \<Longrightarrow> get m = Some (x, m') \<Longrightarrow> view m = x # view m' \<and> inv m' \<and> room m' = room m"
    and view_room: "inv m \<Longrightarrow> length (view m) \<le> room m"
begin

lemma put_cases:
  assumes "inv m" "put x m = (b, m')"
  shows "inv m'" "room m' = room m" "view m' = (if b then view m @ [x] else view m)"
  using assms put_inv [of m x] put_room [of x m] put_adds [of m x m'] put_full [of x m m'] by auto

end

definition pool_wf :: "'a thread_pool \<Rightarrow> bool" where
  "pool_wf p \<longleftrightarrow> 0 < tp_queue_size p \<and> length (tp_queue p) = tp_queue_size p \<and> tp_head p < tp_queue_size p \<and>
     tp_count p \<le> tp_queue_size p \<and> tp_tail p = (tp_head p + tp_count p) mod tp_queue_size p"

definition pool_ring :: "'a thread_pool \<Rightarrow> 'a list" where
  "pool_ring p = map (\<lambda>i. tp_queue p ! ((tp_head p + i) mod tp_queue_size p)) [0..<tp_count p]"

lemma mod_shift_neq: "i < c \<Longrightarrow> c < n \<Longrightarrow> (h + i) mod n \<noteq> (h + c) mod (n :: nat)"
  using mod_eq_dvd_iff_nat [of "h + i" "h + c" n] nat_dvd_not_less [of "c - i" n] by auto

lemma pool_submit_ring:
  assumes "pool_wf p" "tp_count p < tp_queue_size p"
  shows "pool_ring (snd (pool_submit t p)) = pool_ring p @ [t]" "pool_wf (snd (pool_submit t p))"
proof -
  let ?n = "tp_queue_size p" and ?h = "tp_head p" and ?c = "tp_count p"
  have "(?h + i) mod ?n \<noteq> (?h + ?c) mod ?n" if "i < ?c" for i using mod_shift_neq [OF that assms(2)] .
  then show "pool_ring (snd (pool_submit t p)) = pool_ring p @ [t]"
    using assms by (force simp: pool_ring_def pool_submit_def pool_wf_def nth_list_update)
  show "pool_wf (snd (pool_submit t p))"
    using assms by (auto simp: pool_submit_def pool_wf_def mod_Suc_eq)
qed

lemma pool_take_ring:
  assumes "pool_wf p" "pool_take p = Some (t, p')"
  shows "pool_ring p = t # pool_ring p'" "pool_wf p'" "tp_queue_size p' = tp_queue_size p"
proof -
  let ?n = "tp_queue_size p" and ?h = "tp_head p"
  obtain k where k: "tp_count p = Suc k" using assms(2) by (cases "tp_count p") (auto simp: pool_take_def)
  have p': "t = tp_queue p ! ?h" "p' = p\<lparr>tp_head := (?h + 1) mod ?n, tp_count := k\<rparr>" using assms(2) k by (auto simp: pool_take_def)
  have "((?h + 1) mod ?n + i) mod ?n = (?h + Suc i) mod ?n" for i by (simp add: mod_add_left_eq)
  then show "pool_ring p = t # pool_ring p'"
    using assms(1) k p' by (simp add: pool_ring_def pool_wf_def upt_conv_Cons map_Suc_upt [symmetric] del: upt_Suc)
  show "pool_wf p'" "tp_queue_size p' = ?n"
    using assms(1) k p' by (auto simp: pool_wf_def mod_add_left_eq)
qed

lemma pool_submit_iff: "fst (pool_submit t p) \<longleftrightarrow> tp_count p < tp_queue_size p"
  by (simp add: pool_submit_def)

lemma pool_submit_full: "\<not> tp_count p < tp_queue_size p \<Longrightarrow> pool_submit t p = (False, p)"
  by (simp add: pool_submit_def)

lemma pool_ring_length [simp]: "length (pool_ring p) = tp_count p"
  by (simp add: pool_ring_def)

interpretation ring: bounded_queue pool_wf pool_ring tp_queue_size pool_submit pool_take
proof
  fix p m' :: "'b thread_pool" and x b
  show "pool_wf p \<Longrightarrow> pool_wf (snd (pool_submit x p))"
    using pool_submit_ring(2) [of p x] pool_submit_full [of p x] by (cases "tp_count p < tp_queue_size p") auto
  show "tp_queue_size (snd (pool_submit x p)) = tp_queue_size p" by (simp add: pool_submit_def)
  show "pool_submit x p = (b, m') \<Longrightarrow> b \<longleftrightarrow> length (pool_ring p) < tp_queue_size p"
    using pool_submit_iff [of x p] by auto
  show "pool_wf p \<Longrightarrow> pool_submit x p = (True, m') \<Longrightarrow> pool_ring m' = pool_ring p @ [x]"
    using pool_submit_ring(1) [of p x] pool_submit_iff [of x p] by simp
  show "pool_submit x p = (False, m') \<Longrightarrow> m' = p"
    using pool_submit_full [of p x] pool_submit_iff [of x p] by simp
  show "pool_take p = None \<longleftrightarrow> pool_ring p = []" by (simp add: pool_take_def pool_ring_def)
  show "pool_ring p = x # pool_ring m' \<and> pool_wf m' \<and> tp_queue_size m' = tp_queue_size p"
    if "pool_wf p" "pool_take p = Some (x, m')"
    using pool_take_ring [OF that] by simp
  show "pool_wf p \<Longrightarrow> length (pool_ring p) \<le> tp_queue_size p" by (simp add: pool_wf_def)
qed

section \<open>Runs\<close>

fun queued :: "'a pool_event list \<Rightarrow> 'a list" where
  "queued [] = []"
| "queued (e # es) = (case e of Queued t \<Rightarrow> [t] | _ \<Rightarrow> []) @ queued es"

fun started :: "'a pool_event list \<Rightarrow> 'a list" where
  "started [] = []"
| "started (e # es) = (case e of Started t \<Rightarrow> [t] | _ \<Rightarrow> []) @ started es"

lemma queued_append [simp]: "queued (xs @ ys) = queued xs @ queued ys"
  by (induction xs) auto

lemma started_append [simp]: "started (xs @ ys) = started xs @ started ys"
  by (induction xs) auto

lemma pool_init_wf: "pool_wf (pool_init zero cfg)" "pool_ring (pool_init zero cfg) = []"
  by (auto simp: pool_init_def pool_wf_def pool_ring_def Let_def split: option.splits prod.splits)

lemma pool_step_inv:
  assumes "pool_wf p" "pool_step p e p'"
  shows "pool_wf p' \<and> tp_queue_size p' = tp_queue_size p \<and> started [e] @ pool_ring p' = pool_ring p @ queued [e]"
  using assms(2)
proof (cases rule: pool_step.cases)
  case (step_queued t)
  then show ?thesis using ring.put_cases [OF assms(1)] by auto
next
  case (step_refused t)
  then show ?thesis using ring.put_cases [OF assms(1)] by auto
next
  case (step_started t)
  then show ?thesis using ring.get_some [OF assms(1)] by auto
next
  case step_stopping
  then show ?thesis using assms(1) by (simp add: pool_stop_def pool_wf_def pool_ring_def)
qed (use assms(1) in simp)

lemma pool_run_inv:
  assumes "pool_run (pool_init zero cfg) es p"
  shows "pool_wf p \<and> tp_queue_size p = tp_queue_size (pool_init zero cfg) \<and> started es @ pool_ring p = queued es"
  using assms
proof (induction "pool_init zero cfg" es p rule: pool_run.induct)
  case run_start
  then show ?case by (simp add: pool_init_wf)
next
  case (run_step es q e q')
  have q: "pool_wf q" "started es @ pool_ring q = queued es" using run_step(2) by auto
  have "started (es @ [e]) @ pool_ring q' = started es @ (started [e] @ pool_ring q')" by simp
  also have "\<dots> = queued es @ queued [e]" using pool_step_inv [OF q(1) run_step(3)] q(2) by (metis append.assoc)
  finally show ?case using pool_step_inv [OF q(1) run_step(3)] run_step(2) by simp
qed

text \<open>C40: the queue of the worker threads. In every run, however the threads interleave, the tasks that workers have started
  are the first of those that were queued, in the order they were queued: none is lost, repeated or overtaken. At most the
  configured number waits.\<close>

theorem pool_fifo:
  assumes "pool_run (pool_init zero cfg) es p"
  shows "started es @ pool_ring p = queued es \<and> length (pool_ring p) \<le> tp_queue_size (pool_init zero cfg)"
  using pool_run_inv [OF assms] ring.view_room [of p] by auto

theorem pool_fifo_witness:
  "\<exists>p. pool_run (pool_init (0 :: nat) (Some (1, 2))) [Queued 7, Queued 8, Refused 9, Started 7, Queued 5, Started 8] p \<and> pool_ring p = [5]"
proof -
  let ?p = "\<lparr>tp_queue = [5, 8], tp_pool_size = 1, tp_queue_size = 2, tp_head = 0, tp_tail = 1, tp_count = 1, tp_stop = False\<rparr>"
  have p1: "pool_step (pool_init 0 (Some (1, 2)))
      (Queued 7) \<lparr>tp_queue = [7, 0], tp_pool_size = 1, tp_queue_size = 2, tp_head = 0, tp_tail = 1, tp_count = 1, tp_stop = False\<rparr>"
    by (rule step_queued) (simp add: pool_submit_def pool_init_def eval_nat_numeral)
  have p2: "pool_step \<lparr>tp_queue = [7, 0], tp_pool_size = 1, tp_queue_size = 2, tp_head = 0, tp_tail = 1, tp_count = 1, tp_stop = False\<rparr>
      (Queued 8) \<lparr>tp_queue = [7, 8], tp_pool_size = 1, tp_queue_size = 2, tp_head = 0, tp_tail = 0, tp_count = 2, tp_stop = False\<rparr>"
    by (rule step_queued) (simp add: pool_submit_def)
  have p3: "pool_step \<lparr>tp_queue = [7, 8], tp_pool_size = 1, tp_queue_size = 2, tp_head = 0, tp_tail = 0, tp_count = 2, tp_stop = False\<rparr>
      (Refused 9) \<lparr>tp_queue = [7, 8], tp_pool_size = 1, tp_queue_size = 2, tp_head = 0, tp_tail = 0, tp_count = 2, tp_stop = False\<rparr>"
    by (rule step_refused) (simp add: pool_submit_def)
  have p4: "pool_step \<lparr>tp_queue = [7, 8], tp_pool_size = 1, tp_queue_size = 2, tp_head = 0, tp_tail = 0, tp_count = 2, tp_stop = False\<rparr>
      (Started 7) \<lparr>tp_queue = [7, 8], tp_pool_size = 1, tp_queue_size = 2, tp_head = 1, tp_tail = 0, tp_count = 1, tp_stop = False\<rparr>"
    by (rule step_started) (simp add: pool_take_def)
  have p5: "pool_step \<lparr>tp_queue = [7, 8], tp_pool_size = 1, tp_queue_size = 2, tp_head = 1, tp_tail = 0, tp_count = 1, tp_stop = False\<rparr>
      (Queued 5) \<lparr>tp_queue = [5, 8], tp_pool_size = 1, tp_queue_size = 2, tp_head = 1, tp_tail = 1, tp_count = 2, tp_stop = False\<rparr>"
    by (rule step_queued) (simp add: pool_submit_def)
  have p6: "pool_step \<lparr>tp_queue = [5, 8], tp_pool_size = 1, tp_queue_size = 2, tp_head = 1, tp_tail = 1, tp_count = 2, tp_stop = False\<rparr>
      (Started 8) ?p"
    by (rule step_started) (simp add: pool_take_def)
  have r: "pool_run (pool_init (0 :: nat) (Some (1, 2))) [Queued 7, Queued 8, Refused 9, Started 7, Queued 5, Started 8] ?p"
    using run_step [OF run_step [OF run_step [OF run_step [OF run_step [OF run_step [OF run_start p1] p2] p3] p4] p5] p6] by simp
  with pool_fifo [OF r] show ?thesis by (intro exI [of _ ?p]) simp
qed

text \<open>After a stop the workers leave only when the queue is empty: every queued task has been started by then.\<close>

lemma pool_drained:
  assumes "pool_run (pool_init zero cfg) es p" "pool_step p Worker_Exit p'"
  shows "started es = queued es"
  using pool_run_inv [OF assms(1)] assms(2) by (auto simp: pool_ring_def elim: pool_step_elims)

end
