(* ===== verification/Sso_Lifecycle.thy ===== *)
theory Sso_Lifecycle
  imports Handlers_Admin
begin

text \<open>
  The start and the end of a service, \<^verbatim>\<open>src/sso.c\<close>, and the first data of \<^verbatim>\<open>src/main.c\<close>. What the start takes from
  outside is in a record: whether libsodium starts, what \<^verbatim>\<open>/dev/urandom\<close> yields, what the stack held before, the day of
  the year and twelve more random bytes. Allocation always succeeds.
\<close>

record boot =
  bt_sodium :: bool
  bt_urandom :: "char list option"
  bt_stack :: "char list"
  bt_yday :: "int option"
  bt_random12 :: "char list option"

abbreviation SSO_SECRET_BYTES :: nat where
  "SSO_SECRET_BYTES \<equiv> 32"

section \<open>The signing key\<close>

text \<open>A text as a key: cut or padded with zero bytes.\<close>

definition key_bytes :: "string \<Rightarrow> char list" where
  "key_bytes s = take SSO_SECRET_BYTES s @ replicate (SSO_SECRET_BYTES - length s) NUL"

definition le_bytes :: "timestamp \<Rightarrow> char list" where
  "le_bytes t = map (\<lambda>i. char_of (nat (t mod 2 ^ 64) div 256 ^ i mod 256 :: nat)) [0..<8]"

definition load_token_secret :: "env \<Rightarrow> boot \<Rightarrow> char list" where
  "load_token_secret E B =
     (let read = (case bt_urandom B of Some r \<Rightarrow> r | None \<Rightarrow> []);
          generated = (if length read = SSO_SECRET_BYTES then read
                       else le_bytes (ev_now E 0) @ drop 8 (read @ drop (length read) (bt_stack B)))
      in case ev_getenv E ''SSO_TOKEN_SECRET'' of
           Some s \<Rightarrow> if s \<noteq> [] then key_bytes s else generated
         | None \<Rightarrow> generated)"

definition pem_opt :: "string \<Rightarrow> string option" where
  "pem_opt s = (if s \<noteq> [] then Some s else None)"

text \<open>A private key that cannot be read is removed from the configuration, which makes the manager use a secret.\<close>

definition init_signing :: "env \<Rightarrow> boot \<Rightarrow> sso_config option \<Rightarrow> timestamp \<Rightarrow> sso_config option \<times> token_manager" where
  "init_signing E B config ttl =
     (let (cfg, mgr) =
            (case config of
               None \<Rightarrow> (None, zero_manager)
             | Some c \<Rightarrow>
                 if cf_private_key_pem c = [] then (Some c, zero_manager)
                 else let (err, m) = token_manager_init_rs256 (ev_crypto E) (Some (cf_private_key_pem c)) (pem_opt (cf_public_key_pem c))
                            ttl zero_manager
                      in (Some (if err = SSO_OK then c else c\<lparr>cf_private_key_pem := []\<rparr>), m))
      in case cfg of
           None \<Rightarrow> (cfg, snd (token_manager_init (Some (load_token_secret E B)) ttl mgr))
         | Some c \<Rightarrow>
             if cf_private_key_pem c \<noteq> [] then (cfg, mgr)
             else (cfg, snd (token_manager_init
                     (Some (if cf_token_secret c \<noteq> [] then key_bytes (cf_token_secret c) else load_token_secret E B)) ttl mgr)))"

definition init_standby_key :: "env \<Rightarrow> sso_config option \<Rightarrow> token_manager \<Rightarrow> token_manager" where
  "init_standby_key E config mgr =
     (case config of
        None \<Rightarrow> mgr
      | Some c \<Rightarrow>
          if cf_private_key_pem_2 c \<noteq> []
          then snd (token_manager_init_rs256_standby (ev_crypto E) mgr (Some (cf_private_key_pem_2 c)) (pem_opt (cf_public_key_pem_2 c)))
          else if cf_token_secret_2 c \<noteq> [] then snd (token_manager_init_standby mgr (Some (key_bytes (cf_token_secret_2 c))))
          else mgr)"

definition wipe_keys :: "sso_config \<Rightarrow> sso_config" where
  "wipe_keys c = c\<lparr>cf_token_secret := [], cf_token_secret_2 := [], cf_private_key_pem := [], cf_private_key_pem_2 := []\<rparr>"

section \<open>Start and end\<close>

definition zero_context :: "'s \<Rightarrow> 's sso_context" where
  "zero_context st =
     \<lparr>storage_backend = None, store = st, user_mgr = None, role_mgr = False, group_mgr = False, policy_mgr = False,
      perm_engine = None, sso_config = None\<rparr>"

text \<open>The managers, created in order over the context so far; the first that fails ends the start.\<close>

definition create_managers ::
  "env \<Rightarrow> boot \<Rightarrow> 's sso_context \<Rightarrow> audit_state \<Rightarrow> sso_error \<times> 's sso_context \<times> audit_state" where
  "create_managers E B ctx A =
     (let (err, um) = user_manager_create (ev_pwhash E) (Some ctx)
      in if err \<noteq> SSO_OK then (err, ctx, A)
         else let ctx1 = ctx\<lparr>user_mgr := um, role_mgr := True, group_mgr := True, policy_mgr := True\<rparr>;
                  (perr, eng, A1) = perm_engine_create (bt_yday B) (Some ctx1) A
              in if perr \<noteq> SSO_OK then (perr, ctx1, A1) else (SSO_OK, ctx1\<lparr>perm_engine := eng\<rparr>, A1))"

definition db_url :: "sso_config option \<Rightarrow> string" where
  "db_url config =
     (case config of None \<Rightarrow> ''sso_server.db'' | Some c \<Rightarrow> if cf_use_memory c then '':memory:'' else cf_database_url c)"

definition token_ttl :: "sso_config option \<Rightarrow> int" where
  "token_ttl config = (case config of Some c \<Rightarrow> if cf_token_ttl_ms c > 0 then cf_token_ttl_ms c else 3600000 | None \<Rightarrow> 3600000)"

definition limiter_size :: "sso_config option \<Rightarrow> nat" where
  "limiter_size config = (case config of Some c \<Rightarrow> if cf_max_ips c > 0 then nat (cf_max_ips c) else 10000 | None \<Rightarrow> 10000)"

text \<open>The end: every manager is released, the token manager after its keys are wiped, and the context is cleared. The
  first component is what the token manager's memory holds when it is returned.\<close>

definition sso_destroy :: "'s service \<Rightarrow> token_manager \<times> 's sso_context" where
  "sso_destroy sv = (token_manager_destroy (sv_tokens sv), zero_context (store (sv_ctx sv)))"

text \<open>The rest of the start once the storage is open.\<close>

definition boot_service ::
  "env \<Rightarrow> boot \<Rightarrow> 's storage_backend option \<Rightarrow> sso_config option \<Rightarrow> 's \<Rightarrow> 's service \<Rightarrow> sso_error \<times> 's service" where
  "boot_service E B storage config st g =
     (let (rerr, rl) = rate_limiter_create (limiter_size config);
          (cfg, mgr) = init_signing E B config (token_ttl config);
          mgr1 = (init_standby_key E cfg mgr)\<lparr>tm_storage := (storage \<noteq> None)\<rparr>;
          ctx = (zero_context st)\<lparr>storage_backend := storage, sso_config := map_option wipe_keys cfg\<rparr>;
          (err, ctx1, A) = create_managers E B ctx (sv_audit g);
          sv = g\<lparr>sv_ctx := ctx1, sv_tokens := mgr1, sv_limiter := rl, sv_audit := A\<rparr>
      in if rerr \<noteq> SSO_OK then (rerr, g\<lparr>sv_ctx := zero_context st\<rparr>)
         else if err \<noteq> SSO_OK then (err, sv\<lparr>sv_tokens := fst (sso_destroy sv), sv_ctx := snd (sso_destroy sv)\<rparr>)
         else (SSO_OK, sv))"

text \<open>The tables of the risk engine, the heap and the audit log's variables are global: they come with \<open>g\<close>. A start that
  fails before the storage is open leaves a context with nothing but the configuration.\<close>

definition sso_init ::
  "env \<Rightarrow> boot \<Rightarrow> 's storage_backend option \<Rightarrow> sso_config option \<Rightarrow> 's service \<Rightarrow> sso_error \<times> 's service" where
  "sso_init E B storage config g =
     (let st = store (sv_ctx g); bare = (zero_context st)\<lparr>sso_config := config\<rparr>
      in if \<not> bt_sodium B then (SSO_ERR_INIT, g\<lparr>sv_ctx := bare\<rparr>)
         else case Option.bind storage sb_open of
                None \<Rightarrow> boot_service E B storage config st g
              | Some f \<Rightarrow>
                  (let (err, st1) = f st (db_url config)
                   in if err \<noteq> SSO_OK then (err, g\<lparr>sv_ctx := bare\<lparr>store := st1\<rparr>\<rparr>)
                      else boot_service E B storage config st1 g))"

section \<open>The first data\<close>

definition admin_password_of :: "env \<Rightarrow> boot \<Rightarrow> string" where
  "admin_password_of E B =
     (let generated = snprintf 32 (''admin-'' @ concat (map hex_byte (take 4 (case bt_random12 B of
            Some r \<Rightarrow> r @ replicate (12 - length r) NUL | None \<Rightarrow> replicate 12 NUL))))
      in case ev_getenv E ''SSO_ADMIN_PASSWORD'' of Some p \<Rightarrow> if p \<noteq> [] then p else generated | None \<Rightarrow> generated)"

text \<open>The administrator with a generated or configured password; the role of that name comes from the seed file. The
  error is that of the creation; a missing role is only reported.\<close>

definition create_admin :: "env \<Rightarrow> boot \<Rightarrow> 's sso_context \<Rightarrow> sso_error \<times> 's sso_context" where
  "create_admin E B ctx =
     (let (err, u, ctx1) = user_create (ev_pwhash E) (ev_now E 0) ctx (user_mgr ctx) (Some ''admin'') (Some (admin_password_of E B))
            (Some ''admin@example.com'') (Some ''Admin'')
      in if err \<noteq> SSO_OK then (err, ctx1)
         else let (rerr, r) = role_get_by_name ctx1 (role_mgr ctx1) (Some ''admin'')
              in (SSO_OK, if rerr = SSO_OK then snd (role_assign_to_user ctx1 (role_mgr ctx1) (r_id (the r)) (u_id (the u))) else ctx1))"

definition seed_path :: "'s storage_backend \<Rightarrow> string" where
  "seed_path sb = snprintf 128 (''sql/'' @ (if sb_name sb \<noteq> [] then sb_name sb else ''sqlite'') @ ''/seed.sql'')"

definition bootstrap_data :: "env \<Rightarrow> boot \<Rightarrow> 's sso_context \<Rightarrow> sso_error \<times> 's sso_context" where
  "bootstrap_data E B ctx =
     (if fst (user_get_by_username ctx (user_mgr ctx) (Some ''admin'')) = SSO_OK then (SSO_OK, ctx)
      else case storage_backend ctx of
             None \<Rightarrow> create_admin E B ctx
           | Some sb \<Rightarrow>
               (case sb_exec_sql_file sb of
                  None \<Rightarrow> create_admin E B ctx
                | Some f \<Rightarrow>
                    (let (err, st) = f (store ctx) (seed_path sb); ctx1 = ctx\<lparr>store := st\<rparr>
                     in if err \<noteq> SSO_OK then (err, ctx1) else create_admin E B ctx1)))"

end
