(* ===== verification/Handlers_Check.thy ===== *)
theory Handlers_Check
  imports Service
begin

text \<open>
  The handlers of \<^verbatim>\<open>src/handlers_check.c\<close>: one endpoint per strategy that calls the one-shot check, and the endpoint
  \<^verbatim>\<open>/api/v1/check\<close> that fills one evaluation context with every parameter of the body.
\<close>

text \<open>The user a check is about: the one the body names, otherwise the caller.\<close>

definition check_user_id :: "http_request \<Rightarrow> sso_id" where
  "check_user_id req =
     (let uid = word_of_int (json_int_value (rq_body req) ''user_id'' 0)
      in if uid \<noteq> 0 then uid else case rq_userdata req of Some auth \<Rightarrow> u_id (au_user auth) | None \<Rightarrow> 0)"

type_synonym 's check_fn =
  "libs \<Rightarrow> hmac_fn \<Rightarrow> os_view \<Rightarrow> 64 word \<Rightarrow> 64 word \<Rightarrow> 's sso_context \<Rightarrow> sso_id \<Rightarrow> bool \<Rightarrow> heap \<Rightarrow> audit_state \<Rightarrow> 's checked option"

text \<open>The common end of the endpoints: a user, the check, its result as text.\<close>

definition set_checked :: "'s service \<Rightarrow> heap \<Rightarrow> 's sso_context \<Rightarrow> audit_state \<Rightarrow> 's service" where
  "set_checked sv h ctx A = sv\<lparr>sv_heap := h, sv_ctx := ctx, sv_audit := A\<rparr>"

definition now64 :: "env \<Rightarrow> nat \<Rightarrow> 64 word" where
  "now64 E k = word_of_int (ev_now E k)"

definition check_and_reply ::
  "env \<Rightarrow> 's service \<Rightarrow> http_request \<Rightarrow> http_response \<Rightarrow> 's check_fn \<Rightarrow> (bool \<Rightarrow> sso_id \<Rightarrow> string) \<Rightarrow> 's handled" where
  "check_and_reply E sv req resp check body =
     (let uid = check_user_id req
      in if uid = 0 then reply sv resp 400 ''user_id or authentication required''
         else do {
           (err, allowed, h, ctx, A) \<leftarrow>
             check (ev_libs E) (ev_hmac E) (ev_os E) (now64 E 0) (now64 E 1) (sv_ctx sv) uid False (sv_heap sv) (sv_audit sv);
           let sv1 = set_checked sv h ctx A;
           if err \<noteq> SSO_OK then reply sv1 resp 500 (sso_strerror err) else reply_ok sv1 resp (body allowed uid)
         })"

definition handle_check_functional :: "'s handler" where
  "handle_check_functional E sv req resp =
     (if rq_body req = None then reply sv resp 400 ''Request body required''
      else let (function_code, req1) = req_json_str_value (ev_json E) req ''function_code''
           in if function_code = None then reply sv resp 400 ''function_code required''
              else check_and_reply E sv req1 resp
                     (\<lambda>L hm os now later ctx uid. perm_check_function L hm os now later ctx uid function_code)
                     (\<lambda>allowed uid. snprintf 512 (jobj [(''allowed'', jbool allowed), (''user_id'', jid uid),
                        (''function'', dquote (strlcpy (the function_code) 64))])))"

definition handle_check_api :: "'s handler" where
  "handle_check_api E sv req resp =
     (if rq_body req = None then reply sv resp 400 ''Request body required''
      else let (meth, req1) = req_json_str_value (ev_json E) req ''method'';
               (path, req2) = req_json_str_value (ev_json E) req1 ''path''
           in if meth = None \<or> path = None then reply sv resp 400 ''method and path required''
              else check_and_reply E sv req2 resp
                     (\<lambda>L hm os now later ctx uid. perm_check_api L hm os now later ctx uid meth path)
                     (\<lambda>allowed uid. snprintf 512 (jobj [(''allowed'', jbool allowed), (''user_id'', jid uid)])))"

text \<open>The fields of the filter, appended one by one to the 2048 bytes of the reply.\<close>

definition fields_text :: "string list \<Rightarrow> nat \<times> string \<Rightarrow> (nat \<times> string) option" where
  "fields_text fs ob = do {
     ob1 \<leftarrow> snprintf_at 2048 ob '',\"fields\":['';
     ob2 \<leftarrow> fold_opt (\<lambda>(i, f) b. snprintf_at 2048 b ((if i > 0 then '','' else []) @ dquote f)) (enumerate 0 fs) ob1;
     snprintf_at 2048 ob2 '']''
   }"

definition check_data_text :: "heap \<Rightarrow> bool \<Rightarrow> sso_id \<Rightarrow> (ptr \<times> 64 word) option \<Rightarrow> string option" where
  "check_data_text h allowed uid filt = do {
     let start = ''{\"allowed\":'' @ jbool allowed @ '',\"user_id\":'' @ jid uid;
     ob \<leftarrow> (case filt of
               Some (p, n) \<Rightarrow>
                 if p \<noteq> 0 \<and> n > 0
                 then do {
                   fs \<leftarrow> h_arr h p;
                   if unat n \<le> length fs then fields_text (take (unat n) fs) (length start, take 2047 start) else None
                 }
                 else Some (length start, take 2047 start)
             | None \<Rightarrow> Some (length start, take 2047 start));
     (_, t) \<leftarrow> snprintf_at 2048 ob ''}'';
     Some t
   }"

definition handle_check_data :: "'s handler" where
  "handle_check_data E sv req resp =
     (if rq_body req = None then reply sv resp 400 ''Request body required''
      else let (resource_type, req1) = req_json_str_value (ev_json E) req ''resource_type'';
               (record_json, req2) = req_json_str_value (ev_json E) req1 ''record'';
               uid = check_user_id req2
           in if resource_type = None then reply sv resp 400 ''resource_type required''
              else if uid = 0 then reply sv resp 400 ''user_id or authentication required''
              else do {
                ((err, allowed, h, ctx, A), filt) \<leftarrow>
                  perm_check_data (ev_libs E) (ev_hmac E) (ev_os E) (now64 E 0) (now64 E 1) (sv_ctx sv) uid resource_type
                    record_json False True (sv_heap sv) (sv_audit sv);
                let sv1 = set_checked sv h ctx A;
                if err \<noteq> SSO_OK then reply sv1 resp 500 (sso_strerror err)
                else do {
                  t \<leftarrow> check_data_text h allowed uid filt;
                  reply_ok sv1 resp t
                }
              })"

definition handle_check_rbac :: "'s handler" where
  "handle_check_rbac E sv req resp =
     (if rq_body req = None then reply sv resp 400 ''Request body required''
      else let (role_name, req1) = req_json_str_value (ev_json E) req ''role_name''
           in if role_name = None then reply sv resp 400 ''role_name required''
              else check_and_reply E sv req1 resp
                     (\<lambda>L hm os now later ctx uid. perm_check_rbac L hm os now later ctx uid role_name)
                     (\<lambda>allowed uid. snprintf 512 (jobj [(''allowed'', jbool allowed), (''user_id'', jid uid),
                        (''role'', dquote (the role_name))])))"

definition handle_check_location :: "'s handler" where
  "handle_check_location E sv req resp =
     (if rq_body req = None then reply sv resp 400 ''Request body required''
      else let (source_ip, req1) = req_json_str_value (ev_json E) req ''source_ip'';
               (geo_country, req2) = req_json_str_value (ev_json E) req1 ''geo_country''
           in if source_ip = None then reply sv resp 400 ''source_ip required''
              else check_and_reply E sv req2 resp
                     (\<lambda>L hm os now later ctx uid. perm_check_location L hm os now later ctx uid source_ip geo_country)
                     (\<lambda>allowed uid. snprintf 512 (jobj [(''allowed'', jbool allowed), (''user_id'', jid uid),
                        (''source_ip'', dquote (the source_ip))])))"

definition handle_check_lbac :: "'s handler" where
  "handle_check_lbac E sv req resp =
     (if rq_body req = None then reply sv resp 400 ''Request body required''
      else let (user_labels, req1) = req_json_str_value (ev_json E) req ''user_labels'';
               (resource_label, req2) = req_json_str_value (ev_json E) req1 ''resource_label''
           in if user_labels = None \<or> resource_label = None then reply sv resp 400 ''user_labels and resource_label required''
              else check_and_reply E sv req2 resp
                     (\<lambda>L hm os now later ctx uid. perm_check_lbac L hm os now later ctx uid user_labels resource_label)
                     (\<lambda>allowed uid. snprintf 512 (jobj [(''allowed'', jbool allowed), (''user_id'', jid uid),
                        (''user_labels'', dquote (the user_labels)), (''resource_label'', dquote (the resource_label))])))"

definition handle_check_abac :: "'s handler" where
  "handle_check_abac E sv req resp =
     (if rq_body req = None then reply sv resp 400 ''Request body required''
      else let (subject_attrs, req1) = req_json_str_value (ev_json E) req ''subject_attrs'';
               (resource_attrs, req2) = req_json_str_value (ev_json E) req1 ''resource_attrs'';
               (action_str, req3) = req_json_str_value (ev_json E) req2 ''action''
           in check_and_reply E sv req3 resp
                (\<lambda>L hm os now later ctx uid. perm_check_abac L hm os now later ctx uid subject_attrs resource_attrs action_str)
                (\<lambda>allowed uid. snprintf 1024 (jobj [(''allowed'', jbool allowed), (''user_id'', jid uid)])))"

section \<open>The general check\<close>

text \<open>The parameters of all strategies share one union: each text is written over those before it. The record is a pointer
  into the request's arena, here a string of the heap.\<close>

fun req_json_strs :: "json_env \<Rightarrow> http_request \<Rightarrow> string list \<Rightarrow> (string \<Rightarrow> string option) \<times> http_request" where
  "req_json_strs J req [] = (Map.empty, req)"
| "req_json_strs J req (k # ks) =
     (let (v, req1) = req_json_str_value J req k; (m, req2) = req_json_strs J req1 ks in (m(k := v), req2))"

definition check_values :: "json_env \<Rightarrow> http_request \<Rightarrow> string \<Rightarrow> string option" where
  "check_values J req =
     (let (v1, req1) = req_json_strs J req [''function_code'', ''api_method'', ''api_path'', ''resource_type''];
          (v2, req2) = req_json_strs J req1 (if v1 ''resource_type'' = None then [] else [''record'']);
          (v3, req3) = req_json_strs J req2 [''role_name'', ''source_ip'', ''lbac_user_labels'', ''lbac_resource_label'',
            ''abac_subject_attrs'', ''abac_resource_attrs'', ''abac_action'', ''environment'']
      in v1 ++ v2 ++ v3)"

definition fill_check_params :: "(string \<Rightarrow> string option) \<Rightarrow> char list \<Rightarrow> heap \<Rightarrow> char list \<times> heap" where
  "fill_check_params val b h =
     (let b1 = put_opt OFF_FUNCTION_CODE 128 (val ''function_code'') b;
          b2 = (case (val ''api_method'', val ''api_path'') of
                  (Some m, Some p) \<Rightarrow> put_str OFF_REQUEST_PATH 1024 p (put_str OFF_HTTP_METHOD 8 m b1)
                | _ \<Rightarrow> b1);
          (b3, h1) = (case val ''resource_type'' of
                        None \<Rightarrow> (b2, h)
                      | Some rt \<Rightarrow>
                          (case val ''record'' of
                             None \<Rightarrow> (put_str OFF_RESOURCE_TYPE 64 rt b2, h)
                           | Some r \<Rightarrow> (let (p, h') = heap_strdup r h
                                        in (put_word OFF_RECORD p (put_str OFF_RESOURCE_TYPE 64 rt b2), h'))));
          b4 = put_opt OFF_ROLE_NAME 64 (val ''role_name'') b3;
          b5 = put_opt OFF_SOURCE_IP 64 (val ''source_ip'') b4;
          b6 = (case (val ''lbac_user_labels'', val ''lbac_resource_label'') of
                  (Some ul, Some rl) \<Rightarrow> put_str OFF_RESOURCE_LABEL 64 rl (put_str OFF_USER_LABELS 256 ul b5)
                | _ \<Rightarrow> b5)
      in (put_opt OFF_ACTION 64 (val ''abac_action'') (put_opt OFF_RESOURCE_ATTRS 2048 (val ''abac_resource_attrs'')
            (put_opt OFF_SUBJECT_ATTRS 2048 (val ''abac_subject_attrs'') b6)), h1))"

definition filter_text :: "heap \<Rightarrow> eval_context \<Rightarrow> string option" where
  "filter_text h ec =
     (let n = unat (word_at OFF_FIELD_FILTER_COUNT (params ec))
      in if n = 0 then Some ''[]''
         else do {
           fs \<leftarrow> h_arr h (word_at OFF_FIELD_FILTER (params ec));
           if n > length fs then None
           else let t = fold (\<lambda>(i, f) b. b @ take (1023 - length b) (snprintf 128 (dquote f @ (if i < n - 1 then '','' else []))))
                          (enumerate 0 (take n fs)) ''[''
                in strcat_buf 1024 t '']''
         })"

text \<open>After the reply the handler frees the record, which is arena memory or a piece of another strategy's text: undefined
  whenever the pointer is not NULL.\<close>

definition check_permission_reply ::
  "'s service \<Rightarrow> http_response \<Rightarrow> bool \<Rightarrow> string option \<Rightarrow> eval_context \<Rightarrow> 's handled" where
  "check_permission_reply sv resp allowed trace ec = do {
     fields \<leftarrow> filter_text (sv_heap sv) ec;
     if word_at OFF_RECORD (params ec) \<noteq> 0 then None
     else do {
       (_, h) \<leftarrow> (if trace = None then Some (ec, sv_heap sv) else eval_context_destroy ec (sv_heap sv));
       reply_ok (sv\<lparr>sv_heap := h\<rparr>) resp
         (snprintf 8192 (jobj [(''allowed'', jbool allowed), (''allowed_fields'', fields),
            (''trace'', dquote (escape esc_trace 4096 trace))]))
     }
   }"

definition handle_check_permission :: "'s handler" where
  "handle_check_permission E sv req resp =
     (if rq_body req = None then reply sv resp 400 ''Request body required''
      else let uid = check_user_id req
           in if uid = 0 then reply sv resp 400 ''user_id or authentication required''
              else let (uerr, u) = user_get_by_id (sv_ctx sv) (sv_users sv) uid
                   in if uerr \<noteq> SSO_OK then reply sv resp 404 ''User not found''
                      else do {
                        ec \<leftarrow> snd (eval_context_init True u);
                        let val = check_values (ev_json E) req;
                        let (b, h) = fill_check_params val (params ec) (sv_heap sv);
                        let ec1 = ec\<lparr>params := b, environment := (case val ''environment'' of Some t \<Rightarrow> strlcpy t 2048 | None \<Rightarrow> [])\<rparr>;
                        (err, allowed, trace, ec2, h2, ctx, A) \<leftarrow>
                          perm_engine_evaluate (ev_libs E) (ev_hmac E) (ev_os E) (now64 E 0) (now64 E 1) (sv_ctx sv) (Some ec1)
                            False True h (sv_audit sv);
                        c \<leftarrow> ec2;
                        let sv1 = set_checked sv h2 ctx A;
                        if err \<noteq> SSO_OK
                        then if word_at OFF_RECORD (params c) \<noteq> 0 \<and> trace \<noteq> None then None
                             else reply sv1 resp 500 ''Permission evaluation failed''
                        else check_permission_reply sv1 resp allowed trace c
                      })"

end
