(* ===== verification/Handlers_Pages.thy ===== *)
theory Handlers_Pages
  imports Service
begin

text \<open>
  The monitoring and documentation endpoints of \<^verbatim>\<open>src/handlers_pages.c\<close>: health, metrics, status, the audit log and
  two files. The values of the global counters and the text of a quotient of doubles are parameters.
\<close>

definition handle_health :: "'s handler" where
  "handle_health E sv req resp =
     (let db_ready = (case Option.bind (sv_backend sv) sb_user_list of
            None \<Rightarrow> False
          | Some f \<Rightarrow> fst (f (sv_store sv) None (-1) 0 0) \<in> {SSO_OK, SSO_ERR_NOT_FOUND})
      in reply_ok sv resp (snprintf 512 (jobj [(''status'', dquote ''ok''), (''service'', dquote ''sso''), (''version'', dquote ''1.1.0''),
           (''checks'', jobj [(''database'', jobj [(''status'', dquote (if db_ready then ''ready'' else ''unavailable''))])])])))"

text \<open>Prometheus text: help, type and value of each counter. A line is a counter with its labels and value.\<close>

definition metric :: "string \<Rightarrow> string \<Rightarrow> string \<Rightarrow> (string \<times> string) list \<Rightarrow> string" where
  "metric name help kind vals =
     ''# HELP '' @ name @ '' '' @ help @ [CHR 0x0A] @ ''# TYPE '' @ name @ '' '' @ kind @ [CHR 0x0A] @
     concat (map (\<lambda>(lab, v). name @ lab @ '' '' @ v @ [CHR 0x0A]) vals)"

definition label :: "string \<Rightarrow> string \<Rightarrow> string" where
  "label k v = ''{'' @ k @ ''='' @ dquote v @ ''}''"

definition counters_text :: "env \<Rightarrow> string" where
  "counters_text E =
     (let c = ev_counters E; avg = (\<lambda>us n. if n > 0 then ev_fixed E us n else ev_fixed E 0 1)
      in metric ''sso_active_connections'' ''Active HTTP connections currently being processed'' ''gauge''
           [([], sdec (active_connections c))] @
         metric ''sso_mfa_verifications_total'' ''Total MFA verification attempts'' ''counter''
           [(label ''result'' ''success'', dec (mfa_success c)), (label ''result'' ''failure'', dec (mfa_failure c))] @
         metric ''sso_jwt_tokens_total'' ''Total JWT tokens processed'' ''counter''
           [(label ''action'' ''issue'', dec (jwt_issue c)), (label ''action'' ''revoke'', dec (jwt_revoke c))] @
         metric ''sso_db_queries_total'' ''Total number of database queries executed'' ''counter''
           [(label ''type'' ''read'', dec (db_read_count c)), (label ''type'' ''write'', dec (db_write_count c))] @
         metric ''sso_db_query_duration_seconds_total'' ''Cumulative database query execution duration in seconds'' ''counter''
           [(label ''type'' ''read'', ev_fixed E (db_read_duration_us c) 1), (label ''type'' ''write'', ev_fixed E (db_write_duration_us c) 1)] @
         metric ''sso_db_query_duration_seconds_avg'' ''Average database query duration in seconds'' ''gauge''
           [(label ''type'' ''read'', avg (db_read_duration_us c) (db_read_count c)),
            (label ''type'' ''write'', avg (db_write_duration_us c) (db_write_count c))] @
         metric ''sso_arena_allocated_blocks_total'' ''Total number of memory blocks allocated in Arenas'' ''gauge''
           [([], dec (arena_blocks c))])"

definition handle_metrics :: "'s handler" where
  "handle_metrics E sv req resp =
     (let (err, buf) = perm_engine_get_metrics (perm_engine (sv_ctx sv)) 2048
      in if err \<noteq> SSO_OK then reply sv resp 500 ''Failed to retrieve metrics''
         else Some (SSO_OK, resp\<lparr>rs_status_code := 200, rs_body := Some (snprintf 8192 (the buf @ counters_text E)),
                rs_content_type := ''text/plain; version=0.0.4; charset=utf-8''\<rparr>, sv))"

text \<open>One variable takes both the number of ids on the page and the number of users; the backends write the page's last.\<close>

definition handle_admin_status :: "'s handler" where
  "handle_admin_status E sv req resp =
     (let (err, ids, tot) = user_list (sv_ctx sv) (sv_users sv) None (-1) 0 0
      in reply_ok sv resp (snprintf 2048 (jobj [(''service'', dquote ''sso''), (''version'', dquote ''1.0.0''),
           (''users'', dec (if err = SSO_OK then length ids else 0)), (''uptime_ms'', jid (ev_mono E 0))])))"

section \<open>The audit log\<close>

record audit_filter =
  af_user :: sso_id
  af_limit :: int
  af_offset :: int

definition audit_param :: "audit_filter \<Rightarrow> string \<Rightarrow> audit_filter" where
  "audit_param F p =
     (if CHR ''='' \<notin> set p then F
      else let key = takeWhile (\<lambda>c. c \<noteq> CHR ''='') p; val = tl (dropWhile (\<lambda>c. c \<noteq> CHR ''='') p); v = atoi_int val
           in if key = ''user_id'' then F\<lparr>af_user := word_of_int (atol val)\<rparr>
              else if key = ''limit'' then (if 0 < v \<and> v \<le> 1000 then F\<lparr>af_limit := v\<rparr> else F)
              else if key = ''offset'' then (if v > 0 then F\<lparr>af_offset := v\<rparr> else F)
              else F)"

definition audit_params :: "http_request \<Rightarrow> audit_filter" where
  "audit_params req =
     (let F = \<lparr>af_user = SSO_ID_NONE, af_limit = 100, af_offset = 0\<rparr>
      in case rq_query_params req of None \<Rightarrow> F | Some ps \<Rightarrow> foldl audit_param F ps)"

text \<open>\<^verbatim>\<open>fgets\<close> with a buffer of \<open>n + 1\<close> bytes until the file ends.\<close>

function fgets_lines :: "nat \<Rightarrow> string \<Rightarrow> string list" where
  "fgets_lines n s =
     (if s = [] \<or> n = 0 then []
      else let l = takeWhile (\<lambda>c. c \<noteq> CHR 0x0A) (take n s); k = (if length l < length (take n s) then length l + 1 else length l)
           in take k s # fgets_lines n (drop k s))"
  by pat_completeness auto
termination
proof (relation "measure (\<lambda>(_, s). length s)", goal_cases)
  case (2 n s l k)
  have "0 < k"
  proof (cases "length l < length (take n s)")
    case False
    with 2 have "l = take n s" by (metis nat_less_le length_takeWhile_le takeWhile_eq_all_conv takeWhile_eq_take take_all_iff)
    with 2 False show ?thesis by simp
  qed (use 2 in simp)
  with 2 show ?case by simp
qed simp

declare fgets_lines.simps [simp del]

text \<open>The buffer has 4096 bytes of the arena; when it is full the code hands it to \<^verbatim>\<open>realloc\<close>, which is undefined.\<close>

fun audit_lines :: "audit_filter \<Rightarrow> string list \<Rightarrow> nat \<Rightarrow> nat \<Rightarrow> string \<Rightarrow> string option" where
  "audit_lines F [] k m out = Some (out @ '']'')"
| "audit_lines F (l # ls) k m out =
     (if int (k + 1) \<le> af_offset F then audit_lines F ls (k + 1) m out
      else if af_user F \<noteq> SSO_ID_NONE \<and> strstr (cstr l) (snprintf 32 (''\"user_id\":'' @ jid (af_user F))) = None
      then audit_lines F ls (k + 1) m out
      else let t = takeWhile (\<lambda>c. c \<noteq> CHR 0x0A) (cstr l); out' = out @ (if m > 0 then '','' else []) @ t
           in if length out + length t + 3 > 4096 then None
              else if int (m + 1) \<ge> af_limit F then Some (out' @ '']'')
              else audit_lines F ls (k + 1) (m + 1) out')"

definition audit_file :: "'s service \<Rightarrow> string option" where
  "audit_file sv =
     s_files (sv_audit sv) (case sso_config (sv_ctx sv) of
       Some cfg \<Rightarrow> if cf_audit_log_path cfg \<noteq> [] then cf_audit_log_path cfg else ''audit.log''
     | None \<Rightarrow> ''audit.log'')"

definition handle_list_audit_logs :: "'s handler" where
  "handle_list_audit_logs E sv req resp =
     (let F = audit_params req
      in case Option.bind (Option.bind (sv_backend sv) sb_audit_log_list)
                (\<lambda>f. let (err, j) = f (sv_store sv) (af_user F) (af_offset F) (af_limit F) in if err = SSO_OK then j else None) of
           Some j \<Rightarrow> reply_ok sv resp j
         | None \<Rightarrow>
             (case audit_file sv of
                None \<Rightarrow> reply_ok sv resp ''[]''
              | Some content \<Rightarrow> do {
                  t \<leftarrow> audit_lines F (fgets_lines 10239 content) 0 0 ''['';
                  reply_ok sv resp t
                }))"

section \<open>Documentation\<close>

definition serve_file :: "env \<Rightarrow> 's service \<Rightarrow> http_response \<Rightarrow> string \<Rightarrow> string \<Rightarrow> string \<Rightarrow> 's handled" where
  "serve_file E sv resp path missing ctype =
     (case ev_files E path of
        None \<Rightarrow> reply sv resp 404 missing
      | Some content \<Rightarrow> Some (SSO_OK, resp\<lparr>rs_status_code := 200, rs_body := Some content, rs_content_type := ctype\<rparr>, sv))"

definition handle_swagger_ui :: "'s handler" where
  "handle_swagger_ui E sv req resp =
     serve_file E sv resp ''docs/swagger-ui.html'' ''Swagger UI template not found'' ''text/html; charset=utf-8''"

definition handle_openapi_yaml :: "'s handler" where
  "handle_openapi_yaml E sv req resp =
     serve_file E sv resp ''docs/openapi.yaml'' ''openapi.yaml not found'' ''application/yaml; charset=utf-8''"

end
