(* ===== verification/Webauthn.thy ===== *)
theory Webauthn
  imports Token_Manager Json_Reader
begin

text \<open>
  Verification of passkeys, \<^verbatim>\<open>src/webauthn.c\<close>: base64url, the search for the authenticator data and the key in the CBOR
  of an attestation, and the two ceremonies. OpenSSL writes the public key as PEM (\<open>pem\<close>), reads it and checks the
  signature (the record of \<open>Token_Manager\<close>). \<open>None\<close> is undefined behaviour: a read past the end of a buffer.
\<close>

section \<open>Base64url\<close>

fun b64u_encode :: "char list \<Rightarrow> string" where
  "b64u_encode [] = []"
| "b64u_encode [a] = map ((!) b64url_table) (take 2 (b64_sextets (of_char a) 0 0))"
| "b64u_encode [a, b] = map ((!) b64url_table) (take 3 (b64_sextets (of_char a) (of_char b) 0))"
| "b64u_encode (a # b # c # rest) =
     map ((!) b64url_table) (b64_sextets (of_char a) (of_char b) (of_char c)) @ b64u_encode rest"

text \<open>Characters outside the alphabet are skipped, an equals sign ends the text.\<close>

fun b64u_decode_loop :: "nat \<Rightarrow> nat \<Rightarrow> string \<Rightarrow> char list" where
  "b64u_decode_loop bits n [] =
     (if n = 2 then [char_of (drop_bit 4 bits)]
      else if n = 3 then [char_of (drop_bit 10 bits), char_of (drop_bit 2 bits)]
      else [])"
| "b64u_decode_loop bits n (ch # s) =
     (if ch = CHR ''='' then b64u_decode_loop bits n []
      else case b64url_rev ch of
             None \<Rightarrow> b64u_decode_loop bits n s
           | Some c \<Rightarrow>
               (let bits' = push_bit 6 bits OR c
                in if n = 3
                   then char_of (drop_bit 16 bits') # char_of (drop_bit 8 bits') # char_of bits' # b64u_decode_loop 0 0 s
                   else b64u_decode_loop bits' (n + 1) s))"

definition b64u_decode :: "string \<Rightarrow> char list" where
  "b64u_decode s = b64u_decode_loop 0 0 s"

definition webauthn_generate_challenge :: "char list \<Rightarrow> string" where
  "webauthn_generate_challenge rnd = b64u_encode (take 32 rnd)"

section \<open>The attestation\<close>

definition auth_data_key :: "char list" where
  "auth_data_key = CHR 0x68 # ''authData''"

text \<open>The byte string at the start: \<open>Inl\<close> says whether the search goes on, \<open>Inr\<close> is the content.\<close>

definition cbor_bytes :: "char list \<Rightarrow> bool + char list" where
  "cbor_bytes s =
     (let h = of_char (hd s) :: nat; val = h mod 32; r = tl s
      in if h div 32 \<noteq> 2 then Inl True
         else case (if val < 24 then Some (val, r)
                    else if val = 24 \<and> r \<noteq> [] then Some (of_char (hd r), tl r)
                    else if val = 25 \<and> length r \<ge> 2 then Some (256 * of_char (hd r) + of_char (hd (tl r)), tl (tl r))
                    else None) of
                None \<Rightarrow> Inl False
              | Some (n, d) \<Rightarrow> if n \<le> length d then Inr (take n d) else Inl True)"

fun find_auth_loop :: "char list \<Rightarrow> char list option" where
  "find_auth_loop [] = None"
| "find_auth_loop (c # s) =
     (if length (c # s) \<le> 9 then None
      else if take 9 (c # s) = auth_data_key
      then (case cbor_bytes (drop 9 (c # s)) of Inr d \<Rightarrow> Some d | Inl go \<Rightarrow> if go then find_auth_loop s else None)
      else find_auth_loop s)"

definition find_auth_data :: "char list \<Rightarrow> char list option option" where
  "find_auth_data cbor = (if length cbor < 9 then None else Some (find_auth_loop cbor))"

text \<open>The last coordinate with the given label that has 32 bytes after it.\<close>

fun cose_coord :: "char \<Rightarrow> char list \<Rightarrow> char list option" where
  "cose_coord k [] = None"
| "cose_coord k (c # s) =
     (if length (c # s) \<le> 34 then None
      else case cose_coord k s of
             Some x \<Rightarrow> Some x
           | None \<Rightarrow> if take 3 (c # s) = [k, CHR 0x58, CHR 0x20] then Some (take 32 (drop 3 (c # s))) else None)"

definition extract_cose_ec2_key :: "(char list \<Rightarrow> char list \<Rightarrow> string) \<Rightarrow> char list \<Rightarrow> (sso_error \<times> string option) option" where
  "extract_cose_ec2_key pem s =
     (if length s < 34 then None
      else Some (case (cose_coord (CHR 0x21) s, cose_coord (CHR 0x22) s) of
                   (Some x, Some y) \<Rightarrow> (SSO_OK, Some (pem x y))
                 | _ \<Rightarrow> (SSO_ERR_TOKEN_INVALID, None)))"

definition verify_client_data :: "(string \<Rightarrow> dbl option) \<Rightarrow> char list \<Rightarrow> string \<Rightarrow> string \<Rightarrow> sso_error" where
  "verify_client_data D raw challenge origin =
     (case yyjson_read_opts D raw of
        None \<Rightarrow> SSO_ERR_INVALID_PARAM
      | Some d \<Rightarrow>
          if yyjson_get_str (yyjson_obj_get (Some d) ''challenge'') = Some challenge \<and>
             yyjson_get_str (yyjson_obj_get (Some d) ''origin'') = Some origin
          then SSO_OK else SSO_ERR_AUTH_FAILED)"

section \<open>The two ceremonies\<close>

text \<open>Result: error, credential id, public key.\<close>

definition parse_auth_data ::
  "(char list \<Rightarrow> char list \<Rightarrow> string) \<Rightarrow> char list \<Rightarrow> (sso_error \<times> string option \<times> string option) option" where
  "parse_auth_data pem d =
     (if length d < 37 \<or> \<not> bit (of_char (d ! 32) :: nat) 6 \<or> length d < 55 then Some (SSO_ERR_INVALID_PARAM, None, None)
      else let n = 256 * of_char (d ! 53) + of_char (d ! 54)
           in if 55 + n > length d then Some (SSO_ERR_INVALID_PARAM, None, None)
              else do {
                (err, key) \<leftarrow> extract_cose_ec2_key pem (drop (55 + n) d);
                Some (err, Some (b64u_encode (take n (drop 55 d))), key)
              })"

definition webauthn_register_verify ::
  "(string \<Rightarrow> dbl option) \<Rightarrow> (char list \<Rightarrow> char list \<Rightarrow> string) \<Rightarrow> string \<Rightarrow> string \<Rightarrow> string \<Rightarrow> string \<Rightarrow>
     (sso_error \<times> string option \<times> string option) option" where
  "webauthn_register_verify D pem attestation client_data challenge origin =
     (let err = verify_client_data D (b64u_decode client_data) challenge origin
      in if err \<noteq> SSO_OK then Some (err, None, None)
         else do {
           ad \<leftarrow> find_auth_data (b64u_decode attestation);
           (case ad of None \<Rightarrow> Some (SSO_ERR_INVALID_PARAM, None, None) | Some d \<Rightarrow> parse_auth_data pem d)
         })"

definition webauthn_login_verify ::
  "(string \<Rightarrow> dbl option) \<Rightarrow> crypto \<Rightarrow> (string \<Rightarrow> char list) \<Rightarrow> string \<Rightarrow> string \<Rightarrow> string \<Rightarrow> string \<Rightarrow> string \<Rightarrow> string \<Rightarrow> sso_error" where
  "webauthn_login_verify D cr sha auth_data client_data sig challenge origin public_key =
     (let cdata = b64u_decode client_data; err = verify_client_data D cdata challenge origin
      in if err \<noteq> SSO_OK then err
         else case cr_read_pub cr public_key of
                None \<Rightarrow> SSO_ERR_GENERAL
              | Some k \<Rightarrow>
                  if cr_verify_init cr k \<and> cr_verify cr k (b64u_decode auth_data @ sha cdata) (b64u_decode sig)
                  then SSO_OK else SSO_ERR_AUTH_FAILED)"

end
