(* ===== verification/Handlers_Webauthn.thy ===== *)
theory Handlers_Webauthn
  imports Webauthn Handlers_Auth
begin

text \<open>
  The passkey endpoints of \<^verbatim>\<open>src/handlers_webauthn.c\<close>. The server keeps no challenge: it signs it with the
  \<^verbatim>\<open>token_secret\<close> of the configuration and checks the signature when the challenge comes back.
\<close>

definition sign_challenge :: "env \<Rightarrow> 's service \<Rightarrow> string \<Rightarrow> string option" where
  "sign_challenge E sv challenge =
     map_option (\<lambda>cfg. concat (map hex_byte (take 32 (cr_hmac (ev_crypto E) (cf_token_secret cfg) challenge)))) (sso_config (sv_ctx sv))"

definition reply_json :: "'s service \<Rightarrow> http_response \<Rightarrow> jw \<Rightarrow> 's handled" where
  "reply_json sv resp v = do {
     t \<leftarrow> yyjson_mut_write v;
     reply_ok sv resp t
   }"

definition handle_webauthn_register_challenge :: "'s handler" where
  "handle_webauthn_register_challenge E sv req resp =
     (case rq_userdata req of
        None \<Rightarrow> reply sv resp 401 ''Authentication required''
      | Some auth \<Rightarrow> do {
          let challenge = webauthn_generate_challenge (ev_rnd32 E 0);
          sig \<leftarrow> sign_challenge E sv challenge;
          reply_json sv resp (JwObj [(''challenge'', JwStr challenge), (''challenge_sig'', JwStr sig),
            (''user_id'', JwUint (u_id (au_user auth))), (''username'', JwStr (username (au_user auth)))])
        })"

text \<open>The body is parsed from a copy here.\<close>

definition body_json :: "env \<Rightarrow> http_request \<Rightarrow> json option" where
  "body_json E req =
     Option.bind (rq_body req) (\<lambda>b. if rq_body_len req = 0 then None else yyjson_read_opts (js_num (ev_json E)) (take (rq_body_len req) b))"

definition expected_origin :: "http_request \<Rightarrow> string" where
  "expected_origin req = snprintf 512 (''http://'' @ rq_host req)"

text \<open>\<^verbatim>\<open>yyjson_mut_write\<close> of a document that was read before.\<close>

fun json_text :: "(dbl \<Rightarrow> string) \<Rightarrow> json \<Rightarrow> string option" and json_elems :: "(dbl \<Rightarrow> string) \<Rightarrow> json list \<Rightarrow> string option"
  and json_members :: "(dbl \<Rightarrow> string) \<Rightarrow> (string \<times> json) list \<Rightarrow> string option" where
  "json_text num JNull = Some ''null''"
| "json_text num (JBool b) = Some (if b then ''true'' else ''false'')"
| "json_text num (JNum d) = Some (num d)"
| "json_text num (JStr s) = write_str s"
| "json_text num (JArr vs) = map_option (\<lambda>t. CHR ''['' # butlast t @ [CHR '']'']) (json_elems num vs)"
| "json_text num (JObj ms) = map_option (\<lambda>t. CHR ''{'' # butlast t @ [CHR ''}'']) (json_members num ms)"
| "json_elems num [] = Some []"
| "json_elems num (v # vs) = do { t \<leftarrow> json_text num v; r \<leftarrow> json_elems num vs; Some (t @ CHR '','' # r) }"
| "json_members num [] = Some []"
| "json_members num ((k, v) # ms) = do {
     q \<leftarrow> write_str k; t \<leftarrow> json_text num v; r \<leftarrow> json_members num ms; Some (q @ CHR '':'' # t @ CHR '','' # r)
   }"

text \<open>The credentials are appended to the attributes. Attributes that are no document are lost, and the credentials with them.\<close>

definition add_credentials :: "env \<Rightarrow> string \<Rightarrow> string \<Rightarrow> string \<Rightarrow> string" where
  "add_credentials E attrs cred key =
     (let doc = (if attrs = [] then Some (JObj []) else yyjson_read_opts (js_num (ev_json E)) attrs);
          doc' = map_option (\<lambda>d. case d of
                   JObj ms \<Rightarrow> JObj (ms @ [(''webauthn_credential_id'', JStr cred), (''webauthn_public_key'', JStr key)])
                 | _ \<Rightarrow> d) doc
      in case Option.bind doc' (json_text (ev_num_text E)) of Some t \<Rightarrow> strlcpy t SSO_MAX_ATTRIBUTES | None \<Rightarrow> [])"

definition save_credentials :: "env \<Rightarrow> 's service \<Rightarrow> sso_id \<Rightarrow> string \<Rightarrow> string \<Rightarrow> 's service" where
  "save_credentials E sv uid cred key =
     (let (err, u) = user_get_by_id (sv_ctx sv) (sv_users sv) uid
      in if err \<noteq> SSO_OK \<or> u = None then sv
         else sv\<lparr>sv_ctx := snd (user_update (ev_now E 0) (sv_ctx sv) (sv_users sv)
                   (Some ((the u)\<lparr>attributes := add_credentials E (attributes (the u)) cred key\<rparr>)))\<rparr>)"

definition register_verified :: "env \<Rightarrow> 's service \<Rightarrow> http_request \<Rightarrow> http_response \<Rightarrow> auth_context \<Rightarrow> string \<Rightarrow> string \<Rightarrow> string \<Rightarrow> 's handled" where
  "register_verified E sv req resp auth challenge attestation client_data = do {
     (err, cred, key) \<leftarrow> webauthn_register_verify (js_num (ev_json E)) (ev_ec_pem E) attestation client_data challenge (expected_origin req);
     if err \<noteq> SSO_OK then reply sv resp 400 ''WebAuthn registration verification failed''
     else reply_json (save_credentials E sv (u_id (au_user auth)) (the cred) (the key)) resp
            (JwObj [(''message'', JwStr ''WebAuthn credentials registered successfully'')])
   }"

definition handle_webauthn_register :: "'s handler" where
  "handle_webauthn_register E sv req resp =
     (case rq_userdata req of
        None \<Rightarrow> reply sv resp 401 ''Authentication required''
      | Some auth \<Rightarrow>
          (case body_json E req of
             None \<Rightarrow> reply sv resp 400 ''Invalid JSON''
           | Some d \<Rightarrow>
               (let val = str_field (Some d);
                    challenge = val ''challenge''; sig = val ''challenge_sig'';
                    attestation = val ''attestation_object''; client_data = val ''client_data_json''
                in if challenge = None \<or> sig = None \<or> attestation = None \<or> client_data = None
                   then reply sv resp 400 ''Missing parameters''
                   else do {
                     expected \<leftarrow> sign_challenge E sv (the challenge);
                     if the sig \<noteq> expected then reply sv resp 400 ''Invalid challenge signature''
                     else register_verified E sv req resp auth (the challenge) (the attestation) (the client_data)
                   })))"

section \<open>Login\<close>

definition named_user :: "'s service \<Rightarrow> string \<Rightarrow> user option" where
  "named_user sv uname =
     (let (err, u) = user_get_by_username (sv_ctx sv) (sv_users sv) (Some uname)
      in if err \<noteq> SSO_OK \<or> u = None \<or> u_status (the u) \<noteq> USER_STATUS_ACTIVE then None else u)"

definition user_attribute :: "env \<Rightarrow> user \<Rightarrow> string \<Rightarrow> string option" where
  "user_attribute E u key =
     (if attributes u = [] then None else str_field (yyjson_read_opts (js_num (ev_json E)) (attributes u)) key)"

definition handle_webauthn_login_challenge :: "'s handler" where
  "handle_webauthn_login_challenge E sv req resp =
     (case body_json E req of
        None \<Rightarrow> reply sv resp 400 ''Invalid JSON''
      | Some d \<Rightarrow>
          (case str_field (Some d) ''username'' of
             None \<Rightarrow> reply sv resp 400 ''Missing username''
           | Some uname \<Rightarrow>
               (case named_user sv uname of
                  None \<Rightarrow> reply sv resp 401 ''User not found or inactive''
                | Some u \<Rightarrow>
                    (case user_attribute E u ''webauthn_credential_id'' of
                       None \<Rightarrow> reply sv resp 400 ''WebAuthn is not configured for this user''
                     | Some cred \<Rightarrow> do {
                         let challenge = webauthn_generate_challenge (ev_rnd32 E 0);
                         sig \<leftarrow> sign_challenge E sv challenge;
                         reply_json sv resp (JwObj [(''challenge'', JwStr challenge), (''challenge_sig'', JwStr sig),
                           (''credential_id'', JwStr cred)])
                       }))))"

text \<open>The tokens after a good assertion. The proof of possession is handed over unread, as if it were a thumbprint.\<close>

definition webauthn_issue :: "env \<Rightarrow> 's service \<Rightarrow> http_request \<Rightarrow> http_response \<Rightarrow> user \<Rightarrow> 's handled" where
  "webauthn_issue E sv req resp u = do {
     let rs = role_ids_of sv (u_id u);
     let gs = group_ids_of sv (u_id u);
     let dpop = (rq_dpop_proof req \<noteq> []);
     (_, access) \<leftarrow> sv_issue E 5 sv (u_id u) rs gs (Some ''*'') 0 (if dpop then Jkt (rq_dpop_proof req) else NoJkt);
     (_, refresh) \<leftarrow> sv_issue E 6 sv (u_id u) rs gs (Some ''refresh'') 604800000 NoJkt;
     reply_json sv resp (JwObj [(''access_token'', JwStr (tk_str access)), (''refresh_token'', JwStr (tk_str refresh)),
       (''token_type'', JwStr (if dpop then ''DPoP'' else ''Bearer'')),
       (''expires_in'', JwUint (word_of_int (tk_expires_at access - ev_now E 7)))])
   }"

definition webauthn_login_user ::
  "env \<Rightarrow> 's service \<Rightarrow> http_request \<Rightarrow> http_response \<Rightarrow> user \<Rightarrow> string \<Rightarrow> string \<Rightarrow> string \<Rightarrow> string \<Rightarrow> 's handled" where
  "webauthn_login_user E sv req resp u challenge auth_data client_data asig =
     (let ip = rq_client_ip req;
          (score, rk) = risk_evaluate_login (ev_fpu E) (ev_now E 1) (sv_risk sv) (u_id u) ip (rq_user_agent req);
          sv1 = sv\<lparr>sv_risk := rk\<rparr>
      in if score \<ge> RISK_SCORE_HIGH then reply (sv_record_risk E 2 sv1 (u_id u) ip) resp 401 ''High risk login blocked''
         else case user_attribute E u ''webauthn_public_key'' of
                None \<Rightarrow> reply sv1 resp 400 ''WebAuthn is not configured for this user''
              | Some key \<Rightarrow>
                  if webauthn_login_verify (js_num (ev_json E)) (ev_crypto E) (dp_sha256 (ev_dpop E)) auth_data client_data
                       asig challenge (expected_origin req) key \<noteq> SSO_OK
                  then reply (sv_record_risk E 3 sv1 (u_id u) ip) resp 401 ''WebAuthn authentication failed''
                  else webauthn_issue E
                         (sv1\<lparr>sv_risk := risk_record_login_success_with_ua (ev_now E 4) (sv_risk sv1) (u_id u) ip (rq_user_agent req),
                              sv_limiter := rate_limiter_reset (sv_limiter sv1) (Some ip)\<rparr>) req resp u)"

definition handle_webauthn_login :: "'s handler" where
  "handle_webauthn_login E sv req resp =
     (case body_json E req of
        None \<Rightarrow> reply sv resp 400 ''Invalid JSON''
      | Some d \<Rightarrow>
          (let val = str_field (Some d);
               uname = val ''username''; challenge = val ''challenge''; sig = val ''challenge_sig'';
               auth_data = val ''authenticator_data''; client_data = val ''client_data_json''; asig = val ''signature''
           in if None \<in> {uname, challenge, sig, auth_data, client_data, asig} then reply sv resp 400 ''Missing parameters''
              else do {
                expected \<leftarrow> sign_challenge E sv (the challenge);
                if the sig \<noteq> expected then reply sv resp 400 ''Invalid challenge signature''
                else case named_user sv (the uname) of
                       None \<Rightarrow> reply sv resp 401 ''User not found or inactive''
                     | Some u \<Rightarrow> webauthn_login_user E sv req resp u (the challenge) (the auth_data) (the client_data) (the asig)
              }))"

end
