(* ===== verification/Http_Server.thy ===== *)
theory Http_Server
  imports Http_Parser Thread_Pool Sso_Lifecycle Handlers_Check Handlers_Pages Oauth Handlers_Webauthn
begin

text \<open>
  The server of \<^verbatim>\<open>src/server.c\<close> with the routes of \<^verbatim>\<open>src/main.c\<close>: which context a host name selects, how a route is
  found, when a request is authenticated before its handler runs, and the bytes of the response. The four routes of the
  cluster are an argument. \<open>None\<close> is undefined behaviour.
\<close>

section \<open>Routes\<close>

datatype 's route = Route (rt_pattern: string) (rt_method: http_method) (rt_handler: "'s handler") (rt_auth: bool)

definition api_routes :: "'s route list" where
  "api_routes =
     [
      Route ''/metrics'' HTTP_GET handle_metrics False,
      Route ''/api/v1/health'' HTTP_GET handle_health False,
      Route ''/api/v1/admin/status'' HTTP_GET handle_admin_status True,
      Route ''/api/v1/docs'' HTTP_GET handle_swagger_ui False,
      Route ''/api/v1/docs/openapi.yaml'' HTTP_GET handle_openapi_yaml False,
      Route ''/api/v1/auth/login'' HTTP_POST handle_login False,
      Route ''/api/v1/auth/send_sms'' HTTP_POST handle_send_sms False,
      Route ''/api/v1/auth/login_by_sms'' HTTP_POST handle_login_by_sms False,
      Route ''/api/v1/auth/register'' HTTP_POST handle_register False,
      Route ''/api/v1/auth/mfa/setup'' HTTP_POST handle_mfa_setup True,
      Route ''/api/v1/auth/mfa/enable'' HTTP_POST handle_mfa_enable True,
      Route ''/api/v1/auth/mfa/verify'' HTTP_POST handle_mfa_verify False,
      Route ''/api/v1/auth/webauthn/register/challenge'' HTTP_POST handle_webauthn_register_challenge True,
      Route ''/api/v1/auth/webauthn/register'' HTTP_POST handle_webauthn_register True,
      Route ''/api/v1/auth/webauthn/login/challenge'' HTTP_POST handle_webauthn_login_challenge False,
      Route ''/api/v1/auth/webauthn/login'' HTTP_POST handle_webauthn_login False,
      Route ''/api/v1/auth/verify'' HTTP_GET handle_verify False,
      Route ''/api/v1/auth/verify'' HTTP_POST handle_verify False,
      Route ''/api/v1/auth/refresh'' HTTP_POST handle_refresh False,
      Route ''/api/v1/auth/logout'' HTTP_POST handle_logout True,
      Route ''/api/v1/auth/logout_all'' HTTP_POST handle_logout_all True,
      Route ''/api/v1/auth/password'' HTTP_POST handle_change_password True,
      Route ''/api/v1/auth/me'' HTTP_GET handle_me True,
      Route ''/api/v1/auth/certs'' HTTP_GET handle_certs False,
      Route ''/api/v1/auth/userinfo'' HTTP_GET handle_userinfo True,
      Route ''/api/v1/auth/jwks'' HTTP_GET handle_jwks False,
      Route ''/api/v1/auth/rotate-keys'' HTTP_POST handle_rotate_keys True,
      Route ''/api/v1/auth/session-check'' HTTP_GET handle_session_check False,
      Route ''/api/v1/audit/logs'' HTTP_GET handle_list_audit_logs True,
      Route ''/api/v1/check'' HTTP_POST handle_check_permission True,
      Route ''/api/v1/check/functional'' HTTP_POST handle_check_functional True,
      Route ''/api/v1/check/api'' HTTP_POST handle_check_api True,
      Route ''/api/v1/check/data'' HTTP_POST handle_check_data True,
      Route ''/api/v1/check/rbac'' HTTP_POST handle_check_rbac True,
      Route ''/api/v1/check/location'' HTTP_POST handle_check_location True,
      Route ''/api/v1/check/lbac'' HTTP_POST handle_check_lbac True,
      Route ''/api/v1/check/abac'' HTTP_POST handle_check_abac True,
      Route ''/api/v1/users'' HTTP_GET handle_list_users True,
      Route ''/api/v1/users'' HTTP_POST handle_create_user True,
      Route ''/api/v1/users/:id'' HTTP_GET handle_get_user True,
      Route ''/api/v1/users/:id'' HTTP_PUT handle_update_user True,
      Route ''/api/v1/users/:id'' HTTP_DELETE handle_delete_user True,
      Route ''/api/v1/roles'' HTTP_GET handle_list_roles True,
      Route ''/api/v1/roles'' HTTP_POST handle_create_role True,
      Route ''/api/v1/roles/:id'' HTTP_PUT handle_update_role True,
      Route ''/api/v1/roles/:id'' HTTP_DELETE handle_delete_role True,
      Route ''/api/v1/roles/*/assign'' HTTP_POST handle_assign_role True,
      Route ''/api/v1/roles/*/unassign'' HTTP_POST handle_unassign_role True,
      Route ''/api/v1/policies'' HTTP_GET handle_list_policies True,
      Route ''/api/v1/policies'' HTTP_POST handle_create_policy True,
      Route ''/api/v1/policies/:id'' HTTP_PUT handle_update_policy True,
      Route ''/api/v1/policies/:id'' HTTP_DELETE handle_delete_policy True,
      Route ''/api/v1/policies/*/assign'' HTTP_POST handle_assign_policy True,
      Route ''/api/v1/policies/*/unassign'' HTTP_POST handle_unassign_policy True,
      Route ''/api/v1/users/*/policies'' HTTP_GET handle_get_user_policies True,
      Route ''/api/v1/policies/*/targets'' HTTP_GET handle_get_policy_targets True,
      Route ''/api/v1/groups'' HTTP_GET handle_list_groups True,
      Route ''/api/v1/groups'' HTTP_POST handle_create_group True,
      Route ''/api/v1/groups/:id'' HTTP_PUT handle_update_group True,
      Route ''/api/v1/groups/:id'' HTTP_DELETE handle_delete_group True,
      Route ''/api/v1/groups/*/members'' HTTP_POST handle_add_group_member True,
      Route ''/api/v1/groups/*/members/*'' HTTP_DELETE handle_remove_group_member True,
      Route ''/api/v1/clients'' HTTP_GET handle_list_clients True,
      Route ''/api/v1/clients'' HTTP_POST handle_create_client True,
      Route ''/api/v1/clients/:id'' HTTP_PUT handle_update_client True,
      Route ''/api/v1/clients/:id'' HTTP_DELETE handle_delete_client True,
      Route ''/.well-known/openid-configuration'' HTTP_GET handle_well_known_openid_config False,
      Route ''/api/v1/oauth/authorize'' HTTP_GET handle_oauth_authorize True,
      Route ''/api/v1/oauth/token'' HTTP_POST handle_oauth_token False,
      Route ''/api/v1/oauth/introspect'' HTTP_POST handle_oauth_introspect True,
      Route ''/api/v1/oauth/revoke'' HTTP_POST handle_oauth_revoke True,
      Route ''/api/v1/oauth/end-session'' HTTP_GET handle_oauth_end_session False]"

text \<open>The index of the routes by method keeps their order.\<close>

definition method_routes :: "'s route list \<Rightarrow> http_method \<Rightarrow> 's route list" where
  "method_routes routes m = filter (\<lambda>r. rt_method r = m) routes"

definition find_route :: "'s route list \<Rightarrow> http_request \<Rightarrow> 's route option" where
  "find_route routes req = find (\<lambda>r. match_route (rt_pattern r) (rq_path req)) (method_routes routes (rq_method req))"

section \<open>One request\<close>

definition run_handler :: "env \<Rightarrow> 's route \<Rightarrow> 's service \<Rightarrow> http_request \<Rightarrow> http_response \<Rightarrow> (http_response \<times> 's service) option" where
  "run_handler E r sv req resp = do {
     (err, resp1, sv1) \<leftarrow> rt_handler r E sv req resp;
     Some (if err \<noteq> SSO_OK \<and> rs_body resp1 = None then sso_response_error resp1 500 (sso_strerror err) else resp1, sv1)
   }"

definition new_response :: "http_request \<Rightarrow> http_response" where
  "new_response req =
     zero_response\<lparr>rs_content_type := ''application/json'', rs_cors_origin := snprintf 256 (rq_origin req)\<rparr>"

definition preflight_headers :: string where
  "preflight_headers =
     ''Access-Control-Allow-Methods: GET, POST, PUT, PATCH, DELETE, OPTIONS'' @ crlf @
     ''Access-Control-Allow-Headers: Authorization, Content-Type, X-Requested-With'' @ crlf @
     ''Access-Control-Max-Age: 86400'' @ crlf"

definition auth_required :: "env \<Rightarrow> 's route \<Rightarrow> bool" where
  "auth_required E r \<longleftrightarrow> rt_auth r \<and> ev_getenv E ''SSO_TEST_DISABLE_AUTH'' = None"

definition dispatch :: "env \<Rightarrow> 's route list \<Rightarrow> 's service \<Rightarrow> http_request \<Rightarrow> (http_response \<times> 's service) option" where
  "dispatch E routes sv req =
     (let resp = new_response req
      in if rq_method req = HTTP_OPTIONS
         then Some (resp\<lparr>rs_extra_headers := preflight_headers, rs_body := Some []\<rparr>, sv)
         else case find_route routes req of
                None \<Rightarrow> Some (sso_response_error resp 404 ''Not found'', sv)
              | Some r \<Rightarrow>
                  if auth_required E r
                  then do {
                    (aerr, u, tok, sv1) \<leftarrow> authenticate_request E sv req;
                    if aerr \<noteq> SSO_OK
                    then Some (sso_response_error resp 401
                           (if aerr = SSO_ERR_TOKEN_EXPIRED then ''Token expired'' else ''Authentication failed''), sv1)
                    else run_handler E r sv1 (req\<lparr>rq_userdata := Some \<lparr>au_user = the u, au_token = tok\<rparr>\<rparr>) resp
                  }
                  else run_handler E r sv (req\<lparr>rq_userdata := None\<rparr>) resp)"

section \<open>The bytes of a response\<close>

definition reason_phrase :: "int \<Rightarrow> string" where
  "reason_phrase code =
     (if code = 200 then ''OK'' else if code = 201 then ''Created'' else if code = 302 then ''Found''
      else if code = 400 then ''Bad Request'' else if code = 401 then ''Unauthorized'' else if code = 403 then ''Forbidden''
      else if code = 404 then ''Not Found'' else if code = 500 then ''Internal Server Error'' else ''Unknown'')"

definition body_bytes :: "http_response \<Rightarrow> string" where
  "body_bytes resp = (case rs_body resp of Some b \<Rightarrow> b | None \<Rightarrow> [])"

abbreviation (input) squote :: "string \<Rightarrow> string" where
  "squote s \<equiv> CHR 0x27 # s @ [CHR 0x27]"

definition response_header :: "bool \<Rightarrow> http_response \<Rightarrow> string \<Rightarrow> string" where
  "response_header tls resp rid =
     ''HTTP/1.1 '' @ sdec (rs_status_code resp) @ '' '' @ reason_phrase (rs_status_code resp) @ crlf @
     ''Content-Type: '' @ rs_content_type resp @ crlf @
     ''Content-Length: '' @ dec (length (body_bytes resp)) @ crlf @
     ''Connection: close'' @ crlf @
     ''Access-Control-Allow-Origin: '' @ (if rs_cors_origin resp \<noteq> [] then rs_cors_origin resp else ''*'') @ crlf @
     ''Access-Control-Allow-Credentials: true'' @ crlf @
     ''Access-Control-Allow-Headers: Content-Type, Authorization'' @ crlf @
     ''Access-Control-Expose-Headers: X-SSO-User, X-SSO-Access-Token, X-SSO-Refresh-Token'' @ crlf @
     ''X-Content-Type-Options: nosniff'' @ crlf @
     ''X-Frame-Options: SAMEORIGIN'' @ crlf @
     ''X-Request-Id: '' @ rid @ crlf @
     ''Permissions-Policy: geolocation=(), microphone=(), camera=()'' @ crlf @
     ''Content-Security-Policy: default-src '' @ squote ''self'' @ ''; style-src '' @ squote ''self'' @ '' '' @
     squote ''unsafe-inline'' @ ''; script-src '' @ squote ''self'' @ '' '' @ squote ''unsafe-inline'' @ '';'' @ crlf @
     ''Cache-Control: no-cache, no-store, must-revalidate'' @ crlf @
     ''Pragma: no-cache'' @ crlf @
     (if tls then ''Strict-Transport-Security: max-age=31536000; includeSubDomains'' @ crlf else []) @
     (if rs_cors_origin resp \<noteq> [] then ''Vary: Origin'' @ crlf else []) @
     rs_extra_headers resp @ crlf"

text \<open>The header is written into 16384 bytes; a longer one is cut, but its full length is sent.\<close>

definition send_response :: "bool \<Rightarrow> http_response \<Rightarrow> string \<Rightarrow> string option" where
  "send_response tls resp rid =
     (let h = response_header tls resp rid in if length h < 16384 then Some (h @ body_bytes resp) else None)"

section \<open>Tenants\<close>

text \<open>A tenant has its own context, token manager and limiter. The tables of the risk engine, the audit log and the heap are
  shared by all.\<close>

record 's tenant =
  tn_id :: string
  tn_ctx :: "'s sso_context"
  tn_tokens :: token_manager
  tn_limiter :: "rate_limiter option"

record 's server =
  sr_main :: "'s service"
  sr_tenants :: "'s tenant list"
  sr_routes :: "'s route list"
  sr_tls :: bool
  sr_requests :: "64 word"

abbreviation (input) MAX_TENANTS :: nat where
  "MAX_TENANTS \<equiv> 64"

definition tenant_of_host :: "string \<Rightarrow> string" where
  "tenant_of_host host =
     (if CHR ''.'' \<in> set host
      then take 127 (takeWhile (\<lambda>c. c \<noteq> CHR ''.'') host)
      else takeWhile (\<lambda>c. c \<noteq> CHR '':'') (strlcpy host 128))"

definition generic_tenant :: "string \<Rightarrow> bool" where
  "generic_tenant tid \<longleftrightarrow> tid \<in> {''localhost'', ''127'', ''default''}"

definition tenant_db_url :: "string \<Rightarrow> string \<Rightarrow> string" where
  "tenant_db_url url tid =
     strlcpy (snprintf 2048 (case strstr url ''.db'' of
       Some rest \<Rightarrow> take (length url - length rest) url @ ''_'' @ tid @ ''.db''
     | None \<Rightarrow> url @ ''_'' @ tid)) 1024"

datatype storage_kind = Kind_Memory | Kind_Postgres | Kind_Redis | Kind_Sqlite

definition storage_kind_of :: "sso_config \<Rightarrow> storage_kind" where
  "storage_kind_of c =
     (let url = cf_database_url c; starts = (\<lambda>p. take (length p) url = p)
      in if cf_use_memory c then Kind_Memory
         else if starts ''postgres://'' then Kind_Postgres
         else if starts ''redis://'' \<or> starts ''redis-sentinel://'' then Kind_Redis
         else Kind_Sqlite)"

text \<open>\<open>mk\<close> creates a backend of a kind with its closed state.\<close>

definition new_tenant ::
  "env \<Rightarrow> boot \<Rightarrow> (storage_kind \<Rightarrow> 's storage_backend \<times> 's) \<Rightarrow> 's server \<Rightarrow> sso_config \<Rightarrow> string \<Rightarrow> sso_error \<times> 's service" where
  "new_tenant E B mk sr base tid =
     (let c = base\<lparr>cf_database_url := tenant_db_url (cf_database_url base) tid\<rparr>; (sb, st) = mk (storage_kind_of c)
      in sso_init E B (Some sb) (Some c) ((sr_main sr)\<lparr>sv_ctx := zero_context st\<rparr>))"

text \<open>The service a host selects: the main one, the \<open>i\<close>-th tenant, possibly just created.\<close>

definition tenant_index :: "'s tenant list \<Rightarrow> string \<Rightarrow> nat option" where
  "tenant_index ts tid = (if tid \<in> tn_id ` set ts then Some (length (takeWhile (\<lambda>t. tn_id t \<noteq> tid) ts)) else None)"

definition get_tenant_context ::
  "env \<Rightarrow> boot \<Rightarrow> (storage_kind \<Rightarrow> 's storage_backend \<times> 's) \<Rightarrow> 's server \<Rightarrow> string \<Rightarrow> (nat option \<times> 's server) option" where
  "get_tenant_context E B mk sr host =
     (let tid = tenant_of_host host
      in if host = [] \<or> generic_tenant tid then Some (None, sr)
         else case tenant_index (sr_tenants sr) tid of
                Some i \<Rightarrow> Some (Some i, sr)
              | None \<Rightarrow>
                  if length (sr_tenants sr) \<ge> MAX_TENANTS then Some (None, sr)
                  else do {
                    base \<leftarrow> sso_config (sv_ctx (sr_main sr));
                    let (err, sv) = new_tenant E B mk sr base tid;
                    let main = (sr_main sr)\<lparr>sv_audit := sv_audit sv\<rparr>;
                    Some (if err \<noteq> SSO_OK then (None, sr\<lparr>sr_main := main\<rparr>)
                          else (Some (length (sr_tenants sr)),
                                sr\<lparr>sr_main := main,
                                   sr_tenants := sr_tenants sr @ [\<lparr>tn_id = tid, tn_ctx = sv_ctx sv, tn_tokens = sv_tokens sv,
                                     tn_limiter = sv_limiter sv\<rparr>]\<rparr>))
                  })"

definition service_at :: "'s server \<Rightarrow> nat option \<Rightarrow> 's service" where
  "service_at sr k =
     (case k of
        None \<Rightarrow> sr_main sr
      | Some i \<Rightarrow> (let t = sr_tenants sr ! i
                   in (sr_main sr)\<lparr>sv_ctx := tn_ctx t, sv_tokens := tn_tokens t, sv_limiter := tn_limiter t\<rparr>))"

definition put_service :: "'s server \<Rightarrow> nat option \<Rightarrow> 's service \<Rightarrow> 's server" where
  "put_service sr k sv =
     (case k of
        None \<Rightarrow> sr\<lparr>sr_main := sv\<rparr>
      | Some i \<Rightarrow>
          sr\<lparr>sr_main := (sr_main sr)\<lparr>sv_risk := sv_risk sv, sv_heap := sv_heap sv, sv_audit := sv_audit sv\<rparr>,
             sr_tenants := (sr_tenants sr)[i := (sr_tenants sr ! i)\<lparr>tn_ctx := sv_ctx sv, tn_tokens := sv_tokens sv,
               tn_limiter := sv_limiter sv\<rparr>]\<rparr>)"

section \<open>A connection\<close>

definition request_id :: "env \<Rightarrow> 64 word \<Rightarrow> string" where
  "request_id E n =
     snprintf 64 (''req-'' @ hex (unat (ev_time E)) @ ''-'' @
       (let h = hex (unat n) in replicate (8 - length h) (CHR ''0'') @ h))"

definition max_body_of :: "'s server \<Rightarrow> int" where
  "max_body_of sr = (case sso_config (sv_ctx (sr_main sr)) of Some c \<Rightarrow> cf_max_body_size c | None \<Rightarrow> 1048576)"

text \<open>What is sent back, if anything, and the server afterwards.\<close>

definition handle_client ::
  "env \<Rightarrow> boot \<Rightarrow> (storage_kind \<Rightarrow> 's storage_backend \<times> 's) \<Rightarrow> 's server \<Rightarrow> char list list \<Rightarrow> string \<Rightarrow>
     (string option \<times> 's server) option" where
  "handle_client E B mk sr src ip =
     (case fst (parse_request (ev_stale E) (max_body_of sr) (br_init src)) of
        None \<Rightarrow> Some (None, sr)
      | Some req \<Rightarrow> do {
          let rid = request_id E (sr_requests sr);
          let req1 = req\<lparr>rq_request_id := rid, rq_client_ip := strlcpy ip 64\<rparr>;
          (k, sr1) \<leftarrow> get_tenant_context E B mk (sr\<lparr>sr_requests := sr_requests sr + 1\<rparr>) (rq_host req1);
          (resp, sv) \<leftarrow> dispatch E (sr_routes sr1) (service_at sr1 k) req1;
          out \<leftarrow> send_response (sr_tls sr1) resp rid;
          Some (Some out, put_service sr1 k sv)
        })"

definition sso_server_init :: "'s service \<Rightarrow> 's route list \<Rightarrow> 's server" where
  "sso_server_init sv routes = \<lparr>sr_main = sv, sr_tenants = [], sr_routes = routes, sr_tls = False, sr_requests = 0\<rparr>"

end
