(* ===== verification/Handlers_Frame.thy ===== *)
theory Handlers_Frame
  imports Service_Steps Http_Server
begin

text \<open>
  What each endpoint can change. For every handler of the route table a lemma bounds the kinds of data it writes and says
  that it leaves a well-formed service behind.
\<close>

section \<open>Monitoring\<close>

lemma handle_health_keeps: "keeps {} sv (handle_health E sv req resp)"
  unfolding handle_health_def by (intro keep_rules) simp

lemma handle_metrics_keeps: "keeps {} sv (handle_metrics E sv req resp)"
  unfolding handle_metrics_def by (intro keep_rules) simp_all

lemma handle_admin_status_keeps: "keeps {} sv (handle_admin_status E sv req resp)"
  unfolding handle_admin_status_def by (intro keep_rules) simp_all

lemma handle_list_audit_logs_keeps: "keeps {} sv (handle_list_audit_logs E sv req resp)"
  unfolding handle_list_audit_logs_def by (intro keep_rules) simp_all

lemma serve_file_keeps: "keeps {} sv (serve_file E sv resp p m c)"
  unfolding serve_file_def by (intro keep_rules) simp_all

lemma handle_swagger_ui_keeps: "keeps {} sv (handle_swagger_ui E sv req resp)"
  unfolding handle_swagger_ui_def by (rule serve_file_keeps)

lemma handle_openapi_yaml_keeps: "keeps {} sv (handle_openapi_yaml E sv req resp)"
  unfolding handle_openapi_yaml_def by (rule serve_file_keeps)

section \<open>Permission checks\<close>

lemma set_checked_step: "sv_step K sv sv1 \<Longrightarrow> ctx_step K (sv_ctx sv1) c \<Longrightarrow> sv_step K sv (set_checked sv1 h c A)"
  unfolding set_checked_def by (simp add: sv_step_ctx [of K sv "sv1\<lparr>sv_heap := h\<rparr>"])

lemma check_and_reply_keeps:
  assumes "\<And>L hm os now later c uid al h A e r h' c' A'.
    check L hm os now later c uid al h A = Some (e, r, h', c', A') \<Longrightarrow> ctx_step {K_Audit} c c'"
  shows "keeps {K_Audit} sv (check_and_reply E sv req resp check body)"
  unfolding check_and_reply_def by (intro keep_rules) (auto intro!: set_checked_step elim: assms)

lemma handle_check_functional_keeps: "keeps {K_Audit} sv (handle_check_functional E sv req resp)"
  unfolding handle_check_functional_def
  by (intro keep_rules check_and_reply_keeps) (auto elim: perm_check_function_step)

lemma handle_check_api_keeps: "keeps {K_Audit} sv (handle_check_api E sv req resp)"
  unfolding handle_check_api_def by (intro keep_rules check_and_reply_keeps) (auto elim: perm_check_api_step)

lemma handle_check_data_keeps: "keeps {K_Audit} sv (handle_check_data E sv req resp)"
  unfolding handle_check_data_def
  by (intro keep_rules) (auto intro!: set_checked_step elim: perm_check_data_step)

lemma handle_check_rbac_keeps: "keeps {K_Audit} sv (handle_check_rbac E sv req resp)"
  unfolding handle_check_rbac_def by (intro keep_rules check_and_reply_keeps) (auto elim: perm_check_rbac_step)

lemma handle_check_location_keeps: "keeps {K_Audit} sv (handle_check_location E sv req resp)"
  unfolding handle_check_location_def by (intro keep_rules check_and_reply_keeps) (auto elim: perm_check_location_step)

lemma handle_check_lbac_keeps: "keeps {K_Audit} sv (handle_check_lbac E sv req resp)"
  unfolding handle_check_lbac_def by (intro keep_rules check_and_reply_keeps) (auto elim: perm_check_lbac_step)

lemma handle_check_abac_keeps: "keeps {K_Audit} sv (handle_check_abac E sv req resp)"
  unfolding handle_check_abac_def by (intro keep_rules check_and_reply_keeps) (auto elim: perm_check_abac_step)

lemma check_permission_reply_keeps: "keeps {} sv (check_permission_reply sv resp al tr ec)"
  unfolding check_permission_reply_def by (intro keep_rules) auto

lemma handle_check_permission_keeps: "keeps {K_Audit} sv (handle_check_permission E sv req resp)"
  unfolding handle_check_permission_def
  by (intro keep_rules keeps_trans [OF _ check_permission_reply_keeps [THEN keeps_mono]])
    (auto intro!: set_checked_step elim: perm_engine_evaluate_step)

section \<open>Management\<close>

lemma sv_admin_log_step:
  assumes "sv_step K sv sv1" "K_Audit \<in> K"
  shows "sv_step K sv (sv_admin_log E sv1 uid un req op re ri de)"
  unfolding sv_admin_log_def using assms admin_audit_log_step [THEN ctx_step_one, OF _ assms(2)]
  by (auto split: prod.splits intro!: sv_step_ctx)

lemma set_sv_ctx_step: "sv_step K sv sv1 \<Longrightarrow> ctx_step K (sv_ctx sv1) c \<Longrightarrow> sv_step K sv (set_sv_ctx sv1 c)"
  unfolding set_sv_ctx_def by (rule sv_step_ctx)

lemma reply_logged_keeps:
  "sv_step K sv sv1 \<Longrightarrow> K_Audit \<in> K \<Longrightarrow> keeps K sv (reply_logged E sv1 req resp b op re ri de)"
  unfolding reply_logged_def by (intro keep_rules sv_admin_log_step)

lemma finish_write_keeps:
  "ctx_step K (sv_ctx sv) (snd r) \<Longrightarrow> K_Audit \<in> K \<Longrightarrow> keeps K sv (finish_write E sv req resp r d op re ri de)"
  unfolding finish_write_def by (intro keep_rules reply_logged_keeps) (auto intro!: set_sv_ctx_step)

lemma finish_create_keeps:
  "sv_step K sv sv1 \<Longrightarrow> K_Audit \<in> K \<Longrightarrow> keeps K sv (finish_create E sv1 req resp e ex fa op re ri b)"
  unfolding finish_create_def by (intro keep_rules sv_admin_log_step)

text \<open>The same steps in the form of the second component of a result.\<close>

lemma ctx_step_snd: "(\<And>e c'. p = (e, c') \<Longrightarrow> ctx_step K c c') \<Longrightarrow> ctx_step K c (snd p)"
  by (cases p) simp

lemma ctx_step_if: "ctx_step K c (snd x) \<Longrightarrow> ctx_step K c (snd y) \<Longrightarrow> ctx_step K c (snd (if b then x else y))"
  by simp

lemma handle_create_user_keeps: "keeps {K_User, K_Audit} sv (handle_create_user E sv req resp)"
  unfolding handle_create_user_def
  by (intro keep_rules) (auto intro!: sv_admin_log_step set_sv_ctx_step elim: ctx_intros)

lemma list_page_keeps: "keeps {} sv (list_page sv req resp l f p n it)"
  unfolding list_page_def by (intro keep_rules) auto

lemma handle_list_users_keeps: "keeps {} sv (handle_list_users E sv req resp)"
  unfolding handle_list_users_def by (rule list_page_keeps)

lemma handle_get_user_keeps: "keeps {} sv (handle_get_user E sv req resp)"
  unfolding handle_get_user_def by (intro keep_rules) auto

lemma handle_update_user_keeps: "keeps {K_User, K_Audit} sv (handle_update_user E sv req resp)"
  unfolding handle_update_user_def by (intro keep_rules finish_write_keeps ctx_step_snd) (auto elim: ctx_intros)

lemma handle_delete_user_keeps: "keeps {K_User, K_Audit} sv (handle_delete_user E sv req resp)"
  unfolding handle_delete_user_def by (intro keep_rules finish_write_keeps ctx_step_snd) (auto elim: ctx_intros)

lemma handle_get_user_policies_keeps: "keeps {} sv (handle_get_user_policies E sv req resp)"
  unfolding handle_get_user_policies_def by (intro keep_rules) auto

lemma handle_create_role_keeps: "keeps {K_Role, K_Audit} sv (handle_create_role E sv req resp)"
  unfolding handle_create_role_def
  by (intro keep_rules finish_create_keeps)
    (auto intro!: set_sv_ctx_step ctx_step_snd elim: ctx_intros
      intro: ctx_step_trans [OF role_create_step [THEN ctx_step_one] role_update_step [THEN ctx_step_one]])

lemma handle_assign_role_keeps: "keeps {K_Link, K_Audit} sv (handle_assign_role E sv req resp)"
  unfolding handle_assign_role_def by (intro keep_rules finish_write_keeps ctx_step_if ctx_step_snd) (auto elim: ctx_intros)

lemma handle_unassign_role_keeps: "keeps {K_Link, K_Audit} sv (handle_unassign_role E sv req resp)"
  unfolding handle_unassign_role_def by (intro keep_rules finish_write_keeps ctx_step_if ctx_step_snd) (auto elim: ctx_intros)

lemma handle_list_roles_keeps: "keeps {} sv (handle_list_roles E sv req resp)"
  unfolding handle_list_roles_def Let_def by (rule list_page_keeps)

lemma handle_update_role_keeps: "keeps {K_Role, K_Audit} sv (handle_update_role E sv req resp)"
  unfolding handle_update_role_def by (intro keep_rules finish_write_keeps ctx_step_snd) (auto elim: ctx_intros)

lemma handle_delete_role_keeps: "keeps {K_Role, K_Audit} sv (handle_delete_role E sv req resp)"
  unfolding handle_delete_role_def by (intro keep_rules finish_write_keeps ctx_step_snd) (auto elim: ctx_intros)

lemma handle_create_group_keeps: "keeps {K_Group, K_Audit} sv (handle_create_group E sv req resp)"
  unfolding handle_create_group_def
  by (intro keep_rules finish_create_keeps)
    (auto intro!: set_sv_ctx_step ctx_step_snd elim: ctx_intros
      intro: ctx_step_trans [OF group_create_step [THEN ctx_step_one] group_update_step [THEN ctx_step_one]])

lemma handle_list_groups_keeps: "keeps {} sv (handle_list_groups E sv req resp)"
  unfolding handle_list_groups_def Let_def by (rule list_page_keeps)

lemma handle_update_group_keeps: "keeps {K_Group, K_Audit} sv (handle_update_group E sv req resp)"
  unfolding handle_update_group_def by (intro keep_rules finish_write_keeps ctx_step_snd) (auto elim: ctx_intros)

lemma handle_delete_group_keeps: "keeps {K_Group, K_Audit} sv (handle_delete_group E sv req resp)"
  unfolding handle_delete_group_def by (intro keep_rules finish_write_keeps ctx_step_snd) (auto elim: ctx_intros)

lemma handle_add_group_member_keeps: "keeps {K_Link, K_Audit} sv (handle_add_group_member E sv req resp)"
  unfolding handle_add_group_member_def by (intro keep_rules finish_write_keeps ctx_step_snd) (auto elim: ctx_intros)

lemma handle_remove_group_member_keeps: "keeps {K_Link, K_Audit} sv (handle_remove_group_member E sv req resp)"
  unfolding handle_remove_group_member_def by (intro keep_rules finish_write_keeps ctx_step_snd) (auto elim: ctx_intros)

lemma handle_create_policy_keeps: "keeps {K_Policy, K_Audit} sv (handle_create_policy E sv req resp)"
  unfolding handle_create_policy_def
  by (intro keep_rules finish_create_keeps) (auto intro!: set_sv_ctx_step elim: ctx_intros)

lemma handle_assign_policy_keeps: "keeps {K_Assign, K_Audit} sv (handle_assign_policy E sv req resp)"
  unfolding handle_assign_policy_def by (intro keep_rules finish_write_keeps ctx_step_snd) (auto elim: ctx_intros)

lemma handle_unassign_policy_keeps: "keeps {K_Assign, K_Audit} sv (handle_unassign_policy E sv req resp)"
  unfolding handle_unassign_policy_def by (intro keep_rules finish_write_keeps ctx_step_snd) (auto elim: ctx_intros)

lemma handle_update_policy_keeps: "keeps {K_Policy, K_Audit} sv (handle_update_policy E sv req resp)"
  unfolding handle_update_policy_def by (intro keep_rules finish_write_keeps ctx_step_snd) (auto elim: ctx_intros)

lemma handle_delete_policy_keeps: "keeps {K_Policy, K_Audit} sv (handle_delete_policy E sv req resp)"
  unfolding handle_delete_policy_def by (intro keep_rules finish_write_keeps ctx_step_snd) (auto elim: ctx_intros)

lemma handle_list_policies_keeps: "keeps {} sv (handle_list_policies E sv req resp)"
  unfolding handle_list_policies_def by (rule list_page_keeps)

lemma handle_get_policy_targets_keeps: "keeps {} sv (handle_get_policy_targets E sv req resp)"
  unfolding handle_get_policy_targets_def by (intro keep_rules) auto

lemma handle_list_clients_keeps: "keeps {} sv (handle_list_clients E sv req resp)"
  unfolding handle_list_clients_def by (intro keep_rules) auto

text \<open>Handlers that call the backend themselves.\<close>

lemma calls_backend:
  "Option.bind sbo sel = Some f \<Longrightarrow> (\<And>sb. sel sb = Some f \<Longrightarrow> backend_call sb k st st') \<Longrightarrow> k \<in> K \<Longrightarrow> calls sbo K st st'"
  by (auto simp: bind_eq_Some_conv intro: calls_one)

lemma client_create_calls:
  "Option.bind sbo sb_oauth_client_create = Some f \<Longrightarrow> f t st c = (e, c', st') \<Longrightarrow> K_Client \<in> K \<Longrightarrow> calls sbo K st st'"
  by (erule calls_backend) (auto dest: backend_call.intros(26) [of _ _ st t c])

lemma client_update_calls:
  "Option.bind sbo sb_oauth_client_update = Some f \<Longrightarrow> f st c = (e, st') \<Longrightarrow> K_Client \<in> K \<Longrightarrow> calls sbo K st st'"
  by (erule calls_backend) (auto dest: backend_call.intros(27) [of _ _ st c])

lemma client_delete_calls:
  "Option.bind sbo sb_oauth_client_delete = Some f \<Longrightarrow> f st c = (e, st') \<Longrightarrow> K_Client \<in> K \<Longrightarrow> calls sbo K st st'"
  by (erule calls_backend) (auto dest: backend_call.intros(28) [of _ _ st c])

lemma ctx_step_calls: "calls (storage_backend c) K (store c) st \<Longrightarrow> ctx_step K c (c\<lparr>store := st\<rparr>)"
  by (simp add: ctx_step_def)

lemma handle_create_client_keeps: "keeps {K_Client, K_Audit} sv (handle_create_client E sv req resp)"
  unfolding handle_create_client_def
  by (intro keep_rules finish_create_keeps) (auto intro!: sv_step_store elim: client_create_calls)

lemma handle_update_client_keeps: "keeps {K_Client, K_Audit} sv (handle_update_client E sv req resp)"
  unfolding handle_update_client_def
  by (intro keep_rules finish_write_keeps) (auto intro!: ctx_step_calls elim: client_update_calls)

lemma handle_delete_client_keeps: "keeps {K_Client, K_Audit} sv (handle_delete_client E sv req resp)"
  unfolding handle_delete_client_def
  by (intro keep_rules finish_write_keeps) (auto intro!: ctx_step_calls elim: client_delete_calls)

lemma finish_rotation_keeps:
  "(\<And>e m. r = (e, m) \<Longrightarrow> tokens_step (sv_tokens sv) m) \<Longrightarrow> keeps {} sv (finish_rotation sv resp r)"
  unfolding finish_rotation_def by (intro keep_rules) (auto intro!: sv_step_tokens)

lemma keeps_mode [keep_rules]:
  "keeps K sv x \<Longrightarrow> keeps K sv y \<Longrightarrow> keeps K sv z \<Longrightarrow>
   keeps K sv (case md of SSO_TOKEN_MODE_HS256 \<Rightarrow> x | SSO_TOKEN_MODE_RS256 \<Rightarrow> y | _ \<Rightarrow> z)"
  by (cases md) auto

lemma handle_rotate_keys_keeps: "keeps {} sv (handle_rotate_keys E sv req resp)"
  unfolding handle_rotate_keys_def rotate_hs256_def
  by (intro keep_rules finish_rotation_keeps) (auto elim: rotate_tokens rotate_rs256_tokens)

section \<open>Authentication\<close>

lemma sv_record_risk_step: "sv_step K sv sv1 \<Longrightarrow> sv_step K sv (sv_record_risk E k sv1 uid ip)"
  unfolding sv_record_risk_def by (rule sv_step_risk) (auto intro: risk_record_wf)

lemma login_issue_keeps: "keeps {K_Jti} sv (login_issue E sv resp u fm jkt)"
  unfolding login_issue_def by (intro keep_rules) (auto intro: sv_register_session_step)

lemma login_user_keeps: "keeps {K_Jti} sv (login_user E sv req resp u)"
  unfolding login_user_def
  by (intro keep_rules keeps_trans [OF _ login_issue_keeps])
    (auto intro!: sv_record_risk_step sv_step_risk intro: risk_evaluate_wf risk_success_wf)

lemma handle_login_keeps: "keeps {K_Jti} sv (handle_login E sv req resp)"
  unfolding handle_login_def
  by (intro keep_rules keeps_trans [OF _ login_user_keeps]) (auto intro!: sv_record_risk_step elim: sv_limit_step)

lemma handle_mfa_setup_keeps: "keeps {} sv (handle_mfa_setup E sv req resp)"
  unfolding handle_mfa_setup_def by (intro keep_rules) auto

lemma handle_mfa_enable_keeps: "keeps {K_User} sv (handle_mfa_enable E sv req resp)"
  unfolding handle_mfa_enable_def by (intro keep_rules) (auto intro!: sv_step_ctx elim: ctx_steps)

lemma handle_mfa_verify_keeps: "keeps {} sv (handle_mfa_verify E sv req resp)"
  unfolding handle_mfa_verify_def by (intro keep_rules) auto

lemma sms_save_calls:
  "Option.bind sbo sb_save_sms_code = Some f \<Longrightarrow> f st ph c t = (e, st') \<Longrightarrow> K_Sms \<in> K \<Longrightarrow> calls sbo K st st'"
  by (erule calls_backend) (auto dest: backend_call.intros(21) [of _ _ st ph c t])

lemma handle_send_sms_keeps: "keeps {K_Sms} sv (handle_send_sms E sv req resp)"
  unfolding handle_send_sms_def
  by (intro keep_rules)
    (auto split: option.splits prod.splits intro: sv_step_trans [OF sv_limit_step sv_step_store [OF sv_step_refl sms_save_calls]]
      elim: sv_limit_step)

lemma sms_user_step: "sms_user E sv ph = (e, u, sv') \<Longrightarrow> sv_step {K_User} sv sv'"
  by (auto simp: sms_user_def split: prod.splits if_splits intro!: sv_step_ctx elim: ctx_steps)

lemma sms_issue_keeps: "keeps {} sv (sms_issue E sv resp u)"
  unfolding sms_issue_def by (intro keep_rules) auto

lemma sms_delete_calls:
  "Option.bind sbo sb_delete_sms_code = Some f \<Longrightarrow> K_Sms \<in> K \<Longrightarrow> calls sbo K st (snd (f st ph))"
  by (erule calls_backend) (auto intro: backend_call.intros)

lemma sms_login_step:
  assumes "sv_limit E 0 sv ip 5 = Some (a, sv1)" "sv_limit E 1 sv1 ph' 3 = Some (b, sv2)"
    "Option.bind (sv_backend sv2) sb_delete_sms_code = Some f"
    "sms_user E (set_sv_store sv2 (snd (f (sv_store sv2) ph))) ph = (e, u, sv4)"
  shows "sv_step {K_Sms, K_User} sv sv4"
proof -
  have "sv_step {K_Sms, K_User} sv (set_sv_store sv2 (snd (f (sv_store sv2) ph)))"
    using assms(1,2) sms_delete_calls [OF assms(3)]
    by (intro sv_step_store sv_step_trans [OF sv_limit_step sv_limit_step]) auto
  then show ?thesis using sms_user_step [OF assms(4), THEN sv_step_mono, of "{K_Sms, K_User}"] by (auto elim: sv_step_trans)
qed

lemma handle_login_by_sms_keeps: "keeps {K_Sms, K_User} sv (handle_login_by_sms E sv req resp)"
  unfolding handle_login_by_sms_def
  by (intro keep_rules keeps_trans [OF _ sms_issue_keeps [THEN keeps_mono]])
    (auto elim: sv_limit_step sv_step_trans [OF sv_limit_step sv_limit_step] sms_login_step)

lemma assign_default_role_step: "ctx_step {K_Role, K_Link} c (assign_default_role E c uid)"
  by (auto simp: assign_default_role_def Let_def split: prod.splits intro!: ctx_step_snd elim: ctx_intros
    intro: ctx_step_trans [OF role_create_step [THEN ctx_step_one] role_assign_to_user_step [THEN ctx_step_one]])

lemma handle_register_keeps: "keeps {K_User, K_Role, K_Link} sv (handle_register E sv req resp)"
  unfolding handle_register_def
  by (intro keep_rules)
    (auto intro!: sv_step_ctx elim: ctx_intros
      intro: ctx_step_trans [OF user_create_step [THEN ctx_step_one] assign_default_role_step [THEN ctx_step_mono]])

lemma verify_user_keeps: "keeps {} sv (verify_user E sv resp t)"
  unfolding verify_user_def by (intro keep_rules) auto

lemma handle_verify_keeps: "keeps {} sv (handle_verify E sv req resp)"
  unfolding handle_verify_def
  by (intro keep_rules keeps_trans [OF _ verify_user_keeps]) (auto elim: sv_is_revoked_step)

lemma handle_refresh_keeps: "keeps {} sv (handle_refresh E sv req resp)"
  unfolding handle_refresh_def by (intro keep_rules) (auto elim: sv_is_revoked_step)

lemma handle_logout_keeps: "keeps {K_Jti} sv (handle_logout E sv req resp)"
  unfolding handle_logout_def by (intro keep_rules) (auto elim: sv_revoke_step)

lemma handle_logout_all_keeps: "keeps {} sv (handle_logout_all E sv req resp)"
  unfolding handle_logout_all_def by (intro keep_rules) (auto intro!: sv_step_tokens elim: bump_nonce_tokens)

lemma handle_change_password_keeps: "keeps {K_User} sv (handle_change_password E sv req resp)"
  unfolding handle_change_password_def by (intro keep_rules) (auto intro!: sv_step_ctx elim: ctx_steps)

lemma handle_me_keeps: "keeps {} sv (handle_me E sv req resp)"
  unfolding handle_me_def by (intro keep_rules) auto

lemma handle_certs_keeps: "keeps {} sv (handle_certs E sv req resp)"
  unfolding handle_certs_def by (intro keep_rules) auto

lemma handle_session_check_keeps: "keeps {} sv (handle_session_check E sv req resp)"
  unfolding handle_session_check_def by (intro keep_rules) (auto elim: sv_is_revoked_step)

section \<open>OAuth\<close>

lemma oauth_error_keeps [keep_rules]: "sv_step K sv sv1 \<Longrightarrow> keeps K sv (oauth_error sv1 resp c e)"
  unfolding oauth_error_def by (rule keeps_Some)

lemma code_create_calls:
  "Option.bind sbo sb_oauth_code_create = Some f \<Longrightarrow> f st c = (e, st') \<Longrightarrow> K_Code \<in> K \<Longrightarrow> calls sbo K st st'"
  by (erule calls_backend) (auto dest: backend_call.intros(23) [of _ _ st c])

lemma code_mark_calls:
  "Option.bind sbo sb_oauth_code_mark_used = Some f \<Longrightarrow> K_Code \<in> K \<Longrightarrow> calls sbo K st (snd (f st c))"
  by (erule calls_backend) (auto intro: backend_call.intros)

lemma refresh_create_calls:
  "Option.bind sbo sb_refresh_token_create = Some f \<Longrightarrow> K_Refresh \<in> K \<Longrightarrow> calls sbo K st (snd (f st c))"
  by (erule calls_backend) (auto intro: backend_call.intros)

lemma refresh_revoke_calls:
  "Option.bind sbo sb_refresh_token_revoke = Some f \<Longrightarrow> K_Refresh \<in> K \<Longrightarrow> calls sbo K st (snd (f st c))"
  by (erule calls_backend) (auto intro: backend_call.intros)

lemma refresh_family_calls:
  "Option.bind sbo sb_refresh_token_revoke_family = Some f \<Longrightarrow> K_Refresh \<in> K \<Longrightarrow> calls sbo K st (snd (f st u c))"
  by (erule calls_backend) (auto intro: backend_call.intros)

lemma authorize_user_keeps: "keeps {K_Code} sv (authorize_user E sv cfg req resp cid uri)"
  unfolding authorize_user_def by (intro keep_rules) (auto intro!: sv_step_store elim: code_create_calls)

lemma handle_oauth_authorize_keeps: "keeps {K_Code} sv (handle_oauth_authorize E sv req resp)"
  unfolding handle_oauth_authorize_def by (intro keep_rules authorize_user_keeps) auto

lemma store_refresh_step: "K_Refresh \<in> K \<Longrightarrow> sv_step K sv sv1 \<Longrightarrow> sv_step K sv (store_refresh_token E k sv1 uid cid raw)"
  unfolding store_refresh_token_def by (auto split: option.splits intro!: sv_step_store refresh_create_calls)

lemma code_tokens_keeps: "keeps {K_Refresh} sv (code_tokens E sv cfg resp ac u jkt)"
  unfolding code_tokens_def by (intro keep_rules) (auto intro!: store_refresh_step)

lemma grant_code_keeps: "keeps {K_Code, K_Refresh} sv (grant_code E sv cfg req resp code uri jkt)"
  unfolding grant_code_def
  by (intro keep_rules keeps_trans [OF _ code_tokens_keeps [THEN keeps_mono]])
    (auto intro!: sv_step_store code_mark_calls)

lemma grant_client_keeps: "keeps {} sv (grant_client E sv cfg resp cid secret scp jkt)"
  unfolding grant_client_def by (intro keep_rules) auto

lemma refresh_tokens_for_keeps: "keeps {K_Refresh} sv (refresh_tokens_for E sv cfg resp rt h u jkt)"
  unfolding refresh_tokens_for_def
  by (intro keep_rules) (auto intro!: store_refresh_step sv_step_store refresh_revoke_calls)

lemma grant_refresh_keeps: "keeps {K_Refresh} sv (grant_refresh E sv cfg resp tk jkt)"
  unfolding grant_refresh_def
  by (intro keep_rules refresh_tokens_for_keeps)
    (auto split: option.splits intro!: sv_step_store refresh_family_calls)

lemma handle_oauth_token_keeps: "keeps {K_Code, K_Refresh} sv (handle_oauth_token E sv req resp)"
  unfolding handle_oauth_token_def
  by (intro keep_rules grant_code_keeps grant_client_keeps [THEN keeps_mono] grant_refresh_keeps [THEN keeps_mono]) auto

lemma handle_oauth_introspect_keeps: "keeps {} sv (handle_oauth_introspect E sv req resp)"
  unfolding handle_oauth_introspect_def by (intro keep_rules) (auto elim: sv_is_revoked_step)

lemma sv_revoke_snd_step: "sv_step K sv sv1 \<Longrightarrow> K_Jti \<in> K \<Longrightarrow> sv_step K sv (snd (sv_revoke sv1 j x))"
  using sv_revoke_step [of sv1 j x, OF prod.collapse [symmetric], THEN sv_step_mono, of K] by (auto elim: sv_step_trans)

lemma handle_oauth_revoke_keeps: "keeps {K_Jti} sv (handle_oauth_revoke E sv req resp)"
  unfolding handle_oauth_revoke_def by (intro keep_rules) (auto intro!: sv_revoke_snd_step)

lemma handle_well_known_openid_config_keeps: "keeps {} sv (handle_well_known_openid_config E sv req resp)"
  unfolding handle_well_known_openid_config_def by (intro keep_rules) auto

lemma handle_jwks_keeps: "keeps {} sv (handle_jwks E sv req resp)"
  unfolding handle_jwks_def by (intro keep_rules) auto

lemma handle_userinfo_keeps: "keeps {} sv (handle_userinfo E sv req resp)"
  unfolding handle_userinfo_def by (intro keep_rules) auto

lemma sv_end_token_step: "sv_step {K_Jti} sv sv1 \<Longrightarrow> sv_step {K_Jti} sv (sv_end_token E sv1 t uid)"
  unfolding sv_end_token_def Let_def
  by (intro sv_step_tokens sv_revoke_snd_step bump_nonce_tokens [OF prod.collapse [symmetric]]) auto

lemma handle_oauth_end_session_keeps: "keeps {K_Jti} sv (handle_oauth_end_session E sv req resp)"
  unfolding handle_oauth_end_session_def
  by (intro keep_rules) (auto split: option.splits prod.splits if_splits intro!: sv_end_token_step)

section \<open>Passkeys\<close>

lemma reply_json_keeps [keep_rules]: "sv_step K sv sv1 \<Longrightarrow> keeps K sv (reply_json sv1 resp v)"
  unfolding reply_json_def by (intro keep_rules)

lemma handle_webauthn_register_challenge_keeps: "keeps {} sv (handle_webauthn_register_challenge E sv req resp)"
  unfolding handle_webauthn_register_challenge_def by (intro keep_rules) auto

lemma save_credentials_step: "sv_step {K_User} sv (save_credentials E sv uid cred key)"
  by (auto simp: save_credentials_def Let_def split: prod.splits intro!: sv_step_ctx ctx_step_snd elim: ctx_steps)

lemma register_verified_keeps: "keeps {K_User} sv (register_verified E sv req resp auth ch att cd)"
  unfolding register_verified_def by (intro keep_rules save_credentials_step) auto

lemma handle_webauthn_register_keeps: "keeps {K_User} sv (handle_webauthn_register E sv req resp)"
  unfolding handle_webauthn_register_def by (intro keep_rules register_verified_keeps) auto

lemma handle_webauthn_login_challenge_keeps: "keeps {} sv (handle_webauthn_login_challenge E sv req resp)"
  unfolding handle_webauthn_login_challenge_def by (intro keep_rules) auto

lemma webauthn_issue_keeps: "keeps {} sv (webauthn_issue E sv req resp u)"
  unfolding webauthn_issue_def by (intro keep_rules) auto

lemma webauthn_login_user_keeps: "keeps {} sv (webauthn_login_user E sv req resp u ch ad cd sg)"
  unfolding webauthn_login_user_def
  by (intro keep_rules keeps_trans [OF _ webauthn_issue_keeps])
    (auto intro!: sv_record_risk_step sv_step_risk intro: risk_evaluate_wf risk_success_wf)

lemma handle_webauthn_login_keeps: "keeps {} sv (handle_webauthn_login E sv req resp)"
  unfolding handle_webauthn_login_def by (intro keep_rules webauthn_login_user_keeps) auto

end
