(* ===== verification/Token_Ids.thy ===== *)
theory Token_Ids
  imports Token_Sessions
begin

text \<open>
  What verification reads from a token: it depends on the text alone, and the id it finds fits an entry of the revocation
  list unchanged. The scanner only moves forward in the text, so what it copies holds no NUL.
\<close>

lemma set_dropWhile_sub: "set (dropWhile P xs) \<subseteq> set xs"
  by (auto dest: set_dropWhileD)

lemma set_tl_sub: "set (tl xs) \<subseteq> set xs"
  by (cases xs) auto

lemma set_quoted: "set (fst (quoted p)) \<subseteq> set p" "set (snd (quoted p)) \<subseteq> set p"
  using set_takeWhileD [of _ "\<lambda>c. c \<noteq> QUOTE" p] set_drop_subset [of 1 "dropWhile (\<lambda>c. c \<noteq> QUOTE) p"] set_dropWhile_sub [of "\<lambda>c. c \<noteq> QUOTE" p]
  by (auto simp: quoted_def)

lemma set_strtoull: "set (snd (strtoull p)) \<subseteq> set p"
proof -
  obtain neg ds rest where n: "scan_number p = (neg, ds, rest)" by (cases "scan_number p")
  have "set rest \<subseteq> set p"
    using n unfolding scan_number_def Let_def
    by (auto split: if_splits dest!: set_dropWhileD list.set_sel(2) [rotated])
  then show ?thesis unfolding strtoull_def n by (simp add: Let_def)
qed

lemma set_ids_loop: "set (snd (ids_loop n p ids)) \<subseteq> set p"
proof (induction n arbitrary: p ids)
  case (Suc n)
  let ?p1 = "dropWhile (\<lambda>c. is_blank c \<or> c = CHR '','') p"
  have "set (snd (ids_loop n (snd (strtoull ?p1)) (ids @ [fst (strtoull ?p1)]))) \<subseteq> set p"
    using Suc [of "snd (strtoull ?p1)" "ids @ [fst (strtoull ?p1)]"] set_strtoull [of ?p1] set_dropWhile_sub [of _ p] by blast
  then show ?case using set_dropWhile_sub [of _ p] by (simp add: Let_def case_prod_unfold)
qed simp

lemma set_scan_ids: "set (snd (scan_ids p)) \<subseteq> set p"
  using set_ids_loop [of 64 p "[]"] set_dropWhile_sub [of "\<lambda>c. c \<noteq> CHR '']''" "snd (ids_loop 64 p [])"]
    set_drop_subset [of 1 "dropWhile (\<lambda>c. c \<noteq> CHR '']'') (snd (ids_loop 64 p []))"]
  by (auto simp: scan_ids_def case_prod_unfold Let_def)

lemma cnf_loop_frame: "cnf_loop p tok = Some (tok', q) \<Longrightarrow> tk_jti tok' = tk_jti tok \<and> set q \<subseteq> set p"
proof (induction p tok rule: cnf_loop.induct)
  case (1 p tok)
  let ?p1 = "dropWhile (\<lambda>c. c \<noteq> QUOTE \<and> c \<noteq> CHR ''}'') p"
  obtain ikey p4 where q1: "quoted (tl ?p1) = (ikey, p4)" by (cases "quoted (tl ?p1)")
  let ?p5 = "dropWhile (\<lambda>c. c = CHR '' '' \<or> c = CHR '':'') p4"
  obtain v r where q2: "quoted (tl ?p5) = (v, r)" by (cases "quoted (tl ?p5)")
  let ?a = "dropWhile (\<lambda>c. c = CHR '' '' \<or> c = CHR '','') r"
  let ?b = "dropWhile (\<lambda>c. c = CHR '' '' \<or> c = CHR '','') (dropWhile (\<lambda>c. c \<noteq> CHR '','' \<and> c \<noteq> CHR ''}'') ?p5)"
  let ?t = "if ikey = ''jkt'' \<and> length v < 64 then tok\<lparr>tk_jkt := v\<rparr> else tok"
  have p1: "set ?p1 \<subseteq> set p" by (rule set_dropWhile_sub)
  have "set p4 \<subseteq> set p" using set_quoted(2) [of "tl ?p1"] set_tl_sub [of ?p1] p1 q1 by auto
  then have p5: "set ?p5 \<subseteq> set p" by (rule subset_trans [OF set_dropWhile_sub])
  have "set r \<subseteq> set p" using set_quoted(2) [of "tl ?p5"] set_tl_sub [of ?p5] p5 q2 by auto
  then have a: "set ?a \<subseteq> set p" by (rule subset_trans [OF set_dropWhile_sub])
  have b: "set ?b \<subseteq> set p" by (rule subset_trans [OF set_dropWhile_sub subset_trans [OF set_dropWhile_sub p5]])
  note unf = "1.prems" [unfolded cnf_loop.simps [of p] Let_def q1 prod.case q2]
  show ?case
  proof (cases "p = [] \<or> hd p = CHR ''}'' \<or> ?p1 = [] \<or> hd ?p1 = CHR ''}''")
    case True
    then show ?thesis using unf p1 by (auto split: if_splits)
  next
    case False
    then have g: "\<not> (p = [] \<or> hd p = CHR ''}'')" "?p1 \<noteq> []" "hd ?p1 \<noteq> CHR ''}''" by blast+
    note unf = unf [unfolded if_not_P [OF g(1)] if_not_P [OF g(2)] if_not_P [OF g(3)]]
    show ?thesis
    proof (cases "is_at QUOTE ?p5")
      case True
      then have "tk_jti tok' = tk_jti ?t \<and> set q \<subseteq> set ?a"
        using "1.IH"(1) [OF g(1) refl g(2,3) q1 [symmetric] refl refl True q2 [symmetric] refl] unf by simp
      then show ?thesis using a by auto
    next
      case no: False
      then have "tk_jti tok' = tk_jti tok \<and> set q \<subseteq> set ?b"
        using "1.IH"(2) [OF g(1) refl g(2,3) q1 [symmetric] refl refl no] unf by simp
      then show ?thesis using b by auto
    qed
  qed
qed

lemma set_scan_value:
  assumes "scan_value key p st = Some (st', q)"
  shows "set q \<subseteq> set p"
proof -
  obtain tok fs fe where st: "st = (tok, fs, fe)" by (cases st)
  have t: "set x \<subseteq> set (tl p) \<Longrightarrow> set x \<subseteq> set p" for x
    by (rule subset_trans [OF _ set_tl_sub])
  have c: "set (if is_at (CHR ''}'') q' then tl q' else q') \<subseteq> set p" if "cnf_loop (tl p) tok = Some (tok', q')" for tok' q'
    using subset_trans [OF set_tl_sub, of q' "set p"] t [of q'] cnf_loop_frame [OF that] by simp
  consider "q = p" | "q = snd (quoted (tl p))" | "q = snd (strtoull p)" | "q = snd (scan_ids (tl p))"
    | tok' q' where "cnf_loop (tl p) tok = Some (tok', q')" "q = (if is_at (CHR ''}'') q' then tl q' else q')"
    using assms unfolding scan_value_def st Let_def case_prod_unfold prod.sel
    by (simp only: fst_conv snd_conv split: if_splits bind_splits) (auto split: if_splits prod.splits)
  then show ?thesis
    using t [OF set_quoted(2) [of "tl p"]] set_strtoull [of p] t [OF set_scan_ids [of "tl p"]] c by cases simp_all
qed

definition jti_fits :: "token \<Rightarrow> bool" where
  "jti_fits t \<longleftrightarrow> nul_free (tk_jti t) \<and> length (tk_jti t) < 64"

lemma scan_value_jti:
  assumes "scan_value key p st = Some (st', q)" "jti_fits (fst st)" "nul_free p"
  shows "jti_fits (fst st')"
proof -
  obtain tok fs fe where st: "st = (tok, fs, fe)" by (cases st)
  have n: "nul_free (fst (quoted (tl p)))" using assms(3) set_quoted(1) [of "tl p"] set_tl_sub [of p] by (auto simp: nul_free_def)
  show ?thesis
  proof (cases "key = ''jti'' \<and> is_at QUOTE p")
    case True
    then have "fst st' = (if length (fst (quoted (tl p))) < 64 then tok\<lparr>tk_jti := fst (quoted (tl p))\<rparr> else tok)"
      using assms(1) by (auto simp: scan_value_def st Let_def case_prod_unfold)
    then show ?thesis using assms(2) st n by (auto simp: jti_fits_def)
  next
    case False
    consider "key = ''jti''" | "key = ''sub''" | "key = ''iat''" | "key = ''exp''" | "key = ''tnc''" | "key = ''cnf''" | "key = ''scope''"
      | "key = ''nonce''" | "key = ''roles''" | "key = ''groups''"
      | "key \<noteq> ''jti''" "key \<noteq> ''sub''" "key \<noteq> ''iat''" "key \<noteq> ''exp''" "key \<noteq> ''tnc''" "key \<noteq> ''cnf''" "key \<noteq> ''scope''"
        "key \<noteq> ''nonce''" "key \<noteq> ''roles''" "key \<noteq> ''groups''" by argo
    then have "tk_jti (fst st') = tk_jti tok"
      using assms(1) False
      by cases (auto simp: scan_value_def st Let_def bind_eq_Some_conv split: if_splits prod.splits dest: cnf_loop_frame [THEN conjunct1])
    then show ?thesis using assms(2) st by (simp add: jti_fits_def)
  qed
qed

lemma set_key_at:
  assumes "key_at p = Some (key, q)"
  shows "set q \<subseteq> set p"
proof -
  let ?p1 = "dropWhile (\<lambda>c. c \<noteq> QUOTE) p"
  have q: "q = tl (dropWhile (\<lambda>c. c \<noteq> QUOTE) (tl ?p1))" using assms by (auto simp: key_at_def Let_def split: if_splits)
  show ?thesis
    unfolding q using set_tl_sub [of "dropWhile (\<lambda>c. c \<noteq> QUOTE) (tl ?p1)"] set_dropWhile_sub [of _ "tl ?p1"] set_tl_sub [of ?p1] set_dropWhile_sub [of _ p] by blast
qed

lemma scan_loop_jti:
  "scan_loop p st = Some st' \<Longrightarrow> jti_fits (fst st) \<Longrightarrow> nul_free p \<Longrightarrow> jti_fits (fst st')"
proof (induction p st rule: scan_loop.induct)
  case (1 p st)
  show ?case
  proof (cases "key_at p")
    case None
    then show ?thesis using "1.prems" by (simp add: scan_loop.simps)
  next
    case (Some kp)
    obtain key p4 where k: "kp = (key, p4)" by (cases kp)
    let ?p5 = "dropWhile is_blank p4" and ?p6 = "dropWhile is_blank (tl (dropWhile is_blank p4))"
    have "set p4 \<subseteq> set p" using set_key_at Some k by simp
    then have n: "nul_free ?p5" "nul_free ?p6"
      using "1.prems"(3) set_tl_sub [of ?p5] set_dropWhile_sub [of is_blank p4] set_dropWhile_sub [of is_blank "tl ?p5"]
      by (auto simp: nul_free_def)
    show ?thesis
    proof (cases "is_at (CHR '':'') ?p5 \<and> ?p6 \<noteq> []")
      case False
      then have "\<not> is_at (CHR '':'') ?p5 \<and> scan_loop ?p5 st = Some st' \<or> st' = st"
        using "1.prems"(1) Some k by (simp add: scan_loop.simps [of p] Let_def split: if_splits)
      then show ?thesis using "1.IH"(1) [OF Some k [symmetric] refl] "1.prems"(2) n(1) by blast
    next
      case True
      then have "scan_value key ?p6 st \<noteq> None"
        using "1.prems"(1) Some k by (intro notI) (simp add: scan_loop.simps [of p] Let_def split: if_splits)
      then obtain st1 q where v: "scan_value key ?p6 st = Some (st1, q)" by auto
      then have l: "scan_loop q st1 = Some st'" using "1.prems"(1) True Some k by (simp add: scan_loop.simps [of p] Let_def split: if_splits)
      have "nul_free q" using set_scan_value [OF v] n(2) by (auto simp: nul_free_def)
      then show ?thesis
        using "1.IH"(2) [OF Some k [symmetric] refl _ refl _ v refl l] True scan_value_jti [OF v "1.prems"(2) n(2)] by simp
    qed
  qed
qed

lemma verify_result:
  assumes "token_verify cr now m s = Some (SSO_OK, t)"
  obtains h p sig fs fe where "split_token s = Some (h, p, sig)"
    "scan_loop (cstr (base64url_decode p 4095)) (zero_token\<lparr>tk_str := strlcpy s 8192\<rparr>, False, False) = Some (t, fs, fe)"
  using assms
  by (auto simp: token_verify_def read_claims_def scan_jwt_payload_def Let_def bind_eq_Some_conv split: option.splits if_splits)

text \<open>What verification reads depends on the text alone, and the id fits the entry of a revocation list.\<close>

lemma verify_unique:
  assumes "token_verify cr now m s = Some (SSO_OK, t)" "token_verify cr' now' m' s = Some (SSO_OK, t')"
  shows "t' = t"
proof -
  obtain h p sig fs fe where "split_token s = Some (h, p, sig)"
    "scan_loop (cstr (base64url_decode p 4095)) (zero_token\<lparr>tk_str := strlcpy s 8192\<rparr>, False, False) = Some (t, fs, fe)"
    by (rule verify_result [OF assms(1)])
  moreover obtain h' p' sig' fs' fe' where "split_token s = Some (h', p', sig')"
    "scan_loop (cstr (base64url_decode p' 4095)) (zero_token\<lparr>tk_str := strlcpy s 8192\<rparr>, False, False) = Some (t', fs', fe')"
    by (rule verify_result [OF assms(2)])
  ultimately show ?thesis by simp
qed

lemma verify_jti:
  assumes "token_verify cr now m s = Some (SSO_OK, t)"
  shows "strlcpy (tk_jti t) TOKEN_REVOCATION_STR_LEN = tk_jti t"
proof -
  obtain h p sig fs fe where "split_token s = Some (h, p, sig)"
    and l: "scan_loop (cstr (base64url_decode p 4095)) (zero_token\<lparr>tk_str := strlcpy s 8192\<rparr>, False, False) = Some (t, fs, fe)"
    by (rule verify_result [OF assms])
  have "jti_fits t" using scan_loop_jti [OF l] by (simp add: jti_fits_def zero_token_def)
  then show ?thesis by (simp add: jti_fits_def strlcpy_id)
qed

end
