(* ===== verification/Service_Runs.thy ===== *)
theory Service_Runs
  imports Handlers_Frame Token_Ids
begin

text \<open>
  The service over any sequence of requests. A table of routes promises a bound on what each handler writes; from it follow
  what one request and what a whole run can change. The table of \<^verbatim>\<open>src/main.c\<close> is the instance.
\<close>

section \<open>Runs\<close>

definition serve :: "'s route list \<Rightarrow> 's service \<Rightarrow> 's service \<Rightarrow> bool" where
  "serve routes sv sv' \<longleftrightarrow> (\<exists>E req resp. dispatch E routes sv req = Some (resp, sv'))"

abbreviation service_run :: "'s route list \<Rightarrow> 's service \<Rightarrow> 's service \<Rightarrow> bool" where
  "service_run routes \<equiv> (serve routes)\<^sup>*\<^sup>*"

lemma find_route_Some: "find_route routes req = Some r \<Longrightarrow> r \<in> set routes \<and> rt_method r = rq_method req \<and> match_route (rt_pattern r) (rq_path req)"
  using nth_mem [of _ "method_routes routes (rq_method req)"]
  by (fastforce simp: find_route_def method_routes_def find_Some_iff)

section \<open>Tables of routes\<close>

text \<open>What a request may write, given a bound for each route.\<close>

definition request_writes :: "'s route list \<Rightarrow> ('s route \<Rightarrow> call_kind set) \<Rightarrow> http_request \<Rightarrow> call_kind set" where
  "request_writes routes writes req = (case find_route routes req of Some r \<Rightarrow> writes r | None \<Rightarrow> {})"

locale route_table =
  fixes routes :: "'s route list" and writes :: "'s route \<Rightarrow> call_kind set"
  assumes handler_writes: "r \<in> set routes \<Longrightarrow> keeps (writes r) sv (rt_handler r E sv req resp)"
begin

lemma run_handler_step:
  assumes "r \<in> set routes" "run_handler E r sv req resp = Some (resp', sv')"
  shows "sv_step (writes r) sv sv'"
  using handler_writes [OF assms(1), of sv E req resp] assms(2)
  by (auto simp: run_handler_def keeps_def bind_eq_Some_conv)

lemma dispatch_step:
  assumes "dispatch E routes sv req = Some (resp, sv')"
  shows "sv_step (request_writes routes writes req) sv sv'"
proof (cases "rq_method req = HTTP_OPTIONS \<or> find_route routes req = None")
  case True
  then have "sv' = sv" using assms by (auto simp: dispatch_def Let_def split: if_splits)
  then show ?thesis by simp
next
  case False
  then obtain r where r: "find_route routes req = Some r" by auto
  note run = run_handler_step [OF find_route_Some [OF r, THEN conjunct1], of E]
  have w: "request_writes routes writes req = writes r" by (simp add: request_writes_def r)
  show ?thesis
  proof (cases "auth_required E r")
    case True
    then obtain e u t sv1 where a: "authenticate_request E sv req = Some (e, u, t, sv1)"
      using assms False r by (auto simp: dispatch_def Let_def bind_eq_Some_conv)
    have "sv' = sv1 \<or> (\<exists>req' resp'. run_handler E r sv1 req' resp' = Some (resp, sv'))"
      using assms False r True a by (auto simp: dispatch_def Let_def split: if_splits)
    then show ?thesis using authenticate_step [OF a] by (auto simp: w intro: sv_step_trans dest: run)
  next
    case no: False
    then show ?thesis using assms False r run w by (auto simp: dispatch_def Let_def)
  qed
qed

lemma run_step: "service_run routes sv sv' \<Longrightarrow> sv_step UNIV sv sv'"
proof (induction rule: rtranclp_induct)
  case (step sv1 sv2)
  then have "sv_step UNIV sv1 sv2" by (auto simp: serve_def dest: dispatch_step intro: sv_step_mono)
  then show ?case using step.IH by (rule sv_step_trans [rotated])
qed simp

text \<open>A token that once was good and whose id is revoked is refused from then on.\<close>

lemma run_tokens:
  assumes "service_run routes sv sv'"
  shows "tokens_ok (sv_tokens sv) \<Longrightarrow> tokens_ok (sv_tokens sv')" "set (jtis (sv_tokens sv)) \<subseteq> set (jtis (sv_tokens sv'))"
  using run_step [OF assms] by (auto simp: sv_step_def tokens_step_def)

end

section \<open>The routes of the server\<close>

text \<open>The kinds of data an endpoint may write.\<close>

definition route_writes :: "'s route \<Rightarrow> call_kind set" where
  "route_writes r =
     (let p = rt_pattern r; under = (\<lambda>s. take (length s) p = s); ends = (\<lambda>s. drop (length p - length s) p = s)
      in if rt_method r = HTTP_GET
         then (if p = ''/api/v1/oauth/authorize'' then {K_Code} else if p = ''/api/v1/oauth/end-session'' then {K_Jti} else {})
         else if under ''/api/v1/check'' then {K_Audit}
         else if p = ''/api/v1/auth/login'' \<or> p = ''/api/v1/auth/logout'' \<or> p = ''/api/v1/oauth/revoke'' then {K_Jti}
         else if p = ''/api/v1/auth/send_sms'' then {K_Sms}
         else if p = ''/api/v1/auth/login_by_sms'' then {K_Sms, K_User}
         else if p = ''/api/v1/auth/register'' then {K_User, K_Role, K_Link}
         else if p = ''/api/v1/auth/mfa/enable'' \<or> p = ''/api/v1/auth/webauthn/register'' \<or> p = ''/api/v1/auth/password'' then {K_User}
         else if p = ''/api/v1/oauth/token'' then {K_Code, K_Refresh}
         else if under ''/api/v1/policies'' \<and> (ends ''/assign'' \<or> ends ''/unassign'') then {K_Assign, K_Audit}
         else if ends ''/assign'' \<or> ends ''/unassign'' \<or> under ''/api/v1/groups/*/members'' then {K_Link, K_Audit}
         else if under ''/api/v1/users'' then {K_User, K_Audit}
         else if under ''/api/v1/roles'' then {K_Role, K_Audit}
         else if under ''/api/v1/groups'' then {K_Group, K_Audit}
         else if under ''/api/v1/policies'' then {K_Policy, K_Audit}
         else if under ''/api/v1/clients'' then {K_Client, K_Audit}
         else {})"

lemmas handler_keeps =
  handle_metrics_keeps handle_health_keeps handle_admin_status_keeps handle_swagger_ui_keeps handle_openapi_yaml_keeps
  handle_login_keeps handle_send_sms_keeps handle_login_by_sms_keeps handle_register_keeps handle_mfa_setup_keeps
  handle_mfa_enable_keeps handle_mfa_verify_keeps handle_webauthn_register_challenge_keeps handle_webauthn_register_keeps
  handle_webauthn_login_challenge_keeps handle_webauthn_login_keeps handle_verify_keeps handle_refresh_keeps
  handle_logout_keeps handle_logout_all_keeps handle_change_password_keeps handle_me_keeps handle_certs_keeps
  handle_userinfo_keeps handle_jwks_keeps handle_rotate_keys_keeps handle_session_check_keeps handle_list_audit_logs_keeps
  handle_check_permission_keeps handle_check_functional_keeps handle_check_api_keeps handle_check_data_keeps
  handle_check_rbac_keeps handle_check_location_keeps handle_check_lbac_keeps handle_check_abac_keeps
  handle_list_users_keeps handle_create_user_keeps handle_get_user_keeps handle_update_user_keeps handle_delete_user_keeps
  handle_list_roles_keeps handle_create_role_keeps handle_update_role_keeps handle_delete_role_keeps
  handle_assign_role_keeps handle_unassign_role_keeps handle_list_policies_keeps handle_create_policy_keeps
  handle_update_policy_keeps handle_delete_policy_keeps handle_assign_policy_keeps handle_unassign_policy_keeps
  handle_get_user_policies_keeps handle_get_policy_targets_keeps handle_list_groups_keeps handle_create_group_keeps
  handle_update_group_keeps handle_delete_group_keeps handle_add_group_member_keeps handle_remove_group_member_keeps
  handle_list_clients_keeps handle_create_client_keeps handle_update_client_keeps handle_delete_client_keeps
  handle_well_known_openid_config_keeps handle_oauth_authorize_keeps handle_oauth_token_keeps
  handle_oauth_introspect_keeps handle_oauth_revoke_keeps handle_oauth_end_session_keeps

lemma api_routes_keep: "list_all (\<lambda>r. \<forall>E sv req resp. keeps (route_writes r) sv (rt_handler r E sv req resp)) api_routes"
  by (simp add: api_routes_def route_writes_def handler_keeps)

interpretation api: route_table api_routes route_writes
  by unfold_locales (use api_routes_keep in \<open>auto simp: list_all_iff\<close>)

end
