(* ===== verification/Service_Safety.thy ===== *)
theory Service_Safety
  imports Service_Runs
begin

text \<open>
  What the server guarantees over requests and runs of requests: what a request may write, that a protected route does
  nothing without a good token, that a logout is final, and that
  a started service stays well formed.
\<close>

section \<open>A running service\<close>

text \<open>A service over the in-memory tables with one user and a token for it, to evaluate the theorems on.\<close>

definition sample_session :: token where
  "sample_session = token_fields sample_manager 1 [] [] None 60 NoJkt 5 ''xy'' ''r''"

definition sample_bearer :: string where
  "sample_bearer = tk_str (snd (the (token_issue sample_crypto sample_manager 1 [] [] None 60 NoJkt 5 ''xy'' ''r'')))"

definition sample_env :: env where
  "sample_env = undefined\<lparr>ev_crypto := sample_crypto, ev_getenv := (\<lambda>_. None), ev_now := (\<lambda>_. 65),
     ev_rnd8 := (\<lambda>_. ''xy''), ev_rnd32 := (\<lambda>_. ''r''), ev_time := 0, ev_stale := []\<rparr>"

definition sample_service :: "mem_priv service" where
  "sample_service =
     \<lparr>sv_ctx = bare_context storage_memory (mem_open\<lparr>users := [sample_user]\<rparr>), sv_tokens = sample_manager, sv_limiter = None,
      sv_risk = risk_initial exact_fpu, sv_heap = heap_empty, sv_audit = audit_initial\<rparr>"

definition sample_call :: "http_method \<Rightarrow> string \<Rightarrow> string \<Rightarrow> http_request" where
  "sample_call m p t = zero_request\<lparr>rq_method := m, rq_path := p, rq_auth_token := t\<rparr>"

lemma sample_session_plain: "claims_plain sample_session"
  using jti_plain [of 5 "''xy''"]
  by (simp add: claims_plain_def sample_session_def token_fields_def zero_token_def int64_def plain_text_def read_jkt_def)

lemma sample_session_fits: "payload_fits sample_session"
  by code_simp

lemma sample_bearer_slots:
  assumes "hs_wf M" "slots M = slots sample_manager"
  shows "token_verify sample_crypto 65 M sample_bearer = Some (SSO_OK, sample_session\<lparr>tk_str := sample_bearer, tk_raw_refresh := []\<rparr>)"
proof -
  let ?i = "active_slot sample_manager"
  obtain m x where c: "kid (slots sample_manager ! ?i) = kid_name m" "ks_key (slots sample_manager ! ?i) = Secret x"
    "populated (slots sample_manager ! ?i)" "?i < 2"
    using active_slot_content [OF sample_wf] by metis
  have "sig_b64 sample_crypto x (kid_name m) sample_session" using Token_Signing.sample_mac by (simp add: sample_crypto_def)
  then have v: "token_verify sample_crypto 65 M (token_text sample_crypto x (kid_name m) sample_session) =
      (let out = sample_session\<lparr>tk_str := token_text sample_crypto x (kid_name m) sample_session, tk_raw_refresh := []\<rparr>
       in if 65 > tk_expires_at sample_session then Some (SSO_ERR_TOKEN_EXPIRED, token_destroy out) else Some (SSO_OK, out))"
    using c assms(2) by (intro verify_slot [OF assms(1) c(4) _ _ _ sample_session_plain sample_session_fits]) simp_all
  have "sample_bearer = token_text sample_crypto x (kid_name m) sample_session"
    using issue_text [OF _ refl c(2) _ _ sample_session_def sample_session_plain, of sample_crypto] sample_wf c(1) kid_name_plain
    by (simp add: sample_bearer_def hs_wf_def)
  then show ?thesis using v by (simp add: Let_def sample_session_def token_fields_def)
qed

lemmas sample_bearer_verifies = sample_bearer_slots [OF sample_wf refl]

lemma sample_call_simps [simp]:
  "rq_method (sample_call m p t) = m" "rq_path (sample_call m p t) = p" "rq_auth_token (sample_call m p t) = t"
  by (simp_all add: sample_call_def)

lemma sample_tokens: "tokens_ok sample_manager" "jtis sample_manager = []" "tm_storage sample_manager = False"
  "token_get_nonce sample_manager 1 = 0"
  by (simp_all add: sample_manager_def token_manager_init_def zero_manager_def tokens_ok_def list_ok_def nonces_ok_def sessions_ok_def
    token_get_nonce_def)

lemma sample_user_found: "user_get_by_id (sv_ctx sample_service) (sv_users sample_service) 1 = (SSO_OK, Some sample_user)"
  by (simp add: sample_service_def bare_context_def user_get_by_id_def sb_fn_def mem_user_get_by_id_def get_where_def sample_user_def)

lemma sample_env_simps [simp]:
  "ev_crypto sample_env = sample_crypto" "ev_getenv sample_env = (\<lambda>_. None)" "ev_now sample_env k = 65"
  "ev_rnd8 sample_env k = ''xy''" "ev_rnd32 sample_env k = ''r''" "ev_time sample_env = 0" "ev_stale sample_env = []"
  by (simp_all add: sample_env_def)

lemma sample_service_simps [simp]: "sv_tokens sample_service = sample_manager"
  by (simp add: sample_service_def)

lemma sample_fields: "tk_jti sample_session = token_jti 5 ''xy''" "tk_user_id sample_session = 1" "tk_nonce sample_session = 0"
  "tk_jkt sample_session = []" "tk_expires_at sample_session = 65"
  using sample_tokens(4) by (simp_all add: sample_session_def token_fields_def read_jkt_def zero_token_def)

lemma sample_bearer_Cons: "sample_bearer \<noteq> []"
proof
  assume "sample_bearer = []"
  then have "token_verify sample_crypto 65 sample_manager [] \<noteq> Some (SSO_ERR_TOKEN_INVALID, zero_token\<lparr>tk_str := []\<rparr>)"
    using sample_bearer_verifies by simp
  then show False by (simp add: token_verify_def split_token_def)
qed

lemma sample_authenticates:
  "authenticate_request sample_env sample_service (sample_call m p sample_bearer) =
     Some (SSO_OK, Some sample_user, sample_session\<lparr>tk_str := sample_bearer, tk_raw_refresh := []\<rparr>, sample_service)"
  using sample_bearer_verifies sample_bearer_Cons sample_tokens sample_user_found
  by (simp add: authenticate_request_def sample_call_def sv_is_revoked_def token_is_revoked_def sample_fields sample_user_def)

section \<open>One request\<close>

text \<open>C6: what a request can change is bounded by its route. Whatever the handler does with the request, the store changes
  only through the functions of the backend for the kinds of data the route is listed with: nothing for the reading
  endpoints, the audit log for permission checks, the entity and the audit log for management. Context, managers and
  configuration stay, no revocation is forgotten and the token manager stays well formed.\<close>

theorem request_writes_bounded:
  fixes sv sv' :: "'s service"
  assumes "dispatch E api_routes sv req = Some (resp, sv')"
  shows "sv_step (request_writes (api_routes :: 's route list) route_writes req) sv sv'"
  using assms by (rule api.dispatch_step)

abbreviation (input) me_request :: "string \<Rightarrow> http_request" where
  "me_request t \<equiv> sample_call HTTP_GET ''/api/v1/auth/me'' t"

lemma find_me: "find_route api_routes (me_request t) = Some (Route ''/api/v1/auth/me'' HTTP_GET handle_me True)"
  by (simp add: find_route_def method_routes_def api_routes_def match_route.simps)

lemma me_granted: "\<exists>resp. dispatch sample_env api_routes sample_service (me_request sample_bearer) = Some (resp, sample_service) \<and> rs_status_code resp = 200"
  using sample_authenticates
  by (simp add: dispatch_def find_me auth_required_def run_handler_def handle_me_def reply_ok_def sso_response_ok_def Let_def)

theorem request_writes_bounded_witness:
  "\<exists>resp sv'. dispatch sample_env api_routes sample_service (me_request sample_bearer) = Some (resp, sv') \<and> sv_step {} sample_service sv'"
proof -
  obtain resp where d: "dispatch sample_env api_routes sample_service (me_request sample_bearer) = Some (resp, sample_service)"
    using me_granted by blast
  have "request_writes (api_routes :: mem_priv route list) route_writes (me_request sample_bearer) = {}"
    by (simp add: request_writes_def find_me route_writes_def)
  then show ?thesis using request_writes_bounded [OF d] d by auto
qed

lemma calls_none: "calls sbo {} s s' \<Longrightarrow> s' = s"
  unfolding calls_def by (induction rule: rtranclp_induct) auto

section \<open>Protected routes\<close>

lemma api_no_options: "r \<in> set api_routes \<Longrightarrow> rt_method r \<noteq> HTTP_OPTIONS"
proof -
  have "list_all (\<lambda>r. rt_method r \<noteq> HTTP_OPTIONS) api_routes" by (simp add: api_routes_def)
  then show "r \<in> set api_routes \<Longrightarrow> rt_method r \<noteq> HTTP_OPTIONS" by (auto simp: list_all_iff)
qed

lemma dispatch_protected:
  fixes sv sv' :: "'s service" and r :: "'s route"
  assumes "dispatch E api_routes sv req = Some (resp, sv')" "find_route api_routes req = Some r" "auth_required E r"
  obtains (refused) e u t msg where "authenticate_request E sv req = Some (e, u, t, sv')" "e \<noteq> SSO_OK"
      "resp = sso_response_error (new_response req) 401 msg"
  | (granted) u t sv1 where "authenticate_request E sv req = Some (SSO_OK, u, t, sv1)"
      "run_handler E r sv1 (req\<lparr>rq_userdata := Some \<lparr>au_user = the u, au_token = t\<rparr>\<rparr>) (new_response req) = Some (resp, sv')"
proof -
  have no: "rq_method req \<noteq> HTTP_OPTIONS" using find_route_Some [OF assms(2)] api_no_options by metis
  obtain e u t sv1 where a: "authenticate_request E sv req = Some (e, u, t, sv1)"
    using assms no by (auto simp: dispatch_def Let_def bind_eq_Some_conv)
  show ?thesis
    using assms no a refused granted by (cases "e = SSO_OK") (auto simp: dispatch_def Let_def)
qed

lemma is_revoked_ctx: "sv_is_revoked E k sv j = (b, sv') \<Longrightarrow> sv_ctx sv' = sv_ctx sv"
  by (auto simp: sv_is_revoked_def split: prod.splits)

lemma authenticate_ctx: "authenticate_request E sv req = Some (e, u, t, sv') \<Longrightarrow> sv_ctx sv' = sv_ctx sv"
  by (auto simp: authenticate_request_def Let_def bind_eq_Some_conv split: prod.splits if_splits dest: is_revoked_ctx)

lemma not_revoked: "tokens_ok (sv_tokens sv) \<Longrightarrow> sv_is_revoked E k sv j = (False, sv') \<Longrightarrow> j \<notin> set (jtis (sv_tokens sv))"
  using is_revoked_iff [of "sv_tokens sv" "ev_now E k" "sv_backend sv" "sv_store sv" j]
  by (auto simp: sv_is_revoked_def tokens_ok_def split: prod.splits)

text \<open>C2: complete mediation. With authentication on, a request for a protected route either is answered 401 and leaves
  the context and its store alone, or carries a token that verifies now, whose id is not on the revocation list, whose user
  the lookup reports as found, whose nonce is not older than that user's, and that is bound to no key: a token bound to a
  key is never accepted.\<close>

theorem protected_route_mediated:
  fixes sv sv' :: "'s service" and r :: "'s route"
  assumes "tokens_ok (sv_tokens sv)" "find_route api_routes req = Some r" "rt_auth r"
    and "ev_getenv E ''SSO_TEST_DISABLE_AUTH'' = None" "dispatch E api_routes sv req = Some (resp, sv')"
  shows "rs_status_code resp = 401 \<and> sv_ctx sv' = sv_ctx sv \<or>
    (\<exists>t u. token_verify (ev_crypto E) (ev_now E 0) (sv_tokens sv) (rq_auth_token req) = Some (SSO_OK, t) \<and>
      tk_jti t \<notin> set (jtis (sv_tokens sv)) \<and> tk_jkt t = [] \<and>
      user_get_by_id (sv_ctx sv) (sv_users sv) (tk_user_id t) = (SSO_OK, u) \<and>
      (u \<noteq> None \<longrightarrow> token_get_nonce (sv_tokens sv) (u_id (the u)) \<le> tk_nonce t))"
proof -
  have a: "auth_required E r" using assms(3,4) by (simp add: auth_required_def)
  from assms(5,2) a show ?thesis
  proof (cases rule: dispatch_protected)
    case (refused e u t msg)
    then show ?thesis using authenticate_ctx by (auto simp: sso_response_error_def)
  next
    case (granted u t sv1)
    then show ?thesis using authenticate_ok [OF granted(1)] not_revoked [OF assms(1)] by blast
  qed
qed

theorem protected_route_mediated_witness:
  "\<exists>resp sv'. dispatch sample_env api_routes sample_service (me_request []) = Some (resp, sv') \<and>
     rs_status_code resp = 401 \<and> sv_ctx sv' = sv_ctx sample_service"
proof -
  have a: "authenticate_request sample_env sample_service (me_request []) = Some (SSO_ERR_AUTH_FAILED, None, zero_token, sample_service)"
    by (simp add: authenticate_request_def)
  then obtain resp sv' where d: "dispatch sample_env api_routes sample_service (me_request []) = Some (resp, sv')"
    by (simp add: dispatch_def find_me auth_required_def Let_def)
  have "token_verify sample_crypto 65 sample_manager [] = Some (SSO_ERR_TOKEN_INVALID, zero_token\<lparr>tk_str := []\<rparr>)"
    by (simp add: token_verify_def split_token_def)
  then show ?thesis
    using protected_route_mediated [OF _ find_me _ _ d] sample_tokens(1) d by auto
qed

section \<open>Requests without a token\<close>

abbreviation (input) anonymous_kinds :: "call_kind set" where
  "anonymous_kinds \<equiv> {K_User, K_Role, K_Link, K_Sms, K_Code, K_Refresh, K_Jti}"

lemma open_routes: "r \<in> set api_routes \<Longrightarrow> \<not> rt_auth r \<Longrightarrow> route_writes r \<subseteq> anonymous_kinds"
proof -
  have "list_all (\<lambda>r. rt_auth r \<or> route_writes r \<subseteq> anonymous_kinds) api_routes" by (simp add: api_routes_def route_writes_def)
  then show "r \<in> set api_routes \<Longrightarrow> \<not> rt_auth r \<Longrightarrow> route_writes r \<subseteq> anonymous_kinds" by (auto simp: list_all_iff)
qed

lemma mem_call_frame:
  "backend_call storage_memory k P P' \<Longrightarrow> k \<in> anonymous_kinds \<Longrightarrow>
   policies P' = policies P \<and> groups P' = groups P \<and> oauth_clients P' = oauth_clients P"
  by (erule backend_call.cases) (auto simp: mem_user_create_def mem_user_update_def mem_user_delete_def mem_role_create_def
    mem_role_update_def mem_role_delete_def mem_assign_role_to_user_def mem_unassign_role_from_user_def mem_assign_role_to_group_def
    mem_unassign_role_from_group_def mem_add_user_to_group_def mem_remove_user_from_group_def mem_save_sms_code_def
    mem_delete_sms_code_def mem_oauth_code_create_def mem_oauth_code_mark_used_def mem_oauth_code_cleanup_def mem_rt_create_def
    mem_rt_revoke_def mem_rt_revoke_family_def mem_jti_revoke_def Let_def split: option.splits prod.splits if_splits)

lemma mem_calls_frame:
  "calls (Some storage_memory) anonymous_kinds P P' \<Longrightarrow>
   policies P' = policies P \<and> groups P' = groups P \<and> oauth_clients P' = oauth_clients P"
  unfolding calls_def by (induction rule: rtranclp_induct) (use mem_call_frame in \<open>fastforce+\<close>)

lemma anonymous_step:
  fixes sv sv' :: "'s service"
  assumes "rq_auth_token req = []" "ev_getenv E ''SSO_TEST_DISABLE_AUTH'' = None" "dispatch E api_routes sv req = Some (resp, sv')"
  shows "sv_step anonymous_kinds sv sv'"
proof (cases "find_route (api_routes :: 's route list) req")
  case None
  then show ?thesis using api.dispatch_step [OF assms(3)] by (auto simp: request_writes_def intro: sv_step_mono)
next
  case (Some r)
  show ?thesis
  proof (cases "rt_auth r")
    case True
    then have "auth_required E r" using assms(2) by (simp add: auth_required_def)
    from assms(3) Some this show ?thesis
    proof (cases rule: dispatch_protected)
      case (refused e u t msg)
      then show ?thesis using authenticate_step by blast
    next
      case (granted u t sv1)
      then show ?thesis using assms(1) by (simp add: authenticate_request_def)
    qed
  next
    case False
    then show ?thesis
      using api.dispatch_step [OF assms(3)] open_routes find_route_Some [OF Some] Some
      by (auto simp: request_writes_def intro: sv_step_mono)
  qed
qed



section \<open>Logout\<close>

lemma find_logout:
  "rq_method req = HTTP_POST \<Longrightarrow> rq_path req = ''/api/v1/auth/logout'' \<Longrightarrow>
   find_route api_routes req = Some (Route ''/api/v1/auth/logout'' HTTP_POST handle_logout True)"
  by (simp add: find_route_def method_routes_def api_routes_def match_route.simps)

lemma logout_revokes:
  assumes "handle_logout E sv req resp = Some (e, resp', sv')" "rs_status_code resp' = 200" "rq_userdata req = Some a"
  shows "strlcpy (tk_jti (au_token a)) TOKEN_REVOCATION_STR_LEN \<in> set (jtis (sv_tokens sv'))"
  using assms
  by (auto simp: handle_logout_def sv_revoke_def token_revoke_def reply_def reply_ok_def sso_response_error_def set_sv_store_def Let_def
    split: prod.splits if_splits)

lemma revoked_refused:
  assumes "tokens_ok (sv_tokens sv)" "token_verify cr now m (rq_auth_token req) = Some (SSO_OK, t)"
    and "tk_jti t \<in> set (jtis (sv_tokens sv))"
  shows "authenticate_request E sv req \<noteq> Some (SSO_OK, u, t', sv')"
  using authenticate_ok(1,2) [of E sv req u t' sv'] not_revoked [OF assms(1)] verify_unique [OF assms(2)] assms(3) by blast

text \<open>C1: a logout is final. Once a logout has been answered 200, then after any further requests, by whomever and whenever,
  with keys rotated or users changed, a request with the same token for a protected route is answered 401.\<close>

theorem logout_is_final:
  fixes sv :: "'s service" and r :: "'s route"
  assumes "tokens_ok (sv_tokens sv)" "ev_getenv E ''SSO_TEST_DISABLE_AUTH'' = None"
    and "rq_method req = HTTP_POST" "rq_path req = ''/api/v1/auth/logout''"
    and "dispatch E api_routes sv req = Some (resp, sv1)" "rs_status_code resp = 200"
    and "service_run api_routes sv1 sv2"
    and "rq_auth_token req' = rq_auth_token req" "find_route api_routes req' = Some r" "rt_auth r"
    and "ev_getenv E' ''SSO_TEST_DISABLE_AUTH'' = None" "dispatch E' api_routes sv2 req' = Some (resp', sv3)"
  shows "rs_status_code resp' = 401"
proof -
  note f = find_logout [OF assms(3,4)]
  have a: "auth_required E (Route ''/api/v1/auth/logout'' HTTP_POST handle_logout True)" using assms(2) by (simp add: auth_required_def)
  from assms(5) f a have "\<exists>t. token_verify (ev_crypto E) (ev_now E 0) (sv_tokens sv) (rq_auth_token req) = Some (SSO_OK, t) \<and>
      tk_jti t \<in> set (jtis (sv_tokens sv1))"
  proof (cases rule: dispatch_protected)
    case (refused e u t msg)
    then show ?thesis using assms(6) by (simp add: sso_response_error_def)
  next
    case (granted u t sv0)
    obtain e resp0 where h: "handle_logout E sv0 (req\<lparr>rq_userdata := Some \<lparr>au_user = the u, au_token = t\<rparr>\<rparr>) (new_response req) = Some (e, resp0, sv1)"
      and r: "resp = (if e \<noteq> SSO_OK \<and> rs_body resp0 = None then sso_response_error resp0 500 (sso_strerror e) else resp0)"
      using granted(2) by (auto simp: run_handler_def bind_eq_Some_conv)
    have "rs_status_code resp0 = 200" using r assms(6) by (auto simp: sso_response_error_def split: if_splits)
    then show ?thesis
      using logout_revokes [OF h] authenticate_ok(1) [OF granted(1)] verify_jti [OF authenticate_ok(1) [OF granted(1)]] by auto
  qed
  then obtain t where t: "token_verify (ev_crypto E) (ev_now E 0) (sv_tokens sv) (rq_auth_token req') = Some (SSO_OK, t)"
    "tk_jti t \<in> set (jtis (sv_tokens sv1))" using assms(8) by auto
  have "tokens_ok (sv_tokens sv1)" using api.dispatch_step [OF assms(5)] assms(1) by (simp add: sv_step_def tokens_step_def)
  then have k: "tokens_ok (sv_tokens sv2)" "tk_jti t \<in> set (jtis (sv_tokens sv2))"
    using api.run_tokens [OF assms(7)] t(2) by auto
  have a': "auth_required E' r" using assms(10,11) by (simp add: auth_required_def)
  from assms(12,9) a' show ?thesis
  proof (cases rule: dispatch_protected)
    case (granted u t' sv0)
    then show ?thesis using revoked_refused [OF k(1) t(1) k(2)] by blast
  qed (simp add: sso_response_error_def)
qed

abbreviation (input) logout_request :: http_request where
  "logout_request \<equiv> sample_call HTTP_POST ''/api/v1/auth/logout'' sample_bearer"

definition sample_logged_out :: "mem_priv service" where
  "sample_logged_out = sample_service\<lparr>sv_tokens := sample_manager\<lparr>jtis := [token_jti 5 ''xy''], rev_sorted := False\<rparr>\<rparr>"

lemma sample_logout:
  "\<exists>resp. dispatch sample_env api_routes sample_service logout_request = Some (resp, sample_logged_out) \<and> rs_status_code resp = 200"
  using sample_authenticates verify_jti [OF sample_bearer_verifies] sample_tokens
  by (simp add: dispatch_def find_logout auth_required_def run_handler_def handle_logout_def sv_revoke_def token_revoke_def
    set_sv_store_def reply_ok_def sso_response_ok_def sample_fields sample_logged_out_def Let_def)

lemma sample_after_logout: "\<exists>resp sv'. dispatch sample_env api_routes sample_logged_out (me_request sample_bearer) = Some (resp, sv')"
proof -
  have "hs_wf (sv_tokens sample_logged_out)" using sample_wf by (simp add: sample_logged_out_def hs_wf_def)
  then have v: "token_verify sample_crypto 65 (sv_tokens sample_logged_out) sample_bearer =
      Some (SSO_OK, sample_session\<lparr>tk_str := sample_bearer, tk_raw_refresh := []\<rparr>)"
    by (rule sample_bearer_slots) (simp add: sample_logged_out_def)
  obtain sv' where r: "sv_is_revoked sample_env 1 sample_logged_out (tk_jti sample_session) = (True, sv')"
    by (simp add: sv_is_revoked_def token_is_revoked_def sample_logged_out_def sample_fields bsearch_from.simps Let_def)
  show ?thesis
    using v r sample_bearer_Cons by (simp add: dispatch_def find_me auth_required_def authenticate_request_def Let_def)
qed

theorem logout_is_final_witness:
  "\<exists>resp sv1 resp' sv3. dispatch sample_env api_routes sample_service logout_request = Some (resp, sv1) \<and> rs_status_code resp = 200 \<and>
     dispatch sample_env api_routes sv1 (me_request sample_bearer) = Some (resp', sv3) \<and> rs_status_code resp' = 401"
proof -
  obtain resp where l: "dispatch sample_env api_routes sample_service logout_request = Some (resp, sample_logged_out)" "rs_status_code resp = 200"
    using sample_logout by blast
  obtain resp' sv3 where m: "dispatch sample_env api_routes sample_logged_out (me_request sample_bearer) = Some (resp', sv3)"
    using sample_after_logout by blast
  have "rs_status_code resp' = 401"
    by (rule logout_is_final [OF _ _ _ _ l rtranclp.rtrancl_refl _ find_me _ _ m]) (simp_all add: sample_tokens)
  then show ?thesis using l m by blast
qed

section \<open>From the start on\<close>

lemma load_token_secret_Cons: "load_token_secret E B \<noteq> []"
  by (auto simp: load_token_secret_def key_bytes_def le_bytes_def Let_def split: option.splits)

lemma token_init_ok: "s \<noteq> [] \<Longrightarrow> tokens_ok (snd (token_manager_init (Some s) ttl m))"
  by (simp add: token_manager_init_def tokens_ok_def zero_manager_def list_ok_def nonces_ok_def sessions_ok_def)

lemma token_init_rs256_ok: "tokens_ok (snd (token_manager_init_rs256 cr (Some p) q ttl m))"
  by (simp add: token_manager_init_rs256_def tokens_ok_def zero_manager_def list_ok_def nonces_ok_def sessions_ok_def split: prod.splits)

lemma init_signing_ok: "tokens_ok (snd (init_signing E B config ttl))"
  using token_init_rs256_ok load_token_secret_Cons
  by (auto simp: init_signing_def key_bytes_def token_init_ok split: option.splits prod.splits)
    (metis snd_conv)+

lemma init_standby_ok: "tokens_ok m \<Longrightarrow> tokens_ok (init_standby_key E config m)"
  by (auto simp: init_standby_key_def token_manager_init_rs256_standby_def token_manager_init_standby_def pem_opt_def tokens_ok_def
    list_ok_def nonces_ok_def Let_def split: option.splits prod.splits if_splits)

lemma boot_service_ok:
  assumes "boot_service E B storage config st g = (SSO_OK, sv)"
  shows "tokens_ok (sv_tokens sv)" "sv_risk sv = sv_risk g" "storage_backend (sv_ctx sv) = storage" "store (sv_ctx sv) = st"
    "sso_config (sv_ctx sv) = map_option wipe_keys (fst (init_signing E B config (token_ttl config)))"
    "user_mgr (sv_ctx sv) \<noteq> None" "role_mgr (sv_ctx sv)" "group_mgr (sv_ctx sv)" "policy_mgr (sv_ctx sv)"
  using assms init_standby_ok [OF init_signing_ok, of E _ E B config "token_ttl config"]
  by (auto simp: boot_service_def create_managers_def user_manager_create_def zero_context_def tokens_ok_def list_ok_def nonces_ok_def Let_def
    split: prod.splits if_splits option.splits)

lemma sso_init_ok:
  assumes "sso_init E B storage config g = (SSO_OK, sv)"
  obtains st where "boot_service E B storage config st g = (SSO_OK, sv)"
  using assms by (auto simp: sso_init_def Let_def split: if_splits option.splits prod.splits)

text \<open>C8: a started service stays well formed. After a start that succeeds, and whatever requests follow, the token manager
  has its two slots, a revocation list that is searched correctly, unique nonces and bounded session rings, the risk tables
  are sound, every manager exists, the backend is the one given, and the configuration holds none of the signing keys.\<close>

theorem service_stays_wf:
  assumes "sso_init E B storage config g = (SSO_OK, sv)" "risk_wf (sv_risk g)" "service_run api_routes sv sv'"
  shows "tokens_ok (sv_tokens sv') \<and> risk_wf (sv_risk sv') \<and> sv_backend sv' = storage \<and>
    sv_users sv' \<noteq> None \<and> role_mgr (sv_ctx sv') \<and> group_mgr (sv_ctx sv') \<and> policy_mgr (sv_ctx sv') \<and>
    (case sso_config (sv_ctx sv') of None \<Rightarrow> config = None | Some c \<Rightarrow>
       cf_token_secret c = [] \<and> cf_token_secret_2 c = [] \<and> cf_private_key_pem c = [] \<and> cf_private_key_pem_2 c = [])"
proof -
  obtain st where b: "boot_service E B storage config st g = (SSO_OK, sv)" by (rule sso_init_ok [OF assms(1)])
  note ok = boot_service_ok [OF b]
  have "fst (init_signing E B config ttl) = None \<Longrightarrow> config = None" for ttl
    by (auto simp: init_signing_def Let_def split: option.splits prod.splits if_splits)
  then show ?thesis
    using api.run_step [OF assms(3)] ok assms(2)
    by (auto simp: sv_step_def tokens_step_def ctx_step_def wipe_keys_def split: option.splits)
qed

definition sample_boot :: boot where
  "sample_boot = \<lparr>bt_sodium = True, bt_urandom = Some (replicate 32 (CHR ''k'')), bt_stack = replicate 32 NUL, bt_yday = None, bt_random12 = None\<rparr>"

lemma engine_starts: "\<exists>eng A'. perm_engine_create yday (Some c) A = (SSO_OK, Some eng, A')"
  by (simp add: perm_engine_create_def perm_engine_register_strategy_def strategy_defs empty_engine_def)

theorem service_stays_wf_witness:
  "\<exists>sv. sso_init sample_env sample_boot (Some storage_memory) None sample_service = (SSO_OK, sv) \<and> tokens_ok (sv_tokens sv)"
proof -
  have "sb_open storage_memory = Some (\<lambda>_ _. (SSO_OK, mem_open))" by (simp add: storage_memory_def)
  moreover obtain eng A where "perm_engine_create None (Some ((zero_context mem_open)\<lparr>storage_backend := Some storage_memory,
      user_mgr := Some \<lparr>hash_opslimit = OPSLIMIT_MODERATE (ev_pwhash sample_env), hash_memlimit = MEMLIMIT_MODERATE (ev_pwhash sample_env)\<rparr>,
      role_mgr := True, group_mgr := True, policy_mgr := True\<rparr>)) audit_initial = (SSO_OK, Some eng, A)"
    using engine_starts by blast
  ultimately obtain sv where i: "sso_init sample_env sample_boot (Some storage_memory) None sample_service = (SSO_OK, sv)"
    by (simp add: sso_init_def sample_boot_def boot_service_def create_managers_def user_manager_create_def
      rate_limiter_create_def limiter_size_def zero_context_def sample_service_def init_signing_def Let_def split: prod.splits)
  have "risk_wf (sv_risk sample_service)" by (simp add: sample_service_def risk_wf_initial)
  then show ?thesis using service_stays_wf [OF i _ rtranclp.rtrancl_refl] i by auto
qed

end
