(* ===== verification/Oauth_Grants.thy ===== *)
theory Oauth_Grants
  imports Oauth Service_Safety
begin

text \<open>
  The credentials of OAuth are good once. Over the in-memory tables, what has been exchanged for tokens is refused when it
  comes again, and a refresh token that comes again takes the whole family of its user and client with it.
\<close>

lemma da_find_append: "da_find Q xs = Some i \<Longrightarrow> da_find Q (xs @ ys) = Some i"
  by (induction xs arbitrary: i) (auto split: if_splits)

lemma da_find_update: "da_find Q xs = Some i \<Longrightarrow> Q y \<Longrightarrow> da_find Q (xs[i := y]) = Some i"
  by (induction xs arbitrary: i) (auto split: if_splits nat.splits)

lemma get_where_update:
  assumes "get_where Q xs = (SSO_OK, Some x)" "Q y"
  obtains i where "da_find Q xs = Some i" "xs ! i = x" "get_where Q (xs[i := y]) = (SSO_OK, Some y)"
    "\<And>z. get_where Q (xs[i := y] @ [z]) = (SSO_OK, Some y)"
proof -
  obtain i where i: "da_find Q xs = Some i" "xs ! i = x" using assms(1) by (auto simp: get_where_def split: option.splits)
  have "i < length xs" using da_find_SomeD [OF i(1)] by simp
  then show ?thesis
    using that i da_find_update [OF i(1) assms(2)] da_find_append [OF da_find_update [OF i(1) assms(2)]]
    by (simp add: get_where_def nth_append)
qed

lemma found_Some: "found r = Some x \<Longrightarrow> r = (SSO_OK, Some x)"
  by (cases r) (auto simp: found_def split: if_splits)

lemma error_status [simp]: "rs_status_code (json_error_response resp st e) = st"
  by (simp add: json_error_response_def)

lemma store_refresh_token_mem:
  assumes "sv_backend sv = Some storage_memory"
  shows "\<exists>rt. store_refresh_token E k sv uid cid raw = set_sv_store sv ((sv_store sv)\<lparr>refresh_tokens := refresh_tokens (sv_store sv) @ [rt]\<rparr>)"
  using assms by (simp add: store_refresh_token_def mem_rt_create_def) blast

section \<open>Authorization codes\<close>

lemma code_tokens_ok:
  assumes "code_tokens E sv cfg resp ac u jkt = Some (e, r, sv1)" "rs_status_code r = 200" "sv_backend sv = Some storage_memory"
  shows "sv_backend sv1 = Some storage_memory \<and> oauth_codes (sv_store sv1) = oauth_codes (sv_store sv)"
proof -
  obtain k cid raw where "sv1 = store_refresh_token E k sv (u_id u) cid raw"
    using assms(1,2) by (auto simp: code_tokens_def bind_eq_Some_conv oauth_error_def reply_ok_def split: if_splits)
  moreover obtain rt where "store_refresh_token E k sv (u_id u) cid raw =
      set_sv_store sv ((sv_store sv)\<lparr>refresh_tokens := refresh_tokens (sv_store sv) @ [rt]\<rparr>)"
    using store_refresh_token_mem [OF assms(3)] by blast
  ultimately show ?thesis using assms(3) by (simp add: set_sv_store_def)
qed

text \<open>C3: an authorization code is good once. After a request has exchanged it for tokens, every further attempt with the
  same code, whatever redirect address, verifier or proof comes with it and whenever it comes, is refused as an invalid
  grant and changes nothing.\<close>

theorem oauth_code_once:
  assumes "sv_backend sv = Some storage_memory" "grant_code E sv cfg req resp (Some c) uri jkt = Some (e, r, sv1)" "rs_status_code r = 200"
  shows "grant_code E' sv1 cfg' req' resp' (Some c) (Some uri') jkt' = oauth_error sv1 resp' 400 ''invalid_grant''"
proof -
  let ?P = "sv_store sv"
  obtain ac where g: "mem_oauth_code_get ?P c = (SSO_OK, Some ac)"
    using assms by (auto simp: grant_code_def oauth_error_def split: if_splits option.splits dest!: found_Some)
  let ?sv = "set_sv_store sv (snd (mem_oauth_code_mark_used ?P (oc_code ac)))"
  have f: "found (mem_oauth_code_get ?P c) = Some ac" using g by (simp add: found_def)
  obtain u where t: "code_tokens E ?sv cfg resp ac u jkt = Some (e, r, sv1)"
    using assms f by (auto simp: grant_code_def oauth_error_def Let_def split: if_splits option.splits)
  have b: "sv_backend ?sv = Some storage_memory" using assms(1) by (simp add: set_sv_store_def)
  obtain i where i: "da_find (\<lambda>x. oc_code x = c) (oauth_codes ?P) = Some i" "oauth_codes ?P ! i = ac" using g
    by (auto simp: mem_oauth_code_get_def get_where_def split: option.splits)
  have oc: "oc_code ac = c" using da_find_SomeD [OF i(1)] i(2) by simp
  then have "mem_oauth_code_get (sv_store ?sv) c = (SSO_OK, Some (ac\<lparr>used := 1\<rparr>))"
    using i da_find_update [OF i(1), of "ac\<lparr>used := 1\<rparr>"] da_find_SomeD [OF i(1)]
    by (simp add: mem_oauth_code_get_def mem_oauth_code_mark_used_def get_where_def set_sv_store_def)
  then have "found (mem_oauth_code_get (sv_store sv1) c) = Some (ac\<lparr>used := 1\<rparr>)"
    using code_tokens_ok [OF t assms(3) b] by (simp add: mem_oauth_code_get_def found_def)
  then show ?thesis using code_tokens_ok [OF t assms(3) b] by (simp add: grant_code_def)
qed

text \<open>The sample service with a code and a refresh token of its user.\<close>

definition sample_code :: oauth_auth_code where
  "sample_code = \<lparr>oc_code = ''c'', oc_client_id = ''app'', oc_user_id = 1, redirect_uri = ''u'', scope = [], nonce = [],
     code_challenge = [], code_challenge_method = [], oc_expires_at = 100, used = 0\<rparr>"

definition sample_refresh :: refresh_token where
  "sample_refresh = \<lparr>token_hash = token_sha256 sample_env ''t'', rt_user_id = 1, rt_client_id = ''app'', rt_expires_at = 100,
     rt_issued_at = 0, rt_revoked = 0\<rparr>"

definition sample_oauth :: "mem_priv service" where
  "sample_oauth = set_sv_store sample_service ((sv_store sample_service)\<lparr>oauth_codes := [sample_code], refresh_tokens := [sample_refresh]\<rparr>)"

lemma sample_issue:
  "scp \<in> {None, Some []} \<Longrightarrow>
   \<exists>t. token_issue sample_crypto sample_manager 1 [] [] scp 3600000 (Jkt []) 65 ''xy'' ''r'' = Some (SSO_OK, t)"
proof -
  assume scp: "scp \<in> {None, Some []}"
  obtain m x where c: "kid (slots sample_manager ! active_slot sample_manager) = kid_name m"
    "ks_key (slots sample_manager ! active_slot sample_manager) = Secret x"
    using active_slot_content [OF sample_wf] by metis
  have "claims_plain (token_fields sample_manager 1 [] [] scp 3600000 (Jkt []) 65 ''xy'' ''r'')"
    using jti_plain [of 65 "''xy''"] scp
    by (auto simp: claims_plain_def token_fields_def zero_token_def int64_def plain_text_def read_jkt_def)
  then show ?thesis using issue_text [OF _ refl c(2) _ _ refl] sample_wf c(1) kid_name_plain by (simp add: hs_wf_def)
qed

text \<open>A service with the user, no roles, groups or clients, as the sample and the states after it are.\<close>

definition plain_tables :: "mem_priv service \<Rightarrow> bool" where
  "plain_tables sv \<longleftrightarrow> sv_backend sv = Some storage_memory \<and> sv_users sv \<noteq> None \<and> sv_tokens sv = sample_manager \<and>
     users (sv_store sv) = [sample_user] \<and> user_roles (sv_store sv) = [] \<and> user_groups (sv_store sv) = [] \<and>
     oauth_clients (sv_store sv) = []"

lemma pl_get_Nil: "pl_get [] k c n = []"
  by (cases n) simp_all

lemma plain_tables_simps:
  assumes "plain_tables sv"
  shows "active_user sv 1 = Some sample_user" "role_ids_of sv 1 = []" "group_ids_of sv 1 = []"
    "get_client_token_ttl sv sso_config_default cid = 3600000"
  using assms
  by (auto simp: plain_tables_def active_user_def user_get_by_id_def sb_fn_def mem_user_get_by_id_def get_where_def found_def sample_user_def
    role_ids_of_def group_ids_of_def user_get_roles_def user_get_groups_def mem_get_user_roles_def mem_get_user_groups_def ids_result_def pl_get_Nil
    get_client_token_ttl_def sso_config_default_def mem_oauth_client_get_def split: option.splits)

theorem oauth_code_once_witness:
  "\<exists>e r sv1. grant_code sample_env sample_oauth sso_config_default zero_request zero_response (Some ''c'') (Some ''u'') [] = Some (e, r, sv1) \<and>
     rs_status_code r = 200 \<and>
     grant_code sample_env sv1 sso_config_default zero_request zero_response (Some ''c'') (Some ''u'') [] =
       oauth_error sv1 zero_response 400 ''invalid_grant''"
proof -
  let ?sv = "set_sv_store sample_oauth (snd (mem_oauth_code_mark_used (sv_store sample_oauth) ''c''))"
  have p: "plain_tables ?sv"
    by (simp add: plain_tables_def sample_oauth_def set_sv_store_def sample_service_def bare_context_def mem_open_def
      mem_oauth_code_mark_used_def sample_code_def)
  obtain t where t: "token_issue sample_crypto sample_manager 1 [] [] (Some []) 3600000 (Jkt []) 65 ''xy'' ''r'' = Some (SSO_OK, t)"
    using sample_issue by blast
  have c: "u_id sample_user = 1" "scope sample_code = []" "oc_user_id sample_code = 1" "sv_tokens ?sv = sample_manager"
    using p by (simp_all add: sample_user_def sample_code_def plain_tables_def)
  have "\<exists>e r sv1. code_tokens sample_env ?sv sso_config_default zero_response sample_code sample_user [] = Some (e, r, sv1) \<and> rs_status_code r = 200"
    unfolding code_tokens_def sv_issue_def c sample_env_simps plain_tables_simps [OF p] t
    by (simp add: reply_ok_def sso_response_ok_def)
  then obtain e r sv1 where k: "code_tokens sample_env ?sv sso_config_default zero_response sample_code sample_user [] = Some (e, r, sv1)"
    "rs_status_code r = 200" by blast
  have b: "sv_backend sample_oauth = Some storage_memory" by (simp add: sample_oauth_def set_sv_store_def sample_service_def bare_context_def)
  have "found (mem_oauth_code_get (sv_store sample_oauth) ''c'') = Some sample_code"
    by (simp add: sample_oauth_def set_sv_store_def mem_oauth_code_get_def get_where_def found_def sample_code_def)
  then have g: "grant_code sample_env sample_oauth sso_config_default zero_request zero_response (Some ''c'') (Some ''u'') [] = Some (e, r, sv1)"
    using k(1) plain_tables_simps(1) [OF p] b c(3) by (simp add: grant_code_def Let_def sample_code_def)
  show ?thesis using g k(2) oauth_code_once [OF b g k(2)] by blast
qed

section \<open>Refresh tokens\<close>

text \<open>C9: a refresh token is good once, and its second use is treated as theft. After it has been exchanged, a further
  attempt with it is refused, and then no refresh token of its user at its client is left that is not revoked, the one
  handed out by the first exchange included.\<close>

theorem oauth_refresh_replay:
  assumes "sv_backend sv = Some storage_memory" "grant_refresh E sv cfg resp (Some t) jkt = Some (e, r, sv1)" "rs_status_code r = 200"
    and "token_sha256 E' t = token_sha256 E t"
  shows "\<exists>rt sv2. found (mem_rt_get (sv_store sv) (token_sha256 E t)) = Some rt \<and>
    grant_refresh E' sv1 cfg' resp' (Some t) jkt' = oauth_error sv2 resp' 400 ''invalid_grant'' \<and>
    (\<forall>x \<in> set (refresh_tokens (sv_store sv2)). rt_user_id x = rt_user_id rt \<longrightarrow> rt_client_id x = rt_client_id rt \<longrightarrow> rt_revoked x = 1)"
proof -
  let ?h = "token_sha256 E t" and ?P = "sv_store sv"
  obtain rt u where f: "found (mem_rt_get ?P ?h) = Some rt" and x: "refresh_tokens_for E sv cfg resp rt ?h u jkt = Some (e, r, sv1)"
    using assms(1-3) by (auto simp: grant_refresh_def oauth_error_def Let_def split: if_splits option.splits)
  let ?sv = "set_sv_store sv (snd (mem_rt_revoke ?P ?h))"
  have b: "sv_backend ?sv = Some storage_memory" using assms(1) by (simp add: set_sv_store_def)
  obtain k cid raw where s: "sv1 = store_refresh_token E k ?sv (u_id u) cid raw"
    using x assms(1,3) by (auto simp: refresh_tokens_for_def bind_eq_Some_conv oauth_error_def reply_ok_def Let_def split: if_splits)
  obtain new where n: "sv1 = set_sv_store ?sv ((sv_store ?sv)\<lparr>refresh_tokens := refresh_tokens (sv_store ?sv) @ [new]\<rparr>)"
    using store_refresh_token_mem [OF b] s by blast
  have g: "get_where (\<lambda>x. token_hash x = ?h) (refresh_tokens ?P) = (SSO_OK, Some rt)" using found_Some [OF f] by (simp add: mem_rt_get_def)
  have "token_hash (rt\<lparr>rt_revoked := 1\<rparr>) = ?h" using g da_find_SomeD by (fastforce simp: get_where_def split: option.splits)
  then obtain i where i: "da_find (\<lambda>x. token_hash x = ?h) (refresh_tokens ?P) = Some i" "refresh_tokens ?P ! i = rt"
    "\<And>z. get_where (\<lambda>x. token_hash x = ?h) ((refresh_tokens ?P)[i := rt\<lparr>rt_revoked := 1\<rparr>] @ [z]) = (SSO_OK, Some (rt\<lparr>rt_revoked := 1\<rparr>))"
    by (rule get_where_update [OF g]) blast
  have "refresh_tokens (sv_store ?sv) = (refresh_tokens ?P)[i := rt\<lparr>rt_revoked := 1\<rparr>]"
    using i(1,2) by (simp add: mem_rt_revoke_def set_sv_store_def)
  then have r: "found (mem_rt_get (sv_store sv1) ?h) = Some (rt\<lparr>rt_revoked := 1\<rparr>)" "sv_backend sv1 = Some storage_memory"
    using n i(3) b by (simp_all add: mem_rt_get_def set_sv_store_def found_def)
  let ?sv2 = "set_sv_store sv1 (snd (mem_rt_revoke_family (sv_store sv1) (rt_user_id rt) (rt_client_id rt)))"
  have "grant_refresh E' sv1 cfg' resp' (Some t) jkt' = oauth_error ?sv2 resp' 400 ''invalid_grant''"
    using r assms(4) by (simp add: grant_refresh_def Let_def)
  moreover have "\<forall>x \<in> set (refresh_tokens (sv_store ?sv2)). rt_user_id x = rt_user_id rt \<longrightarrow> rt_client_id x = rt_client_id rt \<longrightarrow> rt_revoked x = 1"
    by (auto simp: mem_rt_revoke_family_def set_sv_store_def)
  ultimately show ?thesis using f by blast
qed

theorem oauth_refresh_replay_witness:
  "\<exists>e r sv1 sv2. grant_refresh sample_env sample_oauth sso_config_default zero_response (Some ''t'') [] = Some (e, r, sv1) \<and>
     rs_status_code r = 200 \<and>
     grant_refresh sample_env sv1 sso_config_default zero_response (Some ''t'') [] = oauth_error sv2 zero_response 400 ''invalid_grant''"
proof -
  have p: "plain_tables sample_oauth"
    by (simp add: plain_tables_def sample_oauth_def set_sv_store_def sample_service_def bare_context_def mem_open_def)
  obtain t where t: "token_issue sample_crypto sample_manager 1 [] [] None 3600000 (Jkt []) 65 ''xy'' ''r'' = Some (SSO_OK, t)"
    using sample_issue by blast
  have c: "u_id sample_user = 1" "rt_user_id sample_refresh = 1" "sv_tokens sample_oauth = sample_manager" "sv_backend sample_oauth = Some storage_memory"
    using p by (simp_all add: sample_user_def sample_refresh_def plain_tables_def)
  have f: "found (mem_rt_get (sv_store sample_oauth) (token_sha256 sample_env ''t'')) = Some sample_refresh"
    by (simp add: sample_oauth_def set_sv_store_def mem_rt_get_def get_where_def found_def sample_refresh_def)
  have "\<exists>e r sv1. refresh_tokens_for sample_env sample_oauth sso_config_default zero_response sample_refresh (token_sha256 sample_env ''t'') sample_user [] =
      Some (e, r, sv1) \<and> rs_status_code r = 200"
    unfolding refresh_tokens_for_def sv_issue_def c sample_env_simps plain_tables_simps [OF p] t
    by (simp add: reply_ok_def sso_response_ok_def Let_def)
  then obtain e r sv1 where k: "refresh_tokens_for sample_env sample_oauth sso_config_default zero_response sample_refresh
      (token_sha256 sample_env ''t'') sample_user [] = Some (e, r, sv1)" "rs_status_code r = 200" by blast
  then have g: "grant_refresh sample_env sample_oauth sso_config_default zero_response (Some ''t'') [] = Some (e, r, sv1)"
    using f c plain_tables_simps(1) [OF p] by (simp add: grant_refresh_def Let_def sample_refresh_def)
  show ?thesis using g k(2) oauth_refresh_replay [OF c(4) g k(2) refl] by blast
qed

end
