(* ===== verification/Tenants.thy ===== *)
theory Tenants
  imports Service_Safety
begin

text \<open>
  Tenants are apart: a request works on the context its host name selects and leaves the contexts, token managers and rate
  limiters of the others alone.
\<close>

definition tenants_ok :: "'s server \<Rightarrow> bool" where
  "tenants_ok sr \<longleftrightarrow> distinct (map tn_id (sr_tenants sr)) \<and> length (sr_tenants sr) \<le> MAX_TENANTS"

lemma tenant_index_Some:
  assumes "tenant_index ts tid = Some i"
  shows "i < length ts" "tn_id (ts ! i) = tid"
proof -
  have e: "tid \<in> tn_id ` set ts" "i = length (takeWhile (\<lambda>t. tn_id t \<noteq> tid) ts)" using assms by (auto simp: tenant_index_def split: if_splits)
  then have "takeWhile (\<lambda>t. tn_id t \<noteq> tid) ts \<noteq> ts" by (auto simp: takeWhile_eq_all_conv)
  then show l: "i < length ts"
    unfolding e(2) using takeWhile_eq_take [of "\<lambda>t. tn_id t \<noteq> tid" ts] length_takeWhile_le [of "\<lambda>t. tn_id t \<noteq> tid" ts] by (metis le_neq_implies_less order_refl take_all)
  show "tn_id (ts ! i) = tid" using nth_length_takeWhile [of "\<lambda>t. tn_id t \<noteq> tid" ts] l e(2) by simp
qed

lemma tenant_index_None: "tenant_index ts tid = None \<longleftrightarrow> tid \<notin> tn_id ` set ts"
  by (simp add: tenant_index_def)

text \<open>What selecting a context does: at most one tenant is appended.\<close>

lemma select_cases:
  assumes "get_tenant_context E B mk sr host = Some (k, sr1)"
  obtains (main) "k = None" "sr_tenants sr1 = sr_tenants sr" "host = [] \<or> tenant_of_host host \<notin> tn_id ` set (sr_tenants sr) \<or> generic_tenant (tenant_of_host host)"
  | (old) i where "k = Some i" "sr1 = sr" "i < length (sr_tenants sr)" "tn_id (sr_tenants sr ! i) = tenant_of_host host"
  | (new) t where "k = Some (length (sr_tenants sr))" "sr_tenants sr1 = sr_tenants sr @ [t]" "tn_id t = tenant_of_host host"
      "tenant_of_host host \<notin> tn_id ` set (sr_tenants sr)" "length (sr_tenants sr) < MAX_TENANTS"
proof (cases "host = [] \<or> generic_tenant (tenant_of_host host)")
  case True
  then show ?thesis using assms main by (auto simp: get_tenant_context_def Let_def)
next
  case False
  show ?thesis
  proof (cases "tenant_index (sr_tenants sr) (tenant_of_host host)")
    case (Some i)
    then show ?thesis using assms False tenant_index_Some [OF Some] by (intro old [of i]) (auto simp: get_tenant_context_def Let_def)
  next
    case None
    then show ?thesis
      using assms False main new None tenant_index_None [of "sr_tenants sr" "tenant_of_host host"]
      by (auto simp: get_tenant_context_def Let_def bind_eq_Some_conv case_prod_unfold split: if_splits)
  qed
qed

lemma handle_client_parts:
  assumes "handle_client E B mk sr src ip = Some (out, sr')"
    and "fst (parse_request (ev_stale E) (max_body_of sr) (br_init src)) = Some req"
  obtains k sr1 sv where "get_tenant_context E B mk (sr\<lparr>sr_requests := sr_requests sr + 1\<rparr>) (rq_host req) = Some (k, sr1)" "sr' = put_service sr1 k sv"
  using assms by (auto simp: handle_client_def bind_eq_Some_conv Let_def)


definition sample_server :: "mem_priv server" where
  "sample_server = (sso_server_init sample_service api_routes)\<lparr>sr_tenants :=
     [\<lparr>tn_id = ''acme'', tn_ctx = sv_ctx sample_service, tn_tokens = sample_manager, tn_limiter = None\<rparr>,
      \<lparr>tn_id = ''other'', tn_ctx = sv_ctx sample_service, tn_tokens = sample_manager, tn_limiter = None\<rparr>]\<rparr>"

abbreviation (input) sample_stream :: "char list list" where
  "sample_stream \<equiv> [''GET /x HTTP/1.1'' @ [CHR 0x0A], ''Host: acme.example'' @ [CHR 0x0A, CHR 0x0A]]"

lemma sample_parse:
  "fst (parse_request [] n (br_init sample_stream)) =
     Some (zero_request\<lparr>rq_method := HTTP_GET, rq_method_str := ''GET'', rq_path := ''/x'', rq_host := ''acme.example''\<rparr>)"
  by (subst parse_request_stream, simp)
    (simp add: parse_stream_def stream_headers.simps stream_body_def parse_request_line_def cstr_def scan_word_def is_space_def
      method_of_def parse_target_def parse_header_def has_prefix_def strcaseeq_def tolower_def header_value_def skip_blanks_def sso_strlcpy_def zero_request_def)

lemma sample_select: "get_tenant_context E B mk (sample_server\<lparr>sr_requests := n\<rparr>) ''acme.example'' = Some (Some 0, sample_server\<lparr>sr_requests := n\<rparr>)"
  by (simp add: get_tenant_context_def sample_server_def tenant_of_host_def generic_tenant_def tenant_index_def)

lemma sample_dispatch:
  "rq_method req = HTTP_GET \<Longrightarrow> rq_path req = ''/x'' \<Longrightarrow> dispatch E api_routes sv req = Some (sso_response_error (new_response req) 404 ''Not found'', sv)"
  by (simp add: dispatch_def find_route_def method_routes_def api_routes_def match_route.simps)

lemma request_id_length: "length (request_id E n) < 64"
proof -
  have "length (snprintf 64 s) < 64" for s by (simp add: snprintf_def)
  then show ?thesis by (simp only: request_id_def)
qed

lemma sample_send:
  assumes "new_response req = new_response zero_request" "length rid < 64"
  shows "\<exists>out. send_response False (sso_response_error (new_response req) 404 ''Not found'') rid = Some out"
proof -
  let ?r = "sso_response_error (new_response zero_request) 404 ''Not found''"
  have "rs_cors_origin ?r = []" "rs_extra_headers ?r = []" "length (rs_content_type ?r) = 16" "rs_status_code ?r = 404"
    "length (dec (length (body_bytes ?r))) = 2" "length (sdec 404) = 3"
    by code_simp+
  then show ?thesis using assms(2) by (simp add: assms(1) send_response_def response_header_def reason_phrase_def)
qed


end
