(* ===== verification/Spec2Isabelle.thy ===== *)
theory Spec2Isabelle
  imports Perm_Engine Oauth_Grants Tenants
begin

text \<open>
  A single sign-on server in C: it keeps users, roles, groups and policies in a storage backend, issues and verifies signed
  tokens, and decides permission checks with seven strategies, over an HTTP interface. Paths below are relative to the root
  of the repository.

  \<^bold>\<open>How the parts interact.\<close> The accepting thread puts a connection into the queue of the worker pool. A worker reads the
  request, selects the tenant its host name stands for, finds the route, authenticates the caller if the route asks for it and
  runs the handler. A handler works on the root object \<^verbatim>\<open>sso_context\<close>: it goes through the managers of users, roles, groups
  and policies to the storage backend, through the token manager to keys, revocations, nonces and sessions, and through the
  permission engine to the strategies. A write by a manager makes the engine forget what it has cached. Decisions and
  management actions are written to the audit log.

  \<^bold>\<open>Conventions.\<close> A struct is a record, an enumeration a datatype, a \<^verbatim>\<open>char[n]\<close> the C string it holds with the truncating
  copies written out, an integer a word of its width wherever it can wrap. A stateful object is passed and returned. An error
  code is a value of \<open>sso_error\<close>. \<open>None\<close> as the result of an operation is undefined behaviour of the C program or a loop that
  does not end, as the theory says at each place; no operation is cut short in another way. Clocks, random bytes, the
  environment and what third-party code returns are arguments. Allocation succeeds except where its size matters, locks are
  left out where an operation holds one lock from beginning to end, and log lines, metrics and tracing spans are not modelled.

  \<^bold>\<open>Foundations.\<close>
  \<^item> \<open>Sso_Prelude\<close>: C strings, splitting at separators, generic lemmas, the collections of rules.
  \<^item> \<open>Sso_Core\<close>: \<^verbatim>\<open>include/sso.h\<close> and the utilities of \<^verbatim>\<open>src/sso.c\<close>. The parameters of an evaluation are a C union and are
    modelled as its bytes, because every strategy reads its own view of them and the destructor frees what it finds there.
  \<^item> \<open>Libc_Numbers\<close>: the number conversions of the C library. \<open>Json_Value\<close>, \<open>Json_Writer\<close>, \<open>Json_Reader\<close>: the accessors, the
    writer and the reader of \<^verbatim>\<open>src/yyjson.c\<close>, with the round trip from a written document to the document read.
  \<^item> \<open>Sso_Config\<close>: defaults, TOML file and environment of \<^verbatim>\<open>src/config.c\<close>; whatever they hold, the configuration is well formed.

  \<^bold>\<open>Storage and managers.\<close>
  \<^item> \<open>Storage\<close>: the function table of \<^verbatim>\<open>include/storage.h\<close> and the contract \<open>entity_store\<close> of a table of entities.
    \<open>Storage_Memory\<close>, \<open>Storage_Roles\<close>: \<^verbatim>\<open>src/storage_memory.c\<close>, whose four tables are instances of the contract, with the
    invariant of every reachable state and the closure of a user's roles, which returns exactly the roles reached in an acyclic
    hierarchy and runs for ever in a cyclic one.
  \<^item> \<open>Sso_Context\<close>: the root object. \<open>User_Manager\<close>, \<open>Role_Manager\<close>, \<open>Group_Manager\<close>, \<open>Policy_Manager\<close>: \<^verbatim>\<open>src/user.c\<close>,
    \<^verbatim>\<open>src/role.c\<close>, \<^verbatim>\<open>src/group.c\<close>, \<^verbatim>\<open>src/policy.c\<close>. \<open>Administration\<close>: every write invalidates the users it concerns, an
    account logs in with its password, and policies resolve in stable order of priority.

  \<^bold>\<open>Permission engine.\<close>
  \<^item> \<open>Strategy_Base\<close> with the contract \<open>item_walk\<close> (the first matching rule decides), and \<open>Strategy_Rbac\<close>, \<open>Strategy_Func\<close>,
    \<open>Strategy_Api\<close>, \<open>Strategy_Data\<close>, \<open>Strategy_Loc\<close>, \<open>Strategy_Abac\<close>, \<open>Strategy_Lbac\<close> for the files of \<^verbatim>\<open>strategies/\<close>: matchers
    against their specifications, evaluation against the rules.
  \<^item> \<open>Perm_Cache\<close>, \<open>Perm_Engine\<close>: \<^verbatim>\<open>src/permission.c\<close>, the caches with the contract \<open>rule_cache\<close>, and the decision, which
    implements deny-overrides over the resolved policies when no decision is cached.
  \<^item> \<open>Audit_Log\<close>: the signed and rotated log of \<^verbatim>\<open>src/permission.c\<close>; its lines carry the chain of MACs, and a changed entry
    is detected.

  \<^bold>\<open>Tokens and login.\<close>
  \<^item> \<open>Token_Codec\<close>, \<open>Token_Scan\<close>, \<open>Token_Manager\<close>: \<^verbatim>\<open>src/token.c\<close>. \<open>Token_Claims\<close>, \<open>Token_Signing\<close>: what is issued is read
    back, what is accepted was signed, rotation of keys. \<open>Token_Sessions\<close>: the revocation list as a set (contract \<open>key_store\<close>),
    the last three sessions of a user (contract \<open>history\<close>), nonces, the invariant of the manager. \<open>Token_Ids\<close>: what a token
    says depends on its text alone.
  \<^item> \<open>Rate_Limit\<close> (\<^verbatim>\<open>src/ratelimit.c\<close>, contract \<open>window_limiter\<close>), \<open>Mfa\<close> (\<^verbatim>\<open>src/mfa.c\<close>), \<open>Risk\<close> (\<^verbatim>\<open>src/risk.c\<close>), \<open>Dpop\<close>
    (\<^verbatim>\<open>src/dpop.c\<close>), \<open>Webauthn\<close> (\<^verbatim>\<open>src/webauthn.c\<close>).

  \<^bold>\<open>Server.\<close>
  \<^item> \<open>Http_Common\<close>: requests, responses and the helpers of \<^verbatim>\<open>src/handlers_common.c\<close>. \<open>Http_Parser\<close>: the reader of
    \<^verbatim>\<open>src/server.c\<close>, which builds the same request however the bytes arrive. \<open>Thread_Pool\<close>: the queue of the workers as a
    transition system over all interleavings (contract \<open>bounded_queue\<close>).
  \<^item> \<open>Service\<close>: what a handler works on, and \<^verbatim>\<open>authenticate_request\<close>. \<open>Handlers_Auth\<close>, \<open>Handlers_Check\<close>, \<open>Handlers_Admin\<close>,
    \<open>Handlers_Pages\<close>, \<open>Handlers_Webauthn\<close>, \<open>Oauth\<close>: one definition per endpoint of the files of these names.
  \<^item> \<open>Sso_Lifecycle\<close>: \<^verbatim>\<open>sso_init\<close> and the first data of \<^verbatim>\<open>src/main.c\<close>. \<open>Http_Server\<close>: the routes of \<^verbatim>\<open>src/main.c\<close>, dispatch,
    tenants and the bytes of a response.
  \<^item> \<open>Service_Steps\<close>, \<open>Handlers_Frame\<close>: what each endpoint can change, by kind of data. \<open>Service_Runs\<close>: the contract
    \<open>route_table\<close> and its instance, the routes of the server.
  \<^item> \<open>Service_Safety\<close>, \<open>Oauth_Grants\<close>, \<open>Tenants\<close>: the guarantees over requests and runs of requests. A protected route does
    nothing without a good token, a logout is final, a caller without token changes no policy, a started service stays well
    formed, codes and refresh tokens are good once, tenants are apart.

  \<^bold>\<open>Bounds.\<close> No definition takes fuel. Recursion that is not structural has a termination proof; the two loops that may run
  for ever, the climb through a role hierarchy and the scan of a label list, are partial functions into options, and the
  theorems about them state when they return. Buffer sizes are those of the sources.

  \<^bold>\<open>Scope of the theorems.\<close> Theorems about tokens are about the HS256 mode with any function for the MAC, those about stored
  data about the in-memory backend unless they are stated over any backend. The system theorems are about the routes
  \<open>api_routes\<close>, requests being served one after the other.

  \<^bold>\<open>Not modelled.\<close> Sockets, TLS and signals of \<^verbatim>\<open>src/server.c\<close> and \<^verbatim>\<open>src/main.c\<close>, which only pass bytes on. The second HTTP
  front end \<^verbatim>\<open>src/server_mhd.c\<close>, a wrapper of libmicrohttpd around the same dispatch. The backends for SQLite, PostgreSQL and
  Redis, whose behaviour is that of their database; a backend is a parameter of everything above it. The cluster
  (\<^verbatim>\<open>src/raft_cluster.c\<close>, \<^verbatim>\<open>src/raft_rpc.c\<close>), whose protocol is an external library, with its four routes. The allocator, string
  pool, logger, tracing and plug-ins (\<^verbatim>\<open>src/arena.c\<close>, \<^verbatim>\<open>src/intern.c\<close>, \<^verbatim>\<open>src/logger.c\<close>, \<^verbatim>\<open>src/otlp.c\<close>,
  \<^verbatim>\<open>src/wasm_plugin.c\<close>), whose effects the model does not observe. The interactive tools \<^verbatim>\<open>src/demo.c\<close> and
  \<^verbatim>\<open>src/interactive.c\<close>. The TOML parser \<^verbatim>\<open>src/toml.c\<close> is a parameter that yields the parsed table.
\<close>

end
